(* ===== verification/Prelude.thy ===== *)
theory Prelude
  imports Main "HOL-Library.Word" "HOL-Library.Char_ord" "HOL-Library.List_Lexorder"
begin

text \<open>
  What every component of the development shares: Rust's fixed-width integers with the
  saturating and checked operations the code calls, \<open>Result\<close> as a sum with the
  combinators behind \<open>?\<close>, \<open>map_err\<close>, \<open>ok_or\<close> and
  \<open>collect::<Result<Vec<_>, _>>()\<close>, \<open>str\<close> as the list of its UTF-8 bytes, and
  \<open>BTreeMap\<close> as an association list in strictly increasing key order.

  A Rust \<open>str\<close> is modelled as \<open>string\<close>, one \<open>char\<close> per UTF-8 byte, so
  \<open>length\<close> is \<open>str::len\<close>, \<open>as_bytes\<close> is a relabelling, and \<open><\<close> is Rust's order
  on strings.
\<close>

named_theorems result_simps \<open>how the result combinators succeed and fail\<close>
named_theorems nat_of_u64 \<open>fixed-width arithmetic read as arithmetic on nat\<close>

section \<open>Integers and bytes\<close>

type_synonym byte = "8 word"
type_synonym bytes = "byte list"
type_synonym u8 = "8 word"
type_synonym u32 = "32 word"
type_synonym u64 = "64 word"

definition saturating_add :: "'a::len word \<Rightarrow> 'a word \<Rightarrow> 'a word" where
  "saturating_add a b = (if unat a + unat b < 2 ^ LENGTH('a) then a + b else - 1)"

definition saturating_sub :: "'a::len word \<Rightarrow> 'a word \<Rightarrow> 'a word" where
  "saturating_sub a b = (if b \<le> a then a - b else 0)"

definition saturating_mul :: "'a::len word \<Rightarrow> 'a word \<Rightarrow> 'a word" where
  "saturating_mul a b = (if unat a * unat b < 2 ^ LENGTH('a) then a * b else - 1)"

definition checked_add :: "'a::len word \<Rightarrow> 'a word \<Rightarrow> 'a word option" where
  "checked_add a b = (if unat a + unat b < 2 ^ LENGTH('a) then Some (a + b) else None)"

definition checked_sub :: "'a::len word \<Rightarrow> 'a word \<Rightarrow> 'a word option" where
  "checked_sub a b = (if b \<le> a then Some (a - b) else None)"

text \<open>A value read into a narrower type, as \<open>u32::try_from\<close> and \<open>u8::try_from\<close> do.\<close>

definition try_from_word :: "'a::len word \<Rightarrow> 'b::len word option" where
  "try_from_word a = (if unat a < 2 ^ LENGTH('b) then Some (ucast a) else None)"

text \<open>A 128-bit or unbounded count read as \<open>u64\<close>, as \<open>u64::try_from\<close> does.\<close>

definition u64_try_from :: "nat \<Rightarrow> u64 option" where
  "u64_try_from n = (if n < 2 ^ 64 then Some (word_of_nat n) else None)"

lemma unat_minus_one_max: "unat (- 1 :: 'a::len word) = 2 ^ LENGTH('a) - 1"
  by (simp add: unsigned_minus_1_eq_mask mask_eq_exp_minus_1)

lemma unat_saturating_add [nat_of_u64]:
  fixes a b :: "'a::len word"
  shows "unat (saturating_add a b) = min (unat a + unat b) (2 ^ LENGTH('a) - 1)"
  using unsigned_less [of a, where 'a = nat] unsigned_less [of b, where 'a = nat]
  by (auto simp: saturating_add_def unat_word_ariths unat_minus_one_max min_def)

lemma unat_saturating_sub [nat_of_u64]: "unat (saturating_sub a b) = unat a - unat b"
  by (auto simp: saturating_sub_def unat_sub word_le_nat_alt)

lemma checked_sub_Some [nat_of_u64]:
  "checked_sub a b = Some c \<longleftrightarrow> unat b \<le> unat a \<and> unat c = unat a - unat b"
  by (auto simp: checked_sub_def word_le_nat_alt unat_sub word_unat_eq_iff)

lemma checked_sub_None [nat_of_u64]: "checked_sub a b = None \<longleftrightarrow> unat a < unat b"
  by (auto simp: checked_sub_def word_le_nat_alt)

lemma checked_add_Some [nat_of_u64]:
  fixes a b :: "'a::len word"
  shows "checked_add a b = Some c \<longleftrightarrow> unat a + unat b < 2 ^ LENGTH('a) \<and> unat c = unat a + unat b"
  by (auto simp: checked_add_def unat_word_ariths word_unat_eq_iff)

lemma u64_try_from_Some: "u64_try_from n = Some w \<longleftrightarrow> n < 2 ^ 64 \<and> unat w = n"
  by (auto simp: u64_try_from_def unat_of_nat word_unat_eq_iff)

lemma unat_u64_bound: "unat (w :: u64) < 2 ^ 64"
  using unsigned_less [of w, where 'a = nat] by simp

section \<open>Results\<close>

abbreviation Ok :: "'a \<Rightarrow> 'e + 'a" where
  "Ok \<equiv> Inr"

abbreviation Err :: "'e \<Rightarrow> 'e + 'a" where
  "Err \<equiv> Inl"

text \<open>\<open>and_then m f\<close> is \<open>let x = m?; f(x)\<close>.\<close>

fun and_then :: "'e + 'a \<Rightarrow> ('a \<Rightarrow> 'e + 'b) \<Rightarrow> 'e + 'b" where
  "and_then (Inl e) f = Inl e"
| "and_then (Inr x) f = f x"

fun map_err :: "('e \<Rightarrow> 'f) \<Rightarrow> 'e + 'a \<Rightarrow> 'f + 'a" where
  "map_err f (Inl e) = Inl (f e)"
| "map_err f (Inr x) = Inr x"

fun ok_or :: "'e \<Rightarrow> 'a option \<Rightarrow> 'e + 'a" where
  "ok_or e None = Inl e"
| "ok_or e (Some x) = Inr x"

text \<open>\<open>ensure b e\<close> is \<open>if !b { return Err(e); }\<close>.\<close>

definition ensure :: "bool \<Rightarrow> 'e \<Rightarrow> 'e + unit" where
  "ensure b e = (if b then Inr () else Inl e)"

fun is_ok :: "'e + 'a \<Rightarrow> bool" where
  "is_ok (Inl e) = False"
| "is_ok (Inr x) = True"

text \<open>\<open>xs.iter().map(f).collect::<Result<Vec<_>, _>>()\<close>: the first error wins.\<close>

fun traverse :: "('a \<Rightarrow> 'e + 'b) \<Rightarrow> 'a list \<Rightarrow> 'e + 'b list" where
  "traverse f [] = Inr []"
| "traverse f (x # xs) = and_then (f x) (\<lambda>y. and_then (traverse f xs) (\<lambda>ys. Inr (y # ys)))"

lemma and_then_Ok [result_simps]: "and_then m f = Inr y \<longleftrightarrow> (\<exists>x. m = Inr x \<and> f x = Inr y)"
  by (cases m) auto

lemma and_then_Err [result_simps]:
  "and_then m f = Inl e \<longleftrightarrow> m = Inl e \<or> (\<exists>x. m = Inr x \<and> f x = Inl e)"
  by (cases m) auto

lemma map_err_Ok [result_simps]: "map_err f m = Inr y \<longleftrightarrow> m = Inr y"
  by (cases m) auto

lemma map_err_Err [result_simps]: "map_err f m = Inl e \<longleftrightarrow> (\<exists>e'. m = Inl e' \<and> e = f e')"
  by (cases m) auto

lemma ok_or_Ok [result_simps]: "ok_or e m = Inr x \<longleftrightarrow> m = Some x"
  by (cases m) auto

lemma ok_or_Err [result_simps]: "ok_or e m = Inl e' \<longleftrightarrow> m = None \<and> e' = e"
  by (cases m) auto

lemma ensure_Ok [result_simps]: "ensure b e = Inr u \<longleftrightarrow> b"
  by (simp add: ensure_def)

lemma ensure_Err [result_simps]: "ensure b e = Inl e' \<longleftrightarrow> \<not> b \<and> e' = e"
  by (auto simp: ensure_def)

lemma is_ok_iff [result_simps]: "is_ok m \<longleftrightarrow> (\<exists>x. m = Inr x)"
  by (cases m) auto

lemma not_Ok_iff: "(\<forall>x. m \<noteq> Inr x) \<longleftrightarrow> (\<exists>e. m = Inl e)"
  by (cases m) auto

lemma ensure_and_then [simp]: "and_then (ensure b e) f = (if b then f () else Inl e)"
  by (simp add: ensure_def)

lemma and_then_assoc: "and_then (and_then m f) g = and_then m (\<lambda>x. and_then (f x) g)"
  by (cases m) auto

lemma traverse_Ok [result_simps]:
  "traverse f xs = Inr ys \<longleftrightarrow> list_all2 (\<lambda>x y. f x = Inr y) xs ys"
proof (induction xs arbitrary: ys)
  case (Cons x xs)
  then show ?case by (cases ys) (auto simp: result_simps)
qed auto

lemma traverse_length: "traverse f xs = Inr ys \<Longrightarrow> length ys = length xs"
  by (auto simp: traverse_Ok list_all2_lengthD)

lemma traverse_nth:
  "traverse f xs = Inr ys \<Longrightarrow> i < length xs \<Longrightarrow> f (xs ! i) = Inr (ys ! i)"
  by (auto simp: traverse_Ok list_all2_conv_all_nth)

lemma traverse_Err [result_simps]:
  "traverse f xs = Inl e \<longleftrightarrow>
    (\<exists>i<length xs. f (xs ! i) = Inl e \<and> (\<forall>j<i. is_ok (f (xs ! j))))"
proof (induction xs)
  case (Cons x xs)
  have shift: "(\<exists>i<length (x # xs). f ((x # xs) ! i) = Inl e \<and> (\<forall>j<i. is_ok (f ((x # xs) ! j))))
      \<longleftrightarrow> f x = Inl e \<or> is_ok (f x) \<and>
        (\<exists>i<length xs. f (xs ! i) = Inl e \<and> (\<forall>j<i. is_ok (f (xs ! j))))"
    by (auto simp: Ex_less_Suc2 All_less_Suc2)
  show ?case
    unfolding shift using Cons.IH by (cases "f x") (auto simp: result_simps)
qed simp

section \<open>Strings as UTF-8 bytes\<close>

definition as_bytes :: "string \<Rightarrow> bytes" where
  "as_bytes s = map (\<lambda>c. of_char c) s"

definition string_of_bytes :: "bytes \<Rightarrow> string" where
  "string_of_bytes b = map (\<lambda>w. char_of (unat w)) b"

text \<open>
  Well-formed UTF-8: the byte sequences \<open>std::str::from_utf8\<close> accepts, after the table
  in the Unicode standard (no overlong form, no surrogate, nothing above U+10FFFF).
\<close>

definition utf8_cont :: "nat \<Rightarrow> bool" where
  "utf8_cont n \<longleftrightarrow> 128 \<le> n \<and> n \<le> 191"

fun utf8_valid :: "nat list \<Rightarrow> bool" where
  "utf8_valid [] = True"
| "utf8_valid (a # xs) =
     (if a < 128 then utf8_valid xs
      else if 194 \<le> a \<and> a \<le> 223 then
        (case xs of b # ys \<Rightarrow> utf8_cont b \<and> utf8_valid ys | _ \<Rightarrow> False)
      else if 224 \<le> a \<and> a \<le> 239 then
        (case xs of b # c # ys \<Rightarrow>
           utf8_cont b \<and> utf8_cont c \<and> (a = 224 \<longrightarrow> 160 \<le> b) \<and> (a = 237 \<longrightarrow> b \<le> 159) \<and> utf8_valid ys
         | _ \<Rightarrow> False)
      else if 240 \<le> a \<and> a \<le> 244 then
        (case xs of b # c # d # ys \<Rightarrow>
           utf8_cont b \<and> utf8_cont c \<and> utf8_cont d \<and> (a = 240 \<longrightarrow> 144 \<le> b) \<and> (a = 244 \<longrightarrow> b \<le> 143)
           \<and> utf8_valid ys
         | _ \<Rightarrow> False)
      else False)"

definition from_utf8 :: "bytes \<Rightarrow> string option" where
  "from_utf8 b = (if utf8_valid (map unat b) then Some (string_of_bytes b) else None)"

lemma of_char_less_256 [simp]: "(of_char c :: nat) < 256"
  by (metis mod_less_divisor of_char_mod_256 zero_less_numeral)

lemma unat_of_char [simp]: "unat (of_char c :: byte) = of_char c"
proof -
  have "unat (of_nat (of_char c) :: byte) = of_char c mod 256"
    by (simp only: unat_of_nat) simp
  then show ?thesis by (simp only: of_nat_of_char of_char_mod_256)
qed

lemma string_of_as_bytes [simp]: "string_of_bytes (as_bytes s) = s"
  by (induction s) (auto simp: string_of_bytes_def as_bytes_def)

lemma as_bytes_inject [simp]: "as_bytes s = as_bytes t \<longleftrightarrow> s = t"
  by (metis string_of_as_bytes)

lemma as_bytes_append [simp]: "as_bytes (s @ t) = as_bytes s @ as_bytes t"
  by (simp add: as_bytes_def)

lemma length_as_bytes [simp]: "length (as_bytes s) = length s"
  by (simp add: as_bytes_def)

section \<open>BTreeMap as an ordered association list\<close>

text \<open>
  \<open>bt_insert\<close> is \<open>BTreeMap::insert\<close> (an equal key has its value replaced), \<open>bt_remove\<close>
  is \<open>BTreeMap::remove\<close>, \<open>map_of\<close> is \<open>get\<close>, and \<open>bt_of\<close> collects pairs in order.
\<close>

fun bt_insert :: "'k::linorder \<Rightarrow> 'v \<Rightarrow> ('k \<times> 'v) list \<Rightarrow> ('k \<times> 'v) list" where
  "bt_insert k v [] = [(k, v)]"
| "bt_insert k v (e # m) =
     (if fst e < k then e # bt_insert k v m
      else if fst e = k then (k, v) # m
      else (k, v) # e # m)"

definition bt_remove :: "'k \<Rightarrow> ('k \<times> 'v) list \<Rightarrow> ('k \<times> 'v) list" where
  "bt_remove k m = filter (\<lambda>e. fst e \<noteq> k) m"

definition bt_of :: "('k::linorder \<times> 'v) list \<Rightarrow> ('k \<times> 'v) list" where
  "bt_of es = foldl (\<lambda>m e. bt_insert (fst e) (snd e) m) [] es"

definition bt_sorted :: "('k::linorder \<times> 'v) list \<Rightarrow> bool" where
  "bt_sorted m \<longleftrightarrow> sorted_wrt (<) (map fst m)"

lemma set_bt_insert: "set (map fst (bt_insert k v m)) = insert k (set (map fst m))"
  by (induction m) auto

lemma bt_sorted_insert: "bt_sorted m \<Longrightarrow> bt_sorted (bt_insert k v m)"
proof (induction m)
  case (Cons e m)
  then have IH: "bt_sorted (bt_insert k v m)" by (simp add: bt_sorted_def)
  show ?case
    using Cons.prems IH set_bt_insert [of k v m]
    by (auto simp: bt_sorted_def)
qed (simp add: bt_sorted_def)

lemma map_of_bt_insert:
  "bt_sorted m \<Longrightarrow> map_of (bt_insert k v m) = (map_of m)(k \<mapsto> v)"
proof (induction m)
  case (Cons e m)
  have fresh: "map_of (e # m) k = None" if "k < fst e"
  proof -
    have "k \<notin> set (map fst (e # m))"
      using Cons.prems that by (fastforce simp: bt_sorted_def)
    then show ?thesis by (simp only: map_of_eq_None_iff set_map) simp
  qed
  show ?case
    using Cons fresh by (cases e) (auto simp: bt_sorted_def fun_eq_iff)
qed simp

lemma bt_sorted_Nil [simp]: "bt_sorted []"
  by (simp add: bt_sorted_def)

lemma bt_foldl:
  "bt_sorted m \<Longrightarrow> bt_sorted (foldl (\<lambda>m e. bt_insert (fst e) (snd e) m) m es) \<and>
     map_of (foldl (\<lambda>m e. bt_insert (fst e) (snd e) m) m es) = map_of (rev es @ m)"
  by (induction es arbitrary: m) (auto simp: bt_sorted_insert map_of_bt_insert map_add_def fun_eq_iff
      split: option.splits)

lemma bt_sorted_of [simp]: "bt_sorted (bt_of es)"
  using bt_foldl [of "[]" es] by (simp add: bt_of_def)

lemma map_of_bt_of: "map_of (bt_of es) = map_of (rev es)"
  using bt_foldl [of "[]" es] by (simp add: bt_of_def)

lemma bt_sorted_distinct: "bt_sorted m \<Longrightarrow> distinct (map fst m)"
  by (simp add: bt_sorted_def strict_sorted_iff)

lemma bt_sorted_remove: "bt_sorted m \<Longrightarrow> bt_sorted (bt_remove k m)"
  by (simp add: bt_sorted_def bt_remove_def sorted_wrt_map sorted_wrt_filter)

lemma map_of_bt_remove: "map_of (bt_remove k m) = (map_of m)(k := None)"
  by (induction m) (auto simp: bt_remove_def fun_eq_iff)

lemma alist_rebuild: "distinct (map fst m) \<Longrightarrow> map (\<lambda>k. (k, the (map_of m k))) (map fst m) = m"
  by (auto simp: map_of_eq_Some_iff intro!: map_idI prod_eqI)

text \<open>Two ordered maps that agree on every lookup are the same list.\<close>

lemma bt_sorted_set_eq:
  assumes "bt_sorted m" "bt_sorted n" "set m = set n"
  shows "m = n"
proof -
  have "sorted (map fst m)" "sorted (map fst n)"
    and d: "distinct (map fst m)" "distinct (map fst n)"
    using assms(1,2) by (auto simp: bt_sorted_def strict_sorted_iff)
  moreover have "set (map fst m) = set (map fst n)" using assms(3) by auto
  ultimately have keys: "map fst m = map fst n"
    by (intro sorted_distinct_set_unique)
  show ?thesis
    using alist_rebuild [OF d(1)] alist_rebuild [OF d(2)] assms(3) keys
      map_of_inject_set [OF d] by metis
qed

section \<open>Decimal text\<close>

text \<open>
  \<open>decimal\<close> is \<open>to_string\<close> of an unsigned integer, \<open>parse_u64\<close> is \<open>str::parse::<u64>\<close>:
  an optional \<open>+\<close>, at least one digit, and no overflow.
\<close>

definition ascii :: "char \<Rightarrow> nat" where
  "ascii c = of_char c"

definition is_ascii_digit :: "char \<Rightarrow> bool" where
  "is_ascii_digit c \<longleftrightarrow> 48 \<le> ascii c \<and> ascii c \<le> 57"

definition digit :: "nat \<Rightarrow> char" where
  "digit n = char_of (48 + n)"

definition digit_value :: "char \<Rightarrow> nat" where
  "digit_value c = ascii c - 48"

fun decimal :: "nat \<Rightarrow> string" where
  "decimal n = (if n < 10 then [digit n] else decimal (n div 10) @ [digit (n mod 10)])"

declare decimal.simps [simp del]

definition decimal_value :: "string \<Rightarrow> nat" where
  "decimal_value s = foldl (\<lambda>n c. 10 * n + digit_value c) 0 s"

definition parse_u64 :: "string \<Rightarrow> u64 option" where
  "parse_u64 s =
     (let t = (case s of c # cs \<Rightarrow> if c = CHR ''+'' then cs else s | [] \<Rightarrow> [])
      in if t = [] \<or> \<not> list_all is_ascii_digit t then None else u64_try_from (decimal_value t))"

lemma ascii_less_256 [simp]: "ascii c < 256"
  by (simp add: ascii_def)

lemma ascii_inject: "ascii c = ascii d \<longleftrightarrow> c = d"
  by (simp add: ascii_def)

lemma ascii_digit [simp]: "n < 10 \<Longrightarrow> ascii (digit n) = 48 + n"
  by (simp add: ascii_def digit_def)

lemma digit_value_digit [simp]: "n < 10 \<Longrightarrow> digit_value (digit n) = n"
  by (simp add: digit_value_def)

lemma is_ascii_digit_digit [simp]: "n < 10 \<Longrightarrow> is_ascii_digit (digit n)"
  by (simp add: is_ascii_digit_def)

lemma digit_digit_value: "is_ascii_digit c \<Longrightarrow> digit (digit_value c) = c"
  by (simp add: digit_def digit_value_def is_ascii_digit_def ascii_def)

lemma digit_value_less: "is_ascii_digit c \<Longrightarrow> digit_value c < 10"
  by (auto simp: digit_value_def is_ascii_digit_def)

lemma decimal_value_snoc [simp]: "decimal_value (s @ [c]) = 10 * decimal_value s + digit_value c"
  by (simp add: decimal_value_def)

lemma decimal_value_Nil [simp]: "decimal_value [] = 0"
  by (simp add: decimal_value_def)

lemma decimal_value_decimal [simp]: "decimal_value (decimal n) = n"
proof (induction n rule: decimal.induct)
  case (1 n)
  then show ?case
    by (subst decimal.simps) (auto simp: decimal_value_def [of "[digit n]"])
qed

lemma decimal_inject [simp]: "decimal m = decimal n \<longleftrightarrow> m = n"
  by (metis decimal_value_decimal)

lemma decimal_digits [simp]: "list_all is_ascii_digit (decimal n)"
  by (induction n rule: decimal.induct, subst decimal.simps) auto

lemma decimal_not_Nil [simp]: "decimal n \<noteq> []"
  by (subst decimal.simps) simp

lemma decimal_no_leading_zero: "n \<noteq> 0 \<Longrightarrow> hd (decimal n) \<noteq> CHR ''0''"
proof (induction n rule: decimal.induct)
  case (1 n)
  have "digit n \<noteq> CHR ''0''" if "n < 10"
    using that "1.prems" ascii_digit [of n] by (auto simp: ascii_def)
  with 1 show ?case by (subst decimal.simps) (auto simp: hd_append)
qed

lemma decimal_value_pos:
  "s \<noteq> [] \<Longrightarrow> hd s \<noteq> CHR ''0'' \<Longrightarrow> list_all is_ascii_digit s \<Longrightarrow> 0 < decimal_value s"
proof (induction s rule: rev_induct)
  case (snoc c s)
  have "0 < digit_value c" if "s = []"
  proof -
    have "c \<noteq> CHR ''0''" "is_ascii_digit c" using snoc.prems that by auto
    moreover have "ascii CHR ''0'' = 48" by (simp add: ascii_def)
    ultimately have "ascii c \<noteq> 48" by (metis ascii_inject)
    with \<open>is_ascii_digit c\<close> show ?thesis by (auto simp: is_ascii_digit_def digit_value_def)
  qed
  with snoc show ?case
    by (cases "s = []") (auto simp: hd_append decimal_value_def [of "[c]"])
qed simp

text \<open>A digit string without a superfluous leading zero is the text of its value.\<close>

lemma decimal_decimal_value:
  "s \<noteq> [] \<Longrightarrow> list_all is_ascii_digit s \<Longrightarrow> (length s > 1 \<longrightarrow> hd s \<noteq> CHR ''0'') \<Longrightarrow>
     decimal (decimal_value s) = s"
proof (induction s rule: rev_induct)
  case (snoc c s)
  have c: "is_ascii_digit c" using snoc.prems by simp
  show ?case
  proof (cases "s = []")
    case True
    then show ?thesis
      using c digit_value_less [OF c] by (subst decimal.simps) (simp add: decimal_value_def digit_digit_value)
  next
    case False
    then have "hd s \<noteq> CHR ''0''" using snoc.prems by (cases s) auto
    moreover have "list_all is_ascii_digit s" using snoc.prems by simp
    ultimately have pos: "0 < decimal_value s" and IH: "decimal (decimal_value s) = s"
      using False decimal_value_pos snoc.IH by auto
    show ?thesis
      using c digit_value_less [OF c] pos IH
      by (subst decimal.simps) (simp add: digit_digit_value)
  qed
qed simp

text \<open>A text that starts with a digit has no sign for \<open>parse\<close> to skip.\<close>

lemma parse_u64_digits:
  "list_all is_ascii_digit s \<Longrightarrow> s \<noteq> [] \<Longrightarrow> parse_u64 s = u64_try_from (decimal_value s)"
  by (cases s) (auto simp: parse_u64_def is_ascii_digit_def ascii_def)

lemma u64_try_from_unat [simp]: "u64_try_from (unat w) = Some w"
  using unat_u64_bound [of w] by (simp add: u64_try_from_def)

lemma parse_u64_decimal [simp]: "parse_u64 (decimal (unat w)) = Some w"
  by (simp add: parse_u64_digits)

section \<open>Substrings\<close>

fun strip_prefix :: "string \<Rightarrow> string \<Rightarrow> string option" where
  "strip_prefix [] s = Some s"
| "strip_prefix (p # ps) (c # cs) = (if p = c then strip_prefix ps cs else None)"
| "strip_prefix (p # ps) [] = None"

definition starts_with :: "string \<Rightarrow> string \<Rightarrow> bool" where
  "starts_with p s \<longleftrightarrow> strip_prefix p s \<noteq> None"

definition ends_with :: "string \<Rightarrow> string \<Rightarrow> bool" where
  "ends_with p s = starts_with (rev p) (rev s)"

text \<open>\<open>str::split\<close> at a character, \<open>str::rsplit_once\<close> and \<open>Iterator::find_map\<close>.\<close>

fun split_on :: "char \<Rightarrow> string \<Rightarrow> string list" where
  "split_on sep [] = [[]]"
| "split_on sep (c # cs) =
     (if c = sep then [] # split_on sep cs
      else case split_on sep cs of p # ps \<Rightarrow> (c # p) # ps | [] \<Rightarrow> [[c]])"

fun rsplit_once :: "string \<Rightarrow> string \<Rightarrow> (string \<times> string) option" where
  "rsplit_once sep [] = (if sep = [] then Some ([], []) else None)"
| "rsplit_once sep (c # cs) =
     (case rsplit_once sep cs of
        Some (a, b) \<Rightarrow> Some (c # a, b)
      | None \<Rightarrow> map_option (\<lambda>b. ([], b)) (strip_prefix sep (c # cs)))"

fun find_map :: "('a \<Rightarrow> 'b option) \<Rightarrow> 'a list \<Rightarrow> 'b option" where
  "find_map f [] = None"
| "find_map f (x # xs) = (case f x of Some y \<Rightarrow> Some y | None \<Rightarrow> find_map f xs)"

fun str_contains :: "string \<Rightarrow> string \<Rightarrow> bool" where
  "str_contains p [] = (p = [])"
| "str_contains p (c # cs) = (starts_with p (c # cs) \<or> str_contains p cs)"

lemma strip_prefix_Some: "strip_prefix p s = Some t \<longleftrightarrow> s = p @ t"
  by (induction p s rule: strip_prefix.induct) auto

lemma starts_with_iff: "starts_with p s \<longleftrightarrow> (\<exists>t. s = p @ t)"
  by (auto simp: starts_with_def strip_prefix_Some)

lemma str_contains_iff: "str_contains p s \<longleftrightarrow> (\<exists>a b. s = a @ p @ b)"
proof (induction s)
  case (Cons c cs)
  then show ?case by (auto simp: starts_with_iff Cons_eq_append_conv)
qed auto

end
