(* ===== verification/Crates.thy ===== *)
theory Crates
  imports Prelude
begin

unbundle bit_operations_syntax

text \<open>
  What the program takes from packages that are not part of the repository. The data types
  of \<open>serde_json\<close> are written out; every function of a third-party package is a field of
  the record \<open>crates\<close>, so it is an argument of every definition that uses it. Values of
  opaque third-party types (public keys, secret keys, parsed signatures) are carried as
  byte lists that only the crate functions look into.

  What the code relies on is stated as predicates on the record, one per package, taken
  from the packages' documentation.
\<close>

section \<open>serde_json's data\<close>

text \<open>
  \<open>serde_json::Number\<close>: an unsigned 64-bit integer, a negative \<open>i64\<close> in two's complement,
  or the bit pattern of a finite \<open>f64\<close>.
\<close>

datatype number = PosInt u64 | NegInt u64 | Float u64

text \<open>\<open>serde_json::Value\<close>; its \<open>Map\<close> is a \<open>BTreeMap<String, Value>\<close>.\<close>

datatype json =
    JNull
  | JBool bool
  | JNumber number
  | JString string
  | JArray "json list"
  | JObject "(string \<times> json) list"

text \<open>
  What a \<open>serde_json::Deserializer\<close> over a text drives a visitor with, in text order and
  with repeated keys. \<open>RError m\<close> is a syntax error with message \<open>m\<close> where a value was due;
  an array or object that ends in a syntax error after the listed entries carries it.
\<close>

datatype raw_json =
    RNull
  | RBool bool
  | RI64 u64
  | RU64 u64
  | RF64 u64
  | RString string
  | RArray "raw_json list" "string option"
  | RObject "(string \<times> raw_json) list" "string option"
  | RError string

section \<open>The functions of third-party packages\<close>

record crates =
  hex_encode :: "bytes \<Rightarrow> string"
  hex_decode :: "string \<Rightarrow> bytes option"
  sha256_hash :: "bytes \<Rightarrow> bytes"
  hmac_sha512 :: "bytes \<Rightarrow> bytes \<Rightarrow> bytes option"
  aes256gcm_encrypt :: "bytes \<Rightarrow> bytes \<Rightarrow> bytes \<Rightarrow> bytes \<Rightarrow> bytes option"
  aes256gcm_decrypt :: "bytes \<Rightarrow> bytes \<Rightarrow> bytes \<Rightarrow> bytes \<Rightarrow> bytes option"
  sec1_point :: "bytes \<Rightarrow> bytes option"
  sec1_is_compressed :: "bytes \<Rightarrow> bool"
  p256_from_point :: "bytes \<Rightarrow> bytes option"
  p256_to_sec1 :: "bytes \<Rightarrow> bytes"
  p256_secret :: "bytes \<Rightarrow> bytes option"
  p256_public_key :: "bytes \<Rightarrow> bytes"
  p256_ecdh :: "bytes \<Rightarrow> bytes \<Rightarrow> bytes"
  ecdsa_from_slice :: "bytes \<Rightarrow> bytes option"
  ecdsa_normalize_s :: "bytes \<Rightarrow> bytes option"
  ecdsa_sign_prehash :: "bytes \<Rightarrow> bytes \<Rightarrow> bytes option"
  ecdsa_verify_prehash :: "bytes \<Rightarrow> bytes \<Rightarrow> bytes \<Rightarrow> bool"
  ecdsa_to_bytes :: "bytes \<Rightarrow> bytes"
  serde_text :: "string \<Rightarrow> raw_json \<times> bool"
  serde_custom :: "string \<Rightarrow> string"

text \<open>
  \<open>hmac_sha512 key msg\<close>; \<open>aes256gcm_encrypt key nonce aad msg\<close>; \<open>p256_ecdh secret public\<close>;
  \<open>ecdsa_sign_prehash secret digest\<close>; \<open>ecdsa_verify_prehash public digest signature\<close>.
  \<open>serde_text\<close> gives the events of a text and whether \<open>Deserializer::end\<close> finds nothing
  after the value; \<open>serde_custom\<close> is the text of an error raised with
  \<open>de::Error::custom\<close>.
\<close>

section \<open>What the code relies on\<close>

definition is_lower_hex_digit :: "char \<Rightarrow> bool" where
  "is_lower_hex_digit c \<longleftrightarrow> is_ascii_digit c \<or> 97 \<le> ascii c \<and> ascii c \<le> 102"

definition hex_laws :: "'x crates_scheme \<Rightarrow> bool" where
  "hex_laws C \<longleftrightarrow>
     (\<forall>b. hex_decode C (hex_encode C b) = Some b) \<and>
     (\<forall>b. length (hex_encode C b) = 2 * length b) \<and>
     (\<forall>b. list_all is_lower_hex_digit (hex_encode C b))"

definition sha256_laws :: "'x crates_scheme \<Rightarrow> bool" where
  "sha256_laws C \<longleftrightarrow> (\<forall>b. length (sha256_hash C b) = 32)"

text \<open>
  P-256: a public key's uncompressed encoding is 65 bytes that start with 4, and parses
  back to the key; ECDH agrees from both sides.
\<close>

definition p256_laws :: "'x crates_scheme \<Rightarrow> bool" where
  "p256_laws C \<longleftrightarrow>
     (\<forall>s k. p256_secret C s = Some k \<longrightarrow>
        (let e = p256_to_sec1 C (p256_public_key C k) in
         length e = 65 \<and> hd e = 4 \<and> sec1_point C e = Some e \<and> \<not> sec1_is_compressed C e \<and>
         p256_from_point C e = Some (p256_public_key C k))) \<and>
     (\<forall>b e p. length b = 65 \<longrightarrow> sec1_point C b = Some e \<longrightarrow> p256_from_point C e = Some p \<longrightarrow>
        p256_to_sec1 C p = b) \<and>
     (\<forall>s t a b. p256_secret C s = Some a \<longrightarrow> p256_secret C t = Some b \<longrightarrow>
        p256_ecdh C a (p256_public_key C b) = p256_ecdh C b (p256_public_key C a))"

text \<open>
  ECDSA: what \<open>sign_prehash\<close> returns, with its S half normalised, is 64 bytes, has nothing
  left to normalise, and verifies under the secret's public key.
\<close>

definition low_s_signature :: "'x crates_scheme \<Rightarrow> bytes \<Rightarrow> bytes" where
  "low_s_signature C s = (case ecdsa_normalize_s C s of Some t \<Rightarrow> t | None \<Rightarrow> s)"

definition ecdsa_laws :: "'x crates_scheme \<Rightarrow> bool" where
  "ecdsa_laws C \<longleftrightarrow>
     (\<forall>x k d s. p256_secret C x = Some k \<longrightarrow> ecdsa_sign_prehash C k d = Some s \<longrightarrow>
        (let t = low_s_signature C s in
         length (ecdsa_to_bytes C t) = 64 \<and> ecdsa_from_slice C (ecdsa_to_bytes C t) = Some t \<and>
         ecdsa_normalize_s C t = None \<and> ecdsa_verify_prehash C (p256_public_key C k) d t))"

text \<open>AES-256-GCM: decrypting under the same key, nonce and associated data gives the
  message back, and a ciphertext ends in a 16-byte tag.\<close>

definition aead_laws :: "'x crates_scheme \<Rightarrow> bool" where
  "aead_laws C \<longleftrightarrow>
     (\<forall>k n a m c. aes256gcm_encrypt C k n a m = Some c \<longrightarrow>
        aes256gcm_decrypt C k n a c = Some m \<and> length c = length m + 16)"

definition serde_laws :: "'x crates_scheme \<Rightarrow> bool" where
  "serde_laws C \<longleftrightarrow> (\<forall>m. \<exists>a b. serde_custom C m = a @ m @ b)"

section \<open>A concrete instance\<close>

text \<open>
  Toy primitives that satisfy the laws, at which the witnesses evaluate: real hexadecimal,
  a hash that pads or cuts to 32 bytes, a signature that repeats the digest under the
  public key, and a cipher that prepends a tag of zeros. Nothing is proved of the program
  through it but that hypotheses can hold.
\<close>

definition hex_digit :: "nat \<Rightarrow> char" where
  "hex_digit n = (if n < 10 then char_of (48 + n) else char_of (87 + n))"

definition hex_digit_value :: "char \<Rightarrow> nat" where
  "hex_digit_value c = (if is_ascii_digit c then ascii c - 48 else ascii c - 87)"

fun demo_hex_encode :: "bytes \<Rightarrow> string" where
  "demo_hex_encode [] = []"
| "demo_hex_encode (b # bs) =
     hex_digit (unat b div 16) # hex_digit (unat b mod 16) # demo_hex_encode bs"

fun demo_hex_decode :: "string \<Rightarrow> bytes option" where
  "demo_hex_decode [] = Some []"
| "demo_hex_decode (x # y # s) =
     (if is_lower_hex_digit x \<and> is_lower_hex_digit y
      then map_option (\<lambda>bs. word_of_nat (16 * hex_digit_value x + hex_digit_value y) # bs)
             (demo_hex_decode s)
      else None)"
| "demo_hex_decode [x] = None"

definition demo_hash :: "bytes \<Rightarrow> bytes" where
  "demo_hash b = take 32 (b @ replicate 32 0)"

definition demo_crates :: crates where
  "demo_crates =
     \<lparr> hex_encode = demo_hex_encode,
       hex_decode = demo_hex_decode,
       sha256_hash = demo_hash,
       hmac_sha512 = (\<lambda>k m. Some (demo_hash k @ demo_hash m)),
       aes256gcm_encrypt = (\<lambda>k n a m. Some (m @ replicate 16 0)),
       aes256gcm_decrypt = (\<lambda>k n a c. Some (take (length c - 16) c)),
       sec1_point = (\<lambda>b. Some b),
       sec1_is_compressed = (\<lambda>p. length p = 33),
       p256_from_point = (\<lambda>p. if length p = 65 \<and> hd p = 4 then Some p else None),
       p256_to_sec1 = (\<lambda>p. p),
       p256_secret = (\<lambda>s. if length s = 32 \<and> s \<noteq> replicate 32 0 then Some s else None),
       p256_public_key = (\<lambda>k. 4 # k @ k),
       p256_ecdh = (\<lambda>k p. map2 (XOR) k (take 32 (tl p))),
       ecdsa_from_slice = (\<lambda>b. if length b = 64 then Some b else None),
       ecdsa_normalize_s = (\<lambda>s. if hd s = 255 then Some (0 # tl s) else None),
       ecdsa_sign_prehash = (\<lambda>k d. Some (demo_hash (1 # k) @ demo_hash d)),
       ecdsa_verify_prehash =
         (\<lambda>p d s. s = demo_hash (1 # take 32 (tl p)) @ demo_hash d),
       ecdsa_to_bytes = (\<lambda>s. s),
       serde_text = (\<lambda>s. (RError [], False)),
       serde_custom = (\<lambda>m. m) \<rparr>"

lemmas demo_simps = demo_crates_def demo_hash_def

lemma hex_digit_ascii: "n < 16 \<Longrightarrow> ascii (hex_digit n) = (if n < 10 then 48 + n else 87 + n)"
  by (simp add: hex_digit_def ascii_def)

lemma hex_digit_lower: "n < 16 \<Longrightarrow> is_lower_hex_digit (hex_digit n)"
  by (auto simp: is_lower_hex_digit_def is_ascii_digit_def hex_digit_ascii)

lemma hex_digit_value_digit: "n < 16 \<Longrightarrow> hex_digit_value (hex_digit n) = n"
  by (auto simp: hex_digit_value_def is_ascii_digit_def hex_digit_ascii)

lemma nibbles: "unat (b :: byte) div 16 < 16" "16 * (unat b div 16) + unat b mod 16 = unat b"
  using unsigned_less [of b, where 'a = nat] by auto

lemma demo_hex_roundtrip: "demo_hex_decode (demo_hex_encode b) = Some b"
  by (induction b) (auto simp: hex_digit_lower hex_digit_value_digit nibbles)

lemma demo_hex_encode_field: "hex_encode demo_crates = demo_hex_encode"
  by (simp add: demo_crates_def)

lemma demo_hex_laws: "hex_laws demo_crates"
proof -
  have "length (demo_hex_encode b) = 2 * length b" for b
    by (induction b) auto
  moreover have "list_all is_lower_hex_digit (demo_hex_encode b)" for b
    by (induction b) (auto simp: hex_digit_lower nibbles)
  ultimately show ?thesis
    by (simp add: hex_laws_def demo_crates_def demo_hex_roundtrip)
qed

lemma length_demo_hash [simp]: "length (demo_hash b) = 32"
  by (simp add: demo_hash_def)

lemma demo_sha256_laws: "sha256_laws demo_crates"
  by (simp add: sha256_laws_def demo_crates_def)

lemma demo_ecdh_symmetric:
  "length a = 32 \<Longrightarrow> length b = 32 \<Longrightarrow> map2 (XOR) a (b :: bytes) = map2 (XOR) b a"
  by (rule nth_equalityI) (auto simp: xor.commute)

lemma demo_p256_laws: "p256_laws demo_crates"
  by (auto simp: p256_laws_def demo_crates_def Let_def demo_ecdh_symmetric split: if_splits)

lemma demo_signature_head: "hd (demo_hash (1 # k) @ demo_hash d) = 1"
  by (simp add: demo_hash_def numeral_eq_Suc)

lemma demo_ecdsa_laws: "ecdsa_laws demo_crates"
  by (auto simp: ecdsa_laws_def low_s_signature_def demo_crates_def Let_def demo_signature_head
      split: if_splits option.splits)

lemma demo_aead_laws: "aead_laws demo_crates"
  by (simp add: aead_laws_def demo_crates_def)

lemma demo_serde_laws: "serde_laws demo_crates"
  by (auto simp: serde_laws_def demo_crates_def intro: exI [of _ "[]"])

lemmas demo_laws = demo_hex_laws demo_sha256_laws demo_p256_laws demo_ecdsa_laws demo_aead_laws
  demo_serde_laws

end
