(* ===== verification/Protocol_Error.thy ===== *)
theory Protocol_Error
  imports Crates
begin

text \<open>
  \<open>crates/protocol/src/error.rs\<close>: the error codes of the protocol, the names they print as,
  and the error value every protocol function returns, which carries a code and nothing else.
\<close>

datatype ErrorCode =
    UnsupportedVersion
  | RequestTooLarge
  | InvalidEncryptedEnvelope
  | ReleaseBindingMismatch
  | QuorumKeyEpochMismatch
  | InvalidWalletDescriptor
  | WalletBindingMismatch
  | UnauthorizedClient
  | ExpiredRequest
  | TurnkeyEvidenceInvalid
  | InvalidCanonicalJson
  | DuplicateJsonField
  | UnknownJsonField
  | InvalidHex
  | InvalidDecimal
  | InvalidPublicKey
  | InvalidSignature
  | HighSSignature
  | DerSignatureRejected
  | CompressedKeyRejected
  | DoubleHashRejected
  | UnsupportedProofPath
  | BootProofUnverified
  | DiscoveryUntrusted
  | NetworkMismatch
  | ReleasePolicyInvalid
  | DescriptorExpired

text \<open>\<open>ErrorCode::as_str\<close>, which \<open>strum::IntoStaticStr\<close> derives as the variant's name.\<close>

fun as_str :: "ErrorCode \<Rightarrow> string" where
  "as_str UnsupportedVersion = ''UnsupportedVersion''"
| "as_str RequestTooLarge = ''RequestTooLarge''"
| "as_str InvalidEncryptedEnvelope = ''InvalidEncryptedEnvelope''"
| "as_str ReleaseBindingMismatch = ''ReleaseBindingMismatch''"
| "as_str QuorumKeyEpochMismatch = ''QuorumKeyEpochMismatch''"
| "as_str InvalidWalletDescriptor = ''InvalidWalletDescriptor''"
| "as_str WalletBindingMismatch = ''WalletBindingMismatch''"
| "as_str UnauthorizedClient = ''UnauthorizedClient''"
| "as_str ExpiredRequest = ''ExpiredRequest''"
| "as_str TurnkeyEvidenceInvalid = ''TurnkeyEvidenceInvalid''"
| "as_str InvalidCanonicalJson = ''InvalidCanonicalJson''"
| "as_str DuplicateJsonField = ''DuplicateJsonField''"
| "as_str UnknownJsonField = ''UnknownJsonField''"
| "as_str InvalidHex = ''InvalidHex''"
| "as_str InvalidDecimal = ''InvalidDecimal''"
| "as_str InvalidPublicKey = ''InvalidPublicKey''"
| "as_str InvalidSignature = ''InvalidSignature''"
| "as_str HighSSignature = ''HighSSignature''"
| "as_str DerSignatureRejected = ''DerSignatureRejected''"
| "as_str CompressedKeyRejected = ''CompressedKeyRejected''"
| "as_str DoubleHashRejected = ''DoubleHashRejected''"
| "as_str UnsupportedProofPath = ''UnsupportedProofPath''"
| "as_str BootProofUnverified = ''BootProofUnverified''"
| "as_str DiscoveryUntrusted = ''DiscoveryUntrusted''"
| "as_str NetworkMismatch = ''NetworkMismatch''"
| "as_str ReleasePolicyInvalid = ''ReleasePolicyInvalid''"
| "as_str DescriptorExpired = ''DescriptorExpired''"

datatype TvcError = TvcError (code: ErrorCode)

type_synonym 'a tvc_result = "TvcError + 'a"

abbreviation tvc_err :: "ErrorCode \<Rightarrow> 'a tvc_result" where
  "tvc_err c \<equiv> Err (TvcError c)"

text \<open>\<open>Display for TvcError\<close> prints the code's name.\<close>

definition tvc_error_to_string :: "TvcError \<Rightarrow> string" where
  "tvc_error_to_string e = as_str (code e)"

text \<open>The printed name determines the code, so a client that reads the name reads the code.\<close>

lemma as_str_inject [simp]: "as_str c = as_str d \<longleftrightarrow> c = d"
  by (cases c; cases d; simp)

end
