(* ===== verification/Protocol_Constants.thy ===== *)
theory Protocol_Constants
  imports Protocol_Error
begin

text \<open>
  \<open>crates/protocol/src/constants.rs\<close>: the domain separators and limits. A \<open>u64\<close> or \<open>u8\<close>
  constant keeps its width; a \<open>usize\<close> constant, which is only compared with lengths, is a
  \<open>nat\<close>.
\<close>

definition API_VERSION :: "u8" where
  "API_VERSION = 1"

definition TVC_APP_PROOF_TYPE :: "string" where
  "TVC_APP_PROOF_TYPE = ''zolana.tvc.wallet_operation.v1''"

definition TVC_APP_PROOF_SCHEME :: "string" where
  "TVC_APP_PROOF_SCHEME = ''SIGNATURE_SCHEME_EPHEMERAL_KEY_P256''"

definition TVC_QOS_PING_PROOF_TYPE :: "string" where
  "TVC_QOS_PING_PROOF_TYPE = ''zolana.tvc.qos_ping.v1''"

definition EXPECTED_TURNKEY_TRUST_ROOT_ID :: "string" where
  "EXPECTED_TURNKEY_TRUST_ROOT_ID = ''aws-nitro-root-g1''"

definition CLIENT_KEY_ID_PREFIX :: "string" where
  "CLIENT_KEY_ID_PREFIX = ''spr-client-p256-''"

definition CLIENT_AUTH_DOMAIN :: "string" where
  "CLIENT_AUTH_DOMAIN = ''spr-tvc-client-auth-v1''"

definition PROVISIONING_AUTH_DOMAIN :: "bytes" where
  "PROVISIONING_AUTH_DOMAIN = as_bytes ''ZOLANA_TVC_PROVISIONING_AUTH_V1''"

definition REQUEST_DIGEST_DOMAIN :: "bytes" where
  "REQUEST_DIGEST_DOMAIN = as_bytes ''ZOLANA_TVC_REQUEST_V1''"

definition RESULT_DIGEST_DOMAIN :: "bytes" where
  "RESULT_DIGEST_DOMAIN = as_bytes ''ZOLANA_TVC_RESULT_V1''"

definition SEALED_SEED_DIGEST_DOMAIN :: "bytes" where
  "SEALED_SEED_DIGEST_DOMAIN = as_bytes ''ZOLANA_TVC_SEALED_SEED_DIGEST_V1''"

definition WALLET_ID_HASH_DOMAIN :: "bytes" where
  "WALLET_ID_HASH_DOMAIN = as_bytes ''ZOLANA_TVC_WALLET_ID_V1''"

definition WALLET_BINDING_DOMAIN :: "bytes" where
  "WALLET_BINDING_DOMAIN = as_bytes ''ZOLANA_TVC_WALLET_BINDING_V1''"

definition REQUEST_ID_HASH_DOMAIN :: "bytes" where
  "REQUEST_ID_HASH_DOMAIN = as_bytes ''ZOLANA_TVC_REQUEST_ID_V1''"

definition RELEASE_POLICY_DOMAIN :: "bytes" where
  "RELEASE_POLICY_DOMAIN = as_bytes ''ZOLANA_TVC_RELEASE_POLICY_V1''"

definition WALLET_GRANT_DOMAIN :: "bytes" where
  "WALLET_GRANT_DOMAIN = as_bytes ''ZOLANA_TVC_WALLET_GRANT_V1''"

definition MAX_REQUEST_AGE_MS :: "u64" where
  "MAX_REQUEST_AGE_MS = 300000"

definition MAX_CLOCK_SKEW_MS :: "u64" where
  "MAX_CLOCK_SKEW_MS = 60000"

definition MAX_WALLET_GRANT_LIFETIME_MS :: "u64" where
  "MAX_WALLET_GRANT_LIFETIME_MS = 3600000"

definition MAX_ENCRYPTED_REQUEST_BYTES :: "u64" where
  "MAX_ENCRYPTED_REQUEST_BYTES = 262144"

definition MAX_ENCRYPTED_RESPONSE_BYTES :: "u64" where
  "MAX_ENCRYPTED_RESPONSE_BYTES = 262144"

definition MAX_ITEMS_PER_BATCH :: "u64" where
  "MAX_ITEMS_PER_BATCH = 256"

definition MAX_PROVE_INPUTS :: "nat" where
  "MAX_PROVE_INPUTS = 52"

definition MAX_PROVER_TARGET_LEN :: "nat" where
  "MAX_PROVER_TARGET_LEN = 256"

definition SEC1_UNCOMPRESSED_LEN :: "nat" where
  "SEC1_UNCOMPRESSED_LEN = 65"

definition QOS_P256_PUBLIC_LEN :: "nat" where
  "QOS_P256_PUBLIC_LEN = 130"

definition RAW_P256_SIGNATURE_LEN :: "nat" where
  "RAW_P256_SIGNATURE_LEN = 64"

definition AES_GCM_NONCE_LEN :: "nat" where
  "AES_GCM_NONCE_LEN = 12"

definition AES_GCM_TAG_LEN :: "nat" where
  "AES_GCM_TAG_LEN = 16"

definition QOS_ENCRYPTION_HMAC_MESSAGE :: "bytes" where
  "QOS_ENCRYPTION_HMAC_MESSAGE = as_bytes ''qos_encryption_hmac_message''"

lemmas domain_defs = PROVISIONING_AUTH_DOMAIN_def REQUEST_DIGEST_DOMAIN_def RESULT_DIGEST_DOMAIN_def
  SEALED_SEED_DIGEST_DOMAIN_def WALLET_ID_HASH_DOMAIN_def WALLET_BINDING_DOMAIN_def
  REQUEST_ID_HASH_DOMAIN_def RELEASE_POLICY_DOMAIN_def WALLET_GRANT_DOMAIN_def

lemmas limit_defs = MAX_REQUEST_AGE_MS_def MAX_CLOCK_SKEW_MS_def MAX_WALLET_GRANT_LIFETIME_MS_def
  MAX_ENCRYPTED_REQUEST_BYTES_def MAX_ENCRYPTED_RESPONSE_BYTES_def MAX_ITEMS_PER_BATCH_def
  MAX_PROVE_INPUTS_def MAX_PROVER_TARGET_LEN_def SEC1_UNCOMPRESSED_LEN_def QOS_P256_PUBLIC_LEN_def
  RAW_P256_SIGNATURE_LEN_def AES_GCM_NONCE_LEN_def AES_GCM_TAG_LEN_def

end
