(* ===== verification/Encoding.thy ===== *)
theory Encoding
  imports Protocol_Constants "HOL-Library.Multiset"
begin

text \<open>
  \<open>crates/protocol/src/encoding.rs\<close>: lowercase hex, canonical decimal \<open>u64\<close>, the strict
  JSON reader and RFC 8785 (JCS) text.

  The locale \<open>canonical_codec\<close> is the contract of every codec of the development whose
  encodings are canonical: a value decodes to itself, and only its own encoding decodes to
  it. It is interpreted here on decimal \<open>u64\<close> and, in later theories, on the Borsh structs.

  JSON text is read through \<open>serde_text\<close>, the events \<open>serde_json\<close> drives a visitor with;
  \<open>strict_visit\<close> is the visitor. \<open>append_jcs\<close> writes into its accumulator as the source
  does; \<open>Canonical_Json\<close> shows that its text is uniquely readable, so that equal canonical texts
  are equal values, and \<open>Rfc8785\<close> that it is the text of the RFC.
\<close>

section \<open>Canonical codecs\<close>

locale canonical_codec =
  fixes valid :: "'a \<Rightarrow> bool" and enc :: "'a \<Rightarrow> 'w" and dec :: "'w \<Rightarrow> 'e + 'a"
  assumes roundtrip: "valid x \<Longrightarrow> dec (enc x) = Ok x"
    and canonical: "dec w = Ok x \<Longrightarrow> valid x \<and> enc x = w"
begin

lemma dec_iff: "dec w = Ok x \<longleftrightarrow> valid x \<and> w = enc x"
  using roundtrip canonical by blast

lemma enc_inject: "valid x \<Longrightarrow> valid y \<Longrightarrow> enc x = enc y \<longleftrightarrow> x = y"
  using roundtrip by (metis sum.inject(2))

lemma dec_inject: "dec v = Ok x \<Longrightarrow> dec w = Ok x \<Longrightarrow> v = w"
  using canonical by blast

lemma not_encoding: "(\<And>x. valid x \<Longrightarrow> w \<noteq> enc x) \<Longrightarrow> \<exists>e. dec w = Err e"
  using canonical by (metis sum.exhaust)

end

section \<open>Lowercase hex\<close>

definition encode_lower_hex :: "'x crates_scheme \<Rightarrow> bytes \<Rightarrow> string" where
  "encode_lower_hex C b = hex_encode C b"

definition decode_lower_hex :: "'x crates_scheme \<Rightarrow> string \<Rightarrow> bytes tvc_result" where
  "decode_lower_hex C input =
     and_then (ok_or (TvcError InvalidHex) (hex_decode C input)) (\<lambda>decoded.
     if hex_encode C decoded \<noteq> input then tvc_err InvalidHex else Ok decoded)"

definition decode_lower_hex_array :: "'x crates_scheme \<Rightarrow> nat \<Rightarrow> string \<Rightarrow> bytes tvc_result" where
  "decode_lower_hex_array C n input =
     and_then (decode_lower_hex C input) (\<lambda>b.
     if length b = n then Ok b else tvc_err InvalidHex)"

lemma decode_lower_hex_canonical: "decode_lower_hex C s = Ok b \<Longrightarrow> encode_lower_hex C b = s"
  by (auto simp: decode_lower_hex_def encode_lower_hex_def result_simps split: if_splits)

lemma decode_lower_hex_encode:
  "hex_laws C \<Longrightarrow> decode_lower_hex C (encode_lower_hex C b) = Ok b"
  by (simp add: decode_lower_hex_def encode_lower_hex_def hex_laws_def)

lemma encode_lower_hex_inject:
  "hex_laws C \<Longrightarrow> encode_lower_hex C a = encode_lower_hex C b \<longleftrightarrow> a = b"
  by (metis decode_lower_hex_encode sum.inject(2))

lemma decode_lower_hex_array_iff:
  "hex_laws C \<Longrightarrow>
     decode_lower_hex_array C n s = Ok b \<longleftrightarrow> length b = n \<and> s = encode_lower_hex C b"
  by (auto simp: decode_lower_hex_array_def result_simps decode_lower_hex_encode
      decode_lower_hex_canonical split: if_splits)

lemma decode_lower_hex_error:
  "decode_lower_hex C s = Err e \<Longrightarrow> e = TvcError InvalidHex"
  "decode_lower_hex_array C n s = Err e \<Longrightarrow> e = TvcError InvalidHex"
  by (auto simp: decode_lower_hex_array_def decode_lower_hex_def result_simps split: if_splits)

section \<open>Canonical decimal\<close>

definition encode_decimal_u64 :: "u64 \<Rightarrow> string" where
  "encode_decimal_u64 value = decimal (unat value)"

definition decode_decimal_u64 :: "string \<Rightarrow> u64 tvc_result" where
  "decode_decimal_u64 input =
     (if input = [] then tvc_err InvalidDecimal
      else if hd input = CHR ''+'' \<or> hd input = CHR ''-'' then tvc_err InvalidDecimal
      else if length input > 1 \<and> hd input = CHR ''0'' then tvc_err InvalidDecimal
      else if \<not> list_all is_ascii_digit input then tvc_err InvalidDecimal
      else ok_or (TvcError InvalidDecimal) (parse_u64 input))"

lemma decode_decimal_encode: "decode_decimal_u64 (encode_decimal_u64 n) = Ok n"
proof -
  let ?d = "decimal (unat n)"
  have digit: "is_ascii_digit (hd ?d)"
    using decimal_digits [of "unat n"] decimal_not_Nil [of "unat n"]
    by (cases ?d) auto
  have signs: "hd ?d \<noteq> CHR ''+''" "hd ?d \<noteq> CHR ''-''"
    using digit by (auto simp: is_ascii_digit_def ascii_def)
  have zero: "\<not> (length ?d > 1 \<and> hd ?d = CHR ''0'')"
    using decimal_no_leading_zero [of "unat n"] by (cases "unat n = 0") (auto simp: decimal.simps)
  show ?thesis
    using signs zero by (simp add: decode_decimal_u64_def encode_decimal_u64_def)
qed

lemma decode_decimal_canonical: "decode_decimal_u64 s = Ok n \<Longrightarrow> encode_decimal_u64 n = s"
  by (auto simp: decode_decimal_u64_def encode_decimal_u64_def result_simps parse_u64_digits
      u64_try_from_Some decimal_decimal_value split: if_splits)

interpretation decimal_codec: canonical_codec "\<lambda>_. True" encode_decimal_u64 decode_decimal_u64
  by unfold_locales (auto simp: decode_decimal_encode decode_decimal_canonical)

text \<open>
  A \<open>u64\<close> field has one text: the decoder accepts exactly the shortest decimal form, so
  no two texts of a request decode to the same number.
\<close>

lemma decimal_u64_canonical: "decode_decimal_u64 s = Ok n \<longleftrightarrow> s = encode_decimal_u64 n"
  using decimal_codec.dec_iff by simp

text \<open>
  A fixed-length binary field has one text: its lowercase hex.
\<close>

lemma hex_array_canonical:
  assumes "hex_laws C"
  shows "decode_lower_hex_array C n s = Ok b \<longleftrightarrow> length b = n \<and> s = encode_lower_hex C b"
  using decode_lower_hex_array_iff [OF assms] .

lemma hex_array_canonical_witness:
  "decode_lower_hex_array demo_crates 2 ''0aff'' = Ok [10, 255]"
  using hex_array_canonical [OF demo_hex_laws, of 2 "''0aff''" "[10, 255]"]
  by (simp add: encode_lower_hex_def demo_hex_encode_field hex_digit_def char_of_def bit_0)

section \<open>The serde adapters\<close>

text \<open>
  \<open>mod hex\<close> and \<open>mod decimal_u64\<close>: what a field with one of these adapters serialises to,
  and what it makes of the strings serde reads for it; the first argument of a
  \<open>deserialize_\<close> function after \<open>C\<close> is what \<open>String::deserialize\<close> and its like gave.
\<close>

definition serialize_hex :: "'x crates_scheme \<Rightarrow> bytes \<Rightarrow> json" where
  "serialize_hex C b = JString (encode_lower_hex C b)"

definition serialize_hex_option :: "'x crates_scheme \<Rightarrow> bytes option \<Rightarrow> json" where
  "serialize_hex_option C v =
     (case v of Some b \<Rightarrow> JString (encode_lower_hex C b) | None \<Rightarrow> JNull)"

definition serialize_hex_seq :: "'x crates_scheme \<Rightarrow> bytes list \<Rightarrow> json" where
  "serialize_hex_seq C vs = JArray (map (\<lambda>b. JString (encode_lower_hex C b)) vs)"

definition serialize_decimal :: "u64 \<Rightarrow> json" where
  "serialize_decimal n = JString (encode_decimal_u64 n)"

definition custom_error :: "'x crates_scheme \<Rightarrow> 'a tvc_result \<Rightarrow> string + 'a" where
  "custom_error C r = map_err (\<lambda>e. serde_custom C (tvc_error_to_string e)) r"

definition deserialize_hex :: "'x crates_scheme \<Rightarrow> string + string \<Rightarrow> string + bytes" where
  "deserialize_hex C s = and_then s (\<lambda>s. custom_error C (decode_lower_hex C s))"

definition deserialize_hex_array ::
    "'x crates_scheme \<Rightarrow> nat \<Rightarrow> string + string \<Rightarrow> string + bytes" where
  "deserialize_hex_array C n s = and_then s (\<lambda>s. custom_error C (decode_lower_hex_array C n s))"

definition deserialize_hex_option ::
    "'x crates_scheme \<Rightarrow> string + string option \<Rightarrow> string + bytes option" where
  "deserialize_hex_option C s = and_then s (\<lambda>s.
     case s of None \<Rightarrow> Ok None
     | Some s \<Rightarrow> and_then (custom_error C (decode_lower_hex C s)) (\<lambda>b. Ok (Some b)))"

definition deserialize_hex_seq ::
    "'x crates_scheme \<Rightarrow> string + string list \<Rightarrow> string + bytes list" where
  "deserialize_hex_seq C ss =
     and_then ss (traverse (\<lambda>s. custom_error C (decode_lower_hex C s)))"

definition deserialize_hex_array_seq ::
    "'x crates_scheme \<Rightarrow> nat \<Rightarrow> string + string list \<Rightarrow> string + bytes list" where
  "deserialize_hex_array_seq C n ss =
     and_then ss (traverse (\<lambda>s. custom_error C (decode_lower_hex_array C n s)))"

definition deserialize_decimal :: "'x crates_scheme \<Rightarrow> string + string \<Rightarrow> string + u64" where
  "deserialize_decimal C s = and_then s (\<lambda>s. custom_error C (decode_decimal_u64 s))"

section \<open>Strict JSON\<close>

datatype strict_value =
    StrictNull
  | StrictBool bool
  | StrictNumber number
  | StrictString string
  | StrictArray "strict_value list"
  | StrictObject "(string \<times> strict_value) list"

definition is_finite :: "u64 \<Rightarrow> bool" where
  "is_finite bits \<longleftrightarrow> drop_bit 52 bits AND 0x7FF \<noteq> 0x7FF"

text \<open>\<open>Number::from(i64)\<close>: a negative number keeps its sign, any other is unsigned.\<close>

definition number_of_i64 :: "u64 \<Rightarrow> number" where
  "number_of_i64 w = (if w <s 0 then NegInt w else PosInt w)"

text \<open>\<open>StrictVisitor\<close>: an entry's value is read before its key is compared with the
  earlier ones.\<close>

function (sequential) strict_visit :: "'x crates_scheme \<Rightarrow> raw_json \<Rightarrow> string + strict_value"
  and strict_seq :: "'x crates_scheme \<Rightarrow> strict_value list \<Rightarrow> raw_json list \<Rightarrow> string option
    \<Rightarrow> string + strict_value list"
  and strict_map :: "'x crates_scheme \<Rightarrow> (string \<times> strict_value) list \<Rightarrow> (string \<times> raw_json) list
    \<Rightarrow> string option \<Rightarrow> string + (string \<times> strict_value) list" where
  "strict_visit C RNull = Ok StrictNull"
| "strict_visit C (RBool b) = Ok (StrictBool b)"
| "strict_visit C (RI64 w) = Ok (StrictNumber (number_of_i64 w))"
| "strict_visit C (RU64 w) = Ok (StrictNumber (PosInt w))"
| "strict_visit C (RF64 w) =
     (if is_finite w then Ok (StrictNumber (Float w))
      else Err (serde_custom C ''non-finite number''))"
| "strict_visit C (RString s) = Ok (StrictString s)"
| "strict_visit C (RArray items e) = and_then (strict_seq C [] items e) (\<lambda>out. Ok (StrictArray out))"
| "strict_visit C (RObject es e) = and_then (strict_map C [] es e) (\<lambda>out. Ok (StrictObject out))"
| "strict_visit C (RError m) = Err m"
| "strict_seq C out [] None = Ok out"
| "strict_seq C out [] (Some m) = Err m"
| "strict_seq C out (r # rs) e =
     and_then (strict_visit C r) (\<lambda>v. strict_seq C (out @ [v]) rs e)"
| "strict_map C out [] None = Ok out"
| "strict_map C out [] (Some m) = Err m"
| "strict_map C out ((k, r) # es) e =
     and_then (strict_visit C r) (\<lambda>v.
     if map_of out k \<noteq> None then Err (serde_custom C (as_str DuplicateJsonField))
     else strict_map C (bt_insert k v out) es e)"
  by pat_completeness auto

termination
  by (relation "measure (\<lambda>x. case x of Inl (C, r) \<Rightarrow> size r
      | Inr (Inl (C, out, rs, e)) \<Rightarrow> size_list size rs
      | Inr (Inr (C, out, es, e)) \<Rightarrow> size_list (size_prod (\<lambda>_. 0) size) es)") auto

fun value_of_strict :: "strict_value \<Rightarrow> json" where
  "value_of_strict StrictNull = JNull"
| "value_of_strict (StrictBool b) = JBool b"
| "value_of_strict (StrictNumber n) = JNumber n"
| "value_of_strict (StrictString s) = JString s"
| "value_of_strict (StrictArray vs) = JArray (map value_of_strict vs)"
| "value_of_strict (StrictObject m) = JObject (map (\<lambda>(k, v). (k, value_of_strict v)) m)"

definition classify_json_error :: "string \<Rightarrow> ErrorCode" where
  "classify_json_error message =
     (if str_contains (as_str DuplicateJsonField) message then DuplicateJsonField
      else if str_contains ''unknown field'' message then UnknownJsonField
      else InvalidCanonicalJson)"

text \<open>The part \<open>parse_strict_json\<close> and \<open>canonicalize_json_str\<close> share, up to
  \<open>Value::from(strict)\<close>.\<close>

definition parse_strict_value :: "'x crates_scheme \<Rightarrow> string \<Rightarrow> json tvc_result" where
  "parse_strict_value C input =
     (case serde_text C input of (events, at_end) \<Rightarrow>
        and_then (map_err (\<lambda>m. TvcError (classify_json_error m)) (strict_visit C events)) (\<lambda>strict.
        if \<not> at_end then tvc_err InvalidCanonicalJson
        else Ok (value_of_strict strict)))"

definition parse_strict_json ::
    "'x crates_scheme \<Rightarrow> (json \<Rightarrow> string + 'a) \<Rightarrow> string \<Rightarrow> 'a tvc_result" where
  "parse_strict_json C from_value input =
     and_then (parse_strict_value C input) (\<lambda>value.
     map_err (\<lambda>m. TvcError (classify_json_error m)) (from_value value))"

section \<open>RFC 8785 text\<close>

text \<open>\<open>str::chars\<close>: the scalar values of a UTF-8 text (of a byte that starts no
  well-formed sequence, its own value).\<close>

fun scalars :: "nat list \<Rightarrow> nat list" where
  "scalars (a # b # c # d # xs) =
     (if a < 194 then a # scalars (b # c # d # xs)
      else if a < 224 then ((a - 192) * 64 + (b - 128)) # scalars (c # d # xs)
      else if a < 240 then ((a - 224) * 4096 + (b - 128) * 64 + (c - 128)) # scalars (d # xs)
      else ((a - 240) * 262144 + (b - 128) * 4096 + (c - 128) * 64 + (d - 128)) # scalars xs)"
| "scalars [a, b, c] =
     (if a < 194 then a # scalars [b, c]
      else if a < 224 then ((a - 192) * 64 + (b - 128)) # scalars [c]
      else [(a - 224) * 4096 + (b - 128) * 64 + (c - 128)])"
| "scalars [a, b] = (if a < 194 then [a, b] else [(a - 192) * 64 + (b - 128)])"
| "scalars [a] = [a]"
| "scalars [] = []"

text \<open>\<open>char::encode_utf16\<close>\<close>

definition utf16_encode :: "nat \<Rightarrow> 16 word list" where
  "utf16_encode c =
     (if c < 65536 then [word_of_nat c]
      else [word_of_nat (55296 + (c - 65536) div 1024), word_of_nat (56320 + (c - 65536) mod 1024)])"

definition utf16_units :: "string \<Rightarrow> 16 word list" where
  "utf16_units s = concat (map utf16_encode (scalars (map ascii s)))"

text \<open>\<open>Number::to_string\<close> of an integer.\<close>

fun number_to_string :: "number \<Rightarrow> string" where
  "number_to_string (PosInt w) = decimal (unat w)"
| "number_to_string (NegInt w) =
     (if w <s 0 then CHR ''-'' # decimal (nat (- sint w)) else decimal (unat w))"
| "number_to_string (Float w) = []"

fun is_f64 :: "number \<Rightarrow> bool" where
  "is_f64 (Float w) = True"
| "is_f64 _ = False"

text \<open>
  \<open>append_json_string\<close>. Its cases test ASCII characters only, and the bytes of any other
  character are copied, so it works byte by byte.
\<close>

definition quote :: string where
  "quote = [CHR 0x22]"

definition json_escape :: "char \<Rightarrow> string" where
  "json_escape c =
     (if ascii c = 34 then [CHR 0x5C, CHR 0x22]
      else if ascii c = 92 then [CHR 0x5C, CHR 0x5C]
      else if ascii c = 8 then CHR 0x5C # ''b''
      else if ascii c = 12 then CHR 0x5C # ''f''
      else if ascii c = 10 then CHR 0x5C # ''n''
      else if ascii c = 13 then CHR 0x5C # ''r''
      else if ascii c = 9 then CHR 0x5C # ''t''
      else if ascii c < 32 then
        CHR 0x5C # ''u00'' @ [hex_digit (ascii c div 16), hex_digit (ascii c mod 16)]
      else [c])"

definition append_json_string :: "string \<Rightarrow> string \<Rightarrow> string" where
  "append_json_string out s = foldl (\<lambda>out c. out @ json_escape c) (out @ quote) s @ quote"

text \<open>Sorting does not change the size of an object's members.\<close>

lemma size_list_sort_key [simp]: "size_list f (sort_key g xs) = size_list f xs"
proof -
  have "mset (map f (sort_key g xs)) = mset (map f xs)" by simp
  then have "sum_list (map f (sort_key g xs)) = sum_list (map f xs)"
    by (metis sum_mset_sum_list)
  then show ?thesis by (simp add: size_list_conv_sum_list)
qed

text \<open>\<open>append_jcs\<close>; the members of an object are visited in the UTF-16 order of their keys
  (the keys of a map are distinct, so \<open>map[key]\<close> is the value beside the key), and \<open>i\<close> is
  the loop index that places the commas.\<close>

function (sequential) append_jcs :: "string \<Rightarrow> json \<Rightarrow> string tvc_result"
  and append_items :: "string \<Rightarrow> nat \<Rightarrow> json list \<Rightarrow> string tvc_result"
  and append_members :: "string \<Rightarrow> nat \<Rightarrow> (string \<times> json) list \<Rightarrow> string tvc_result" where
  "append_jcs out JNull = Ok (out @ ''null'')"
| "append_jcs out (JBool b) = Ok (out @ (if b then ''true'' else ''false''))"
| "append_jcs out (JNumber n) =
     (if is_f64 n then tvc_err InvalidCanonicalJson else Ok (out @ number_to_string n))"
| "append_jcs out (JString s) = Ok (append_json_string out s)"
| "append_jcs out (JArray items) =
     and_then (append_items (out @ ''['') 0 items) (\<lambda>out. Ok (out @ '']''))"
| "append_jcs out (JObject m) =
     and_then (append_members (out @ ''{'') 0 (sort_key (\<lambda>e. utf16_units (fst e)) m))
       (\<lambda>out. Ok (out @ ''}''))"
| "append_items out i [] = Ok out"
| "append_items out i (v # vs) =
     and_then (append_jcs (if i > 0 then out @ '','' else out) v) (\<lambda>out.
     append_items out (i + 1) vs)"
| "append_members out i [] = Ok out"
| "append_members out i ((k, v) # es) =
     and_then (append_jcs (append_json_string (if i > 0 then out @ '','' else out) k @ '':'') v) (\<lambda>out.
     append_members out (i + 1) es)"
  by pat_completeness auto

termination
  by (relation "measure (\<lambda>x. case x of Inl (out, v) \<Rightarrow> size v
      | Inr (Inl (out, i, vs)) \<Rightarrow> size_list size vs
      | Inr (Inr (out, i, es)) \<Rightarrow> size_list (size_prod (\<lambda>_. 0) size) es)") auto

definition canonicalize_json_value :: "json \<Rightarrow> string tvc_result" where
  "canonicalize_json_value value = append_jcs [] value"

definition canonicalize_json_str :: "'x crates_scheme \<Rightarrow> string \<Rightarrow> string tvc_result" where
  "canonicalize_json_str C input = and_then (parse_strict_value C input) canonicalize_json_value"

text \<open>\<open>jcs_serialize\<close> of a value whose serde form is \<open>j\<close>: the derived \<open>Serialize\<close>
  implementations of the program do not fail.\<close>

definition jcs_serialize :: "json \<Rightarrow> string tvc_result" where
  "jcs_serialize j = canonicalize_json_value j"

definition is_rfc8785 :: "'x crates_scheme \<Rightarrow> string \<Rightarrow> bool" where
  "is_rfc8785 C input =
     (case canonicalize_json_str C input of Ok canonical \<Rightarrow> canonical = input | Err _ \<Rightarrow> False)"

end
