(* ===== verification/Canonical_Json.thy ===== *)
theory Canonical_Json
  imports Encoding
begin

text \<open>
  What the strict reader and the canonical writer of \<open>encoding.rs\<close> guarantee. \<open>jcs\<close> is the
  writer without its accumulator and its loop index, a form to reason with, which \<open>Rfc8785\<close>
  compares with the RFC; \<open>append_jcs\<close> appends exactly \<open>jcs\<close>, and fails exactly on a value with a
  float. A canonical text is read back in one way only, so two values with the same canonical
  text are the same value: signing or hashing the text commits to the value.
\<close>

section \<open>The writer without its accumulator\<close>

fun commas :: "string list \<Rightarrow> string" where
  "commas [] = []"
| "commas [s] = s"
| "commas (s # t # ss) = s @ '','' @ commas (t # ss)"

definition json_quoted :: "string \<Rightarrow> string" where
  "json_quoted s = quote @ concat (map json_escape s) @ quote"

lemma size_snd_member:
  "e \<in> set m \<Longrightarrow> size (snd e) < Suc (size_list (size_prod (\<lambda>_. 0) size) m)"
  by (induction m) auto

function jcs :: "json \<Rightarrow> string" where
  "jcs JNull = ''null''"
| "jcs (JBool b) = (if b then ''true'' else ''false'')"
| "jcs (JNumber n) = number_to_string n"
| "jcs (JString s) = json_quoted s"
| "jcs (JArray vs) = ''['' @ commas (map jcs vs) @ '']''"
| "jcs (JObject m) =
     ''{'' @ commas (map (\<lambda>e. json_quoted (fst e) @ '':'' @ jcs (snd e))
               (sort_key (\<lambda>e. utf16_units (fst e)) m)) @ ''}''"
  by pat_completeness auto

termination
  by (relation "measure size") (auto simp: size_snd_member less_Suc_eq_le size_list_estimation')

fun has_float :: "json \<Rightarrow> bool" where
  "has_float (JNumber n) = is_f64 n"
| "has_float (JArray vs) = list_ex has_float vs"
| "has_float (JObject m) = list_ex (\<lambda>e. has_float (snd e)) m"
| "has_float _ = False"

lemma append_json_string_quoted [simp]: "append_json_string out s = out @ json_quoted s"
proof -
  have "foldl (\<lambda>out c. out @ json_escape c) a s = a @ concat (map json_escape s)" for a
    by (induction s arbitrary: a) auto
  then show ?thesis by (simp add: append_json_string_def json_quoted_def)
qed

abbreviation jcs_member :: "string \<times> json \<Rightarrow> string" where
  "jcs_member e \<equiv> json_quoted (fst e) @ '':'' @ jcs (snd e)"

definition comma_before :: "nat \<Rightarrow> 'a list \<Rightarrow> string" where
  "comma_before i vs = (if i > 0 \<and> vs \<noteq> [] then '','' else [])"

lemma commas_Cons: "commas (s # ss) = s @ comma_before 1 ss @ commas ss"
  by (cases ss) (auto simp: comma_before_def)

lemma append_jcs_spec:
  "append_jcs out v = (if has_float v then tvc_err InvalidCanonicalJson else Ok (out @ jcs v))"
  "append_items out i vs =
     (if list_ex has_float vs then tvc_err InvalidCanonicalJson
      else Ok (out @ comma_before i vs @ commas (map jcs vs)))"
  "append_members out i es =
     (if list_ex (\<lambda>e. has_float (snd e)) es then tvc_err InvalidCanonicalJson
      else Ok (out @ comma_before i es @ commas (map jcs_member es)))"
proof (induction out v and out i vs and out i es rule: append_jcs_append_items_append_members.induct)
  case (6 out m)
  then show ?case by (simp add: comma_before_def list_ex_iff)
qed (auto simp: comma_before_def commas_Cons)

section \<open>Reading a canonical text back\<close>

fun wf_number :: "number \<Rightarrow> bool" where
  "wf_number (NegInt w) = (w <s 0)"
| "wf_number _ = True"

fun wf_json :: "json \<Rightarrow> bool" where
  "wf_json (JNumber n) = wf_number n"
| "wf_json (JArray vs) = list_all wf_json vs"
| "wf_json (JObject m) = (bt_sorted m \<and> list_all (\<lambda>e. wf_json (snd e)) m)"
| "wf_json _ = True"

text \<open>A text that a number cannot run into.\<close>

definition stops :: "string \<Rightarrow> bool" where
  "stops r \<longleftrightarrow> (case r of [] \<Rightarrow> True | c # _ \<Rightarrow> \<not> is_ascii_digit c)"

lemma digits_stop:
  assumes "list_all is_ascii_digit a" "list_all is_ascii_digit b" "stops r" "stops s"
    and "a @ r = b @ s"
  shows "a = b \<and> r = s"
proof -
  have "takeWhile is_ascii_digit (x @ t) = x" if "list_all is_ascii_digit x" "stops t" for x t
    using that by (induction x) (auto simp: stops_def split: list.splits)
  then have "a = b" using assms by metis
  with assms(5) show ?thesis by simp
qed

text \<open>One escaped character, read back.\<close>

fun unescape :: "string \<Rightarrow> char \<times> string" where
  "unescape (c # s) =
     (if c \<noteq> CHR 0x5C then (c, s)
      else case s of
        CHR 0x22 # r \<Rightarrow> (CHR 0x22, r)
      | CHR 0x5C # r \<Rightarrow> (CHR 0x5C, r)
      | CHR ''b'' # r \<Rightarrow> (char_of (8 :: nat), r)
      | CHR ''f'' # r \<Rightarrow> (char_of (12 :: nat), r)
      | CHR ''n'' # r \<Rightarrow> (char_of (10 :: nat), r)
      | CHR ''r'' # r \<Rightarrow> (char_of (13 :: nat), r)
      | CHR ''t'' # r \<Rightarrow> (char_of (9 :: nat), r)
      | CHR ''u'' # _ # _ # h # l # r \<Rightarrow>
          (char_of (16 * hex_digit_value h + hex_digit_value l), r)
      | _ \<Rightarrow> (c, s))"
| "unescape [] = (CHR 0x00, [])"

lemma char_of_ascii: "char_of (ascii c) = c"
  by (simp add: ascii_def)

lemma ascii_eqI: "ascii c = n \<Longrightarrow> c = char_of n"
  by (auto simp: char_of_ascii)

lemma unescape_escape: "unescape (json_escape c @ r) = (c, r)"
proof (cases "ascii c < 32 \<or> c = CHR 0x22 \<or> c = CHR 0x5C")
  case True
  then show ?thesis
    using ascii_less_256 [of c]
    by (auto simp: json_escape_def hex_digit_value_digit char_of_ascii ascii_def [of "CHR 0x22"]
        ascii_def [of "CHR 0x5C"] dest: ascii_eqI)
next
  case False
  then have "ascii c \<noteq> 34" "ascii c \<noteq> 92"
    using ascii_inject [of c "CHR 0x22"] ascii_inject [of c "CHR 0x5C"]
    by (auto simp: ascii_def)
  with False show ?thesis by (simp add: json_escape_def)
qed

lemma json_escape_head: "\<exists>d e. json_escape c = d # e \<and> d \<noteq> CHR 0x22"
proof (cases "ascii c = 34")
  case False
  then have "c \<noteq> CHR 0x22" by (auto simp: ascii_def)
  then show ?thesis by (simp add: json_escape_def)
qed (simp add: json_escape_def)

lemma escaped_quote_inject:
  "concat (map json_escape s) @ CHR 0x22 # r = concat (map json_escape t) @ CHR 0x22 # r' \<Longrightarrow>
     s = t \<and> r = r'"
proof (induction s arbitrary: t)
  case Nil
  show ?case
  proof (cases t)
    case (Cons d t')
    obtain x e where "json_escape d = x # e" "x \<noteq> CHR 0x22" using json_escape_head by blast
    with Nil Cons show ?thesis by simp
  qed (use Nil in simp)
next
  case (Cons c s)
  show ?case
  proof (cases t)
    case Nil
    obtain x e where "json_escape c = x # e" "x \<noteq> CHR 0x22" using json_escape_head by blast
    with Cons.prems Nil show ?thesis by simp
  next
    case (Cons d t')
    with Cons.prems have eq: "json_escape c @ concat (map json_escape s) @ CHR 0x22 # r =
        json_escape d @ concat (map json_escape t') @ CHR 0x22 # r'" by simp
    then have "c = d \<and> concat (map json_escape s) @ CHR 0x22 # r =
        concat (map json_escape t') @ CHR 0x22 # r'"
      by (metis prod.inject unescape_escape)
    with Cons.IH Cons show ?thesis by blast
  qed
qed

lemma json_quoted_inject: "json_quoted s @ r = json_quoted t @ r' \<Longrightarrow> s = t \<and> r = r'"
  by (rule escaped_quote_inject) (simp add: json_quoted_def quote_def)

lemma json_quoted_head: "\<exists>e. json_quoted s = CHR 0x22 # e"
  by (simp add: json_quoted_def quote_def)

lemma number_to_string_inject:
  assumes "wf_number m" "wf_number n" "\<not> is_f64 m" "\<not> is_f64 n" "stops r" "stops r'"
    and "number_to_string m @ r = number_to_string n @ r'"
  shows "m = n \<and> r = r'"
proof -
  have minus: "hd (decimal k) \<noteq> CHR ''-''" for k
    using decimal_digits [of k] decimal_not_Nil [of k]
    by (cases "decimal k") (auto simp: is_ascii_digit_def ascii_def)
  have heads: "decimal k @ a \<noteq> CHR ''-'' # b" for k a b
    using minus [of k] decimal_not_Nil [of k] by (cases "decimal k") auto
  have digits: "decimal i @ r = decimal j @ r' \<Longrightarrow> i = j \<and> r = r'" for i j
    using digits_stop [of "decimal i" "decimal j" r r'] assms(5,6) by simp
  have sints: "nat (- sint a) = nat (- sint b) \<Longrightarrow> a <s 0 \<Longrightarrow> b <s 0 \<Longrightarrow> a = b" for a b :: u64
    by (simp add: word_sless_alt eq_nat_nat_iff signed_word_eqI)
  show ?thesis
    using assms heads heads [symmetric]
    by (cases m; cases n) (auto dest!: digits sints simp flip: word_unat_eq_iff)
qed

text \<open>The first character of a canonical text tells the kind of value.\<close>

fun jcs_start :: "json \<Rightarrow> char \<Rightarrow> bool" where
  "jcs_start JNull c \<longleftrightarrow> c = CHR ''n''"
| "jcs_start (JBool b) c \<longleftrightarrow> c = (if b then CHR ''t'' else CHR ''f'')"
| "jcs_start (JNumber n) c \<longleftrightarrow> c = CHR ''-'' \<or> is_ascii_digit c"
| "jcs_start (JString s) c \<longleftrightarrow> c = CHR 0x22"
| "jcs_start (JArray vs) c \<longleftrightarrow> c = CHR ''[''"
| "jcs_start (JObject m) c \<longleftrightarrow> c = CHR ''{''"

lemma decimal_head: "\<exists>c e. decimal n = c # e \<and> is_ascii_digit c"
  using decimal_digits [of n] decimal_not_Nil [of n] by (cases "decimal n") auto

lemma jcs_head: "\<not> has_float v \<Longrightarrow> \<exists>c e. jcs v = c # e \<and> jcs_start v c"
proof (cases v)
  case (JNumber n)
  then show "\<not> has_float v \<Longrightarrow> ?thesis"
    by (cases n) (auto, (meson decimal_head)+)
qed (simp_all add: json_quoted_head)

lemma jcs_start_not: "jcs_start v c \<Longrightarrow> c \<noteq> CHR '']''"
  by (cases v) (auto simp: is_ascii_digit_def ascii_def)

text \<open>A list between brackets, when each of its elements reads back in one way.\<close>

lemma commas_inject:
  assumes read: "\<And>x y r s. x \<in> set xs \<Longrightarrow> y \<in> set ys \<Longrightarrow> f x @ r = f y @ s \<Longrightarrow> stops r \<Longrightarrow> stops s \<Longrightarrow>
      x = y \<and> r = s"
    and start: "\<And>x. x \<in> set xs \<union> set ys \<Longrightarrow> \<exists>c e. f x = c # e \<and> c \<noteq> close"
    and close: "close \<noteq> CHR '',''" "\<not> is_ascii_digit close"
    and eq: "commas (map f xs) @ close # r = commas (map f ys) @ close # r'"
  shows "xs = ys \<and> r = r'"
  using read start eq
proof (induction xs arbitrary: ys)
  case Nil
  have "ys = []"
  proof (rule ccontr)
    assume "ys \<noteq> []"
    then obtain y ys' where "ys = y # ys'" by (cases ys) auto
    moreover from this obtain c e where "f y = c # e" "c \<noteq> close"
      using Nil.prems(2) [of y] by auto
    ultimately show False using Nil.prems(3) by (simp add: commas_Cons)
  qed
  with Nil show ?case by simp
next
  case (Cons x xs)
  have stop: "stops (comma_before (Suc 0) zs @ commas (map f zs) @ close # q)" for zs q
    using close by (cases zs) (auto simp: stops_def comma_before_def is_ascii_digit_def ascii_def)
  obtain cx ex where x: "f x = cx # ex" "cx \<noteq> close"
    using Cons.prems(2) [of x] by auto
  obtain y ys' where ys: "ys = y # ys'" using Cons.prems(3) x by (cases ys) (auto simp: commas_Cons)
  have eq: "f x @ comma_before (Suc 0) xs @ commas (map f xs) @ close # r =
      f y @ comma_before (Suc 0) ys' @ commas (map f ys') @ close # r'"
    using Cons.prems(3) by (simp add: ys commas_Cons comma_before_def)
  then have "x = y" and rest: "comma_before (Suc 0) xs @ commas (map f xs) @ close # r =
      comma_before (Suc 0) ys' @ commas (map f ys') @ close # r'"
    using Cons.prems(1) [of x y, OF _ _ eq stop stop] by (auto simp: ys)
  have "commas (map f xs) @ close # r = commas (map f ys') @ close # r'"
    using rest close(1) by (cases xs; cases ys') (auto simp: comma_before_def)
  then have "xs = ys' \<and> r = r'"
    using Cons.prems(1,2) by (intro Cons.IH) (auto simp: ys)
  with \<open>x = y\<close> ys show ?case by simp
qed

lemma jcs_inject_aux:
  "wf_json v \<Longrightarrow> wf_json w \<Longrightarrow> \<not> has_float v \<Longrightarrow> \<not> has_float w \<Longrightarrow> stops r \<Longrightarrow> stops r' \<Longrightarrow>
     jcs v @ r = jcs w @ r' \<Longrightarrow> v = w \<and> r = r'"
proof (induction v arbitrary: w r r')
  case (JNumber n)
  obtain c e where "jcs w = c # e" "jcs_start w c" using jcs_head JNumber.prems(4) by blast
  moreover obtain c' e' where "jcs (JNumber n) = c' # e'" "jcs_start (JNumber n) c'"
    using jcs_head JNumber.prems(3) by blast
  ultimately obtain m where "w = JNumber m"
    using JNumber.prems(7) by (cases w) (auto simp: is_ascii_digit_def ascii_def split: if_splits)
  with JNumber.prems number_to_string_inject [of n m r r'] show ?case by simp
next
  case (JString s)
  obtain c e where "jcs w = c # e" "jcs_start w c" using jcs_head JString.prems(4) by blast
  moreover obtain e' where "json_quoted s = CHR 0x22 # e'" using json_quoted_head by blast
  ultimately obtain u where "w = JString u"
    using JString.prems(7) by (cases w) (auto simp: is_ascii_digit_def ascii_def split: if_splits)
  with JString.prems json_quoted_inject [of s r u r'] show ?case by simp
next
  case (JArray vs)
  obtain c e where "jcs w = c # e" "jcs_start w c" using jcs_head JArray.prems(4) by blast
  then obtain ws where w: "w = JArray ws"
    using JArray.prems(7) by (cases w) (auto simp: is_ascii_digit_def ascii_def split: if_splits)
  have "vs = ws \<and> r = r'"
  proof (rule commas_inject [where f = jcs and close = "CHR '']''"])
    show "x = y \<and> s = s'" if "x \<in> set vs" "y \<in> set ws" "jcs x @ s = jcs y @ s'" "stops s" "stops s'"
      for x y s s'
      using that JArray.IH [of x y s s'] JArray.prems w by (auto simp: list_all_iff list_ex_iff)
    show "\<exists>c e. jcs x = c # e \<and> c \<noteq> CHR '']''" if "x \<in> set vs \<union> set ws" for x
      using that jcs_head [of x] jcs_start_not [of x] JArray.prems w by (auto simp: list_ex_iff)
  qed (use JArray.prems w in \<open>auto simp: is_ascii_digit_def ascii_def\<close>)
  with w show ?case by simp
next
  case (JObject m)
  obtain c e where "jcs w = c # e" "jcs_start w c" using jcs_head JObject.prems(4) by blast
  then obtain n where w: "w = JObject n"
    using JObject.prems(7) by (cases w) (auto simp: is_ascii_digit_def ascii_def split: if_splits)
  let ?sort = "sort_key (\<lambda>e :: string \<times> json. utf16_units (fst e))"
  have "?sort m = ?sort n \<and> r = r'"
  proof (rule commas_inject [where f = jcs_member and close = "CHR ''}''"])
    show "x = y \<and> s = s'"
      if "x \<in> set (?sort m)" "y \<in> set (?sort n)" "jcs_member x @ s = jcs_member y @ s'"
        "stops s" "stops s'" for x y s s'
    proof -
      have key: "fst x = fst y" and "jcs (snd x) @ s = jcs (snd y) @ s'"
        using that(3) json_quoted_inject [of "fst x" "'':'' @ jcs (snd x) @ s" "fst y"] by auto
      moreover have "snd x \<in> Basic_BNFs.snds x" by (cases x) auto
      ultimately have "snd x = snd y \<and> s = s'"
        using that JObject.prems w by (intro JObject.IH [of x]) (auto simp: list_all_iff list_ex_iff)
      with key show ?thesis by (simp add: prod_eq_iff)
    qed
    show "\<exists>c e. jcs_member x = c # e \<and> c \<noteq> CHR ''}''" for x
      using json_quoted_head [of "fst x"] by auto
  qed (use JObject.prems w in \<open>auto simp: is_ascii_digit_def ascii_def\<close>)
  then have "set m = set n" "r = r'" by (metis set_sort, blast)
  with JObject.prems w bt_sorted_set_eq [of m n] show ?case by simp
next
  case JNull
  obtain c e where "jcs w = c # e" "jcs_start w c" using jcs_head JNull.prems(4) by blast
  with JNull.prems(7) show ?case
    by (cases w) (auto simp: is_ascii_digit_def ascii_def split: if_splits)
next
  case (JBool b)
  obtain c e where "jcs w = c # e" "jcs_start w c" using jcs_head JBool.prems(4) by blast
  with JBool.prems(7) show ?case
    by (cases w) (auto simp: is_ascii_digit_def ascii_def split: if_splits)
qed

lemma canonicalize_json_value_spec:
  "canonicalize_json_value v =
     (if has_float v then tvc_err InvalidCanonicalJson else Ok (jcs v))"
  by (simp add: canonicalize_json_value_def append_jcs_spec)

lemma canonicalize_json_value_inject:
  assumes "wf_json v" "wf_json w"
    and "canonicalize_json_value v = Ok s" "canonicalize_json_value w = Ok s"
  shows "v = w"
  using assms jcs_inject_aux [of v w "[]" "[]"]
  by (auto simp: canonicalize_json_value_spec stops_def split: if_splits)

section \<open>What the strict reader accepts\<close>

text \<open>A text without a syntax error or a float out of range, and one without a repeated key.\<close>

fun raw_clean :: "raw_json \<Rightarrow> bool" where
  "raw_clean (RF64 w) = is_finite w"
| "raw_clean (RArray rs e) = (e = None \<and> list_all raw_clean rs)"
| "raw_clean (RObject es e) = (e = None \<and> list_all (\<lambda>e. raw_clean (snd e)) es)"
| "raw_clean (RError m) = False"
| "raw_clean _ = True"

fun raw_unique :: "raw_json \<Rightarrow> bool" where
  "raw_unique (RArray rs e) = list_all raw_unique rs"
| "raw_unique (RObject es e) = (distinct (map fst es) \<and> list_all (\<lambda>e. raw_unique (snd e)) es)"
| "raw_unique _ = True"

lemma wf_json_value_of_strict_object:
  "wf_json (value_of_strict (StrictObject m)) \<longleftrightarrow>
     bt_sorted m \<and> list_all (\<lambda>e. wf_json (value_of_strict (snd e))) m"
  by (auto simp: list_all_iff bt_sorted_def comp_def split_def)

lemma list_all_bt_insert:
  "list_all P m \<Longrightarrow> P (k, v) \<Longrightarrow> list_all P (bt_insert k v m)"
  by (induction m) auto

lemma wf_number_of_i64 [simp]: "wf_number (number_of_i64 w)"
  by (simp add: number_of_i64_def)

lemma strict_visit_wf:
  "strict_visit C r = Ok v \<Longrightarrow> wf_json (value_of_strict v)"
  "strict_seq C out rs e = Ok vs \<Longrightarrow> list_all (\<lambda>v. wf_json (value_of_strict v)) out \<Longrightarrow>
     list_all (\<lambda>v. wf_json (value_of_strict v)) vs"
  "strict_map C m es e = Ok m' \<Longrightarrow> wf_json (value_of_strict (StrictObject m)) \<Longrightarrow>
     wf_json (value_of_strict (StrictObject m'))"
proof (induction C r and C out rs e and C m es e arbitrary: v and vs and m'
    rule: strict_visit_strict_seq_strict_map.induct)
  case (15 C out k r es e)
  then show ?case
    unfolding wf_json_value_of_strict_object
    by (auto simp: result_simps bt_sorted_insert list_all_bt_insert split: if_splits)
qed (auto simp: result_simps list_all_iff wf_json_value_of_strict_object
    simp del: value_of_strict.simps(6) split: if_splits)

text \<open>The reader accepts exactly the clean texts without a repeated key.\<close>

lemma strict_visit_accepts:
  "is_ok (strict_visit C r) \<longleftrightarrow> raw_clean r \<and> raw_unique r"
  "is_ok (strict_seq C out rs e) \<longleftrightarrow> e = None \<and> list_all (\<lambda>r. raw_clean r \<and> raw_unique r) rs"
  "bt_sorted m \<Longrightarrow> is_ok (strict_map C m es e) \<longleftrightarrow>
     e = None \<and> list_all (\<lambda>e. raw_clean (snd e) \<and> raw_unique (snd e)) es \<and>
     distinct (map fst es) \<and> set (map fst es) \<inter> dom (map_of m) = {}"
proof (induction C r and C out rs e and C m es e rule: strict_visit_strict_seq_strict_map.induct)
  case (7 C items e)
  then show ?case by (cases "strict_seq C [] items e") (auto simp: list_all_iff)
next
  case (8 C es e)
  then show ?case by (cases "strict_map C [] es e") (auto simp: list_all_iff)
next
  case (12 C out r rs e)
  then show ?case by (cases "strict_visit C r") auto
next
  case (15 C m k r es e)
  show ?case
  proof (cases "strict_visit C r")
    case (Inr v)
    then show ?thesis
      using 15 by (auto simp: bt_sorted_insert map_of_bt_insert simp del: fun_upd_apply)
  qed (use 15 in auto)
qed (auto simp: is_ok_iff)

text \<open>A clean text fails only for its repeated key, and is told so.\<close>

lemma strict_visit_duplicate:
  "raw_clean r \<Longrightarrow> strict_visit C r = Err msg \<Longrightarrow> msg = serde_custom C (as_str DuplicateJsonField)"
  "list_all raw_clean rs \<Longrightarrow> e = None \<Longrightarrow> strict_seq C out rs e = Err msg \<Longrightarrow>
     msg = serde_custom C (as_str DuplicateJsonField)"
  "list_all (\<lambda>e. raw_clean (snd e)) es \<Longrightarrow> e = None \<Longrightarrow> strict_map C m es e = Err msg \<Longrightarrow>
     msg = serde_custom C (as_str DuplicateJsonField)"
  by (induction C r and C out rs e and C m es e rule: strict_visit_strict_seq_strict_map.induct)
    (auto simp: result_simps split: if_splits)

lemma classify_duplicate:
  "serde_laws C \<Longrightarrow> classify_json_error (serde_custom C (as_str DuplicateJsonField)) = DuplicateJsonField"
  unfolding classify_json_error_def str_contains_iff serde_laws_def by metis

lemma parse_strict_value_wf: "parse_strict_value C s = Ok v \<Longrightarrow> wf_json v"
  by (auto simp: parse_strict_value_def result_simps dest: strict_visit_wf(1)
      split: prod.splits if_splits)

section \<open>Properties\<close>

text \<open>
  Canonical text identifies its value: two JSON texts that canonicalise to the same text
  were parsed as the same value, so a digest or a signature over canonical text commits to
  every field of the value.
\<close>

lemma canonical_text_identifies_value:
  assumes "canonicalize_json_str C s = Ok c" "canonicalize_json_str C t = Ok c"
  shows "parse_strict_value C s = parse_strict_value C t"
proof -
  obtain v w where v: "parse_strict_value C s = Ok v" "canonicalize_json_value v = Ok c"
    and w: "parse_strict_value C t = Ok w" "canonicalize_json_value w = Ok c"
    using assms by (auto simp: canonicalize_json_str_def result_simps)
  have "v = w"
    using canonicalize_json_value_inject [OF _ _ v(2) w(2)] parse_strict_value_wf v(1) w(1) by blast
  with v w show ?thesis by simp
qed

definition demo_json :: crates where
  "demo_json = demo_crates
     \<lparr> serde_text := (\<lambda>s.
         if s = ''[7]'' \<or> s = ''[ 7 ]'' then (RArray [RU64 7] None, True)
         else (RObject [(''a'', RNull), (''a'', RNull)] None, True)) \<rparr>"

lemma canonical_text_identifies_value_witness:
  "parse_strict_value demo_json ''[7]'' = parse_strict_value demo_json ''[ 7 ]''"
  by (rule canonical_text_identifies_value [where c = "''[7]''"])
    (simp_all add: canonicalize_json_str_def parse_strict_value_def demo_json_def
      canonicalize_json_value_spec commas_Cons comma_before_def decimal.simps digit_def char_of_def bit_0)

text \<open>
  Strict parsing takes no text with a repeated object key, at any depth, and of the texts
  without a syntax error it reports \<open>DuplicateJsonField\<close> exactly for those; the others it
  accepts when nothing follows the value.
\<close>

lemma strict_json_duplicates:
  assumes "serde_laws C" "serde_text C s = (r, at_end)" "raw_clean r"
  shows "(if raw_unique r then is_ok (parse_strict_value C s) = at_end
          else parse_strict_json C from_value s = tvc_err DuplicateJsonField)"
proof (cases "raw_unique r")
  case True
  then obtain v where "strict_visit C r = Ok v"
    using strict_visit_accepts(1) [of C r] assms(3) by (auto simp: is_ok_iff)
  with True assms(2) show ?thesis by (simp add: parse_strict_value_def)
next
  case False
  then obtain m where m: "strict_visit C r = Err m"
    using strict_visit_accepts(1) [of C r] by (cases "strict_visit C r") auto
  with False assms strict_visit_duplicate(1) [OF assms(3) m] show ?thesis
    by (simp add: parse_strict_json_def parse_strict_value_def classify_duplicate del: as_str.simps)
qed

lemma strict_json_duplicates_witness:
  "parse_strict_json demo_json Ok ''{}'' = tvc_err DuplicateJsonField"
  using strict_json_duplicates [of demo_json "''{}''" "RObject [(''a'', RNull), (''a'', RNull)] None" True Ok]
    demo_serde_laws
  by (simp add: demo_json_def serde_laws_def del: as_str.simps)

end
