(* ===== verification/Rfc8785.thy ===== *)
theory Rfc8785
  imports Canonical_Json
begin

text \<open>
  RFC 8785 as a specification of its own, beside the writer of \<open>encoding.rs\<close>: \<open>rfc8785 v t\<close> says
  that \<open>t\<close> is the canonical text of \<open>v\<close>, clause by clause of section 3.2 of the RFC. Strings are
  sequences of code points, where the writer goes over the bytes; UTF-16 is given by how units are
  read back, where the writer encodes; a number is any digits that denote it without a leading
  zero; and the members of an object are some rearrangement of them in strictly increasing order
  of their names. None of the functions of \<open>Encoding\<close> occurs in it.

  The RFC is for I-JSON (section 3.1, RFC 7493), which is what \<open>i_json\<close> asks of a value: well-formed
  strings, no name twice, and integers below 2^53, beyond which the ECMAScript numbers that the RFC
  follows are rounded; the protocol sends larger numbers as decimal strings. Floats have no rule
  here, as the writer refuses them.
\<close>

section \<open>Code points, UTF-8 and UTF-16\<close>

definition scalar_value :: "nat \<Rightarrow> bool" where
  "scalar_value c \<longleftrightarrow> c < 0xD800 \<or> 0xE000 \<le> c \<and> c < 0x110000"

text \<open>RFC 3629, section 3.\<close>

definition utf8_char :: "nat \<Rightarrow> string" where
  "utf8_char c = map char_of
     (if c < 0x80 then [c]
      else if c < 0x800 then [0xC0 + c div 64, 0x80 + c mod 64]
      else if c < 0x10000 then [0xE0 + c div 4096, 0x80 + c div 64 mod 64, 0x80 + c mod 64]
      else [0xF0 + c div 262144, 0x80 + c div 4096 mod 64, 0x80 + c div 64 mod 64, 0x80 + c mod 64])"

definition code_points :: "string \<Rightarrow> nat list \<Rightarrow> bool" where
  "code_points s cs \<longleftrightarrow> (\<forall>c \<in> set cs. scalar_value c) \<and> s = concat (map utf8_char cs)"

text \<open>RFC 2781, section 2.2: what a sequence of UTF-16 units stands for.\<close>

inductive utf16_text :: "nat list \<Rightarrow> nat list \<Rightarrow> bool" where
  no_unit: "utf16_text [] []"
| one_unit: "scalar_value c \<Longrightarrow> c < 0x10000 \<Longrightarrow> utf16_text us cs \<Longrightarrow> utf16_text (c # us) (c # cs)"
| surrogates: "0xD800 \<le> h \<Longrightarrow> h < 0xDC00 \<Longrightarrow> 0xDC00 \<le> l \<Longrightarrow> l < 0xE000 \<Longrightarrow> utf16_text us cs \<Longrightarrow>
    utf16_text (h # l # us) ((0x10000 + (h - 0xD800) * 0x400 + (l - 0xDC00)) # cs)"

inductive_simps utf16_text_Nil: "utf16_text us []"
inductive_simps utf16_text_Cons: "utf16_text us (c # cs)"

text \<open>Section 3.2.3: names are compared as arrays of unsigned units.\<close>

definition name_before :: "string \<Rightarrow> string \<Rightarrow> bool" where
  "name_before s t \<longleftrightarrow> (\<exists>cs ds us vs. code_points s cs \<and> code_points t ds \<and>
     utf16_text us cs \<and> utf16_text vs ds \<and> us < vs)"

section \<open>The canonical text\<close>

text \<open>Section 3.2.2.2: strings.\<close>

definition two_character_escapes :: "(nat \<times> char) list" where
  "two_character_escapes =
     [(0x08, CHR ''b''), (0x09, CHR ''t''), (0x0A, CHR ''n''), (0x0C, CHR ''f''), (0x0D, CHR ''r''),
      (0x22, CHR 0x22), (0x5C, CHR 0x5C)]"

definition char_text :: "nat \<Rightarrow> string" where
  "char_text c =
     (case map_of two_character_escapes c of
        Some e \<Rightarrow> [CHR 0x5C, e]
      | None \<Rightarrow> if c < 0x20
          then CHR 0x5C # ''u00'' @ [''0123456789abcdef'' ! (c div 16), ''0123456789abcdef'' ! (c mod 16)]
          else utf8_char c)"

definition string_text :: "string \<Rightarrow> string \<Rightarrow> bool" where
  "string_text s t \<longleftrightarrow> (\<exists>cs. code_points s cs \<and> t = [CHR 0x22] @ concat (map char_text cs) @ [CHR 0x22])"

text \<open>Section 3.2.2.3: numbers; the text of an integer.\<close>

definition digits_text :: "nat \<Rightarrow> string \<Rightarrow> bool" where
  "digits_text n t \<longleftrightarrow> t \<noteq> [] \<and> list_all (\<lambda>c. c \<in> set ''0123456789'') t \<and> (hd t = CHR ''0'' \<longrightarrow> t = ''0'') \<and>
     horner_sum (\<lambda>c. of_char c - 48) 10 (rev t) = n"

definition integer_text :: "int \<Rightarrow> string \<Rightarrow> bool" where
  "integer_text i t \<longleftrightarrow>
     (if i < 0 then \<exists>d. t = CHR ''-'' # d \<and> digits_text (nat (- i)) d else digits_text (nat i) t)"

fun number_value :: "number \<Rightarrow> int option" where
  "number_value (PosInt w) = Some (uint w)"
| "number_value (NegInt w) = Some (sint w)"
| "number_value (Float w) = None"

inductive rfc8785 :: "json \<Rightarrow> string \<Rightarrow> bool" where
  "rfc8785 JNull ''null''"
| "rfc8785 (JBool True) ''true''"
| "rfc8785 (JBool False) ''false''"
| "number_value n = Some i \<Longrightarrow> integer_text i t \<Longrightarrow> rfc8785 (JNumber n) t"
| "string_text s t \<Longrightarrow> rfc8785 (JString s) t"
| "list_all2 rfc8785 vs ts \<Longrightarrow> rfc8785 (JArray vs) (''['' @ commas ts @ '']'')"
| "mset es = mset m \<Longrightarrow> sorted_wrt (\<lambda>a b. name_before (fst a) (fst b)) es \<Longrightarrow>
     list_all2 (\<lambda>e t. \<exists>q w. string_text (fst e) q \<and> rfc8785 (snd e) w \<and> t = q @ '':'' @ w) es ts \<Longrightarrow>
     rfc8785 (JObject m) (''{'' @ commas ts @ ''}'')"
monos list.rel_mono_strong

inductive_simps rfc8785_simps:
  "rfc8785 JNull t" "rfc8785 (JBool b) t" "rfc8785 (JNumber n) t" "rfc8785 (JString s) t"
  "rfc8785 (JArray vs) t" "rfc8785 (JObject m) t"

text \<open>Section 3.1: the values that the RFC is for. The first two demands hold of every value in Rust.\<close>

fun i_json :: "json \<Rightarrow> bool" where
  "i_json (JNumber n) = (case number_value n of Some i \<Rightarrow> \<bar>i\<bar> < 2 ^ 53 | None \<Rightarrow> True)"
| "i_json (JString s) = (\<exists>cs. code_points s cs)"
| "i_json (JArray vs) = list_all i_json vs"
| "i_json (JObject m) =
     (distinct (map fst m) \<and> list_all (\<lambda>e. (\<exists>cs. code_points (fst e) cs) \<and> i_json (snd e)) m)"
| "i_json _ = True"

section \<open>Names\<close>

lemma ascii_char_of [simp]: "n < 256 \<Longrightarrow> ascii (char_of n) = n"
  by (simp add: ascii_def)

lemma scalars_single: "a < 194 \<Longrightarrow> scalars (a # r) = a # scalars r"
  by (cases r rule: scalars.cases) auto

lemma scalars_double: "194 \<le> a \<Longrightarrow> a < 224 \<Longrightarrow> scalars (a # b # r) = ((a - 192) * 64 + (b - 128)) # scalars r"
  by (cases r rule: scalars.cases) auto

lemma scalars_triple:
  "224 \<le> a \<Longrightarrow> a < 240 \<Longrightarrow>
     scalars (a # b # c # r) = ((a - 224) * 4096 + (b - 128) * 64 + (c - 128)) # scalars r"
  by (cases r) auto

lemma sextets:
  fixes c :: nat
  shows "c div 4096 * 4096 + c div 64 mod 64 * 64 + c mod 64 = c"
    "c div 262144 * 262144 + c div 4096 mod 64 * 4096 + c div 64 mod 64 * 64 + c mod 64 = c"
proof -
  have split: "m div 64 * 64 + m mod 64 = m" for m :: nat by simp
  have div: "c div 4096 = c div 64 div 64" "c div 262144 = c div 4096 div 64"
    by (simp_all add: div_mult2_eq [symmetric])
  show one: "c div 4096 * 4096 + c div 64 mod 64 * 64 + c mod 64 = c"
    using split [of c] split [of "c div 64"] unfolding div(1) by linarith
  show "c div 262144 * 262144 + c div 4096 mod 64 * 4096 + c div 64 mod 64 * 64 + c mod 64 = c"
    using one split [of "c div 4096"] unfolding div(2) by linarith
qed

lemma scalars_utf8_char:
  assumes "scalar_value c"
  shows "scalars (map ascii (utf8_char c) @ r) = c # scalars r"
proof -
  have range: "c < 0x110000" using assms by (auto simp: scalar_value_def)
  consider "c < 0x80" | "0x80 \<le> c" "c < 0x800" | "0x800 \<le> c" "c < 0x10000" | "0x10000 \<le> c" by linarith
  then show ?thesis
  proof cases
    case 1
    then show ?thesis by (simp add: utf8_char_def scalars_single)
  next
    case 2
    then have "2 \<le> c div 64" "c div 64 < 32" by linarith+
    with 2 show ?thesis by (simp add: utf8_char_def scalars_double)
  next
    case 3
    then have "c div 4096 < 16" by linarith
    with 3 sextets(1) [of c] show ?thesis by (simp add: utf8_char_def scalars_triple)
  next
    case 4
    then have "c div 262144 < 5" using range by linarith
    with 4 sextets(2) [of c] show ?thesis by (simp add: utf8_char_def)
  qed
qed

lemma scalars_code_points: "code_points s cs \<Longrightarrow> scalars (map ascii s) = cs"
  unfolding code_points_def
proof (induction cs arbitrary: s)
  case (Cons c cs)
  then show ?case by (simp add: scalars_utf8_char)
qed simp

lemma code_points_unique: "code_points s cs \<Longrightarrow> code_points s ds \<Longrightarrow> cs = ds"
  using scalars_code_points by blast

lemma surrogates_iff:
  fixes c h l :: nat
  assumes "\<not> c < 0x10000" "0xD800 \<le> h" "0xDC00 \<le> l" "l < 0xE000"
  shows "c = 0x10000 + (h - 0xD800) * 0x400 + (l - 0xDC00) \<longleftrightarrow>
    h = 0xD800 + (c - 0x10000) div 1024 \<and> l = 0xDC00 + (c - 0x10000) mod 1024"
proof -
  obtain i where i: "h = 0xD800 + i" using assms(2) le_Suc_ex by blast
  obtain j where j: "l = 0xDC00 + j" using assms(3) le_Suc_ex by blast
  obtain d where d: "c = 0x10000 + d" using assms(1) le_Suc_ex [of "0x10000" c] by auto
  have "j < 1024" using assms(4) j by simp
  then have "d = i * 1024 + j \<longleftrightarrow> i = d div 1024 \<and> j = d mod 1024" by auto
  then show ?thesis by (simp add: i j d)
qed

lemma utf16_text_surrogates:
  assumes "\<not> c < 0x10000" "c < 0x110000"
  shows "utf16_text us (c # cs) \<longleftrightarrow> (\<exists>vs. utf16_text vs cs \<and>
    us = (0xD800 + (c - 0x10000) div 1024) # (0xDC00 + (c - 0x10000) mod 1024) # vs)" (is "?l \<longleftrightarrow> ?r")
proof
  assume ?l
  then show ?r
  proof (cases rule: utf16_text.cases)
    case (surrogates h l us')
    then show ?thesis using surrogates_iff [of c h l] assms(1) by blast
  qed (use assms(1) in simp)
next
  assume ?r
  moreover have "(c - 0x10000) div 1024 < 1024" "(c - 0x10000) mod 1024 < 1024"
    using assms by (simp_all add: less_mult_imp_div_less)
  ultimately show ?l
    using surrogates_iff [of c "0xD800 + (c - 0x10000) div 1024" "0xDC00 + (c - 0x10000) mod 1024"]
      surrogates [of "0xD800 + (c - 0x10000) div 1024" "0xDC00 + (c - 0x10000) mod 1024"] assms(1) by auto
qed

lemma unat_unit: "n < 0x10000 \<Longrightarrow> unat (word_of_nat n :: 16 word) = n"
  by (simp add: unat_of_nat)

lemma utf16_encode_units:
  assumes "c < 0x110000"
  shows "map unat (utf16_encode c) =
    (if c < 0x10000 then [c] else [0xD800 + (c - 0x10000) div 1024, 0xDC00 + (c - 0x10000) mod 1024])"
proof -
  have "0xD800 + (c - 0x10000) div 1024 < 0x10000" using assms by (simp add: less_mult_imp_div_less)
  moreover have "0xDC00 + (c - 0x10000) mod 1024 < 0x10000"
    using mod_less_divisor [of 1024 "c - 0x10000"] by linarith
  ultimately show ?thesis
    by (cases "c < 0x10000") (simp_all only: utf16_encode_def if_True if_False list.map unat_unit simp_thms)
qed

lemma utf16_text_iff:
  assumes "\<forall>c \<in> set cs. scalar_value c"
  shows "utf16_text us cs \<longleftrightarrow> us = map unat (concat (map utf16_encode cs))"
  using assms
proof (induction cs arbitrary: us)
  case Nil
  then show ?case by (simp add: utf16_text_Nil)
next
  case (Cons c cs)
  have c: "scalar_value c" "c < 0x110000" using Cons.prems by (auto simp: scalar_value_def)
  have IH: "utf16_text vs cs \<longleftrightarrow> vs = map unat (concat (map utf16_encode cs))" for vs
    using Cons by simp
  have units: "map unat (concat (map utf16_encode (c # cs))) =
      map unat (utf16_encode c) @ map unat (concat (map utf16_encode cs))" by simp
  show ?case
  proof (cases "c < 0x10000")
    case True
    then have "utf16_text us (c # cs) \<longleftrightarrow> (\<exists>vs. utf16_text vs cs \<and> us = c # vs)"
      using c unfolding utf16_text_Cons by auto
    with True show ?thesis unfolding units IH utf16_encode_units [OF c(2)] by simp
  next
    case False
    then show ?thesis
      unfolding units utf16_encode_units [OF c(2)] utf16_text_surrogates [OF False c(2)] IH by simp
  qed
qed

lemma utf16_text_inject: "utf16_text us cs \<Longrightarrow> utf16_text us ds \<Longrightarrow> cs = ds"
proof (induction arbitrary: ds rule: utf16_text.induct)
  case no_unit
  then show ?case by (auto elim: utf16_text.cases)
next
  case (one_unit c us cs)
  then have "\<not> (0xD800 \<le> c \<and> c < 0xDC00)" by (auto simp: scalar_value_def)
  with one_unit.prems obtain ds' where "ds = c # ds'" "utf16_text us ds'"
    by (cases rule: utf16_text.cases) blast+
  with one_unit.IH show ?case by blast
next
  case (surrogates h l us cs)
  then have "\<not> scalar_value h" by (auto simp: scalar_value_def)
  with surrogates.prems obtain ds' where
    "ds = (0x10000 + (h - 0xD800) * 0x400 + (l - 0xDC00)) # ds'" "utf16_text us ds'"
    by (cases rule: utf16_text.cases) blast+
  with surrogates.IH show ?case by blast
qed

lemma utf16_units_text:
  assumes "code_points s cs"
  shows "utf16_text us cs \<longleftrightarrow> us = map unat (utf16_units s)"
proof -
  have "\<forall>c \<in> set cs. scalar_value c" using assms by (simp add: code_points_def)
  then show ?thesis
    by (simp only: utf16_text_iff utf16_units_def scalars_code_points [OF assms])
qed

lemma utf16_units_inject:
  assumes "code_points s cs" "code_points t ds" "utf16_units s = utf16_units t"
  shows "s = t"
proof -
  have "utf16_text (map unat (utf16_units s)) cs" "utf16_text (map unat (utf16_units s)) ds"
    using utf16_units_text assms by simp_all
  then have "cs = ds" by (rule utf16_text_inject)
  with assms show ?thesis by (simp add: code_points_def)
qed

lemma map_unat_less: "map unat us < map unat vs \<longleftrightarrow> us < (vs :: 'a::len word list)"
proof (induction us arbitrary: vs)
  case Nil
  then show ?case by (cases vs) simp_all
next
  case (Cons u us)
  then show ?case by (cases vs) (simp_all add: word_less_nat_alt word_unat_eq_iff)
qed

lemma name_before_iff:
  assumes "code_points s cs" "code_points t ds"
  shows "name_before s t \<longleftrightarrow> utf16_units s < utf16_units t"
proof
  assume "name_before s t"
  then obtain cs' ds' us vs where "code_points s cs'" "code_points t ds'"
    "utf16_text us cs'" "utf16_text vs ds'" "us < vs" unfolding name_before_def by blast
  then have "map unat (utf16_units s) < map unat (utf16_units t)"
    using utf16_units_text [of s cs' us] utf16_units_text [of t ds' vs] by simp
  then show "utf16_units s < utf16_units t" by (simp only: map_unat_less)
next
  assume "utf16_units s < utf16_units t"
  then have "map unat (utf16_units s) < map unat (utf16_units t)" by (simp only: map_unat_less)
  then show "name_before s t"
    using assms utf16_units_text [OF assms(1)] utf16_units_text [OF assms(2)] unfolding name_before_def by blast
qed

section \<open>Strings and numbers\<close>

lemma json_escape_high: "128 \<le> ascii c \<Longrightarrow> json_escape c = [c]"
  by (simp add: json_escape_def)

lemma utf8_char_high: "128 \<le> c \<Longrightarrow> scalar_value c \<Longrightarrow> \<forall>x \<in> set (utf8_char c). 128 \<le> ascii x"
  by (auto simp: utf8_char_def scalar_value_def less_mult_imp_div_less)

lemma hex_digit_table: "n < 16 \<Longrightarrow> hex_digit n = ''0123456789abcdef'' ! n"
proof -
  have table: "map hex_digit [0..<16] = ''0123456789abcdef''"
    by (simp add: upt_rec hex_digit_def char_of_def bit_0)
  assume "n < 16"
  then have "map hex_digit [0..<16] ! n = hex_digit n" by simp
  then show ?thesis unfolding table by (rule sym)
qed

lemma control_char_text: "c < 32 \<Longrightarrow> json_escape (char_of c) = char_text c"
proof -
  assume "c < 32"
  have escape: "json_escape (char_of c) =
      (if c = 8 then CHR 0x5C # ''b'' else if c = 12 then CHR 0x5C # ''f'' else if c = 10 then CHR 0x5C # ''n''
       else if c = 13 then CHR 0x5C # ''r'' else if c = 9 then CHR 0x5C # ''t''
       else CHR 0x5C # ''u00'' @ [hex_digit (c div 16), hex_digit (c mod 16)])"
    using \<open>c < 32\<close> by (simp add: json_escape_def)
  have "c div 16 < 16" using \<open>c < 32\<close> by simp
  then show ?thesis
    using \<open>c < 32\<close> unfolding escape char_text_def two_character_escapes_def
    by (simp del: nth_Cons_numeral add: hex_digit_table)
qed

lemma json_escape_char_text:
  assumes "scalar_value c"
  shows "concat (map json_escape (utf8_char c)) = char_text c"
proof -
  consider "c < 32" | "c = 34" | "c = 92" | "32 \<le> c" "c < 128" "c \<noteq> 34" "c \<noteq> 92" | "128 \<le> c" by linarith
  then show ?thesis
  proof cases
    case 1
    then show ?thesis by (simp add: utf8_char_def control_char_text)
  next
    case 5
    then have "concat (map json_escape (utf8_char c)) = concat (map (\<lambda>x. [x]) (utf8_char c))"
      using utf8_char_high [OF 5 assms] by (intro arg_cong [where f = concat] map_cong refl) (simp add: json_escape_high)
    then show ?thesis using 5 by (simp add: char_text_def two_character_escapes_def)
  qed (simp_all add: json_escape_def char_text_def two_character_escapes_def utf8_char_def)
qed

lemma string_text_iff:
  assumes "\<exists>cs. code_points s cs"
  shows "string_text s t \<longleftrightarrow> t = json_quoted s"
proof -
  have eq: "concat (map char_text cs) = concat (map json_escape s)" if "code_points s cs" for cs
    using that unfolding code_points_def
  proof (induction cs arbitrary: s)
    case (Cons c cs)
    then show ?case using json_escape_char_text [of c] by simp
  qed simp
  then show ?thesis
    using assms unfolding string_text_def json_quoted_def quote_def by metis
qed

lemma digit_chars: "c \<in> set ''0123456789'' \<longleftrightarrow> is_ascii_digit c"
proof -
  have table: "map char_of [48..<58 :: nat] = ''0123456789''"
    by (simp add: upt_rec char_of_def bit_0)
  have "c \<in> char_of ` {48..<58 :: nat} \<longleftrightarrow> ascii c \<in> {48..<58}"
  proof
    assume "ascii c \<in> {48..<58}"
    then show "c \<in> char_of ` {48..<58 :: nat}" by (rule rev_image_eqI) (simp add: char_of_ascii)
  qed auto
  then have "c \<in> set (map char_of [48..<58 :: nat]) \<longleftrightarrow> ascii c \<in> {48..<58}" by (simp only: set_map set_upt)
  moreover have "ascii c \<in> {48..<58} \<longleftrightarrow> is_ascii_digit c" by (auto simp: is_ascii_digit_def)
  ultimately show ?thesis unfolding table by (rule trans)
qed

lemma horner_decimal_value: "horner_sum (\<lambda>c. of_char c - 48) 10 (rev t) = decimal_value t"
  by (induction t rule: rev_induct) (simp_all add: digit_value_def ascii_def)

lemma digits_text_iff: "digits_text n t \<longleftrightarrow> t = decimal n"
proof -
  have unfold: "digits_text n t \<longleftrightarrow> t \<noteq> [] \<and> list_all is_ascii_digit t \<and>
      (hd t = CHR ''0'' \<longrightarrow> t = ''0'') \<and> decimal_value t = n"
    by (simp only: digits_text_def digit_chars horner_decimal_value)
  have "\<not> (length t > 1 \<and> hd t = CHR ''0'')" if "hd t = CHR ''0'' \<longrightarrow> t = ''0''"
    using that by auto
  moreover have "decimal 0 = ''0''" by (simp add: decimal.simps digit_def char_of_def bit_0)
  ultimately show ?thesis
    unfolding unfold using decimal_decimal_value [of t] decimal_no_leading_zero [of n]
    by (metis decimal_digits decimal_not_Nil decimal_value_decimal)
qed

lemma nat_sint: "\<not> sint w < 0 \<Longrightarrow> nat (sint w) = unat w"
proof -
  assume "\<not> sint w < 0"
  then have "take_bit LENGTH('a) (sint (w :: 'a::len word)) = sint w"
    using sint_lt [of w] by (intro take_bit_int_eq_self)
      (auto intro: less_le_trans [OF _ power_increasing])
  then show ?thesis by (simp add: unat_eq_nat_uint uint_sint)
qed

lemma integer_text_iff:
  "number_value n = Some i \<Longrightarrow> integer_text i t \<longleftrightarrow> t = number_to_string n"
  by (cases n) (auto simp: integer_text_def digits_text_iff word_sless_alt nat_sint)

section \<open>The writer against the specification\<close>

lemma list_all2_function:
  assumes "\<And>x y. x \<in> set xs \<Longrightarrow> P x y \<longleftrightarrow> Q x \<and> y = f x"
  shows "list_all2 P xs ys \<longleftrightarrow> list_all Q xs \<and> ys = map f xs"
  using assms
proof (induction xs arbitrary: ys)
  case (Cons x xs)
  then show ?case by (cases ys) auto
qed simp

text \<open>There is one strictly increasing rearrangement of the members, and sorting finds it.\<close>

lemma increasing_members_iff:
  fixes m :: "(string \<times> 'v) list"
  assumes "distinct (map fst m)" "\<forall>e \<in> set m. \<exists>cs. code_points (fst e) cs"
  shows "mset es = mset m \<and> sorted_wrt (\<lambda>a b. name_before (fst a) (fst b)) es \<longleftrightarrow>
    es = sort_key (\<lambda>e. utf16_units (fst e)) m" (is "?l \<longleftrightarrow> es = sort_key ?units m")
proof -
  have inj: "inj_on ?units (set m)"
    using assms utf16_units_inject by (intro inj_onI) (metis (no_types, lifting) distinct_map inj_on_def)
  have sorted: "sorted_wrt (\<lambda>a b. name_before (fst a) (fst b)) es \<longleftrightarrow> sorted_wrt (<) (map ?units es)"
    if "set es = set m" for es
  proof -
    have "name_before (fst a) (fst b) \<longleftrightarrow> ?units a < ?units b" if "a \<in> set es" "b \<in> set es" for a b
      using assms(2) that \<open>set es = set m\<close> name_before_iff by metis
    then show ?thesis
      unfolding sorted_wrt_map by (auto elim!: sorted_wrt_mono_rel [rotated])
  qed
  show ?thesis
  proof
    assume l: ?l
    then have "set es = set m" by (metis set_mset_mset)
    with l sorted have "sorted (map ?units es)" by (simp add: strict_sorted_imp_sorted)
    with l inj show "es = sort_key ?units m"
      using sort_key_inj_key_eq [of m es ?units] by simp
  next
    assume es: "es = sort_key ?units m"
    then have "distinct (map ?units es)" using assms(1) inj by (simp add: distinct_map)
    moreover have "sorted (map ?units es)" using es by simp
    ultimately have "sorted_wrt (<) (map ?units es)" by (simp only: strict_sorted_iff)
    then show ?l using sorted [of es] es by simp
  qed
qed

lemma rfc8785_iff: "i_json v \<Longrightarrow> rfc8785 v t \<longleftrightarrow> \<not> has_float v \<and> t = jcs v"
proof (induction v arbitrary: t)
  case (JBool b)
  then show ?case by (cases b) (auto simp: rfc8785_simps)
next
  case (JNumber n)
  have "(\<exists>i. number_value n = Some i) \<longleftrightarrow> \<not> is_f64 n" by (cases n) auto
  then show ?case using integer_text_iff [of n] by (auto simp: rfc8785_simps)
next
  case (JString s)
  then show ?case by (simp add: rfc8785_simps string_text_iff)
next
  case (JArray vs)
  have "list_all2 rfc8785 vs ts \<longleftrightarrow> list_all (\<lambda>v. \<not> has_float v) vs \<and> ts = map jcs vs" for ts
  proof (rule list_all2_function)
    fix v t assume "v \<in> set vs"
    then show "rfc8785 v t \<longleftrightarrow> \<not> has_float v \<and> t = jcs v"
      using JArray.prems by (intro JArray.IH) (auto simp only: i_json.simps list_all_iff)
  qed
  then have "rfc8785 (JArray vs) t \<longleftrightarrow>
      list_all (\<lambda>v. \<not> has_float v) vs \<and> t = ''['' @ commas (map jcs vs) @ '']''"
    by (auto simp: rfc8785_simps)
  then show ?case by (simp add: list_all_iff list_ex_iff)
next
  case (JObject m)
  let ?es = "sort_key (\<lambda>e. utf16_units (fst e)) m"
  let ?member = "\<lambda>e t. \<exists>q w. string_text (fst e) q \<and> rfc8785 (snd e) w \<and> t = q @ '':'' @ w"
  have member: "?member e t \<longleftrightarrow> \<not> has_float (snd e) \<and> t = jcs_member e" if "e \<in> set m" for e t
  proof -
    have "snd e \<in> Basic_BNFs.snds e" by (cases e) auto
    then have "rfc8785 (snd e) w \<longleftrightarrow> \<not> has_float (snd e) \<and> w = jcs (snd e)" for w
      using JObject that by (intro JObject.IH [of e]) (auto simp: list_all_iff)
    moreover have "string_text (fst e) q \<longleftrightarrow> q = json_quoted (fst e)" for q
      using JObject.prems that by (intro string_text_iff) (auto simp: list_all_iff)
    ultimately show ?thesis by auto
  qed
  have texts: "list_all2 ?member ?es ts \<longleftrightarrow> list_all (\<lambda>e. \<not> has_float (snd e)) ?es \<and> ts = map jcs_member ?es" for ts
    using member by (intro list_all2_function) simp
  have order: "mset es = mset m \<and> sorted_wrt (\<lambda>a b. name_before (fst a) (fst b)) es \<longleftrightarrow> es = ?es" for es
    using JObject.prems by (intro increasing_members_iff) (auto simp: list_all_iff)
  have "rfc8785 (JObject m) t \<longleftrightarrow> (\<exists>es ts. t = ''{'' @ commas ts @ ''}'' \<and>
      (mset es = mset m \<and> sorted_wrt (\<lambda>a b. name_before (fst a) (fst b)) es) \<and> list_all2 ?member es ts)"
    by (simp add: rfc8785_simps)
  also have "\<dots> \<longleftrightarrow> (\<exists>ts. t = ''{'' @ commas ts @ ''}'' \<and> list_all2 ?member ?es ts)"
    unfolding order by blast
  also have "\<dots> \<longleftrightarrow>
      list_all (\<lambda>e. \<not> has_float (snd e)) ?es \<and> t = ''{'' @ commas (map jcs_member ?es) @ ''}''"
    unfolding texts by blast
  finally show ?case by (simp add: list_all_iff list_ex_iff)
qed (simp add: rfc8785_simps)

section \<open>Properties\<close>

text \<open>
  C28. The loop that writes canonical JSON appends the RFC 8785 text of an I-JSON value and nothing
  else, and it fails, with \<open>InvalidCanonicalJson\<close>, exactly on a value that holds a float.
\<close>

theorem append_jcs_writes_jcs:
  assumes "i_json v"
  shows "(append_jcs out v = Ok written \<longleftrightarrow> (\<exists>t. rfc8785 v t \<and> written = out @ t)) \<and>
    (append_jcs out v = tvc_err InvalidCanonicalJson \<longleftrightarrow> has_float v)"
  using rfc8785_iff [OF assms] by (auto simp: append_jcs_spec(1))

text \<open>
  An object of two members, in byte order: U+FB33, and U+1F600, which is a surrogate pair and so
  comes first in the canonical text. Its value is a line feed.
\<close>

theorem append_jcs_writes_jcs_witness:
  "rfc8785 (JObject [([CHR 0xEF, CHR 0xAC, CHR 0xB3], JNumber (NegInt (- 7))),
       ([CHR 0xF0, CHR 0x9F, CHR 0x98, CHR 0x80], JString [CHR 0x0A])])
     ([CHR ''{'', CHR 0x22, CHR 0xF0, CHR 0x9F, CHR 0x98, CHR 0x80, CHR 0x22, CHR '':'',
       CHR 0x22, CHR 0x5C, CHR ''n'', CHR 0x22, CHR '','',
       CHR 0x22, CHR 0xEF, CHR 0xAC, CHR 0xB3, CHR 0x22] @ '':-7}'')"
  (is "rfc8785 ?v ?t")
proof -
  have utf8: "code_points [CHR 0xEF, CHR 0xAC, CHR 0xB3] [0xFB33]"
    "code_points [CHR 0xF0, CHR 0x9F, CHR 0x98, CHR 0x80] [0x1F600]" "code_points [CHR 0x0A] [0x0A]"
    by (simp_all add: code_points_def scalar_value_def utf8_char_def char_of_def bit_0)
  then have "i_json ?v" by auto
  moreover have "append_jcs [] ?v = Ok ?t"
    by (simp add: json_quoted_def json_escape_def quote_def utf16_units_def utf16_encode_def
        ascii_def word_less_nat_alt decimal.simps digit_def char_of_def bit_0 word_sless_alt)
  ultimately show ?thesis
    using append_jcs_writes_jcs [of ?v "[]" ?t] by simp
qed

end
