(* ===== verification/Wire_Types.thy ===== *)
theory Wire_Types
  imports Canonical_Json
begin

text \<open>
  \<open>crates/protocol/src/types.rs\<close>: the wire types. A struct is a record whose fields carry a
  prefix of their own (\<open>wd_\<close> for \<open>WalletDescriptor\<close>, \<open>req_\<close> for \<open>OperationRequest\<close>, and so
  on), and \<open>T_json\<close> is what \<open>Serialize\<close> for \<open>T\<close> builds, field attributes included: \<open>hex\<close>,
  \<open>decimal_u64\<close>, \<open>rename_all\<close>, \<open>tag\<close> and \<open>skip_serializing_if\<close>. \<open>serde_json::to_value\<close>
  collects the fields into a \<open>BTreeMap\<close>, hence \<open>bt_of\<close>.

  A \<open>[u8; N]\<close> is a byte list; where its length matters it is stated. The derived
  \<open>Deserialize\<close> implementations are generated code, carried by the record \<open>wire_crates\<close>.
\<close>

named_theorems json_inject \<open>serialised forms determine their values\<close>
named_theorems json_wf \<open>serialised forms are well-formed JSON values\<close>

definition serialize_uint :: "nat \<Rightarrow> json" where
  "serialize_uint n = JNumber (PosInt (word_of_nat n))"

section \<open>Enumerations\<close>

datatype Network = Devnet | Mainnet

fun network_as_str :: "Network \<Rightarrow> string" where
  "network_as_str Devnet = ''devnet''"
| "network_as_str Mainnet = ''mainnet''"

definition Network_json :: "Network \<Rightarrow> json" where
  "Network_json n = JString (network_as_str n)"

datatype OperationKind =
  BootstrapKind | DecryptKind | DeriveKind | TransactionKeysKind | ProveKind

fun OperationKind_json :: "OperationKind \<Rightarrow> json" where
  "OperationKind_json BootstrapKind = JString ''Bootstrap''"
| "OperationKind_json DecryptKind = JString ''Decrypt''"
| "OperationKind_json DeriveKind = JString ''Derive''"
| "OperationKind_json TransactionKeysKind = JString ''TransactionKeys''"
| "OperationKind_json ProveKind = JString ''Prove''"

datatype HealthStatus = Healthy

fun HealthStatus_json :: "HealthStatus \<Rightarrow> json" where
  "HealthStatus_json Healthy = JString ''Healthy''"

datatype DecryptLabel = Transfer | RingDeposit

fun DecryptLabel_json :: "DecryptLabel \<Rightarrow> json" where
  "DecryptLabel_json Transfer = JString ''Transfer''"
| "DecryptLabel_json RingDeposit = JString ''RingDeposit''"

datatype FailureStage = ProverStage | TurnkeySigningStage

fun FailureStage_json :: "FailureStage \<Rightarrow> json" where
  "FailureStage_json ProverStage = JString ''Prover''"
| "FailureStage_json TurnkeySigningStage = JString ''TurnkeySigning''"

section \<open>Structs\<close>

record HealthResponse =
  hr_status :: HealthStatus

definition HealthResponse_json :: "'x crates_scheme \<Rightarrow> HealthResponse \<Rightarrow> json" where
  "HealthResponse_json C x = JObject (bt_of
       [(''status'', HealthStatus_json (hr_status x))])"

record ServiceInfo =
  si_version :: u8
  si_network :: Network
  si_security_domain_id :: bytes
  si_release_id :: string
  si_manifest_digest :: bytes
  si_executable_digest :: bytes
  si_quorum_public_key :: bytes
  si_quorum_key_id :: string
  si_quorum_key_epoch :: u64
  si_ephemeral_public_key :: bytes
  si_supported_operations :: "OperationKind list"
  si_max_encrypted_request_bytes :: u64
  si_max_encrypted_response_bytes :: u64
  si_proof_type :: string

definition ServiceInfo_json :: "'x crates_scheme \<Rightarrow> ServiceInfo \<Rightarrow> json" where
  "ServiceInfo_json C x = JObject (bt_of
       [(''version'', serialize_uint (unat (si_version x))),
        (''network'', Network_json (si_network x)),
        (''security_domain_id'', serialize_hex C (si_security_domain_id x)),
        (''release_id'', JString (si_release_id x)),
        (''manifest_digest'', serialize_hex C (si_manifest_digest x)),
        (''executable_digest'', serialize_hex C (si_executable_digest x)),
        (''quorum_public_key'', serialize_hex C (si_quorum_public_key x)),
        (''quorum_key_id'', JString (si_quorum_key_id x)),
        (''quorum_key_epoch'', serialize_decimal (si_quorum_key_epoch x)),
        (''ephemeral_public_key'', serialize_hex C (si_ephemeral_public_key x)),
        (''supported_operations'', JArray (map OperationKind_json (si_supported_operations x))),
        (''max_encrypted_request_bytes'', serialize_decimal (si_max_encrypted_request_bytes x)),
        (''max_encrypted_response_bytes'', serialize_decimal (si_max_encrypted_response_bytes x)),
        (''proof_type'', JString (si_proof_type x))])"

record ClientGrant =
  cg_client_public_key :: bytes
  cg_allowed_operations :: "OperationKind list"

definition ClientGrant_json :: "'x crates_scheme \<Rightarrow> ClientGrant \<Rightarrow> json" where
  "ClientGrant_json C x = JObject (bt_of
       [(''client_public_key'', serialize_hex C (cg_client_public_key x)),
        (''allowed_operations'', JArray (map OperationKind_json (cg_allowed_operations x)))])"

record WalletDescriptor =
  wd_version :: u8
  wd_security_domain_id :: bytes
  wd_network :: Network
  wd_turnkey_organization_id :: string
  wd_turnkey_wallet_id :: string
  wd_address :: string
  wd_allowed_clients :: "ClientGrant list"
  wd_expires_at_ms :: u64
  wd_provisioning_signature :: bytes

definition WalletDescriptor_json :: "'x crates_scheme \<Rightarrow> WalletDescriptor \<Rightarrow> json" where
  "WalletDescriptor_json C x = JObject (bt_of
       [(''version'', serialize_uint (unat (wd_version x))),
        (''security_domain_id'', serialize_hex C (wd_security_domain_id x)),
        (''network'', Network_json (wd_network x)),
        (''turnkey_organization_id'', JString (wd_turnkey_organization_id x)),
        (''turnkey_wallet_id'', JString (wd_turnkey_wallet_id x)),
        (''address'', JString (wd_address x)),
        (''allowed_clients'', JArray (map (ClientGrant_json C) (wd_allowed_clients x))),
        (''expires_at_ms'', serialize_decimal (wd_expires_at_ms x)),
        (''provisioning_signature'', serialize_hex C (wd_provisioning_signature x))])"

definition wallet_id :: "WalletDescriptor \<Rightarrow> string" where
  "wallet_id d = ''wallet-'' @ wd_turnkey_wallet_id d"

definition check_current :: "WalletDescriptor \<Rightarrow> u64 \<Rightarrow> unit tvc_result" where
  "check_current d now_ms =
     (if now_ms > saturating_add (wd_expires_at_ms d) MAX_CLOCK_SKEW_MS
      then tvc_err DescriptorExpired else Ok ())"

record ClientAuthorization =
  ca_client_key_id :: string
  ca_signature :: bytes

definition ClientAuthorization_json :: "'x crates_scheme \<Rightarrow> ClientAuthorization \<Rightarrow> json" where
  "ClientAuthorization_json C x = JObject (bt_of
       [(''client_key_id'', JString (ca_client_key_id x)),
        (''signature'', serialize_hex C (ca_signature x))])"

record DecryptItem =
  di_ciphertext :: bytes
  di_viewing_public_key :: bytes
  di_transaction_viewing_public_key :: bytes
  di_salt :: bytes
  di_slot_index :: u64
  di_label :: DecryptLabel

definition DecryptItem_json :: "'x crates_scheme \<Rightarrow> DecryptItem \<Rightarrow> json" where
  "DecryptItem_json C x = JObject (bt_of
       [(''ciphertext'', serialize_hex C (di_ciphertext x)),
        (''viewing_public_key'', serialize_hex C (di_viewing_public_key x)),
        (''transaction_viewing_public_key'', serialize_hex C (di_transaction_viewing_public_key x)),
        (''salt'', serialize_hex C (di_salt x)),
        (''slot_index'', serialize_decimal (di_slot_index x)),
        (''label'', DecryptLabel_json (di_label x))])"

datatype DeriveItem =
    Nullifier (di_utxo_hash: bytes) (di_blinding: bytes)
  | MergeDummyNullifier (di_first_nullifier: bytes) (di_slot: u64)
  | MergeOutputBlinding (di_first_nullifier: bytes)
  | MergePrivateTxBlinding (di_first_nullifier: bytes)
  | MergeOutputKey (di_first_nullifier: bytes)

fun DeriveItem_json :: "'x crates_scheme \<Rightarrow> DeriveItem \<Rightarrow> json" where
  "DeriveItem_json C (Nullifier utxo_hash blinding) = JObject (bt_of
     [(''kind'', JString ''Nullifier''), (''utxo_hash'', serialize_hex C utxo_hash),
      (''blinding'', serialize_hex C blinding)])"
| "DeriveItem_json C (MergeDummyNullifier first_nullifier slot_index) = JObject (bt_of
     [(''kind'', JString ''MergeDummyNullifier''),
      (''first_nullifier'', serialize_hex C first_nullifier),
      (''slot_index'', serialize_decimal slot_index)])"
| "DeriveItem_json C (MergeOutputBlinding first_nullifier) = JObject (bt_of
     [(''kind'', JString ''MergeOutputBlinding''),
      (''first_nullifier'', serialize_hex C first_nullifier)])"
| "DeriveItem_json C (MergePrivateTxBlinding first_nullifier) = JObject (bt_of
     [(''kind'', JString ''MergePrivateTxBlinding''),
      (''first_nullifier'', serialize_hex C first_nullifier)])"
| "DeriveItem_json C (MergeOutputKey first_nullifier) = JObject (bt_of
     [(''kind'', JString ''MergeOutputKey''),
      (''first_nullifier'', serialize_hex C first_nullifier)])"

record TransactionKeyItem =
  tki_viewing_public_key :: bytes
  tki_first_nullifier :: bytes

definition TransactionKeyItem_json :: "'x crates_scheme \<Rightarrow> TransactionKeyItem \<Rightarrow> json" where
  "TransactionKeyItem_json C x = JObject (bt_of
       [(''viewing_public_key'', serialize_hex C (tki_viewing_public_key x)),
        (''first_nullifier'', serialize_hex C (tki_first_nullifier x))])"

record ProverSealing =
  ps_target :: string
  ps_nonce :: bytes
  ps_attestation :: json
  ps_policy :: json

definition ProverSealing_json :: "'x crates_scheme \<Rightarrow> ProverSealing \<Rightarrow> json" where
  "ProverSealing_json C x = JObject (bt_of
       [(''target'', JString (ps_target x)),
        (''nonce'', serialize_hex C (ps_nonce x)),
        (''attestation'', ps_attestation x),
        (''policy'', ps_policy x)])"

datatype Operation =
    Bootstrap
  | Decrypt "DecryptItem list"
  | Derive "DeriveItem list"
  | TransactionKeys "TransactionKeyItem list"
  | Prove json ProverSealing

fun operation_kind :: "Operation \<Rightarrow> OperationKind" where
  "operation_kind Bootstrap = BootstrapKind"
| "operation_kind (Decrypt _) = DecryptKind"
| "operation_kind (Derive _) = DeriveKind"
| "operation_kind (TransactionKeys _) = TransactionKeysKind"
| "operation_kind (Prove _ _) = ProveKind"

fun Operation_json :: "'x crates_scheme \<Rightarrow> Operation \<Rightarrow> json" where
  "Operation_json C Bootstrap = JObject (bt_of [(''type'', JString ''Bootstrap'')])"
| "Operation_json C (Decrypt items) = JObject (bt_of
     [(''type'', JString ''Decrypt''), (''items'', JArray (map (DecryptItem_json C) items))])"
| "Operation_json C (Derive items) = JObject (bt_of
     [(''type'', JString ''Derive''), (''items'', JArray (map (DeriveItem_json C) items))])"
| "Operation_json C (TransactionKeys items) = JObject (bt_of
     [(''type'', JString ''TransactionKeys''),
      (''items'', JArray (map (TransactionKeyItem_json C) items))])"
| "Operation_json C (Prove request prover) = JObject (bt_of
     [(''type'', JString ''Prove''), (''request'', request),
      (''prover'', ProverSealing_json C prover)])"

record OperationRequest =
  req_version :: u8
  req_request_id :: bytes
  req_issued_at_ms :: u64
  req_expires_at_ms :: u64
  req_target_release_id :: string
  req_target_manifest_digest :: bytes
  req_target_executable_digest :: bytes
  req_quorum_key_id :: string
  req_quorum_key_epoch :: u64
  req_wallet_descriptor :: WalletDescriptor
  req_sealed_seed :: "bytes option"
  req_client_response_public_key :: bytes
  req_operation :: Operation
  req_authorization :: ClientAuthorization

definition OperationRequest_json :: "'x crates_scheme \<Rightarrow> OperationRequest \<Rightarrow> json" where
  "OperationRequest_json C x = JObject (bt_of
       [(''version'', serialize_uint (unat (req_version x))),
        (''request_id'', serialize_hex C (req_request_id x)),
        (''issued_at_ms'', serialize_decimal (req_issued_at_ms x)),
        (''expires_at_ms'', serialize_decimal (req_expires_at_ms x)),
        (''target_release_id'', JString (req_target_release_id x)),
        (''target_manifest_digest'', serialize_hex C (req_target_manifest_digest x)),
        (''target_executable_digest'', serialize_hex C (req_target_executable_digest x)),
        (''quorum_key_id'', JString (req_quorum_key_id x)),
        (''quorum_key_epoch'', serialize_decimal (req_quorum_key_epoch x)),
        (''wallet_descriptor'', WalletDescriptor_json C (req_wallet_descriptor x)),
        (''sealed_seed'', serialize_hex_option C (req_sealed_seed x)),
        (''client_response_public_key'', serialize_hex C (req_client_response_public_key x)),
        (''operation'', Operation_json C (req_operation x)),
        (''authorization'', ClientAuthorization_json C (req_authorization x))])"

record WalletGrant =
  wg_version :: u8
  wg_descriptor_digest :: bytes
  wg_client_key_id :: string
  wg_project_id :: string
  wg_issued_at_ms :: u64
  wg_expires_at_ms :: u64
  wg_signature :: bytes

definition WalletGrant_json :: "'x crates_scheme \<Rightarrow> WalletGrant \<Rightarrow> json" where
  "WalletGrant_json C x = JObject (bt_of
       [(''version'', serialize_uint (unat (wg_version x))),
        (''descriptor_digest'', serialize_hex C (wg_descriptor_digest x)),
        (''client_key_id'', JString (wg_client_key_id x)),
        (''project_id'', JString (wg_project_id x)),
        (''issued_at_ms'', serialize_decimal (wg_issued_at_ms x)),
        (''expires_at_ms'', serialize_decimal (wg_expires_at_ms x)),
        (''signature'', serialize_hex C (wg_signature x))])"

record EncryptedRequest =
  er_version :: u8
  er_quorum_key_id :: string
  er_quorum_key_epoch :: u64
  er_ciphertext :: bytes
  er_wallet_grant :: "WalletGrant option"

definition EncryptedRequest_json :: "'x crates_scheme \<Rightarrow> EncryptedRequest \<Rightarrow> json" where
  "EncryptedRequest_json C x = JObject (bt_of
       ([(''version'', serialize_uint (unat (er_version x))),
        (''quorum_key_id'', JString (er_quorum_key_id x)),
        (''quorum_key_epoch'', serialize_decimal (er_quorum_key_epoch x)),
        (''ciphertext'', serialize_hex C (er_ciphertext x))] @
       (case er_wallet_grant x of None \<Rightarrow> [] | Some v \<Rightarrow> [(''wallet_grant'', WalletGrant_json C v)])))"

record SealedSeed =
  ss_version :: u8
  ss_quorum_key_id :: string
  ss_quorum_key_epoch :: u64
  ss_wallet_id_hash :: bytes
  ss_ciphertext :: bytes

record AppProof =
  ap_scheme :: string
  ap_public_key :: bytes
  ap_proof_payload :: string
  ap_signature :: bytes

definition AppProof_json :: "'x crates_scheme \<Rightarrow> AppProof \<Rightarrow> json" where
  "AppProof_json C x = JObject (bt_of
       [(''scheme'', JString (ap_scheme x)),
        (''public_key'', serialize_hex C (ap_public_key x)),
        (''proof_payload'', JString (ap_proof_payload x)),
        (''signature'', serialize_hex C (ap_signature x))])"

record QosPingChallenge =
  qpc_type :: string
  qpc_version :: u8
  qpc_challenge :: bytes

definition QosPingChallenge_json :: "'x crates_scheme \<Rightarrow> QosPingChallenge \<Rightarrow> json" where
  "QosPingChallenge_json C x = JObject (bt_of
       [(''type'', JString (qpc_type x)),
        (''version'', serialize_uint (unat (qpc_version x))),
        (''challenge'', serialize_hex C (qpc_challenge x))])"

record QosPingRequest =
  qpr_version :: u8
  qpr_encrypted_challenge :: bytes

definition QosPingRequest_json :: "'x crates_scheme \<Rightarrow> QosPingRequest \<Rightarrow> json" where
  "QosPingRequest_json C x = JObject (bt_of
       [(''version'', serialize_uint (unat (qpr_version x))),
        (''encrypted_challenge'', serialize_hex C (qpr_encrypted_challenge x))])"

record QosPingResponse =
  qps_version :: u8
  qps_tvc_app_proof :: AppProof

definition QosPingResponse_json :: "'x crates_scheme \<Rightarrow> QosPingResponse \<Rightarrow> json" where
  "QosPingResponse_json C x = JObject (bt_of
       [(''version'', serialize_uint (unat (qps_version x))),
        (''tvc_app_proof'', AppProof_json C (qps_tvc_app_proof x))])"

record EncryptedResponse =
  eres_version :: u8
  eres_request_id :: bytes
  eres_encrypted_result :: bytes
  eres_tvc_app_proof :: AppProof

definition EncryptedResponse_json :: "'x crates_scheme \<Rightarrow> EncryptedResponse \<Rightarrow> json" where
  "EncryptedResponse_json C x = JObject (bt_of
       [(''version'', serialize_uint (unat (eres_version x))),
        (''request_id'', serialize_hex C (eres_request_id x)),
        (''encrypted_result'', serialize_hex C (eres_encrypted_result x)),
        (''tvc_app_proof'', AppProof_json C (eres_tvc_app_proof x))])"

record SealedProverRequest =
  sprq_target :: string
  sprq_enc :: bytes
  sprq_ciphertext :: bytes
  sprq_response_key :: bytes

definition SealedProverRequest_json :: "'x crates_scheme \<Rightarrow> SealedProverRequest \<Rightarrow> json" where
  "SealedProverRequest_json C x = JObject (bt_of
       [(''target'', JString (sprq_target x)),
        (''enc'', serialize_hex C (sprq_enc x)),
        (''ciphertext'', serialize_hex C (sprq_ciphertext x)),
        (''response_key'', serialize_hex C (sprq_response_key x))])"

datatype OperationResult =
    BootstrapResult (br_solana_address: string) (br_shielded_owner_hash: bytes)
      (br_shielded_nullifier_public_key: bytes) (br_shielded_viewing_public_key: bytes)
      (br_sealed_seed: bytes) (br_turnkey_activity_id: string)
  | DecryptResult (plaintexts: "bytes list")
  | DeriveResult (derived_values: "bytes list")
  | TransactionKeysResult (transaction_secrets: "bytes list")
  | ProveResult (sealed_prover_request: SealedProverRequest)
  | FailureResult (failed_operation: OperationKind) (failure_stage: FailureStage)

fun OperationResult_json :: "'x crates_scheme \<Rightarrow> OperationResult \<Rightarrow> json" where
  "OperationResult_json C (BootstrapResult addr owner npk vpk seed activity) = JObject (bt_of
     [(''type'', JString ''Bootstrap''), (''solana_address'', JString addr),
      (''shielded_owner_hash'', serialize_hex C owner),
      (''shielded_nullifier_public_key'', serialize_hex C npk),
      (''shielded_viewing_public_key'', serialize_hex C vpk),
      (''sealed_seed'', serialize_hex C seed), (''turnkey_activity_id'', JString activity)])"
| "OperationResult_json C (DecryptResult ps) = JObject (bt_of
     [(''type'', JString ''Decrypt''), (''plaintexts'', serialize_hex_seq C ps)])"
| "OperationResult_json C (DeriveResult vs) = JObject (bt_of
     [(''type'', JString ''Derive''), (''values'', serialize_hex_seq C vs)])"
| "OperationResult_json C (TransactionKeysResult ss) = JObject (bt_of
     [(''type'', JString ''TransactionKeys''), (''secrets'', serialize_hex_seq C ss)])"
| "OperationResult_json C (ProveResult sealed) = JObject (bt_of
     [(''type'', JString ''Prove''), (''sealed'', SealedProverRequest_json C sealed)])"
| "OperationResult_json C (FailureResult k stage) = JObject (bt_of
     [(''type'', JString ''Failure''), (''operation'', OperationKind_json k),
      (''stage'', FailureStage_json stage)])"

record OperationProofPayload =
  opp_type :: string
  opp_version :: u8
  opp_request_id :: bytes
  opp_request_digest :: bytes
  opp_result_digest :: bytes
  opp_operation :: OperationKind
  opp_sealed_seed_digest :: bytes

definition OperationProofPayload_json :: "'x crates_scheme \<Rightarrow> OperationProofPayload \<Rightarrow> json" where
  "OperationProofPayload_json C x = JObject (bt_of
       [(''type'', JString (opp_type x)),
        (''version'', serialize_uint (unat (opp_version x))),
        (''request_id'', serialize_hex C (opp_request_id x)),
        (''request_digest'', serialize_hex C (opp_request_digest x)),
        (''result_digest'', serialize_hex C (opp_result_digest x)),
        (''operation'', OperationKind_json (opp_operation x)),
        (''sealed_seed_digest'', serialize_hex C (opp_sealed_seed_digest x))])"

record ReleasePolicy =
  rp_version :: u8
  rp_release_id :: string
  rp_network :: Network
  rp_tvc_application_id :: string
  rp_security_domain_id :: bytes
  rp_accepted_manifest_digests :: "string list"
  rp_accepted_executable_digests :: "string list"
  rp_quorum_key_id :: string
  rp_quorum_key_epoch :: u64
  rp_quorum_public_key :: bytes
  rp_allowed_operations :: "OperationKind list"
  rp_max_encrypted_request_bytes :: u32
  rp_max_encrypted_response_bytes :: u32
  rp_turnkey_trust_root_id :: string
  rp_turnkey_proof_schema_versions :: "string list"
  rp_valid_from_ms :: u64
  rp_expires_at_ms :: u64
  rp_revocation_epoch :: u64

definition ReleasePolicy_json :: "'x crates_scheme \<Rightarrow> ReleasePolicy \<Rightarrow> json" where
  "ReleasePolicy_json C x = JObject (bt_of
       [(''version'', serialize_uint (unat (rp_version x))),
        (''releaseId'', JString (rp_release_id x)),
        (''network'', Network_json (rp_network x)),
        (''tvcApplicationId'', JString (rp_tvc_application_id x)),
        (''securityDomainId'', serialize_hex C (rp_security_domain_id x)),
        (''acceptedManifestDigests'', JArray (map JString (rp_accepted_manifest_digests x))),
        (''acceptedExecutableDigests'', JArray (map JString (rp_accepted_executable_digests x))),
        (''quorumKeyId'', JString (rp_quorum_key_id x)),
        (''quorumKeyEpoch'', serialize_decimal (rp_quorum_key_epoch x)),
        (''quorumPublicKey'', serialize_hex C (rp_quorum_public_key x)),
        (''allowedOperations'', JArray (map OperationKind_json (rp_allowed_operations x))),
        (''maxEncryptedRequestBytes'', serialize_uint (unat (rp_max_encrypted_request_bytes x))),
        (''maxEncryptedResponseBytes'', serialize_uint (unat (rp_max_encrypted_response_bytes x))),
        (''turnkeyTrustRootId'', JString (rp_turnkey_trust_root_id x)),
        (''turnkeyProofSchemaVersions'', JArray (map JString (rp_turnkey_proof_schema_versions x))),
        (''validFromMs'', serialize_decimal (rp_valid_from_ms x)),
        (''expiresAtMs'', serialize_decimal (rp_expires_at_ms x)),
        (''revocationEpoch'', serialize_decimal (rp_revocation_epoch x))])"

record ReleaseAuthoritySignature =
  ras_key_id :: string
  ras_signature :: bytes

definition ReleaseAuthoritySignature_json :: "'x crates_scheme \<Rightarrow> ReleaseAuthoritySignature \<Rightarrow> json" where
  "ReleaseAuthoritySignature_json C x = JObject (bt_of
       [(''keyId'', JString (ras_key_id x)),
        (''signature'', serialize_hex C (ras_signature x))])"

record SignedReleasePolicy =
  srp_policy :: ReleasePolicy
  srp_authority_set_id :: string
  srp_signatures :: "ReleaseAuthoritySignature list"

definition SignedReleasePolicy_json :: "'x crates_scheme \<Rightarrow> SignedReleasePolicy \<Rightarrow> json" where
  "SignedReleasePolicy_json C x = JObject (bt_of
       [(''policy'', ReleasePolicy_json C (srp_policy x)),
        (''authoritySetId'', JString (srp_authority_set_id x)),
        (''signatures'', JArray (map (ReleaseAuthoritySignature_json C) (srp_signatures x)))])"

section \<open>Parsing\<close>

text \<open>The derived \<open>Deserialize\<close> implementations, from a parsed value to the type or to the
  message of the error.\<close>

record wire_crates = crates +
  de_operation_request :: "json \<Rightarrow> string + OperationRequest"
  de_encrypted_request :: "json \<Rightarrow> string + EncryptedRequest"
  de_qos_ping_request :: "json \<Rightarrow> string + QosPingRequest"
  de_qos_ping_challenge :: "json \<Rightarrow> string + QosPingChallenge"

definition parse_operation_request ::
    "'x wire_crates_scheme \<Rightarrow> string \<Rightarrow> OperationRequest tvc_result" where
  "parse_operation_request C j = parse_strict_json C (de_operation_request C) j"

definition parse_encrypted_request ::
    "'x wire_crates_scheme \<Rightarrow> string \<Rightarrow> EncryptedRequest tvc_result" where
  "parse_encrypted_request C j = parse_strict_json C (de_encrypted_request C) j"

definition parse_qos_ping_request ::
    "'x wire_crates_scheme \<Rightarrow> string \<Rightarrow> QosPingRequest tvc_result" where
  "parse_qos_ping_request C j = parse_strict_json C (de_qos_ping_request C) j"

definition parse_qos_ping_challenge ::
    "'x wire_crates_scheme \<Rightarrow> string \<Rightarrow> QosPingChallenge tvc_result" where
  "parse_qos_ping_challenge C j = parse_strict_json C (de_qos_ping_challenge C) j"

end
