(* ===== verification/Wire_Facts.thy ===== *)
theory Wire_Facts
  imports Wire_Types
begin

text \<open>
  The serialised form of every wire type determines its value, and is a well-formed JSON
  value: with \<open>canonicalize_json_value_inject\<close>, its canonical text determines the value.
\<close>

section \<open>Objects with fixed keys\<close>

lemma bt_of_inject:
  assumes "map fst a = map fst b" "distinct (map fst a)"
  shows "bt_of a = bt_of b \<longleftrightarrow> a = b"
proof
  assume "bt_of a = bt_of b"
  then have eq: "map_of (rev a) = map_of (rev b)" by (metis map_of_bt_of)
  have "set (rev a) = set (rev b)"
    using eq assms by (intro iffD1 [OF map_of_inject_set]) (auto simp flip: rev_map)
  then show "a = b"
    using assms by (metis alist_rebuild map_of_inject_set set_rev)
qed simp

lemma bt_of_lookup: "bt_of a = bt_of b \<Longrightarrow> map_of (rev a) k = map_of (rev b) k"
  by (metis map_of_bt_of)

lemma list_all_bt_of: "list_all P es \<Longrightarrow> list_all P (bt_of es)"
proof -
  have "list_all P m \<Longrightarrow> list_all P es \<Longrightarrow> list_all P (foldl (\<lambda>m e. bt_insert (fst e) (snd e) m) m es)" for m
    by (induction es arbitrary: m) (auto simp: list_all_bt_insert)
  then show "list_all P es \<Longrightarrow> ?thesis" by (simp add: bt_of_def)
qed

lemma wf_json_bt_of [json_wf]:
  "list_all (\<lambda>e. wf_json (snd e)) es \<Longrightarrow> wf_json (JObject (bt_of es))"
  by (simp add: list_all_bt_of)

lemma wf_json_array [json_wf]: "(\<And>x. x \<in> set xs \<Longrightarrow> wf_json (f x)) \<Longrightarrow> wf_json (JArray (map f xs))"
  by (simp add: list_all_iff)

lemma map_inject_iff: "(\<And>x y. f x = f y \<longleftrightarrow> x = y) \<Longrightarrow> map f xs = map f ys \<longleftrightarrow> xs = ys"
  by (metis injI inj_map_eq_map)

section \<open>Fields\<close>

lemma serialize_hex_inject [json_inject]:
  "hex_laws C \<Longrightarrow> serialize_hex C a = serialize_hex C b \<longleftrightarrow> a = b"
  by (simp add: serialize_hex_def encode_lower_hex_inject)

lemma serialize_hex_option_inject [json_inject]:
  "hex_laws C \<Longrightarrow> serialize_hex_option C v = serialize_hex_option C w \<longleftrightarrow> v = w"
  by (auto simp: serialize_hex_option_def encode_lower_hex_inject split: option.splits)

lemma serialize_hex_seq_inject [json_inject]:
  "hex_laws C \<Longrightarrow> serialize_hex_seq C v = serialize_hex_seq C w \<longleftrightarrow> v = w"
  by (simp add: serialize_hex_seq_def map_inject_iff encode_lower_hex_inject)

lemma serialize_decimal_inject [json_inject]: "serialize_decimal m = serialize_decimal n \<longleftrightarrow> m = n"
  by (simp add: serialize_decimal_def decimal_codec.enc_inject)

lemma serialize_uint_inject:
  "m < 2 ^ 64 \<Longrightarrow> n < 2 ^ 64 \<Longrightarrow> serialize_uint m = serialize_uint n \<longleftrightarrow> m = n"
  by (simp add: serialize_uint_def word_of_nat_eq_iff take_bit_eq_mod)

lemma serialize_u8_inject [json_inject]:
  "serialize_uint (unat (a :: u8)) = serialize_uint (unat b) \<longleftrightarrow> a = b"
  using unsigned_less [of a, where 'a = nat] unsigned_less [of b, where 'a = nat]
  by (subst serialize_uint_inject) (auto simp: word_unat_eq_iff)

lemma serialize_u32_inject [json_inject]:
  "serialize_uint (unat (a :: u32)) = serialize_uint (unat b) \<longleftrightarrow> a = b"
  using unsigned_less [of a, where 'a = nat] unsigned_less [of b, where 'a = nat]
  by (subst serialize_uint_inject) (auto simp: word_unat_eq_iff)

lemma JString_array_inject [json_inject]:
  "map JString xs = map JString ys \<longleftrightarrow> xs = ys"
  by (rule map_inject_iff) simp

lemma Network_json_inject [json_inject]: "Network_json a = Network_json b \<longleftrightarrow> a = b"
  by (cases a; cases b) (simp_all add: Network_json_def)

lemma OperationKind_json_inject [json_inject]: "OperationKind_json a = OperationKind_json b \<longleftrightarrow> a = b"
  by (cases a; cases b) simp_all

lemma HealthStatus_json_inject [json_inject]: "HealthStatus_json a = HealthStatus_json b \<longleftrightarrow> a = b"
  by (cases a; cases b) simp

lemma DecryptLabel_json_inject [json_inject]: "DecryptLabel_json a = DecryptLabel_json b \<longleftrightarrow> a = b"
  by (cases a; cases b) simp_all

lemma FailureStage_json_inject [json_inject]: "FailureStage_json a = FailureStage_json b \<longleftrightarrow> a = b"
  by (cases a; cases b) simp_all

lemma kinds_json_inject [json_inject]:
  "map OperationKind_json xs = map OperationKind_json ys \<longleftrightarrow> xs = ys"
  by (rule map_inject_iff) (rule OperationKind_json_inject)

lemma field_json_wf [json_wf]:
  "wf_json (serialize_uint n)" "wf_json (serialize_decimal m)" "wf_json (serialize_hex C b)"
  "wf_json (serialize_hex_option C v)" "wf_json (serialize_hex_seq C vs)" "wf_json (JString s)"
  "wf_json (Network_json net)" "wf_json (JArray (map JString ss))"
  by (simp_all add: serialize_uint_def serialize_decimal_def serialize_hex_def
      serialize_hex_option_def serialize_hex_seq_def Network_json_def list_all_iff split: option.splits)

lemma enum_json_wf [json_wf]:
  "wf_json (OperationKind_json k)" "wf_json (HealthStatus_json h)" "wf_json (DecryptLabel_json d)"
  "wf_json (FailureStage_json f)"
  by (cases k; simp) (cases h; cases d; cases f; simp)+

section \<open>Types\<close>

text \<open>The JSON values a request embeds as they came.\<close>

fun wf_operation :: "Operation \<Rightarrow> bool" where
  "wf_operation (Prove request prover) =
     (wf_json request \<and> wf_json (ps_attestation prover) \<and> wf_json (ps_policy prover))"
| "wf_operation _ = True"

lemma ServiceInfo_json_inject [json_inject]:
  "hex_laws C \<Longrightarrow> ServiceInfo_json C x = ServiceInfo_json C y \<longleftrightarrow> x = y"
  by (simp add: ServiceInfo_json_def bt_of_inject json_inject)
    (auto intro!: ServiceInfo.equality)

lemma ServiceInfo_json_wf [json_wf]: "wf_json (ServiceInfo_json C x)"
  unfolding ServiceInfo_json_def by (rule wf_json_bt_of) (simp add: json_wf del: wf_json.simps)

lemma ClientGrant_json_inject [json_inject]:
  "hex_laws C \<Longrightarrow> ClientGrant_json C x = ClientGrant_json C y \<longleftrightarrow> x = y"
  by (simp add: ClientGrant_json_def bt_of_inject json_inject)
    (auto intro!: ClientGrant.equality)

lemma ClientGrant_json_wf [json_wf]: "wf_json (ClientGrant_json C x)"
  unfolding ClientGrant_json_def by (rule wf_json_bt_of) (simp add: json_wf del: wf_json.simps)

lemma WalletDescriptor_json_inject [json_inject]:
  "hex_laws C \<Longrightarrow> WalletDescriptor_json C x = WalletDescriptor_json C y \<longleftrightarrow> x = y"
  by (simp add: WalletDescriptor_json_def bt_of_inject json_inject map_inject_iff [where f = "ClientGrant_json C"])
    (auto intro!: WalletDescriptor.equality)

lemma WalletDescriptor_json_wf [json_wf]: "wf_json (WalletDescriptor_json C x)"
  unfolding WalletDescriptor_json_def by (rule wf_json_bt_of) (simp add: json_wf del: wf_json.simps)

lemma ClientAuthorization_json_inject [json_inject]:
  "hex_laws C \<Longrightarrow> ClientAuthorization_json C x = ClientAuthorization_json C y \<longleftrightarrow> x = y"
  by (simp add: ClientAuthorization_json_def bt_of_inject json_inject)
    (auto intro!: ClientAuthorization.equality)

lemma ClientAuthorization_json_wf [json_wf]: "wf_json (ClientAuthorization_json C x)"
  unfolding ClientAuthorization_json_def by (rule wf_json_bt_of) (simp add: json_wf del: wf_json.simps)

lemma DecryptItem_json_inject [json_inject]:
  "hex_laws C \<Longrightarrow> DecryptItem_json C x = DecryptItem_json C y \<longleftrightarrow> x = y"
  by (simp add: DecryptItem_json_def bt_of_inject json_inject)
    (auto intro!: DecryptItem.equality)

lemma DecryptItem_json_wf [json_wf]: "wf_json (DecryptItem_json C x)"
  unfolding DecryptItem_json_def by (rule wf_json_bt_of) (simp add: json_wf del: wf_json.simps)

lemma DeriveItem_json_inject [json_inject]:
  "hex_laws C \<Longrightarrow> DeriveItem_json C x = DeriveItem_json C y \<longleftrightarrow> x = y"
  by (cases x; cases y) (auto simp: bt_of_inject json_inject
      dest: bt_of_lookup [where k = "''kind''"])

lemma DeriveItem_json_wf [json_wf]: "wf_json (DeriveItem_json C x)"
  by (cases x) (auto simp: json_wf simp del: wf_json.simps intro!: wf_json_bt_of)

lemma TransactionKeyItem_json_inject [json_inject]:
  "hex_laws C \<Longrightarrow> TransactionKeyItem_json C x = TransactionKeyItem_json C y \<longleftrightarrow> x = y"
  by (simp add: TransactionKeyItem_json_def bt_of_inject json_inject)
    (auto intro!: TransactionKeyItem.equality)

lemma TransactionKeyItem_json_wf [json_wf]: "wf_json (TransactionKeyItem_json C x)"
  unfolding TransactionKeyItem_json_def by (rule wf_json_bt_of) (simp add: json_wf del: wf_json.simps)

lemma ProverSealing_json_inject [json_inject]:
  "hex_laws C \<Longrightarrow> ProverSealing_json C x = ProverSealing_json C y \<longleftrightarrow> x = y"
  by (simp add: ProverSealing_json_def bt_of_inject json_inject)
    (auto intro!: ProverSealing.equality)

lemma ProverSealing_json_wf [json_wf]:
  "wf_json (ps_attestation x) \<Longrightarrow> wf_json (ps_policy x) \<Longrightarrow> wf_json (ProverSealing_json C x)"
  unfolding ProverSealing_json_def by (rule wf_json_bt_of) (simp add: json_wf)

lemma Operation_json_inject [json_inject]:
  "hex_laws C \<Longrightarrow> Operation_json C x = Operation_json C y \<longleftrightarrow> x = y"
  by (cases x; cases y) (auto simp: bt_of_inject json_inject map_inject_iff [where f = "DecryptItem_json C"]
      map_inject_iff [where f = "DeriveItem_json C"] map_inject_iff [where f = "TransactionKeyItem_json C"]
      dest: bt_of_lookup [where k = "''type''"])

lemma Operation_json_wf [json_wf]: "wf_operation x \<Longrightarrow> wf_json (Operation_json C x)"
  by (cases x) (auto simp: json_wf simp del: wf_json.simps intro!: wf_json_bt_of)

lemma OperationRequest_json_inject [json_inject]:
  "hex_laws C \<Longrightarrow> OperationRequest_json C x = OperationRequest_json C y \<longleftrightarrow> x = y"
  by (simp add: OperationRequest_json_def bt_of_inject json_inject)
    (auto intro!: OperationRequest.equality)

lemma OperationRequest_json_wf [json_wf]: "wf_operation (req_operation x) \<Longrightarrow> wf_json (OperationRequest_json C x)"
  unfolding OperationRequest_json_def by (rule wf_json_bt_of) (simp add: json_wf del: wf_json.simps)

lemma WalletGrant_json_inject [json_inject]:
  "hex_laws C \<Longrightarrow> WalletGrant_json C x = WalletGrant_json C y \<longleftrightarrow> x = y"
  by (simp add: WalletGrant_json_def bt_of_inject json_inject)
    (auto intro!: WalletGrant.equality)

lemma WalletGrant_json_wf [json_wf]: "wf_json (WalletGrant_json C x)"
  unfolding WalletGrant_json_def by (rule wf_json_bt_of) (simp add: json_wf del: wf_json.simps)

lemma EncryptedRequest_json_inject:
  assumes "hex_laws C" "EncryptedRequest_json C x = EncryptedRequest_json C y"
  shows "x = y"
proof -
  note fields = bt_of_lookup [OF assms(2) [unfolded EncryptedRequest_json_def json.inject]]
  note inject = json_inject serialize_hex_inject [OF assms(1)] WalletGrant_json_inject [OF assms(1)]
  have "er_wallet_grant x = er_wallet_grant y"
    using fields [of "''wallet_grant''"] by (simp add: inject split: option.splits)
  then show ?thesis
    using fields [of "''version''"] fields [of "''quorum_key_id''"] fields [of "''quorum_key_epoch''"]
      fields [of "''ciphertext''"]
    by (cases x; cases y) (simp add: inject split: option.splits)
qed

lemma AppProof_json_inject [json_inject]:
  "hex_laws C \<Longrightarrow> AppProof_json C x = AppProof_json C y \<longleftrightarrow> x = y"
  by (simp add: AppProof_json_def bt_of_inject json_inject)
    (auto intro!: AppProof.equality)

lemma AppProof_json_wf [json_wf]: "wf_json (AppProof_json C x)"
  unfolding AppProof_json_def by (rule wf_json_bt_of) (simp add: json_wf del: wf_json.simps)

lemma QosPingChallenge_json_inject [json_inject]:
  "hex_laws C \<Longrightarrow> QosPingChallenge_json C x = QosPingChallenge_json C y \<longleftrightarrow> x = y"
  by (simp add: QosPingChallenge_json_def bt_of_inject json_inject)
    (auto intro!: QosPingChallenge.equality)

lemma QosPingChallenge_json_wf [json_wf]: "wf_json (QosPingChallenge_json C x)"
  unfolding QosPingChallenge_json_def by (rule wf_json_bt_of) (simp add: json_wf del: wf_json.simps)

lemma QosPingRequest_json_inject [json_inject]:
  "hex_laws C \<Longrightarrow> QosPingRequest_json C x = QosPingRequest_json C y \<longleftrightarrow> x = y"
  by (simp add: QosPingRequest_json_def bt_of_inject json_inject)
    (auto intro!: QosPingRequest.equality)

lemma QosPingRequest_json_wf [json_wf]: "wf_json (QosPingRequest_json C x)"
  unfolding QosPingRequest_json_def by (rule wf_json_bt_of) (simp add: json_wf del: wf_json.simps)

lemma QosPingResponse_json_inject [json_inject]:
  "hex_laws C \<Longrightarrow> QosPingResponse_json C x = QosPingResponse_json C y \<longleftrightarrow> x = y"
  by (simp add: QosPingResponse_json_def bt_of_inject json_inject)
    (auto intro!: QosPingResponse.equality)

lemma QosPingResponse_json_wf [json_wf]: "wf_json (QosPingResponse_json C x)"
  unfolding QosPingResponse_json_def by (rule wf_json_bt_of) (simp add: json_wf del: wf_json.simps)

lemma EncryptedResponse_json_inject [json_inject]:
  "hex_laws C \<Longrightarrow> EncryptedResponse_json C x = EncryptedResponse_json C y \<longleftrightarrow> x = y"
  by (simp add: EncryptedResponse_json_def bt_of_inject json_inject)
    (auto intro!: EncryptedResponse.equality)

lemma EncryptedResponse_json_wf [json_wf]: "wf_json (EncryptedResponse_json C x)"
  unfolding EncryptedResponse_json_def by (rule wf_json_bt_of) (simp add: json_wf del: wf_json.simps)

lemma SealedProverRequest_json_inject [json_inject]:
  "hex_laws C \<Longrightarrow> SealedProverRequest_json C x = SealedProverRequest_json C y \<longleftrightarrow> x = y"
  by (simp add: SealedProverRequest_json_def bt_of_inject json_inject)
    (auto intro!: SealedProverRequest.equality)

lemma SealedProverRequest_json_wf [json_wf]: "wf_json (SealedProverRequest_json C x)"
  unfolding SealedProverRequest_json_def by (rule wf_json_bt_of) (simp add: json_wf del: wf_json.simps)

lemma OperationResult_json_inject [json_inject]:
  "hex_laws C \<Longrightarrow> OperationResult_json C x = OperationResult_json C y \<longleftrightarrow> x = y"
  by (cases x; cases y) (auto simp: bt_of_inject json_inject
      dest: bt_of_lookup [where k = "''type''"])

lemma OperationResult_json_wf [json_wf]: "wf_json (OperationResult_json C x)"
  by (cases x) (auto simp: json_wf simp del: wf_json.simps intro!: wf_json_bt_of)

lemma OperationProofPayload_json_inject [json_inject]:
  "hex_laws C \<Longrightarrow> OperationProofPayload_json C x = OperationProofPayload_json C y \<longleftrightarrow> x = y"
  by (simp add: OperationProofPayload_json_def bt_of_inject json_inject)
    (auto intro!: OperationProofPayload.equality)

lemma OperationProofPayload_json_wf [json_wf]: "wf_json (OperationProofPayload_json C x)"
  unfolding OperationProofPayload_json_def by (rule wf_json_bt_of) (simp add: json_wf del: wf_json.simps)

lemma ReleasePolicy_json_inject [json_inject]:
  "hex_laws C \<Longrightarrow> ReleasePolicy_json C x = ReleasePolicy_json C y \<longleftrightarrow> x = y"
  by (simp add: ReleasePolicy_json_def bt_of_inject json_inject)
    (auto intro!: ReleasePolicy.equality)

lemma ReleasePolicy_json_wf [json_wf]: "wf_json (ReleasePolicy_json C x)"
  unfolding ReleasePolicy_json_def by (rule wf_json_bt_of) (simp add: json_wf del: wf_json.simps)

lemma ReleaseAuthoritySignature_json_inject [json_inject]:
  "hex_laws C \<Longrightarrow> ReleaseAuthoritySignature_json C x = ReleaseAuthoritySignature_json C y \<longleftrightarrow> x = y"
  by (simp add: ReleaseAuthoritySignature_json_def bt_of_inject json_inject)
    (auto intro!: ReleaseAuthoritySignature.equality)

lemma ReleaseAuthoritySignature_json_wf [json_wf]: "wf_json (ReleaseAuthoritySignature_json C x)"
  unfolding ReleaseAuthoritySignature_json_def by (rule wf_json_bt_of) (simp add: json_wf del: wf_json.simps)

lemma SignedReleasePolicy_json_inject [json_inject]:
  "hex_laws C \<Longrightarrow> SignedReleasePolicy_json C x = SignedReleasePolicy_json C y \<longleftrightarrow> x = y"
  by (simp add: SignedReleasePolicy_json_def bt_of_inject json_inject map_inject_iff [where f = "ReleaseAuthoritySignature_json C"])
    (auto intro!: SignedReleasePolicy.equality)

lemma SignedReleasePolicy_json_wf [json_wf]: "wf_json (SignedReleasePolicy_json C x)"
  unfolding SignedReleasePolicy_json_def by (rule wf_json_bt_of) (simp add: json_wf del: wf_json.simps)

section \<open>How long a text is\<close>

lemma length_json_quoted: "length (json_quoted s) \<le> 6 * length s + 2"
proof -
  have escape: "length (json_escape c) \<le> 6" for c
    by (simp add: json_escape_def)
  have "length (concat (map json_escape s)) \<le> 6 * length s"
  proof (induction s)
    case (Cons c s)
    with escape [of c] show ?case by simp
  qed simp
  then show ?thesis by (simp add: json_quoted_def quote_def)
qed

lemma length_commas: "length (commas ss) \<le> sum_list (map (\<lambda>s. Suc (length s)) ss)"
  by (induction ss rule: commas.induct) auto

lemma length_jcs_object:
  assumes "list_all (\<lambda>e. length (fst e) \<le> 40 \<and> length (jcs (snd e)) \<le> n) m"
  shows "length (jcs (JObject m)) \<le> length m * (n + 244) + 2"
proof -
  let ?ms = "map jcs_member (sort_key (\<lambda>e. utf16_units (fst e)) m)"
  have member: "Suc (length (jcs_member e)) \<le> n + 244" if "e \<in> set m" for e
    using that assms length_json_quoted [of "fst e"] by (auto simp: list_all_iff)
  have "sum_list (map (\<lambda>s. Suc (length s)) ?ms) \<le> length ?ms * (n + 244)"
    using sum_list_mono [of "sort_key (\<lambda>e. utf16_units (fst e)) m" "\<lambda>e. Suc (length (jcs_member e))" "\<lambda>_. n + 244"] member
    by (simp add: comp_def sum_list_triv)
  then show ?thesis using length_commas [of ?ms] by simp
qed

lemma length_bt_of: "length (bt_of es) \<le> length es"
proof -
  have ins: "length (bt_insert k v m) \<le> Suc (length m)" for k v and m :: "('a \<times> 'b) list"
    by (induction m) auto
  have "length (foldl (\<lambda>m e. bt_insert (fst e) (snd e) m) m es) \<le> length m + length es" for m
  proof (induction es arbitrary: m)
    case (Cons e es)
    with ins [of "fst e" "snd e" m] show ?case by (simp add: order_trans [OF Cons])
  qed simp
  from this [of "[]"] show ?thesis by (simp add: bt_of_def)
qed

lemma length_jcs_fields:
  assumes "list_all (\<lambda>e. length (fst e) \<le> 40 \<and> length (jcs (snd e)) \<le> n) es"
  shows "length (jcs (JObject (bt_of es))) \<le> length es * (n + 244) + 2"
proof -
  have "length (jcs (JObject (bt_of es))) \<le> length (bt_of es) * (n + 244) + 2"
    by (rule length_jcs_object) (rule list_all_bt_of [OF assms])
  also have "\<dots> \<le> length es * (n + 244) + 2"
    using length_bt_of [of es] by simp
  finally show ?thesis .
qed

lemma length_jcs_hex: "hex_laws C \<Longrightarrow> length (jcs (serialize_hex C b)) \<le> 12 * length b + 2"
  using length_json_quoted [of "hex_encode C b"]
  by (simp add: serialize_hex_def encode_lower_hex_def hex_laws_def)

end
