(* ===== verification/Digest.thy ===== *)
theory Digest
  imports Wire_Facts
begin

text \<open>
  \<open>crates/protocol/src/digest.rs\<close>: the domain-separated digests. Each is SHA-256 of a domain,
  a zero byte and a payload; the payload of a request, a descriptor or a grant is the
  canonical JSON of the value without its signature.

  A digest is shown to bind what it covers: equal digests are of values equal in every field
  but the signature, or exhibit two different preimages with the same SHA-256
  (\<open>sha256_collision\<close>, which names them).
\<close>

section \<open>Definitions\<close>

definition domain_separated_hash :: "'x crates_scheme \<Rightarrow> bytes \<Rightarrow> bytes \<Rightarrow> bytes" where
  "domain_separated_hash C domain payload = sha256_hash C (domain @ [0] @ payload)"

definition sha256 :: "'x crates_scheme \<Rightarrow> bytes \<Rightarrow> bytes" where
  "sha256 C b = sha256_hash C b"

definition request_digest :: "'x crates_scheme \<Rightarrow> OperationRequest \<Rightarrow> bytes tvc_result" where
  "request_digest C request =
     (case OperationRequest_json C request of
        JObject m \<Rightarrow>
          (case map_of m ''authorization'' of
             Some (JObject authorization) \<Rightarrow>
               if map_of authorization ''signature'' = None then tvc_err InvalidCanonicalJson
               else
                 let authorization = bt_remove ''signature'' authorization in
                 if map_of authorization ''client_key_id'' = None then tvc_err InvalidCanonicalJson
                 else
                   and_then (canonicalize_json_value
                       (JObject (bt_insert ''authorization'' (JObject authorization) m))) (\<lambda>canonical.
                   Ok (domain_separated_hash C REQUEST_DIGEST_DOMAIN (as_bytes canonical)))
           | _ \<Rightarrow> tvc_err InvalidCanonicalJson)
      | _ \<Rightarrow> tvc_err InvalidCanonicalJson)"

definition client_auth_message :: "'x crates_scheme \<Rightarrow> bytes \<Rightarrow> string" where
  "client_auth_message C request_digest_bytes =
     CLIENT_AUTH_DOMAIN @ '':'' @ encode_lower_hex C request_digest_bytes"

definition client_auth_digest :: "'x crates_scheme \<Rightarrow> bytes \<Rightarrow> bytes" where
  "client_auth_digest C request_digest_bytes =
     sha256 C (as_bytes (client_auth_message C request_digest_bytes))"

definition descriptor_digest :: "'x crates_scheme \<Rightarrow> WalletDescriptor \<Rightarrow> bytes tvc_result" where
  "descriptor_digest C descriptor =
     (case WalletDescriptor_json C descriptor of
        JObject m \<Rightarrow>
          and_then (canonicalize_json_value (JObject (bt_remove ''provisioning_signature'' m)))
            (\<lambda>canonical.
          Ok (domain_separated_hash C PROVISIONING_AUTH_DOMAIN (as_bytes canonical)))
      | _ \<Rightarrow> tvc_err InvalidCanonicalJson)"

definition wallet_binding_json :: "'x crates_scheme \<Rightarrow> WalletDescriptor \<Rightarrow> json" where
  "wallet_binding_json C descriptor = JObject (bt_of
     [(''network'', Network_json (wd_network descriptor)),
      (''security_domain_id'', JString (encode_lower_hex C (wd_security_domain_id descriptor))),
      (''turnkey_organization_id'', JString (wd_turnkey_organization_id descriptor)),
      (''turnkey_wallet_id'', JString (wd_turnkey_wallet_id descriptor)),
      (''address'', JString (wd_address descriptor))])"

definition wallet_binding_digest :: "'x crates_scheme \<Rightarrow> WalletDescriptor \<Rightarrow> bytes tvc_result" where
  "wallet_binding_digest C descriptor =
     and_then (canonicalize_json_value (wallet_binding_json C descriptor)) (\<lambda>canonical.
     Ok (domain_separated_hash C WALLET_BINDING_DOMAIN (as_bytes canonical)))"

definition wallet_grant_digest :: "'x crates_scheme \<Rightarrow> WalletGrant \<Rightarrow> bytes tvc_result" where
  "wallet_grant_digest C grant =
     (case WalletGrant_json C grant of
        JObject m \<Rightarrow>
          and_then (canonicalize_json_value (JObject (bt_remove ''signature'' m))) (\<lambda>canonical.
          Ok (domain_separated_hash C WALLET_GRANT_DOMAIN (as_bytes canonical)))
      | _ \<Rightarrow> tvc_err InvalidCanonicalJson)"

definition result_digest :: "'x crates_scheme \<Rightarrow> bytes \<Rightarrow> bytes" where
  "result_digest C encrypted_result =
     domain_separated_hash C RESULT_DIGEST_DOMAIN encrypted_result"

definition sealed_seed_digest :: "'x crates_scheme \<Rightarrow> bytes \<Rightarrow> bytes" where
  "sealed_seed_digest C sealed_seed =
     domain_separated_hash C SEALED_SEED_DIGEST_DOMAIN sealed_seed"

definition wallet_id_hash :: "'x crates_scheme \<Rightarrow> string \<Rightarrow> bytes" where
  "wallet_id_hash C w = domain_separated_hash C WALLET_ID_HASH_DOMAIN (as_bytes w)"

definition request_id_hash :: "'x crates_scheme \<Rightarrow> bytes \<Rightarrow> bytes" where
  "request_id_hash C request_id =
     domain_separated_hash C REQUEST_ID_HASH_DOMAIN request_id"

definition release_policy_digest :: "'x crates_scheme \<Rightarrow> bytes \<Rightarrow> bytes" where
  "release_policy_digest C policy_jcs =
     domain_separated_hash C RELEASE_POLICY_DOMAIN policy_jcs"

section \<open>What is hashed\<close>

definition hash_input :: "bytes \<Rightarrow> bytes \<Rightarrow> bytes" where
  "hash_input domain payload = domain @ [0] @ payload"

definition sha256_collision :: "'x crates_scheme \<Rightarrow> bytes \<Rightarrow> bytes \<Rightarrow> bool" where
  "sha256_collision C a b \<longleftrightarrow> a \<noteq> b \<and> sha256_hash C a = sha256_hash C b"

definition digest_domains :: "bytes list" where
  "digest_domains =
     [PROVISIONING_AUTH_DOMAIN, REQUEST_DIGEST_DOMAIN, RESULT_DIGEST_DOMAIN,
      SEALED_SEED_DIGEST_DOMAIN, WALLET_ID_HASH_DOMAIN, WALLET_BINDING_DOMAIN,
      REQUEST_ID_HASH_DOMAIN, RELEASE_POLICY_DOMAIN, WALLET_GRANT_DOMAIN]"

lemma zero_split_inject:
  "0 \<notin> set a \<Longrightarrow> 0 \<notin> set b \<Longrightarrow> a @ (0 :: byte) # p = b @ 0 # q \<Longrightarrow> a = b \<and> p = q"
proof (induction a arbitrary: b)
  case Nil
  then show ?case by (cases b) auto
next
  case (Cons x a)
  then show ?case by (cases b) auto
qed

lemma byte_of_char_0: "(of_char c :: byte) = 0 \<longleftrightarrow> c = CHR 0x00"
proof -
  have "(of_char c :: byte) = 0 \<longleftrightarrow> (of_char c :: nat) = of_char (CHR 0x00)"
    by (simp add: word_unat_eq_iff)
  then show ?thesis by (simp only: of_char_eq_iff)
qed

lemma zero_in_as_bytes: "0 \<in> set (as_bytes s) \<longleftrightarrow> CHR 0x00 \<in> set s"
  by (induction s) (auto simp: as_bytes_def byte_of_char_0 eq_commute [of "0 :: byte"])

lemma digest_domains_no_zero: "d \<in> set digest_domains \<Longrightarrow> 0 \<notin> set d"
  by (auto simp: digest_domains_def domain_defs zero_in_as_bytes)

lemma digest_domains_distinct: "distinct digest_domains"
  by (simp add: digest_domains_def domain_defs)

lemma hash_input_inject:
  "d \<in> set digest_domains \<Longrightarrow> e \<in> set digest_domains \<Longrightarrow>
     hash_input d p = hash_input e q \<longleftrightarrow> d = e \<and> p = q"
  using zero_split_inject [of d e p q] digest_domains_no_zero
  by (auto simp: hash_input_def)

section \<open>What is signed\<close>

definition unsigned_request :: "OperationRequest \<Rightarrow> OperationRequest" where
  "unsigned_request r =
     r \<lparr> req_authorization := (req_authorization r) \<lparr> ca_signature := [] \<rparr> \<rparr>"

definition unsigned_descriptor :: "WalletDescriptor \<Rightarrow> WalletDescriptor" where
  "unsigned_descriptor d = d \<lparr> wd_provisioning_signature := [] \<rparr>"

definition unsigned_grant :: "WalletGrant \<Rightarrow> WalletGrant" where
  "unsigned_grant g = g \<lparr> wg_signature := [] \<rparr>"

lemma bt_ext: "bt_sorted m \<Longrightarrow> bt_sorted n \<Longrightarrow> map_of m = map_of n \<Longrightarrow> m = n"
  by (metis bt_sorted_distinct bt_sorted_set_eq map_of_inject_set)

lemma map_of_filter_key:
  "map_of (filter (\<lambda>e. fst e \<noteq> k) es) = (map_of es)(k := None)"
  by (induction es) (auto simp: fun_eq_iff)

lemma bt_remove_bt_of: "bt_remove k (bt_of es) = bt_of (filter (\<lambda>e. fst e \<noteq> k) es)"
  by (rule bt_ext)
    (simp_all add: bt_sorted_remove map_of_bt_remove map_of_bt_of rev_filter map_of_filter_key)

lemma bt_insert_bt_of: "bt_insert k v (bt_of es) = bt_of (filter (\<lambda>e. fst e \<noteq> k) es @ [(k, v)])"
  by (rule bt_ext)
    (simp_all add: bt_sorted_insert map_of_bt_insert map_of_bt_of rev_filter map_of_filter_key)

text \<open>The values the digests canonicalise, as fields in the order of the struct.\<close>

definition request_payload :: "'x crates_scheme \<Rightarrow> OperationRequest \<Rightarrow> json" where
  "request_payload C r = JObject (bt_of
     [(''version'', serialize_uint (unat (req_version r))),
      (''request_id'', serialize_hex C (req_request_id r)),
      (''issued_at_ms'', serialize_decimal (req_issued_at_ms r)),
      (''expires_at_ms'', serialize_decimal (req_expires_at_ms r)),
      (''target_release_id'', JString (req_target_release_id r)),
      (''target_manifest_digest'', serialize_hex C (req_target_manifest_digest r)),
      (''target_executable_digest'', serialize_hex C (req_target_executable_digest r)),
      (''quorum_key_id'', JString (req_quorum_key_id r)),
      (''quorum_key_epoch'', serialize_decimal (req_quorum_key_epoch r)),
      (''wallet_descriptor'', WalletDescriptor_json C (req_wallet_descriptor r)),
      (''sealed_seed'', serialize_hex_option C (req_sealed_seed r)),
      (''client_response_public_key'', serialize_hex C (req_client_response_public_key r)),
      (''operation'', Operation_json C (req_operation r)),
      (''authorization'', JObject (bt_of
         [(''client_key_id'', JString (ca_client_key_id (req_authorization r)))]))])"

definition descriptor_payload :: "'x crates_scheme \<Rightarrow> WalletDescriptor \<Rightarrow> json" where
  "descriptor_payload C d = JObject (bt_of
     [(''version'', serialize_uint (unat (wd_version d))),
      (''security_domain_id'', serialize_hex C (wd_security_domain_id d)),
      (''network'', Network_json (wd_network d)),
      (''turnkey_organization_id'', JString (wd_turnkey_organization_id d)),
      (''turnkey_wallet_id'', JString (wd_turnkey_wallet_id d)),
      (''address'', JString (wd_address d)),
      (''allowed_clients'', JArray (map (ClientGrant_json C) (wd_allowed_clients d))),
      (''expires_at_ms'', serialize_decimal (wd_expires_at_ms d))])"

definition grant_payload :: "'x crates_scheme \<Rightarrow> WalletGrant \<Rightarrow> json" where
  "grant_payload C g = JObject (bt_of
     [(''version'', serialize_uint (unat (wg_version g))),
      (''descriptor_digest'', serialize_hex C (wg_descriptor_digest g)),
      (''client_key_id'', JString (wg_client_key_id g)),
      (''project_id'', JString (wg_project_id g)),
      (''issued_at_ms'', serialize_decimal (wg_issued_at_ms g)),
      (''expires_at_ms'', serialize_decimal (wg_expires_at_ms g))])"

lemma request_digest_payload:
  "request_digest C r = and_then (canonicalize_json_value (request_payload C r)) (\<lambda>c.
     Ok (domain_separated_hash C REQUEST_DIGEST_DOMAIN (as_bytes c)))"
  by (simp add: request_digest_def OperationRequest_json_def ClientAuthorization_json_def
      request_payload_def map_of_bt_of bt_remove_bt_of bt_insert_bt_of)

lemma descriptor_digest_payload:
  "descriptor_digest C d = and_then (canonicalize_json_value (descriptor_payload C d)) (\<lambda>c.
     Ok (domain_separated_hash C PROVISIONING_AUTH_DOMAIN (as_bytes c)))"
  by (simp add: descriptor_digest_def WalletDescriptor_json_def descriptor_payload_def
      bt_remove_bt_of)

lemma wallet_grant_digest_payload:
  "wallet_grant_digest C g = and_then (canonicalize_json_value (grant_payload C g)) (\<lambda>c.
     Ok (domain_separated_hash C WALLET_GRANT_DOMAIN (as_bytes c)))"
  by (simp add: wallet_grant_digest_def WalletGrant_json_def grant_payload_def bt_remove_bt_of)

text \<open>Two payloads with the same canonical text are the same JSON value.\<close>

lemma digest_payload_binds:
  assumes "and_then (canonicalize_json_value v) (\<lambda>c. Ok (domain_separated_hash C d (as_bytes c))) = Ok h"
    and "and_then (canonicalize_json_value w) (\<lambda>c. Ok (domain_separated_hash C d (as_bytes c))) = Ok h"
    and "wf_json v" "wf_json w"
  shows "v = w \<or> sha256_collision C (hash_input d (as_bytes (jcs v))) (hash_input d (as_bytes (jcs w)))"
  using assms canonicalize_json_value_inject [of v w]
  by (auto simp: result_simps canonicalize_json_value_spec domain_separated_hash_def
      sha256_collision_def hash_input_def split: if_splits)

lemma request_payload_wf: "wf_operation (req_operation r) \<Longrightarrow> wf_json (request_payload C r)"
  unfolding request_payload_def
  by (rule wf_json_bt_of) (simp add: json_wf wf_json_bt_of del: wf_json.simps)

lemma descriptor_payload_wf: "wf_json (descriptor_payload C d)"
  unfolding descriptor_payload_def
  by (rule wf_json_bt_of) (simp add: json_wf del: wf_json.simps)

lemma grant_payload_wf: "wf_json (grant_payload C g)"
  unfolding grant_payload_def by (rule wf_json_bt_of) (simp add: json_wf del: wf_json.simps)

lemma wallet_binding_json_wf: "wf_json (wallet_binding_json C d)"
  unfolding wallet_binding_json_def by (rule wf_json_bt_of) (simp add: json_wf del: wf_json.simps)

lemma request_payload_inject:
  "hex_laws C \<Longrightarrow> request_payload C r = request_payload C s \<longleftrightarrow> unsigned_request r = unsigned_request s"
  by (cases r; cases s; cases "req_authorization r"; cases "req_authorization s")
    (auto simp: request_payload_def bt_of_inject json_inject unsigned_request_def)

lemma descriptor_payload_inject:
  "hex_laws C \<Longrightarrow>
     descriptor_payload C d = descriptor_payload C e \<longleftrightarrow> unsigned_descriptor d = unsigned_descriptor e"
  by (cases d; cases e)
    (auto simp: descriptor_payload_def bt_of_inject json_inject unsigned_descriptor_def
      map_inject_iff [where f = "ClientGrant_json C"])

lemma grant_payload_inject:
  "hex_laws C \<Longrightarrow> grant_payload C g = grant_payload C h \<longleftrightarrow> unsigned_grant g = unsigned_grant h"
  by (cases g; cases h) (auto simp: grant_payload_def bt_of_inject json_inject unsigned_grant_def)

section \<open>When a digest exists\<close>

named_theorems no_float \<open>serialised forms without a float\<close>

lemma no_float_bt_of [no_float]:
  "list_all (\<lambda>e. \<not> has_float (snd e)) es \<Longrightarrow> \<not> has_float (JObject (bt_of es))"
  using list_all_bt_of [of "\<lambda>e. \<not> has_float (snd e)" es] by (simp add: list_ex_iff list_all_iff)

lemma no_float_array [no_float]:
  "(\<And>x. x \<in> set xs \<Longrightarrow> \<not> has_float (f x)) \<Longrightarrow> \<not> has_float (JArray (map f xs))"
  by (auto simp: list_ex_iff)

lemma no_float_fields [no_float]:
  "\<not> has_float (serialize_uint n)" "\<not> has_float (serialize_decimal m)"
  "\<not> has_float (serialize_hex C b)" "\<not> has_float (serialize_hex_option C v)"
  "\<not> has_float (JString s)" "\<not> has_float (Network_json net)"
  by (simp_all add: serialize_uint_def serialize_decimal_def serialize_hex_def
      serialize_hex_option_def Network_json_def split: option.splits)

lemma no_float_kind [no_float]: "\<not> has_float (OperationKind_json k)"
  by (cases k) simp_all

lemma no_float_client_grant [no_float]: "\<not> has_float (ClientGrant_json C g)"
  by (simp add: ClientGrant_json_def no_float del: has_float.simps)

lemma no_float_descriptor [no_float]: "\<not> has_float (WalletDescriptor_json C d)"
  by (simp add: WalletDescriptor_json_def no_float del: has_float.simps)

lemma request_digest_exists:
  "\<not> has_float (Operation_json C (req_operation r)) \<Longrightarrow>
     request_digest C r = Ok (sha256_hash C (hash_input REQUEST_DIGEST_DOMAIN
       (as_bytes (jcs (request_payload C r)))))"
  by (simp add: request_digest_payload request_payload_def canonicalize_json_value_spec no_float
      domain_separated_hash_def hash_input_def del: has_float.simps)

lemma descriptor_digest_exists:
  "descriptor_digest C d = Ok (sha256_hash C (hash_input PROVISIONING_AUTH_DOMAIN
     (as_bytes (jcs (descriptor_payload C d)))))"
  by (simp add: descriptor_digest_payload descriptor_payload_def canonicalize_json_value_spec
      no_float domain_separated_hash_def hash_input_def del: has_float.simps)

lemma wallet_grant_digest_exists:
  "wallet_grant_digest C g = Ok (sha256_hash C (hash_input WALLET_GRANT_DOMAIN
     (as_bytes (jcs (grant_payload C g)))))"
  by (simp add: wallet_grant_digest_payload grant_payload_def canonicalize_json_value_spec
      no_float domain_separated_hash_def hash_input_def del: has_float.simps)

lemma wallet_binding_digest_exists:
  "wallet_binding_digest C d = Ok (sha256_hash C (hash_input WALLET_BINDING_DOMAIN
     (as_bytes (jcs (wallet_binding_json C d)))))"
  by (simp add: wallet_binding_digest_def wallet_binding_json_def canonicalize_json_value_spec
      no_float domain_separated_hash_def hash_input_def del: has_float.simps)

section \<open>What the digests bind\<close>

definition request_hash_input :: "'x crates_scheme \<Rightarrow> OperationRequest \<Rightarrow> bytes" where
  "request_hash_input C r = hash_input REQUEST_DIGEST_DOMAIN (as_bytes (jcs (request_payload C r)))"

definition descriptor_hash_input :: "'x crates_scheme \<Rightarrow> WalletDescriptor \<Rightarrow> bytes" where
  "descriptor_hash_input C d =
     hash_input PROVISIONING_AUTH_DOMAIN (as_bytes (jcs (descriptor_payload C d)))"

definition grant_hash_input :: "'x crates_scheme \<Rightarrow> WalletGrant \<Rightarrow> bytes" where
  "grant_hash_input C g = hash_input WALLET_GRANT_DOMAIN (as_bytes (jcs (grant_payload C g)))"

definition binding_hash_input :: "'x crates_scheme \<Rightarrow> WalletDescriptor \<Rightarrow> bytes" where
  "binding_hash_input C d =
     hash_input WALLET_BINDING_DOMAIN (as_bytes (jcs (wallet_binding_json C d)))"

definition same_wallet :: "WalletDescriptor \<Rightarrow> WalletDescriptor \<Rightarrow> bool" where
  "same_wallet d e \<longleftrightarrow>
     wd_network d = wd_network e \<and> wd_security_domain_id d = wd_security_domain_id e \<and>
     wd_turnkey_organization_id d = wd_turnkey_organization_id e \<and>
     wd_turnkey_wallet_id d = wd_turnkey_wallet_id e \<and> wd_address d = wd_address e"

lemma wallet_binding_json_same:
  "hex_laws C \<Longrightarrow> wallet_binding_json C d = wallet_binding_json C e \<longleftrightarrow> same_wallet d e"
  by (auto simp: wallet_binding_json_def bt_of_inject json_inject same_wallet_def
      encode_lower_hex_inject)

lemma descriptor_digest_binds:
  assumes "hex_laws C" "descriptor_digest C d = Ok h" "descriptor_digest C e = Ok h"
  shows "unsigned_descriptor d = unsigned_descriptor e \<or>
      sha256_collision C (descriptor_hash_input C d) (descriptor_hash_input C e)"
  using digest_payload_binds [OF assms(2,3) [unfolded descriptor_digest_payload]
      descriptor_payload_wf descriptor_payload_wf] descriptor_payload_inject [OF assms(1)]
  by (simp add: descriptor_hash_input_def)

lemma wallet_grant_digest_binds:
  assumes "hex_laws C" "wallet_grant_digest C g = Ok h" "wallet_grant_digest C k = Ok h"
  shows "unsigned_grant g = unsigned_grant k \<or>
      sha256_collision C (grant_hash_input C g) (grant_hash_input C k)"
  using digest_payload_binds [OF assms(2,3) [unfolded wallet_grant_digest_payload]
      grant_payload_wf grant_payload_wf] grant_payload_inject [OF assms(1)]
  by (simp add: grant_hash_input_def)

lemma wallet_binding_digest_binds:
  assumes "hex_laws C" "wallet_binding_digest C d = wallet_binding_digest C e"
  shows "same_wallet d e \<or> sha256_collision C (binding_hash_input C d) (binding_hash_input C e)"
  using assms(2) digest_payload_binds [where C = C and d = WALLET_BINDING_DOMAIN,
      OF _ _ wallet_binding_json_wf wallet_binding_json_wf, of C d _ C e]
    wallet_binding_digest_exists [of C] wallet_binding_json_same [OF assms(1), of d e]
  unfolding wallet_binding_digest_def binding_hash_input_def by metis

text \<open>
  C37. The digest a client key signs covers every field of the request but the signature:
  two requests with one digest differ at most there, or exhibit a SHA-256 collision.
\<close>

theorem request_digest_binds:
  assumes "hex_laws C" "request_digest C r = Ok h" "request_digest C s = Ok h"
    and "wf_operation (req_operation r)" "wf_operation (req_operation s)"
  shows "unsigned_request r = unsigned_request s \<or>
      sha256_collision C (request_hash_input C r) (request_hash_input C s)"
  using digest_payload_binds [OF assms(2,3) [unfolded request_digest_payload]
      request_payload_wf [OF assms(4)] request_payload_wf [OF assms(5)]]
    request_payload_inject [OF assms(1)]
  by (simp add: request_hash_input_def)

text \<open>
  The binding a sealed seed carries names the wallet and nothing else: it is always
  defined, equal for two descriptors of one wallet whichever clients, expiry and signature
  they carry, and for descriptors of different wallets only at a SHA-256 collision.
\<close>

lemma wallet_binding_digest_exact:
  assumes "hex_laws C"
  shows "is_ok (wallet_binding_digest C d) \<and>
    (same_wallet d e \<longrightarrow> wallet_binding_digest C d = wallet_binding_digest C e) \<and>
    (wallet_binding_digest C d = wallet_binding_digest C e \<longrightarrow>
       same_wallet d e \<or> sha256_collision C (binding_hash_input C d) (binding_hash_input C e))"
proof -
  note ok = wallet_binding_digest_exists [of C]
  have "wallet_binding_digest C d = wallet_binding_digest C e \<Longrightarrow>
      same_wallet d e \<or> sha256_collision C (binding_hash_input C d) (binding_hash_input C e)"
    by (rule wallet_binding_digest_binds [OF assms])
  then show ?thesis
    using wallet_binding_json_same [OF assms, of d e] ok
    by (auto simp: wallet_binding_digest_def)
qed

section \<open>Kinds of digest\<close>

text \<open>
  What the ten functions of \<open>digest.rs\<close> that hash are given, the bytes that each must hash, and when
  two of their arguments agree in what the digest is to cover.
\<close>

datatype digested =
    RequestOf OperationRequest
  | ClientAuthOf bytes
  | DescriptorOf WalletDescriptor
  | BindingOf WalletDescriptor
  | GrantOf WalletGrant
  | ResultOf bytes
  | SealedSeedOf bytes
  | WalletIdOf string
  | RequestIdOf bytes
  | ReleasePolicyOf bytes

fun digest_of :: "'x crates_scheme \<Rightarrow> digested \<Rightarrow> bytes tvc_result" where
  "digest_of C (RequestOf r) = request_digest C r"
| "digest_of C (ClientAuthOf b) = Ok (client_auth_digest C b)"
| "digest_of C (DescriptorOf d) = descriptor_digest C d"
| "digest_of C (BindingOf d) = wallet_binding_digest C d"
| "digest_of C (GrantOf g) = wallet_grant_digest C g"
| "digest_of C (ResultOf b) = Ok (result_digest C b)"
| "digest_of C (SealedSeedOf b) = Ok (sealed_seed_digest C b)"
| "digest_of C (WalletIdOf s) = Ok (wallet_id_hash C s)"
| "digest_of C (RequestIdOf b) = Ok (request_id_hash C b)"
| "digest_of C (ReleasePolicyOf b) = Ok (release_policy_digest C b)"

fun hashed_bytes :: "'x crates_scheme \<Rightarrow> digested \<Rightarrow> bytes" where
  "hashed_bytes C (RequestOf r) = request_hash_input C r"
| "hashed_bytes C (ClientAuthOf b) = as_bytes (client_auth_message C b)"
| "hashed_bytes C (DescriptorOf d) = descriptor_hash_input C d"
| "hashed_bytes C (BindingOf d) = binding_hash_input C d"
| "hashed_bytes C (GrantOf g) = grant_hash_input C g"
| "hashed_bytes C (ResultOf b) = hash_input RESULT_DIGEST_DOMAIN b"
| "hashed_bytes C (SealedSeedOf b) = hash_input SEALED_SEED_DIGEST_DOMAIN b"
| "hashed_bytes C (WalletIdOf s) = hash_input WALLET_ID_HASH_DOMAIN (as_bytes s)"
| "hashed_bytes C (RequestIdOf b) = hash_input REQUEST_ID_HASH_DOMAIN b"
| "hashed_bytes C (ReleasePolicyOf b) = hash_input RELEASE_POLICY_DOMAIN b"

definition agree :: "digested \<Rightarrow> digested \<Rightarrow> bool" where
  "agree a b \<longleftrightarrow>
     (case a of
        RequestOf r \<Rightarrow> (case b of RequestOf s \<Rightarrow> unsigned_request r = unsigned_request s | _ \<Rightarrow> False)
      | DescriptorOf d \<Rightarrow> (case b of DescriptorOf e \<Rightarrow> unsigned_descriptor d = unsigned_descriptor e | _ \<Rightarrow> False)
      | BindingOf d \<Rightarrow> (case b of BindingOf e \<Rightarrow> same_wallet d e | _ \<Rightarrow> False)
      | GrantOf g \<Rightarrow> (case b of GrantOf h \<Rightarrow> unsigned_grant g = unsigned_grant h | _ \<Rightarrow> False)
      | _ \<Rightarrow> a = b)"

fun wf_digested :: "digested \<Rightarrow> bool" where
  "wf_digested (RequestOf r) = wf_operation (req_operation r)"
| "wf_digested _ = True"

lemma jcs_inject:
  "wf_json v \<Longrightarrow> wf_json w \<Longrightarrow> \<not> has_float v \<Longrightarrow> \<not> has_float w \<Longrightarrow> jcs v = jcs w \<longleftrightarrow> v = w"
  using canonicalize_json_value_inject [of v w] by (auto simp: canonicalize_json_value_spec)

lemma request_digest_Ok:
  "request_digest C r = Ok h \<longleftrightarrow> \<not> has_float (request_payload C r) \<and> h = sha256_hash C (request_hash_input C r)"
  by (auto simp: request_digest_payload canonicalize_json_value_spec request_hash_input_def hash_input_def
      domain_separated_hash_def)

text \<open>Each function hashes the bytes of its kind.\<close>

lemma digest_of_hashed: "digest_of C a = Ok h \<Longrightarrow> h = sha256_hash C (hashed_bytes C a)"
  by (cases a)
    (auto simp: request_digest_Ok client_auth_digest_def sha256_def descriptor_digest_exists
      wallet_binding_digest_exists wallet_grant_digest_exists result_digest_def sealed_seed_digest_def
      wallet_id_hash_def request_id_hash_def release_policy_digest_def domain_separated_hash_def hash_input_def
      descriptor_hash_input_def binding_hash_input_def grant_hash_input_def)

lemma no_float_payloads:
  "\<not> has_float (descriptor_payload C d)" "\<not> has_float (grant_payload C g)" "\<not> has_float (wallet_binding_json C d)"
  by (simp_all add: descriptor_payload_def grant_payload_def wallet_binding_json_def no_float
      del: has_float.simps)

lemma client_auth_no_zero: "hex_laws C \<Longrightarrow> 0 \<notin> set (as_bytes (client_auth_message C b))"
proof -
  assume "hex_laws C"
  moreover have "\<not> is_lower_hex_digit (CHR 0x00)"
    by (simp add: is_lower_hex_digit_def is_ascii_digit_def ascii_def)
  ultimately have "CHR 0x00 \<notin> set (encode_lower_hex C b)"
    by (auto simp: encode_lower_hex_def hex_laws_def list_all_iff)
  then show ?thesis by (simp add: zero_in_as_bytes client_auth_message_def CLIENT_AUTH_DOMAIN_def)
qed

lemma hash_input_zero: "0 \<in> set (hash_input d p)"
  by (simp add: hash_input_def)

lemma hashed_bytes_inject:
  assumes "hex_laws C" "digest_of C a = Ok g" "digest_of C b = Ok h" "wf_digested a" "wf_digested b"
    and "hashed_bytes C a = hashed_bytes C b"
  shows "agree a b"
proof -
  have plain: "as_bytes (client_auth_message C x) \<noteq> hash_input d p" for x d p
    using client_auth_no_zero [OF assms(1), of x] hash_input_zero [of d p] by metis
  have message: "client_auth_message C x = client_auth_message C y \<longleftrightarrow> x = y" for x y
    by (simp add: client_auth_message_def encode_lower_hex_inject [OF assms(1)])
  note jcs = jcs_inject [OF descriptor_payload_wf descriptor_payload_wf no_float_payloads(1,1)]
    jcs_inject [OF grant_payload_wf grant_payload_wf no_float_payloads(2,2)]
    jcs_inject [OF wallet_binding_json_wf wallet_binding_json_wf no_float_payloads(3,3)]
    jcs_inject [OF request_payload_wf request_payload_wf]
  note parts = descriptor_payload_inject [OF assms(1)] grant_payload_inject [OF assms(1)]
    wallet_binding_json_same [OF assms(1)] request_payload_inject [OF assms(1)]
  show ?thesis
    using assms(2-6)
    by (cases a; cases b; simp add: agree_def request_hash_input_def descriptor_hash_input_def grant_hash_input_def
        binding_hash_input_def request_digest_Ok hash_input_inject digest_domains_def jcs parts plain
        plain [symmetric] message domain_defs)
qed

text \<open>
  C38. No digest stands for another: of two arguments of the ten digest functions of the protocol whose
  digests are equal, both went to the same function and agree in all that it covers (a request, a
  descriptor and a grant in every field but the signature, a binding in the wallet, anything else
  altogether), or the bytes that the two functions hash are a SHA-256 collision.
\<close>

theorem digest_domain_separation:
  assumes "hex_laws C" "wf_digested a" "wf_digested b" "digest_of C a = Ok h" "digest_of C b = Ok h"
  shows "agree a b \<or> sha256_collision C (hashed_bytes C a) (hashed_bytes C b)"
  using hashed_bytes_inject [OF assms(1,4,5,2,3)] digest_of_hashed [OF assms(4)] digest_of_hashed [OF assms(5)]
  by (auto simp: sha256_collision_def)

text \<open>Digests depend on the crates only through the hex writer and the hash.\<close>

lemma hex_fields_cong:
  assumes "hex_encode C = hex_encode D"
  shows "serialize_hex C = serialize_hex D" "serialize_hex_option C = serialize_hex_option D"
    "serialize_hex_seq C = serialize_hex_seq D"
  using assms by (auto simp: fun_eq_iff serialize_hex_def serialize_hex_option_def
      serialize_hex_seq_def encode_lower_hex_def split: option.splits)

lemma wire_parts_cong:
  assumes "hex_encode C = hex_encode D"
  shows "ClientGrant_json C = ClientGrant_json D" "DecryptItem_json C = DecryptItem_json D"
    "TransactionKeyItem_json C = TransactionKeyItem_json D" "ProverSealing_json C = ProverSealing_json D"
    "DeriveItem_json C i = DeriveItem_json D i"
  by (cases i; simp add: fun_eq_iff ClientGrant_json_def DecryptItem_json_def
      TransactionKeyItem_json_def ProverSealing_json_def hex_fields_cong [OF assms])+

lemma EncryptedRequest_json_cong:
  assumes "hex_encode C = hex_encode D"
  shows "EncryptedRequest_json C x = EncryptedRequest_json D x"
  by (cases "er_wallet_grant x")
    (simp_all add: EncryptedRequest_json_def WalletGrant_json_def hex_fields_cong [OF assms])

lemma hash_inputs_cong:
  assumes "hex_encode C = hex_encode D"
  shows "request_hash_input C r = request_hash_input D r"
    "descriptor_hash_input C d = descriptor_hash_input D d"
    "grant_hash_input C g = grant_hash_input D g"
    "binding_hash_input C d = binding_hash_input D d"
proof -
  have "DeriveItem_json C = DeriveItem_json D" by (rule ext) (rule wire_parts_cong [OF assms])
  then have op: "Operation_json C (req_operation r) = Operation_json D (req_operation r)"
    by (cases "req_operation r") (simp_all add: wire_parts_cong [OF assms] hex_fields_cong [OF assms])
  have wd: "WalletDescriptor_json C = WalletDescriptor_json D"
    by (simp add: fun_eq_iff WalletDescriptor_json_def wire_parts_cong [OF assms] hex_fields_cong [OF assms])
  show "request_hash_input C r = request_hash_input D r"
    by (simp only: request_hash_input_def request_payload_def op wd hex_fields_cong [OF assms])
  show "descriptor_hash_input C d = descriptor_hash_input D d"
    by (simp add: descriptor_hash_input_def descriptor_payload_def wire_parts_cong [OF assms]
        hex_fields_cong [OF assms])
  show "grant_hash_input C g = grant_hash_input D g"
    by (simp add: grant_hash_input_def grant_payload_def hex_fields_cong [OF assms])
  show "binding_hash_input C d = binding_hash_input D d"
    by (simp add: binding_hash_input_def wallet_binding_json_def assms encode_lower_hex_def)
qed

section \<open>Concrete values\<close>

definition demo_descriptor :: WalletDescriptor where
  "demo_descriptor =
     \<lparr> wd_version = 1, wd_security_domain_id = replicate 32 17, wd_network = Devnet,
       wd_turnkey_organization_id = ''1f0e6b1e-2a4c-4f7e-8d2b-3c4d5e6f7a8b'',
       wd_turnkey_wallet_id = ''2a1b3c4d-5e6f-4a8b-9c0d-1e2f3a4b5c6d'',
       wd_address = ''address'', wd_allowed_clients = [], wd_expires_at_ms = 1000,
       wd_provisioning_signature = replicate 64 0 \<rparr>"

definition demo_request :: OperationRequest where
  "demo_request =
     \<lparr> req_version = 1, req_request_id = replicate 32 1, req_issued_at_ms = 10,
       req_expires_at_ms = 20, req_target_release_id = ''release'',
       req_target_manifest_digest = replicate 32 2, req_target_executable_digest = replicate 32 3,
       req_quorum_key_id = ''quorum'', req_quorum_key_epoch = 1,
       req_wallet_descriptor = demo_descriptor, req_sealed_seed = None,
       req_client_response_public_key = replicate 65 4, req_operation = Bootstrap,
       req_authorization = \<lparr> ca_client_key_id = ''key'', ca_signature = replicate 64 0 \<rparr> \<rparr>"

theorem request_digest_binds_witness:
  "unsigned_request demo_request =
     unsigned_request (demo_request \<lparr> req_authorization := \<lparr> ca_client_key_id = ''key'', ca_signature = [1] \<rparr> \<rparr>) \<or>
   sha256_collision demo_crates (request_hash_input demo_crates demo_request)
     (request_hash_input demo_crates
       (demo_request \<lparr> req_authorization := \<lparr> ca_client_key_id = ''key'', ca_signature = [1] \<rparr> \<rparr>))"
  by (rule request_digest_binds [OF demo_hex_laws request_digest_exists])
    (simp_all add: demo_request_def request_digest_exists no_float request_payload_def
      del: has_float.simps)

theorem digest_domain_separation_witness:
  "agree (DescriptorOf demo_descriptor) (DescriptorOf (demo_descriptor \<lparr> wd_provisioning_signature := [1] \<rparr>)) \<or>
   sha256_collision demo_crates (hashed_bytes demo_crates (DescriptorOf demo_descriptor))
     (hashed_bytes demo_crates (DescriptorOf (demo_descriptor \<lparr> wd_provisioning_signature := [1] \<rparr>)))"
proof -
  have "descriptor_payload demo_crates (demo_descriptor \<lparr> wd_provisioning_signature := [1] \<rparr>) =
      descriptor_payload demo_crates demo_descriptor"
    by (simp add: descriptor_payload_def)
  then show ?thesis
    by (intro digest_domain_separation [OF demo_hex_laws]) (simp_all add: descriptor_digest_exists)
qed

lemma wallet_binding_digest_exact_witness:
  "is_ok (wallet_binding_digest demo_crates demo_descriptor) \<and>
    wallet_binding_digest demo_crates demo_descriptor =
      wallet_binding_digest demo_crates (demo_descriptor \<lparr> wd_expires_at_ms := 7 \<rparr>)"
proof -
  have same: "same_wallet demo_descriptor (demo_descriptor \<lparr> wd_expires_at_ms := 7 \<rparr>)"
    by (simp add: same_wallet_def)
  from wallet_binding_digest_exact [OF demo_hex_laws, of demo_descriptor
      "demo_descriptor \<lparr> wd_expires_at_ms := 7 \<rparr>"] same
  show ?thesis by blast
qed

end
