(* ===== verification/Borsh.thy ===== *)
theory Borsh
  imports Encoding
begin

text \<open>
  The Borsh format of the structs the program derives \<open>BorshSerialize\<close> and
  \<open>BorshDeserialize\<close> for (\<open>QosEnvelope\<close>, \<open>SealedSeed\<close>, \<open>UnsealedSeed\<close>), after the format's
  specification: integers little-endian, an array as its bytes, a \<open>Vec<u8>\<close> or \<open>String\<close> as a
  \<open>u32\<close> length and its bytes, a struct as its fields in order; \<open>try_from_slice\<close> must consume
  the whole slice.

  The locale \<open>prefix_codec\<close> is the contract of one field's reader and writer. It gives the
  \<open>canonical_codec\<close> contract of the whole slice, and is interpreted on every field type here
  and on the structs where they are declared.
\<close>

section \<open>Little-endian numbers\<close>

fun le_encode :: "nat \<Rightarrow> nat \<Rightarrow> bytes" where
  "le_encode 0 n = []"
| "le_encode (Suc k) n = word_of_nat (n mod 256) # le_encode k (n div 256)"

fun le_decode :: "bytes \<Rightarrow> nat" where
  "le_decode [] = 0"
| "le_decode (b # bs) = unat b + 256 * le_decode bs"

lemma length_le_encode [simp]: "length (le_encode k n) = k"
  by (induction k arbitrary: n) auto

lemma unat_byte_of_nat: "unat (word_of_nat (n mod 256) :: byte) = n mod 256"
  by (simp add: unat_of_nat)

lemma le_decode_encode: "n < 256 ^ k \<Longrightarrow> le_decode (le_encode k n) = n"
proof (induction k arbitrary: n)
  case (Suc k)
  then have "n div 256 < 256 ^ k" by (simp add: less_mult_imp_div_less mult.commute)
  with Suc.IH show ?case by (simp add: unat_byte_of_nat)
qed simp

lemma le_encode_decode: "le_encode (length bs) (le_decode bs) = bs"
proof (induction bs)
  case (Cons b bs)
  have "unat b < 256" using unsigned_less [of b, where 'a = nat] by simp
  then have "(unat b + 256 * le_decode bs) mod 256 = unat b"
    "(unat b + 256 * le_decode bs) div 256 = le_decode bs" by auto
  with Cons.IH show ?case by simp
qed simp

lemma le_decode_less: "le_decode bs < 256 ^ length bs"
proof (induction bs)
  case (Cons b bs)
  have "unat b < 256" using unsigned_less [of b, where 'a = nat] by simp
  with Cons.IH show ?case by simp
qed simp

section \<open>Fields\<close>

locale prefix_codec =
  fixes valid :: "'a \<Rightarrow> bool" and put :: "'a \<Rightarrow> bytes" and get :: "bytes \<Rightarrow> ('a \<times> bytes) option"
  assumes get_put: "valid x \<Longrightarrow> get (put x @ r) = Some (x, r)"
    and put_get: "get b = Some (x, r) \<Longrightarrow> valid x \<and> b = put x @ r"

definition whole_slice :: "(bytes \<Rightarrow> ('a \<times> bytes) option) \<Rightarrow> bytes \<Rightarrow> unit + 'a" where
  "whole_slice get b = (case get b of Some (x, []) \<Rightarrow> Ok x | _ \<Rightarrow> Err ())"

context prefix_codec
begin

lemma get_iff: "get b = Some (x, r) \<longleftrightarrow> valid x \<and> b = put x @ r"
  using get_put put_get by blast

lemma whole_iff: "whole_slice get b = Ok x \<longleftrightarrow> valid x \<and> b = put x"
  using get_put [of x "[]"] put_get [of b]
  by (auto simp: whole_slice_def split: option.splits list.splits)

end

sublocale prefix_codec \<subseteq> slice: canonical_codec valid put "whole_slice get"
  by unfold_locales (auto simp: whole_iff)

definition get_bytes :: "nat \<Rightarrow> bytes \<Rightarrow> (bytes \<times> bytes) option" where
  "get_bytes n b = (if n \<le> length b then Some (take n b, drop n b) else None)"

definition get_le :: "nat \<Rightarrow> bytes \<Rightarrow> (nat \<times> bytes) option" where
  "get_le k b = map_option (\<lambda>(x, r). (le_decode x, r)) (get_bytes k b)"

definition put_u8 :: "u8 \<Rightarrow> bytes" where
  "put_u8 w = [w]"

fun get_u8 :: "bytes \<Rightarrow> (u8 \<times> bytes) option" where
  "get_u8 [] = None"
| "get_u8 (b # r) = Some (b, r)"

definition put_u64 :: "u64 \<Rightarrow> bytes" where
  "put_u64 w = le_encode 8 (unat w)"

definition get_u64 :: "bytes \<Rightarrow> (u64 \<times> bytes) option" where
  "get_u64 b = map_option (\<lambda>(n, r). (word_of_nat n, r)) (get_le 8 b)"

definition vec_fits :: "bytes \<Rightarrow> bool" where
  "vec_fits v \<longleftrightarrow> length v < 2 ^ 32"

definition put_vec :: "bytes \<Rightarrow> bytes" where
  "put_vec v = le_encode 4 (length v) @ v"

definition get_vec :: "bytes \<Rightarrow> (bytes \<times> bytes) option" where
  "get_vec b = Option.bind (get_le 4 b) (\<lambda>(n, r). get_bytes n r)"

definition string_fits :: "string \<Rightarrow> bool" where
  "string_fits s \<longleftrightarrow> length s < 2 ^ 32 \<and> utf8_valid (map unat (as_bytes s))"

definition put_string :: "string \<Rightarrow> bytes" where
  "put_string s = put_vec (as_bytes s)"

definition get_string :: "bytes \<Rightarrow> (string \<times> bytes) option" where
  "get_string b = Option.bind (get_vec b) (\<lambda>(v, r). map_option (\<lambda>s. (s, r)) (from_utf8 v))"

interpretation bytes_codec: prefix_codec "\<lambda>b. length b = n" "\<lambda>b. b" "get_bytes n" for n
  by unfold_locales (auto simp: get_bytes_def split: if_splits)

interpretation le_codec: prefix_codec "\<lambda>n. n < 256 ^ k" "le_encode k" "get_le k" for k
proof unfold_locales
  show "get_le k b = Some (n, r) \<Longrightarrow> n < 256 ^ k \<and> b = le_encode k n @ r" for b n r
    using le_encode_decode le_decode_less
    by (auto simp: get_le_def bytes_codec.get_iff)
qed (simp add: get_le_def bytes_codec.get_put le_decode_encode)

interpretation u8_codec: prefix_codec "\<lambda>_. True" put_u8 get_u8
proof unfold_locales
  show "get_u8 b = Some (x, r) \<Longrightarrow> True \<and> b = put_u8 x @ r" for b x r
    by (cases b) (auto simp: put_u8_def)
qed (simp add: put_u8_def)

interpretation u64_codec: prefix_codec "\<lambda>_. True" put_u64 get_u64
proof unfold_locales
  show "get_u64 (put_u64 x @ r) = Some (x, r)" for x r
    using unat_u64_bound [of x] by (simp add: get_u64_def put_u64_def le_codec.get_put)
  show "get_u64 b = Some (x, r) \<Longrightarrow> True \<and> b = put_u64 x @ r" for b x r
    by (auto simp: get_u64_def put_u64_def le_codec.get_iff unat_of_nat)
qed

interpretation vec_codec: prefix_codec vec_fits put_vec get_vec
proof unfold_locales
  show "vec_fits v \<Longrightarrow> get_vec (put_vec v @ r) = Some (v, r)" for v r
    by (simp add: vec_fits_def get_vec_def put_vec_def le_codec.get_put bytes_codec.get_put)
  show "get_vec b = Some (v, r) \<Longrightarrow> vec_fits v \<and> b = put_vec v @ r" for b v r
    by (auto simp: get_vec_def put_vec_def vec_fits_def le_codec.get_iff bytes_codec.get_iff
        split: bind_splits)
qed

lemma length_string_of_bytes [simp]: "length (string_of_bytes v) = length v"
  by (simp add: string_of_bytes_def)

lemma as_bytes_of_bytes [simp]: "as_bytes (string_of_bytes v) = v"
proof -
  have "(of_char (char_of (unat w) :: char) :: byte) = w" for w :: byte
  proof -
    have "unat (of_char (char_of (unat w) :: char) :: byte) = unat w"
      using unsigned_less [of w, where 'a = nat] by simp
    then show ?thesis by (simp only: word_unat_eq_iff)
  qed
  then show ?thesis by (simp add: as_bytes_def string_of_bytes_def comp_def)
qed

interpretation string_codec: prefix_codec string_fits put_string get_string
proof unfold_locales
  show "string_fits s \<Longrightarrow> get_string (put_string s @ r) = Some (s, r)" for s r
    by (simp add: string_fits_def get_string_def put_string_def vec_fits_def from_utf8_def
        vec_codec.get_put)
  show "get_string b = Some (s, r) \<Longrightarrow> string_fits s \<and> b = put_string s @ r" for b s r
    by (auto simp: get_string_def put_string_def string_fits_def vec_fits_def from_utf8_def
        vec_codec.get_iff split: bind_splits if_splits)
qed

end
