(* ===== verification/P256_Crypto.thy ===== *)
theory P256_Crypto
  imports Digest Borsh
begin

text \<open>
  \<open>crates/protocol/src/crypto.rs\<close>: SEC1 keys, raw low-S signatures, and the QOS envelope
  (ECDH, an HMAC-SHA-512 key derivation and AES-256-GCM, framed by Borsh). The primitives are
  the functions of \<open>crates\<close>; what is modelled is every check around them, in order, and how
  they are composed. Zeroing of buffers has no effect on values and is left out.
\<close>

section \<open>Public keys\<close>

definition parse_uncompressed_sec1 :: "'x crates_scheme \<Rightarrow> bytes \<Rightarrow> bytes tvc_result" where
  "parse_uncompressed_sec1 C b =
     (if length b = 33 \<and> (hd b = 2 \<or> hd b = 3) then tvc_err CompressedKeyRejected
      else if length b \<noteq> SEC1_UNCOMPRESSED_LEN \<or> hd b \<noteq> 4 then tvc_err InvalidPublicKey
      else
        and_then (ok_or (TvcError InvalidPublicKey) (sec1_point C b)) (\<lambda>point.
        if sec1_is_compressed C point then tvc_err CompressedKeyRejected
        else ok_or (TvcError InvalidPublicKey) (p256_from_point C point)))"

definition public_key_uncompressed :: "'x crates_scheme \<Rightarrow> bytes \<Rightarrow> bytes" where
  "public_key_uncompressed C public = p256_to_sec1 C public"

record QosP256Public =
  encryption :: bytes
  signing :: bytes

definition qos_public_from_bytes :: "'x crates_scheme \<Rightarrow> bytes \<Rightarrow> QosP256Public tvc_result" where
  "qos_public_from_bytes C b =
     (if length b \<noteq> QOS_P256_PUBLIC_LEN then tvc_err InvalidPublicKey
      else
        let enc = take SEC1_UNCOMPRESSED_LEN b; sign = drop SEC1_UNCOMPRESSED_LEN b in
        if length enc \<noteq> SEC1_UNCOMPRESSED_LEN then tvc_err InvalidPublicKey
        else if length sign \<noteq> SEC1_UNCOMPRESSED_LEN then tvc_err InvalidPublicKey
        else
          and_then (parse_uncompressed_sec1 C enc) (\<lambda>_.
          and_then (parse_uncompressed_sec1 C sign) (\<lambda>_.
          Ok \<lparr> encryption = enc, signing = sign \<rparr>)))"

definition qos_public_to_bytes :: "QosP256Public \<Rightarrow> bytes" where
  "qos_public_to_bytes p = encryption p @ signing p"

section \<open>Signatures\<close>

definition reject_der :: "bytes \<Rightarrow> unit tvc_result" where
  "reject_der signature =
     (if length signature \<noteq> RAW_P256_SIGNATURE_LEN then
        if signature \<noteq> [] \<and> hd signature = 0x30 then tvc_err DerSignatureRejected
        else tvc_err InvalidSignature
      else Ok ())"

datatype SignaturePolicy = LowSOnly | NormalizeHighS

fun signature_under_policy :: "SignaturePolicy \<Rightarrow> bytes option \<Rightarrow> bytes \<Rightarrow> bytes tvc_result" where
  "signature_under_policy LowSOnly (Some _) parsed = tvc_err HighSSignature"
| "signature_under_policy NormalizeHighS (Some normalized) parsed = Ok normalized"
| "signature_under_policy _ None parsed = Ok parsed"

definition verify_p256_raw ::
    "'x crates_scheme \<Rightarrow> bytes \<Rightarrow> bytes \<Rightarrow> bytes \<Rightarrow> SignaturePolicy \<Rightarrow> unit tvc_result" where
  "verify_p256_raw C public_sec1 digest signature policy =
     and_then (parse_uncompressed_sec1 C public_sec1) (\<lambda>verifying_key.
     and_then (reject_der signature) (\<lambda>_.
     and_then (ok_or (TvcError InvalidSignature) (ecdsa_from_slice C signature)) (\<lambda>parsed.
     and_then (signature_under_policy policy (ecdsa_normalize_s C parsed) parsed) (\<lambda>parsed.
     ensure (ecdsa_verify_prehash C verifying_key digest parsed) (TvcError InvalidSignature)))))"

definition sign_p256_prehash ::
    "'x crates_scheme \<Rightarrow> bytes \<Rightarrow> bytes \<Rightarrow> bytes tvc_result" where
  "sign_p256_prehash C secret digest =
     and_then (ok_or (TvcError InvalidPublicKey) (p256_secret C secret)) (\<lambda>signing_key.
     and_then (ok_or (TvcError InvalidSignature) (ecdsa_sign_prehash C signing_key digest)) (\<lambda>signature.
     let normalized = (case ecdsa_normalize_s C signature of Some n \<Rightarrow> n | None \<Rightarrow> signature) in
     Ok (ecdsa_to_bytes C normalized)))"

definition verify_p256_prehash ::
    "'x crates_scheme \<Rightarrow> bytes \<Rightarrow> bytes \<Rightarrow> bytes \<Rightarrow> unit tvc_result" where
  "verify_p256_prehash C public_sec1 digest signature =
     verify_p256_raw C public_sec1 digest signature LowSOnly"

definition sign_p256_message :: "'x crates_scheme \<Rightarrow> bytes \<Rightarrow> bytes \<Rightarrow> bytes tvc_result" where
  "sign_p256_message C secret message = sign_p256_prehash C secret (sha256_hash C message)"

definition verify_p256_message ::
    "'x crates_scheme \<Rightarrow> bytes \<Rightarrow> bytes \<Rightarrow> bytes \<Rightarrow> unit tvc_result" where
  "verify_p256_message C public_sec1 message signature =
     verify_p256_prehash C public_sec1 (sha256_hash C message) signature"

definition verify_turnkey_app_proof_p256_message ::
    "'x crates_scheme \<Rightarrow> bytes \<Rightarrow> bytes \<Rightarrow> bytes \<Rightarrow> unit tvc_result" where
  "verify_turnkey_app_proof_p256_message C public_sec1 message signature =
     verify_p256_raw C public_sec1 (sha256_hash C message) signature NormalizeHighS"

section \<open>The QOS envelope\<close>

record QosEnvelope =
  nonce :: bytes
  ephemeral_sender_public :: bytes
  encrypted_message :: bytes

definition put_envelope :: "QosEnvelope \<Rightarrow> bytes" where
  "put_envelope e = nonce e @ ephemeral_sender_public e @ put_vec (encrypted_message e)"

definition get_envelope :: "bytes \<Rightarrow> (QosEnvelope \<times> bytes) option" where
  "get_envelope b =
     Option.bind (get_bytes AES_GCM_NONCE_LEN b) (\<lambda>(n, b).
     Option.bind (get_bytes SEC1_UNCOMPRESSED_LEN b) (\<lambda>(p, b).
     Option.bind (get_vec b) (\<lambda>(m, b).
     Some (\<lparr> nonce = n, ephemeral_sender_public = p, encrypted_message = m \<rparr>, b))))"

definition valid_envelope :: "QosEnvelope \<Rightarrow> bool" where
  "valid_envelope e \<longleftrightarrow> length (nonce e) = AES_GCM_NONCE_LEN \<and>
     length (ephemeral_sender_public e) = SEC1_UNCOMPRESSED_LEN \<and> vec_fits (encrypted_message e)"

interpretation envelope_codec: prefix_codec valid_envelope put_envelope get_envelope
proof unfold_locales
  show "valid_envelope e \<Longrightarrow> get_envelope (put_envelope e @ r) = Some (e, r)" for e r
    by (cases e) (simp add: valid_envelope_def get_envelope_def put_envelope_def bytes_codec.get_put
        vec_codec.get_put)
  show "get_envelope b = Some (e, r) \<Longrightarrow> valid_envelope e \<and> b = put_envelope e @ r" for b e r
    by (auto simp: valid_envelope_def get_envelope_def put_envelope_def bytes_codec.get_iff
        vec_codec.get_iff split: bind_splits)
qed

text \<open>\<open>borsh::to_vec\<close> fails on a message whose length does not fit in a \<open>u32\<close>.\<close>

definition envelope_to_vec :: "QosEnvelope \<Rightarrow> bytes option" where
  "envelope_to_vec e = (if vec_fits (encrypted_message e) then Some (put_envelope e) else None)"

definition create_cipher_key ::
    "'x crates_scheme \<Rightarrow> bytes \<Rightarrow> bytes \<Rightarrow> bytes \<Rightarrow> bytes tvc_result" where
  "create_cipher_key C ephemeral receiver_public shared_secret =
     and_then (ok_or (TvcError InvalidEncryptedEnvelope)
       (hmac_sha512 C (ephemeral @ receiver_public @ shared_secret) QOS_ENCRYPTION_HMAC_MESSAGE))
       (\<lambda>output. Ok (take 32 output))"

definition u8_len :: "bytes \<Rightarrow> u8 option" where
  "u8_len b = (if length b < 256 then Some (word_of_nat (length b)) else None)"

definition create_aad :: "bytes \<Rightarrow> bytes \<Rightarrow> bytes tvc_result" where
  "create_aad ephemeral receiver_public =
     and_then (ok_or (TvcError InvalidEncryptedEnvelope) (u8_len ephemeral)) (\<lambda>sender_len.
     and_then (ok_or (TvcError InvalidEncryptedEnvelope) (u8_len receiver_public)) (\<lambda>receiver_len.
     Ok (ephemeral @ [sender_len] @ receiver_public @ [receiver_len])))"

definition qos_encrypt_with ::
    "'x crates_scheme \<Rightarrow> bytes \<Rightarrow> bytes \<Rightarrow> bytes \<Rightarrow> bytes \<Rightarrow> bytes tvc_result" where
  "qos_encrypt_with C receiver_encryption_sec1 plaintext ephemeral_secret nonce_bytes =
     and_then (parse_uncompressed_sec1 C receiver_encryption_sec1) (\<lambda>receiver.
     let receiver_bytes = public_key_uncompressed C receiver in
     and_then (ok_or (TvcError InvalidPublicKey) (p256_secret C ephemeral_secret)) (\<lambda>ephemeral.
     let ephemeral_public = public_key_uncompressed C (p256_public_key C ephemeral);
         shared = p256_ecdh C ephemeral receiver in
     and_then (create_cipher_key C ephemeral_public receiver_bytes shared) (\<lambda>cipher_key.
     and_then (create_aad ephemeral_public receiver_bytes) (\<lambda>aad.
     and_then (ok_or (TvcError InvalidEncryptedEnvelope)
         (aes256gcm_encrypt C cipher_key nonce_bytes aad plaintext)) (\<lambda>message.
     if length message < AES_GCM_TAG_LEN then tvc_err InvalidEncryptedEnvelope
     else ok_or (TvcError InvalidEncryptedEnvelope) (envelope_to_vec
       \<lparr> nonce = nonce_bytes, ephemeral_sender_public = ephemeral_public,
         encrypted_message = message \<rparr>))))))"

text \<open>\<open>qos_encrypt\<close> draws the ephemeral secret and the nonce from the system; they are its
  last two arguments here.\<close>

definition qos_encrypt ::
    "'x crates_scheme \<Rightarrow> bytes \<Rightarrow> bytes \<Rightarrow> bytes \<Rightarrow> bytes \<Rightarrow> bytes tvc_result" where
  "qos_encrypt C receiver_encryption_sec1 plaintext drawn_secret drawn_nonce =
     qos_encrypt_with C receiver_encryption_sec1 plaintext drawn_secret drawn_nonce"

definition qos_decrypt :: "'x crates_scheme \<Rightarrow> bytes \<Rightarrow> bytes \<Rightarrow> bytes tvc_result" where
  "qos_decrypt C receiver_secret envelope_bytes =
     and_then (map_err (\<lambda>_. TvcError InvalidEncryptedEnvelope)
       (whole_slice get_envelope envelope_bytes)) (\<lambda>envelope.
     if length (encrypted_message envelope) < AES_GCM_TAG_LEN
     then tvc_err InvalidEncryptedEnvelope
     else
       and_then (parse_uncompressed_sec1 C (ephemeral_sender_public envelope)) (\<lambda>_.
       and_then (ok_or (TvcError InvalidPublicKey) (p256_secret C receiver_secret)) (\<lambda>secret.
       let receiver_public = public_key_uncompressed C (p256_public_key C secret) in
       and_then (parse_uncompressed_sec1 C (ephemeral_sender_public envelope)) (\<lambda>ephemeral_public.
       let shared = p256_ecdh C secret ephemeral_public in
       and_then (create_cipher_key C (ephemeral_sender_public envelope) receiver_public shared)
         (\<lambda>cipher_key.
       and_then (create_aad (ephemeral_sender_public envelope) receiver_public) (\<lambda>aad.
       ok_or (TvcError InvalidEncryptedEnvelope)
         (aes256gcm_decrypt C cipher_key (nonce envelope) aad (encrypted_message envelope))))))))"

definition qos_public_from_secrets ::
    "'x crates_scheme \<Rightarrow> bytes \<Rightarrow> bytes \<Rightarrow> QosP256Public tvc_result" where
  "qos_public_from_secrets C encryption_secret signing_secret =
     and_then (ok_or (TvcError InvalidPublicKey) (p256_secret C encryption_secret)) (\<lambda>enc.
     and_then (ok_or (TvcError InvalidPublicKey) (p256_secret C signing_secret)) (\<lambda>sign.
     Ok \<lparr> encryption = public_key_uncompressed C (p256_public_key C enc),
          signing = public_key_uncompressed C (p256_public_key C sign) \<rparr>))"

section \<open>Facts\<close>

lemma parse_own_public:
  "p256_laws C \<Longrightarrow> p256_secret C x = Some k \<Longrightarrow>
     parse_uncompressed_sec1 C (public_key_uncompressed C (p256_public_key C k)) =
       Ok (p256_public_key C k)"
  by (simp add: parse_uncompressed_sec1_def public_key_uncompressed_def p256_laws_def Let_def
      SEC1_UNCOMPRESSED_LEN_def)

lemma length_own_public:
  "p256_laws C \<Longrightarrow> p256_secret C x = Some k \<Longrightarrow>
     length (public_key_uncompressed C (p256_public_key C k)) = 65"
  by (simp add: public_key_uncompressed_def p256_laws_def Let_def)

lemma parse_uncompressed_sec1_length:
  "parse_uncompressed_sec1 C b = Ok p \<Longrightarrow> length b = SEC1_UNCOMPRESSED_LEN"
  by (auto simp: parse_uncompressed_sec1_def split: if_splits)

text \<open>A key reads back as the bytes it was parsed from.\<close>

lemma parse_uncompressed_sec1_encoding:
  "p256_laws C \<Longrightarrow> parse_uncompressed_sec1 C b = Ok p \<Longrightarrow> public_key_uncompressed C p = b"
  unfolding parse_uncompressed_sec1_def public_key_uncompressed_def p256_laws_def
  by (auto simp: result_simps SEC1_UNCOMPRESSED_LEN_def split: if_splits)

lemma verify_p256_prehash_iff:
  "verify_p256_prehash C pk d s = Ok () \<longleftrightarrow>
     (\<exists>p t. parse_uncompressed_sec1 C pk = Ok p \<and> length s = RAW_P256_SIGNATURE_LEN \<and>
        ecdsa_from_slice C s = Some t \<and> ecdsa_normalize_s C t = None \<and> ecdsa_verify_prehash C p d t)"
  by (auto simp: verify_p256_prehash_def verify_p256_raw_def reject_der_def result_simps
      elim!: signature_under_policy.elims split: if_splits)

lemma sign_verify:
  assumes "p256_laws C" "ecdsa_laws C" "p256_secret C x = Some k" "sign_p256_prehash C x d = Ok s"
  shows "length s = RAW_P256_SIGNATURE_LEN \<and>
    verify_p256_prehash C (public_key_uncompressed C (p256_public_key C k)) d s = Ok ()"
proof -
  obtain t where t: "ecdsa_sign_prehash C k d = Some t" "s = ecdsa_to_bytes C (low_s_signature C t)"
    using assms(3,4) by (auto simp: sign_p256_prehash_def result_simps low_s_signature_def Let_def)
  with assms(2,3) show ?thesis
    unfolding verify_p256_prehash_iff parse_own_public [OF assms(1,3)]
    by (auto simp: ecdsa_laws_def Let_def RAW_P256_SIGNATURE_LEN_def)
qed

lemma qos_decrypt_encrypt:
  assumes "p256_laws C" "aead_laws C"
    and "p256_secret C receiver = Some k" "length n = AES_GCM_NONCE_LEN"
    and "qos_encrypt C (public_key_uncompressed C (p256_public_key C k)) plaintext ephemeral n = Ok e"
  shows "qos_decrypt C receiver e = Ok plaintext"
proof -
  let ?pk = "\<lambda>k. public_key_uncompressed C (p256_public_key C k)"
  obtain eph ck aad m where eph: "p256_secret C ephemeral = Some eph"
    and ck: "create_cipher_key C (?pk eph) (?pk k) (p256_ecdh C eph (p256_public_key C k)) = Ok ck"
    and aad: "create_aad (?pk eph) (?pk k) = Ok aad"
    and m: "aes256gcm_encrypt C ck n aad plaintext = Some m" "\<not> length m < AES_GCM_TAG_LEN"
    and e: "vec_fits m" "e = put_envelope \<lparr> nonce = n, ephemeral_sender_public = ?pk eph,
        encrypted_message = m \<rparr>"
    using assms(5) by (auto simp: qos_encrypt_def qos_encrypt_with_def parse_own_public [OF assms(1,3)]
        result_simps Let_def envelope_to_vec_def split: if_splits)
  have frame: "whole_slice get_envelope e = Ok \<lparr> nonce = n, ephemeral_sender_public = ?pk eph,
      encrypted_message = m \<rparr>"
    using e assms(4) length_own_public [OF assms(1) eph]
    by (simp add: envelope_codec.whole_iff valid_envelope_def SEC1_UNCOMPRESSED_LEN_def)
  have "p256_ecdh C k (p256_public_key C eph) = p256_ecdh C eph (p256_public_key C k)"
    using assms(1,3) eph by (simp add: p256_laws_def)
  then show ?thesis
    using m ck aad assms(2) by (simp add: qos_decrypt_def frame parse_own_public [OF assms(1) eph]
        assms(3) aead_laws_def)
qed

section \<open>Properties\<close>

text \<open>
  What the program signs it accepts: a signature made with a secret key is 64 bytes,
  low-S, and passes both the strict verifier and the Turnkey app-proof verifier under that
  key's public key; the strict verifier's other outcome for such a key, on the bytes of a
  high-S signature, is \<open>HighSSignature\<close>, while the app-proof verifier checks its low-S form.
\<close>

lemma signature_roundtrip:
  assumes "p256_laws C" "ecdsa_laws C" "p256_secret C x = Some k"
    and "sign_p256_message C x m = Ok s"
    and "length h = 64" "ecdsa_from_slice C h = Some high" "ecdsa_normalize_s C high = Some low"
  shows "length s = 64 \<and>
    verify_p256_message C (public_key_uncompressed C (p256_public_key C k)) m s = Ok () \<and>
    verify_turnkey_app_proof_p256_message C (public_key_uncompressed C (p256_public_key C k)) m s = Ok () \<and>
    verify_p256_message C (public_key_uncompressed C (p256_public_key C k)) m h = tvc_err HighSSignature \<and>
    (is_ok (verify_turnkey_app_proof_p256_message C (public_key_uncompressed C (p256_public_key C k)) m h) =
       ecdsa_verify_prehash C (p256_public_key C k) (sha256_hash C m) low)"
proof -
  note key = parse_own_public [OF assms(1,3)]
  have ok: "length s = RAW_P256_SIGNATURE_LEN"
    "verify_p256_prehash C (public_key_uncompressed C (p256_public_key C k)) (sha256_hash C m) s = Ok ()"
    using sign_verify [OF assms(1-3)] assms(4) by (auto simp: sign_p256_message_def)
  then obtain t where "ecdsa_from_slice C s = Some t" "ecdsa_normalize_s C t = None"
    "ecdsa_verify_prehash C (p256_public_key C k) (sha256_hash C m) t"
    using key by (auto simp: verify_p256_prehash_iff)
  with ok key assms(5-7) show ?thesis
    by (simp add: verify_p256_message_def verify_turnkey_app_proof_p256_message_def
        verify_p256_prehash_def verify_p256_raw_def reject_der_def RAW_P256_SIGNATURE_LEN_def
        ensure_def)
qed

lemma signature_roundtrip_witness:
  "\<exists>s. sign_p256_message demo_crates (replicate 32 1) [9] = Ok s \<and> length s = 64 \<and>
     verify_p256_message demo_crates (4 # replicate 64 1) [9] s = Ok () \<and>
     verify_p256_message demo_crates (4 # replicate 64 1) [9] (replicate 64 255) =
       tvc_err HighSSignature"
proof -
  define s where "s = demo_hash (1 # replicate 32 1) @ demo_hash (demo_hash [9])"
  have s: "sign_p256_message demo_crates (replicate 32 1) [9] = Ok s"
    by (simp add: sign_p256_message_def sign_p256_prehash_def s_def demo_crates_def
        demo_signature_head Let_def)
  have key: "public_key_uncompressed demo_crates (p256_public_key demo_crates (replicate 32 1)) =
      4 # replicate 64 1"
    by (simp add: public_key_uncompressed_def demo_crates_def flip: replicate_add)
  from signature_roundtrip [OF demo_p256_laws demo_ecdsa_laws _ s, of "replicate 32 1"
      "replicate 64 255" "replicate 64 255" "0 # replicate 63 255"]
  show ?thesis using s
    unfolding key by (simp add: demo_crates_def)
qed

text \<open>
  The associated data of an envelope determines both keys it was built from, whatever
  their lengths, so a ciphertext for one pair of keys is not one for another pair.
\<close>

lemma create_aad_binds_keys:
  assumes "create_aad a b = Ok x" "create_aad c d = Ok x"
  shows "a = c \<and> b = d"
proof -
  have fits: "length a < 256" "length b < 256" "length c < 256" "length d < 256"
    and eq: "a @ [word_of_nat (length a)] @ b @ [word_of_nat (length b)] =
      c @ [word_of_nat (length c)] @ d @ [word_of_nat (length d) :: byte]"
    using assms by (auto simp: create_aad_def u8_len_def result_simps split: if_splits)
  have len: "m < 256 \<Longrightarrow> n < 256 \<Longrightarrow> word_of_nat m = (word_of_nat n :: byte) \<Longrightarrow> m = n" for m n
    by (simp add: word_of_nat_eq_iff take_bit_eq_mod)
  have "length b = length d" using eq fits len by (simp flip: append_assoc)
  with eq show ?thesis by (simp flip: append_assoc)
qed

lemma create_aad_binds_keys_witness: "([1] :: bytes) = [1] \<and> ([2, 3] :: bytes) = [2, 3]"
  by (rule create_aad_binds_keys [where x = "[1, 1, 2, 3, 2]"])
    (simp_all add: create_aad_def u8_len_def)

text \<open>
  C39. An envelope made for a key opens with it: \<open>qos_decrypt\<close> gives back the plaintext of
  every envelope \<open>qos_encrypt\<close> returns for the secret's public key, through the Borsh frame.
\<close>

theorem qos_envelope_roundtrip:
  assumes "p256_laws C" "aead_laws C"
    and "p256_secret C receiver = Some k" "length n = AES_GCM_NONCE_LEN"
    and "qos_encrypt C (public_key_uncompressed C (p256_public_key C k)) plaintext ephemeral n = Ok e"
  shows "qos_decrypt C receiver e = Ok plaintext"
  by (rule qos_decrypt_encrypt [OF assms])

theorem qos_envelope_roundtrip_witness:
  "qos_decrypt demo_crates (replicate 32 1)
     (put_envelope \<lparr> nonce = replicate 12 7, ephemeral_sender_public = 4 # replicate 64 2,
        encrypted_message = [5, 6] @ replicate 16 0 \<rparr>) = Ok [5, 6]"
  by (rule qos_envelope_roundtrip [OF demo_p256_laws demo_aead_laws, of _ "replicate 32 1" _ _ "replicate 32 2"])
    (simp_all add: qos_encrypt_def qos_encrypt_with_def parse_uncompressed_sec1_def demo_crates_def
      public_key_uncompressed_def create_cipher_key_def create_aad_def u8_len_def AES_GCM_TAG_LEN_def
      AES_GCM_NONCE_LEN_def SEC1_UNCOMPRESSED_LEN_def envelope_to_vec_def vec_fits_def put_envelope_def
      Let_def flip: replicate_add)

text \<open>
  What decrypts is exactly one frame, with a tag and a valid uncompressed sender key:
  no byte may follow it, and re-encoding its fields gives the same bytes.
\<close>

lemma qos_decrypt_exact_frame:
  assumes "qos_decrypt C receiver b = Ok plaintext"
  shows "\<exists>e. valid_envelope e \<and> b = put_envelope e \<and> AES_GCM_TAG_LEN \<le> length (encrypted_message e) \<and>
    is_ok (parse_uncompressed_sec1 C (ephemeral_sender_public e))"
  using assms
  by (auto simp: qos_decrypt_def result_simps envelope_codec.whole_iff split: if_splits)

lemma qos_decrypt_exact_frame_witness:
  "\<exists>e. valid_envelope e \<and>
     put_envelope \<lparr> nonce = replicate 12 7, ephemeral_sender_public = 4 # replicate 64 2,
        encrypted_message = replicate 16 0 \<rparr> = put_envelope e \<and>
     AES_GCM_TAG_LEN \<le> length (encrypted_message e) \<and>
     is_ok (parse_uncompressed_sec1 demo_crates (ephemeral_sender_public e))"
proof (rule qos_decrypt_exact_frame)
  let ?e = "\<lparr> nonce = replicate 12 7, ephemeral_sender_public = 4 # replicate 64 2,
    encrypted_message = replicate 16 0 \<rparr>"
  have "whole_slice get_envelope (put_envelope ?e) = Ok ?e"
    by (simp add: envelope_codec.whole_iff valid_envelope_def AES_GCM_NONCE_LEN_def
        SEC1_UNCOMPRESSED_LEN_def vec_fits_def)
  then show "qos_decrypt demo_crates (replicate 32 1) (put_envelope ?e) = Ok []"
    by (simp add: qos_decrypt_def parse_uncompressed_sec1_def demo_crates_def
      public_key_uncompressed_def create_cipher_key_def create_aad_def u8_len_def AES_GCM_TAG_LEN_def
      SEC1_UNCOMPRESSED_LEN_def Let_def)
qed

end
