(* ===== verification/Client_Auth.thy ===== *)
theory Client_Auth
  imports P256_Crypto
begin

text \<open>
  \<open>crates/protocol/src/auth.rs\<close> and \<open>grant.rs\<close>: a client key's signature over a request,
  and the wallet grants a gateway issues. Times are \<open>u64\<close> milliseconds; the window a grant
  is good for is stated over the natural numbers, so that no saturation hides in it.
\<close>

section \<open>Client authorization\<close>

definition client_key_id :: "'x crates_scheme \<Rightarrow> bytes \<Rightarrow> string" where
  "client_key_id C client_public_key =
     CLIENT_KEY_ID_PREFIX @ hex_encode C (take 16 (sha256_hash C client_public_key))"

definition authorize_operation_request ::
    "'x crates_scheme \<Rightarrow> OperationRequest \<Rightarrow> bytes \<Rightarrow> OperationRequest tvc_result" where
  "authorize_operation_request C request client_secret =
     and_then (request_digest C request) (\<lambda>d.
     and_then (sign_p256_prehash C client_secret (client_auth_digest C d)) (\<lambda>signature.
     Ok (request \<lparr> req_authorization :=
           (req_authorization request) \<lparr> ca_signature := signature \<rparr> \<rparr>)))"

definition verify_client_authorization ::
    "'x crates_scheme \<Rightarrow> OperationRequest \<Rightarrow> bytes \<Rightarrow> unit tvc_result" where
  "verify_client_authorization C request client_public_sec1 =
     (if ca_client_key_id (req_authorization request) = [] then tvc_err UnauthorizedClient
      else
        and_then (request_digest C request) (\<lambda>d.
        map_err (\<lambda>_. TvcError UnauthorizedClient)
          (verify_p256_prehash C client_public_sec1 (client_auth_digest C d)
             (ca_signature (req_authorization request)))))"

section \<open>Wallet grants\<close>

definition sign_wallet_grant ::
    "'x crates_scheme \<Rightarrow> WalletGrant \<Rightarrow> bytes \<Rightarrow> WalletGrant tvc_result" where
  "sign_wallet_grant C grant secret =
     (let grant = grant \<lparr> wg_signature := [] \<rparr> in
      and_then (wallet_grant_digest C grant) (\<lambda>d.
      and_then (sign_p256_prehash C secret d) (\<lambda>signature.
      Ok (grant \<lparr> wg_signature := signature \<rparr>))))"

definition verify_wallet_grant ::
    "'x crates_scheme \<Rightarrow> WalletGrant \<Rightarrow> bytes \<Rightarrow> WalletDescriptor \<Rightarrow> string \<Rightarrow> u64 \<Rightarrow> unit tvc_result"
  where
  "verify_wallet_grant C grant grant_public descriptor client_id now_ms =
     (if wg_version grant \<noteq> API_VERSION then tvc_err UnsupportedVersion
      else
        and_then (wallet_grant_digest C grant) (\<lambda>d.
        and_then (map_err (\<lambda>_. TvcError UnauthorizedClient)
            (verify_p256_prehash C grant_public d (wg_signature grant))) (\<lambda>_.
        and_then (descriptor_digest C descriptor) (\<lambda>dd.
        if wg_descriptor_digest grant \<noteq> dd \<or> wg_client_key_id grant \<noteq> client_id
        then tvc_err UnauthorizedClient
        else
          let lifetime = checked_sub (wg_expires_at_ms grant) (wg_issued_at_ms grant) in
          if \<not> (case lifetime of Some l \<Rightarrow> l \<le> MAX_WALLET_GRANT_LIFETIME_MS | None \<Rightarrow> False)
             \<or> wg_issued_at_ms grant > saturating_add now_ms MAX_CLOCK_SKEW_MS
             \<or> saturating_add (wg_expires_at_ms grant) MAX_CLOCK_SKEW_MS < now_ms
          then tvc_err ExpiredRequest
          else Ok ()))))"

section \<open>Facts\<close>

lemma client_key_id_nonempty: "client_key_id C k \<noteq> []"
  by (simp add: client_key_id_def CLIENT_KEY_ID_PREFIX_def)

lemma request_digest_unsigned: "unsigned_request r = unsigned_request s \<Longrightarrow> request_digest C r = request_digest C s"
proof -
  assume eq: "unsigned_request r = unsigned_request s"
  have "request_payload C (unsigned_request r) = request_payload C r" for r
    by (simp add: request_payload_def unsigned_request_def)
  with eq have "request_payload C r = request_payload C s" by metis
  then show ?thesis by (simp add: request_digest_payload)
qed

lemma wallet_grant_digest_unsigned:
  "wallet_grant_digest C (g \<lparr> wg_signature := s \<rparr>) = wallet_grant_digest C g"
  by (simp add: wallet_grant_digest_payload grant_payload_def)

lemma u64_less_saturating_add:
  "(a :: u64) > saturating_add b c \<longleftrightarrow> unat a > unat b + unat c"
  using unat_u64_bound [of a] by (auto simp: word_less_nat_alt nat_of_u64)

lemma saturating_add_u64_less:
  "saturating_add (a :: u64) c < b \<longleftrightarrow> unat a + unat c < unat b"
  using unat_u64_bound [of b] by (auto simp: word_less_nat_alt nat_of_u64)

lemma checked_sub_le:
  "(case checked_sub a b of Some l \<Rightarrow> l \<le> m | None \<Rightarrow> False) \<longleftrightarrow>
     unat b \<le> unat a \<and> unat a \<le> unat b + unat m"
  by (auto simp: word_le_nat_alt nat_of_u64 split: option.splits)

definition grant_window :: "WalletGrant \<Rightarrow> nat \<Rightarrow> bool" where
  "grant_window g now \<longleftrightarrow>
     unat (wg_issued_at_ms g) \<le> unat (wg_expires_at_ms g) \<and>
     unat (wg_expires_at_ms g) \<le> unat (wg_issued_at_ms g) + 3600000 \<and>
     unat (wg_issued_at_ms g) \<le> now + 60000 \<and>
     now \<le> unat (wg_expires_at_ms g) + 60000"

lemma verify_wallet_grant_iff:
  "verify_wallet_grant C g pk d cid now = Ok () \<longleftrightarrow>
     wg_version g = API_VERSION \<and>
     (\<exists>h. wallet_grant_digest C g = Ok h \<and> verify_p256_prehash C pk h (wg_signature g) = Ok ()) \<and>
     descriptor_digest C d = Ok (wg_descriptor_digest g) \<and> wg_client_key_id g = cid \<and>
     grant_window g (unat now)"
  by (auto simp: verify_wallet_grant_def result_simps u64_less_saturating_add saturating_add_u64_less
      checked_sub_le grant_window_def limit_defs Let_def not_less split: if_splits)

lemma map_err_const_Ok: "map_err f m = Ok () \<longleftrightarrow> m = Ok ()"
  by (cases m) auto

lemma verify_client_authorization_iff:
  "verify_client_authorization C r pk = Ok () \<longleftrightarrow>
     ca_client_key_id (req_authorization r) \<noteq> [] \<and>
     (\<exists>h. request_digest C r = Ok h \<and>
        verify_p256_prehash C pk (client_auth_digest C h) (ca_signature (req_authorization r)) = Ok ())"
  by (auto simp: verify_client_authorization_def result_simps)

section \<open>Properties\<close>

text \<open>
  A request a client authorizes with its secret key passes the enclave's check under
  the public key, and authorizing changes nothing but the signature.
\<close>

lemma authorization_roundtrip:
  assumes "p256_laws C" "ecdsa_laws C" "p256_secret C x = Some k"
    and "authorize_operation_request C r x = Ok s"
    and "ca_client_key_id (req_authorization r) \<noteq> []"
  shows "verify_client_authorization C s (public_key_uncompressed C (p256_public_key C k)) = Ok () \<and>
    unsigned_request s = unsigned_request r"
proof -
  obtain d sig where d: "request_digest C r = Ok d"
    and sig: "sign_p256_prehash C x (client_auth_digest C d) = Ok sig"
    and s: "s = r \<lparr> req_authorization := (req_authorization r) \<lparr> ca_signature := sig \<rparr> \<rparr>"
    using assms(4) by (auto simp: authorize_operation_request_def result_simps)
  have u: "unsigned_request s = unsigned_request r" by (simp add: s unsigned_request_def)
  show ?thesis
    using sign_verify [OF assms(1-3) sig] d u request_digest_unsigned [OF u, of C] assms(5)
    by (simp add: verify_client_authorization_iff s)
qed

lemma authorization_roundtrip_witness:
  "\<exists>s. authorize_operation_request demo_crates demo_request (replicate 32 1) = Ok s \<and>
     verify_client_authorization demo_crates s (4 # replicate 64 1) = Ok () \<and>
     unsigned_request s = unsigned_request demo_request"
proof -
  obtain h where h: "request_digest demo_crates demo_request = Ok h"
    by (rule that [OF request_digest_exists])
      (simp add: demo_request_def no_float del: has_float.simps)
  obtain s where s: "authorize_operation_request demo_crates demo_request (replicate 32 1) = Ok s"
    using h by (simp add: authorize_operation_request_def sign_p256_prehash_def demo_crates_def Let_def)
  have key: "public_key_uncompressed demo_crates (p256_public_key demo_crates (replicate 32 1)) =
      4 # replicate 64 1"
    by (simp add: public_key_uncompressed_def demo_crates_def flip: replicate_add)
  from authorization_roundtrip [OF demo_p256_laws demo_ecdsa_laws _ s, of "replicate 32 1"]
  show ?thesis using s unfolding key by (simp add: demo_crates_def demo_request_def)
qed

text \<open>
  What a grant must be besides not having expired: of this version, signed by the grant key, for this
  descriptor and client key, alive for at most an hour and issued no later than the clock's skew allows.
\<close>

definition grant_is_for ::
    "'x crates_scheme \<Rightarrow> WalletGrant \<Rightarrow> bytes \<Rightarrow> WalletDescriptor \<Rightarrow> string \<Rightarrow> nat \<Rightarrow> bool" where
  "grant_is_for C g grant_public d client now \<longleftrightarrow>
     wg_version g = API_VERSION \<and>
     (\<exists>h. wallet_grant_digest C g = Ok h \<and> verify_p256_prehash C grant_public h (wg_signature g) = Ok ()) \<and>
     descriptor_digest C d = Ok (wg_descriptor_digest g) \<and> wg_client_key_id g = client \<and>
     unat (wg_issued_at_ms g) \<le> unat (wg_expires_at_ms g) \<and>
     unat (wg_expires_at_ms g) \<le> unat (wg_issued_at_ms g) + 3600000 \<and>
     unat (wg_issued_at_ms g) \<le> now + 60000"

text \<open>
  C14. A grant is for one descriptor and client key and short-lived: an accepted grant is of this version,
  signed by the grant key, names exactly this descriptor and client key, lives at most an hour and was not
  issued in the future beyond the 60 seconds of clock skew; no grant is accepted more than that skew after
  it expired, so none more than an hour and a minute after it was issued; and every grant that is all
  this and has not expired at \<open>now\<close> is accepted.
\<close>

theorem accepted_grant_is_short_lived:
  "(verify_wallet_grant C g pk d client now = Ok () \<longrightarrow>
      grant_is_for C g pk d client (unat now) \<and> unat now \<le> unat (wg_expires_at_ms g) + 60000 \<and>
      unat now \<le> unat (wg_issued_at_ms g) + 3660000) \<and>
   (grant_is_for C g pk d client (unat now) \<and> unat now \<le> unat (wg_expires_at_ms g) \<longrightarrow>
      verify_wallet_grant C g pk d client now = Ok ())"
  by (auto simp: verify_wallet_grant_iff grant_window_def grant_is_for_def)

text \<open>
  A grant signed for a descriptor and a client key admits them for as long as its window
  lasts, and admits no other wallet descriptor (in any field but the provisioning signature)
  and no other client key, unless SHA-256 collides on the two descriptors.
\<close>

lemma wallet_grant_admits_its_wallet:
  assumes "hex_laws C" "p256_laws C" "ecdsa_laws C" "p256_secret C x = Some k"
    and "sign_wallet_grant C g x = Ok s" "wg_version g = API_VERSION"
    and "descriptor_digest C d = Ok (wg_descriptor_digest g)" "grant_window g (unat now)"
  shows "verify_wallet_grant C s (public_key_uncompressed C (p256_public_key C k)) d
      (wg_client_key_id g) now = Ok () \<and>
    (verify_wallet_grant C s pk e cid later = Ok () \<longrightarrow>
       cid = wg_client_key_id g \<and>
       (unsigned_descriptor e = unsigned_descriptor d \<or>
        sha256_collision C (descriptor_hash_input C e) (descriptor_hash_input C d)))"
proof -
  obtain h sig where h: "wallet_grant_digest C g = Ok h" and sig: "sign_p256_prehash C x h = Ok sig"
    and s: "s = g \<lparr> wg_signature := sig \<rparr>"
    using assms(5) by (auto simp: sign_wallet_grant_def result_simps wallet_grant_digest_unsigned Let_def)
  have "verify_wallet_grant C s (public_key_uncompressed C (p256_public_key C k)) d
      (wg_client_key_id g) now = Ok ()"
    using sign_verify [OF assms(2-4) sig] h assms(6-8)
    by (simp add: verify_wallet_grant_iff s wallet_grant_digest_unsigned grant_window_def)
  moreover have "cid = wg_client_key_id g \<and> descriptor_digest C e = Ok (wg_descriptor_digest g)"
    if "verify_wallet_grant C s pk e cid later = Ok ()"
    using that by (simp add: verify_wallet_grant_iff s)
  ultimately show ?thesis
    using descriptor_digest_binds [OF assms(1) _ assms(7), of e] by blast
qed

definition demo_grant :: WalletGrant where
  "demo_grant =
     \<lparr> wg_version = 1,
       wg_descriptor_digest = sha256_hash demo_crates (descriptor_hash_input demo_crates demo_descriptor),
       wg_client_key_id = ''key'', wg_project_id = ''project'', wg_issued_at_ms = 100,
       wg_expires_at_ms = 200, wg_signature = [] \<rparr>"

lemma wallet_grant_admits_its_wallet_witness:
  "\<exists>s. sign_wallet_grant demo_crates demo_grant (replicate 32 1) = Ok s \<and>
     verify_wallet_grant demo_crates s (4 # replicate 64 1) demo_descriptor ''key'' 150 = Ok ()"
proof -
  obtain s where s: "sign_wallet_grant demo_crates demo_grant (replicate 32 1) = Ok s"
    by (simp add: sign_wallet_grant_def wallet_grant_digest_exists sign_p256_prehash_def
        demo_crates_def Let_def)
  have key: "public_key_uncompressed demo_crates (p256_public_key demo_crates (replicate 32 1)) =
      4 # replicate 64 1"
    by (simp add: public_key_uncompressed_def demo_crates_def flip: replicate_add)
  from wallet_grant_admits_its_wallet [OF demo_hex_laws demo_p256_laws demo_ecdsa_laws _ s,
      of "replicate 32 1" demo_descriptor 150]
  show ?thesis using s unfolding key
    by (simp add: demo_grant_def API_VERSION_def descriptor_digest_exists descriptor_hash_input_def
        grant_window_def) (simp add: demo_crates_def)
qed

theorem accepted_grant_is_short_lived_witness:
  "\<exists>s. sign_wallet_grant demo_crates demo_grant (replicate 32 1) = Ok s \<and>
     verify_wallet_grant demo_crates s (4 # replicate 64 1) demo_descriptor ''key'' 200 = Ok () \<and>
     verify_wallet_grant demo_crates s (4 # replicate 64 1) demo_descriptor ''key'' 61000 \<noteq> Ok ()"
proof -
  obtain s where s: "sign_wallet_grant demo_crates demo_grant (replicate 32 1) = Ok s"
    "verify_wallet_grant demo_crates s (4 # replicate 64 1) demo_descriptor ''key'' 150 = Ok ()"
    using wallet_grant_admits_its_wallet_witness by blast
  have expires: "unat (wg_expires_at_ms s) = 200"
    using s(1) by (auto simp: sign_wallet_grant_def result_simps Let_def demo_grant_def)
  note bounds = accepted_grant_is_short_lived [of demo_crates s "4 # replicate 64 1" demo_descriptor "''key''"]
  have "grant_is_for demo_crates s (4 # replicate 64 1) demo_descriptor ''key'' 200"
    using bounds [of 150] s(2) by (auto simp: grant_is_for_def)
  with bounds [of 200] bounds [of 61000] s(1) expires show ?thesis by auto
qed

end
