(* ===== verification/Enclave_Base.thy ===== *)
theory Enclave_Base
  imports Client_Auth
begin

text \<open>
  What the enclave application (\<open>apps/privacy-wallet/src\<close>) is built from: the functions of
  further third-party packages (\<open>qos_p256\<close>, \<open>solana_pubkey\<close>, \<open>uuid\<close>, \<open>spr_keypair\<close>,
  \<open>spr_transaction\<close>, \<open>spr_prover_tee\<close>), the HTTP answers of \<open>http.rs\<close>, the network trust of
  \<open>network.rs\<close>, and the ways an operation fails.

  Key pairs, roles, policies, attestations and trust anchors are opaque values of those
  packages, carried as byte lists. Functions that draw randomness take it as an argument.
\<close>

section \<open>Third-party functions\<close>

record enclave_crates = wire_crates +
  pair_decrypt :: "bytes \<Rightarrow> bytes \<Rightarrow> bytes option"
  pair_encrypt :: "bytes \<Rightarrow> bytes \<Rightarrow> bytes \<Rightarrow> bytes option"
  pair_sign :: "bytes \<Rightarrow> bytes \<Rightarrow> bytes option"
  pair_public :: "bytes \<Rightarrow> bytes"
  pair_signing_point :: "bytes \<Rightarrow> bytes"
  pubkey_from_str :: "string \<Rightarrow> bytes option"
  uuid_hyphenated :: "string \<Rightarrow> string option"
  derivation_message :: "bytes \<Rightarrow> bytes"
  ed25519_verify :: "bytes \<Rightarrow> bytes \<Rightarrow> bytes \<Rightarrow> bool"
  expand_roles :: "bytes \<Rightarrow> (bytes \<times> bytes) option"
  nullifier_pubkey :: "bytes \<Rightarrow> bytes option"
  nullifier_secret :: "bytes \<Rightarrow> bytes"
  viewing_pubkey :: "bytes \<Rightarrow> bytes"
  owner_hash :: "bytes \<Rightarrow> bytes \<Rightarrow> bytes \<Rightarrow> bytes option"
  x25519_from_bytes :: "bytes \<Rightarrow> bytes option"
  salt_len :: nat
  decrypt_utxo :: "bytes \<Rightarrow> bytes \<Rightarrow> bytes \<Rightarrow> bytes \<Rightarrow> u32 \<Rightarrow> bytes option"
  decrypt_ring_deposit :: "bytes \<Rightarrow> bytes \<Rightarrow> bytes \<Rightarrow> bytes \<Rightarrow> bytes option"
  nullifier_of :: "bytes \<Rightarrow> bytes \<Rightarrow> bytes \<Rightarrow> bytes option"
  merge_dummy_nullifier :: "bytes \<Rightarrow> bytes \<Rightarrow> u8 \<Rightarrow> bytes option"
  merge_output_blinding :: "bytes \<Rightarrow> bytes \<Rightarrow> bytes option"
  merge_private_tx_blinding :: "bytes \<Rightarrow> bytes \<Rightarrow> bytes option"
  merge_output_key :: "bytes \<Rightarrow> bytes \<Rightarrow> bytes option"
  transaction_viewing_key :: "bytes \<Rightarrow> bytes \<Rightarrow> bytes option"
  json_to_vec :: "json \<Rightarrow> bytes option"
  max_signed_policy_bytes :: nat
  signed_policy_verify :: "bytes \<Rightarrow> bytes \<Rightarrow> u64 \<Rightarrow> bytes option"
  attestation_from_value :: "json \<Rightarrow> bytes option"
  attestation_verify :: "bytes \<Rightarrow> bytes \<Rightarrow> bytes \<Rightarrow> u64 \<Rightarrow> bytes \<Rightarrow> bytes option"
  prover_encrypt :: "bytes \<Rightarrow> bytes \<Rightarrow> string \<Rightarrow> string \<Rightarrow> bytes \<Rightarrow> (string \<times> bytes \<times> bytes) option"
  policy_signers_new :: "string \<Rightarrow> bytes list \<Rightarrow> nat \<Rightarrow> bytes option"
  anchors_production :: bytes
  base64_url_no_pad :: "bytes \<Rightarrow> string"
  ecdsa_to_der :: "bytes \<Rightarrow> bytes"
  signature_scheme_p256 :: string

text \<open>
  \<open>pair_decrypt pair b\<close>; \<open>pair_encrypt entropy pair m\<close> under the pair's public half;
  \<open>ed25519_verify public message signature\<close>; \<open>owner_hash owner nullifier_pubkey viewing_pubkey\<close>;
  \<open>decrypt_utxo viewing ciphertext transaction_key salt slot\<close>;
  \<open>attestation_verify attestation policy nonce now_seconds anchors\<close>;
  \<open>prover_encrypt entropy key method target plaintext\<close> gives the encapsulated key in hex, the
  body and the response key.
\<close>

text \<open>\<open>qos_p256\<close>: a pair decrypts what was encrypted to its public half.\<close>

definition pair_laws :: "'x enclave_crates_scheme \<Rightarrow> bool" where
  "pair_laws C \<longleftrightarrow> (\<forall>r p m c. pair_encrypt C r p m = Some c \<longrightarrow> pair_decrypt C p c = Some m)"

text \<open>
  A pair's public half is its encryption point and its signing point, both uncompressed, and a
  signature of the pair over a message, with its S half normalised, verifies over the message's
  SHA-256 under the signing point.
\<close>

definition uncompressed_point :: "'x crates_scheme \<Rightarrow> bytes \<Rightarrow> bytes \<Rightarrow> bool" where
  "uncompressed_point C b key \<longleftrightarrow> length b = 65 \<and> hd b = 4 \<and>
     (\<exists>e. sec1_point C b = Some e \<and> \<not> sec1_is_compressed C e \<and> p256_from_point C e = Some key)"

definition pair_signing_laws :: "'x enclave_crates_scheme \<Rightarrow> bool" where
  "pair_signing_laws C \<longleftrightarrow>
     (\<forall>p m raw. pair_sign C p m = Some raw \<longrightarrow>
        (\<exists>s a b enc key. ecdsa_from_slice C raw = Some s \<and>
           pair_public C p = a @ b \<and> uncompressed_point C a enc \<and> uncompressed_point C b key \<and>
           (let t = low_s_signature C s in
            length (ecdsa_to_bytes C t) = 64 \<and> ecdsa_from_slice C (ecdsa_to_bytes C t) = Some t \<and>
            ecdsa_normalize_s C t = None \<and> ecdsa_verify_prehash C key (sha256_hash C m) t)))"

section \<open>HTTP answers\<close>

record http_response =
  http_status :: nat
  http_content_type :: string
  http_body :: bytes

datatype PublicError =
    PE_RequestTooLarge
  | PE_MethodNotAllowed
  | PE_NotFound
  | PE_Unavailable
  | PE_InvalidRequest
  | PE_DescriptorExpired

fun public_error_status :: "PublicError \<Rightarrow> nat" where
  "public_error_status PE_RequestTooLarge = 413"
| "public_error_status PE_MethodNotAllowed = 405"
| "public_error_status PE_NotFound = 404"
| "public_error_status PE_Unavailable = 503"
| "public_error_status PE_InvalidRequest = 400"
| "public_error_status PE_DescriptorExpired = 403"

fun public_error_name :: "PublicError \<Rightarrow> string" where
  "public_error_name PE_RequestTooLarge = ''RequestTooLarge''"
| "public_error_name PE_MethodNotAllowed = ''MethodNotAllowed''"
| "public_error_name PE_NotFound = ''NotFound''"
| "public_error_name PE_Unavailable = ''Unavailable''"
| "public_error_name PE_InvalidRequest = ''InvalidRequest''"
| "public_error_name PE_DescriptorExpired = ''DescriptorExpired''"

definition http_json :: "nat \<Rightarrow> string \<Rightarrow> http_response" where
  "http_json status body =
     \<lparr> http_status = status, http_content_type = ''application/json'', http_body = as_bytes body \<rparr>"

definition public_error_response :: "PublicError \<Rightarrow> http_response" where
  "public_error_response e =
     http_json (public_error_status e)
       (''{'' @ quote @ ''error'' @ quote @ '':'' @ quote @ public_error_name e @ quote @ ''}'')"

definition http_ok :: "string \<Rightarrow> http_response" where
  "http_ok body = http_json 200 body"

section \<open>Failures\<close>

datatype Failure =
    Invalid
  | FailureDescriptorExpired
  | Unavailable
  | Stage FailureStage

text \<open>\<open>now_ms\<close>: \<open>reading\<close> is the time since the epoch in milliseconds, or \<open>None\<close> when the
  clock stands before the epoch.\<close>

definition now_ms :: "nat option \<Rightarrow> Failure + u64" where
  "now_ms reading =
     and_then (ok_or Unavailable reading) (\<lambda>millis. ok_or Unavailable (u64_try_from millis))"

text \<open>\<open>map_err(|_| f)\<close>\<close>

definition or_fail :: "'f \<Rightarrow> 'e + 'a \<Rightarrow> 'f + 'a" where
  "or_fail f m = map_err (\<lambda>_. f) m"

lemma or_fail_simps [simp]: "or_fail f (Inl e) = Inl f" "or_fail f (Inr x) = Inr x"
  by (simp_all add: or_fail_def)

lemma or_fail_Ok [result_simps]: "or_fail f m = Inr x \<longleftrightarrow> m = Inr x"
  by (cases m) auto

lemma or_fail_Err [result_simps]: "or_fail f m = Inl e \<longleftrightarrow> e = f \<and> (\<exists>e'. m = Inl e')"
  by (cases m) auto

section \<open>Network trust\<close>

record Net =
  net_network :: Network
  net_provisioning :: bytes
  net_grant :: bytes
  net_policy_signers :: "bytes list"
  net_policy_threshold :: nat

definition POLICY_SIGNER :: bytes where
  "POLICY_SIGNER =
     [0x1f, 0xe5, 0xd2, 0x9c, 0x79, 0x06, 0x4e, 0xa1, 0x7a, 0x16, 0x30, 0x84, 0x52, 0x04, 0x0b, 0x79,
      0x9d, 0xf8, 0xae, 0xaa, 0xae, 0x58, 0x8d, 0x44, 0xa5, 0x27, 0xa8, 0xda, 0x9f, 0xfa, 0x92, 0x4a]"

definition DEVNET :: Net where
  "DEVNET =
     \<lparr> net_network = Devnet,
       net_provisioning =
         [0x04, 0x6e, 0x85, 0x2f, 0x2e, 0xb1, 0xbc, 0x79, 0xe2, 0xed, 0x3c, 0xdb, 0x57, 0xfa, 0x7e,
          0x2f, 0x75, 0x72, 0x0f, 0xe5, 0x30, 0x32, 0xf6, 0xae, 0xdc, 0xfb, 0xdf, 0xce, 0xb6, 0x7f,
          0x63, 0x56, 0x91, 0x54, 0x05, 0x64, 0xe2, 0x08, 0xca, 0x67, 0x5f, 0x4d, 0x8b, 0x33, 0x29,
          0x1a, 0xa1, 0x38, 0x8a, 0x00, 0x67, 0xda, 0xdc, 0x4f, 0x1d, 0x04, 0x51, 0x9a, 0xab, 0x32,
          0x0b, 0xbd, 0x2c, 0xce, 0x64],
       net_grant =
         [0x04, 0xd9, 0x2d, 0xfa, 0x9b, 0xa9, 0xaa, 0xfd, 0x47, 0x1f, 0xf9, 0xff, 0xbf, 0x45, 0x4b,
          0x9a, 0x11, 0xb1, 0x48, 0x58, 0xa8, 0xc2, 0xed, 0xb4, 0xf7, 0x9a, 0x4e, 0xa4, 0xb4, 0xdb,
          0xa8, 0xca, 0x5c, 0xac, 0x9e, 0xc0, 0x6d, 0x9b, 0xb5, 0x57, 0x6d, 0xb7, 0x2d, 0x07, 0xe0,
          0x87, 0xac, 0x6a, 0xad, 0xf7, 0x2e, 0x4e, 0xb3, 0x13, 0x23, 0xaa, 0xfa, 0xf9, 0xdb, 0xd1,
          0x33, 0xd2, 0x6f, 0x4d, 0xc7],
       net_policy_signers = [POLICY_SIGNER],
       net_policy_threshold = 1 \<rparr>"

definition MAINNET :: Net where
  "MAINNET =
     \<lparr> net_network = Mainnet,
       net_provisioning =
         [0x04, 0xf8, 0x7c, 0xa3, 0x4f, 0xcd, 0x2b, 0x78, 0xf5, 0x73, 0x21, 0xc6, 0x62, 0xa6, 0x63,
          0x95, 0xe4, 0x00, 0x74, 0x4a, 0x19, 0x51, 0x65, 0x5e, 0xd7, 0x7f, 0xbd, 0x14, 0x82, 0xa8,
          0x4e, 0x75, 0x90, 0x35, 0x9b, 0x5f, 0x9b, 0x15, 0x7a, 0x84, 0x48, 0x9d, 0xb6, 0x8b, 0x02,
          0x98, 0x4c, 0x90, 0xb6, 0x41, 0xa0, 0x5d, 0xee, 0xc3, 0xcd, 0xfd, 0x67, 0xdd, 0x99, 0x0a,
          0xec, 0xc8, 0x9a, 0x58, 0xe0],
       net_grant =
         [0x04, 0x89, 0x29, 0xb5, 0x3b, 0x1b, 0x9d, 0x0b, 0x22, 0xbe, 0x43, 0xa3, 0x06, 0x58, 0x3c,
          0xdb, 0x92, 0x33, 0xe4, 0x8d, 0xa9, 0xe2, 0x60, 0xcd, 0xe6, 0x1c, 0x6f, 0x93, 0xce, 0xb1,
          0xe5, 0xea, 0x43, 0x97, 0x3c, 0x01, 0x05, 0x7c, 0x98, 0x77, 0x9d, 0x47, 0xc0, 0x3e, 0x5a,
          0x5e, 0xd8, 0xe2, 0xed, 0x1e, 0x0b, 0xc3, 0xd9, 0x68, 0x5b, 0xc6, 0xde, 0xea, 0x24, 0x74,
          0xd4, 0x4f, 0xd5, 0x7d, 0x5d],
       net_policy_signers = [POLICY_SIGNER],
       net_policy_threshold = 1 \<rparr>"

text \<open>\<open>SPR_NETWORK\<close> is read when the image is built. \<open>str_eq\<close> is the constant function \<open>eq\<close>;
  a value that is neither network fails the build, \<open>None\<close> here.\<close>

fun str_eq_from :: "string \<Rightarrow> string \<Rightarrow> bool" where
  "str_eq_from (a # as) (b # bs) = (if a \<noteq> b then False else str_eq_from as bs)"
| "str_eq_from _ _ = True"

definition str_eq :: "string \<Rightarrow> string \<Rightarrow> bool" where
  "str_eq a b = (if length a \<noteq> length b then False else str_eq_from a b)"

definition spr_network :: "string option \<Rightarrow> string" where
  "spr_network env = (case env of Some network \<Rightarrow> network | None \<Rightarrow> ''devnet'')"

definition image_net :: "string option \<Rightarrow> Net option" where
  "image_net env =
     (if \<not> (str_eq (spr_network env) ''devnet'' \<or> str_eq (spr_network env) ''mainnet'') then None
      else Some (if str_eq (spr_network env) ''mainnet'' then MAINNET else DEVNET))"

lemma str_eq_iff [simp]: "str_eq a b \<longleftrightarrow> a = b"
proof -
  have "length a = length b \<Longrightarrow> str_eq_from a b \<longleftrightarrow> a = b"
    by (induction a b rule: str_eq_from.induct) auto
  then show ?thesis by (auto simp: str_eq_def)
qed

text \<open>An image serves the network it was built for, devnet when nothing was said, and trusts
  uncompressed keys of that network only.\<close>

lemma image_net_network:
  "image_net env = Some n \<longleftrightarrow>
     (env = None \<or> env = Some ''devnet'') \<and> n = DEVNET \<or> env = Some ''mainnet'' \<and> n = MAINNET"
  by (auto simp: image_net_def spr_network_def split: option.splits)

lemma net_keys:
  "n \<in> {DEVNET, MAINNET} \<Longrightarrow>
     length (net_provisioning n) = 65 \<and> length (net_grant n) = 65 \<and> net_provisioning n \<noteq> net_grant n"
  by (auto simp: DEVNET_def MAINNET_def)

section \<open>A concrete instance\<close>

text \<open>The toy primitives of \<open>demo_crates\<close>, extended: a pair is its master seed, encryption
  under it appends the seed, an address is hashed to its key, a role key is the seed cut to
  32 bytes, and a signature over a derivation message verifies when it repeats the key.\<close>

definition demo_wire :: wire_crates where
  "demo_wire = crates.extend demo_crates
     (wire_crates.fields (\<lambda>_. Err []) (\<lambda>_. Err []) (\<lambda>_. Err []) (\<lambda>_. Err []))"

definition demo_enclave :: enclave_crates where
  "demo_enclave = wire_crates.extend demo_wire (enclave_crates.fields
     (\<lambda>p c. if length p \<le> length c \<and> drop (length c - length p) c = p
            then Some (take (length c - length p) c) else None)
     (\<lambda>r p m. Some (m @ p))
     (\<lambda>p m. if length p = 32 then Some (demo_hash (1 # p) @ demo_hash (demo_hash m)) else None)
     (\<lambda>p. (4 # p @ p) @ (4 # p @ p))
     (\<lambda>p. 4 # p @ p)
     (\<lambda>s. Some (demo_hash (as_bytes s)))
     (\<lambda>s. Some s)
     (\<lambda>k. k)
     (\<lambda>k m s. s = k @ k)
     (\<lambda>s. Some (take 32 s, drop 32 s))
     (\<lambda>k. Some k) (\<lambda>k. k) (\<lambda>k. k) (\<lambda>a b c. Some (demo_hash a))
     (\<lambda>b. if length b = 33 \<and> hd b = 4 then Some b else None) 16
     (\<lambda>k c t s n. Some c) (\<lambda>k c t s. Some c) (\<lambda>k u b. Some (demo_hash u))
     (\<lambda>k f n. Some (demo_hash f)) (\<lambda>k f. Some (demo_hash f)) (\<lambda>k f. Some (demo_hash f))
     (\<lambda>k f. Some (demo_hash f)) (\<lambda>k f. Some (demo_hash f))
     (\<lambda>j. Some []) 100 (\<lambda>f s t. Some f) (\<lambda>j. Some []) (\<lambda>a p n t r. Some (replicate 32 9))
     (\<lambda>r k m t p. Some (demo_hex_encode (replicate 32 5), p, replicate 32 6))
     (\<lambda>n s t. Some []) [] string_of_bytes (\<lambda>s. s) ''SCHEME'')"

lemma demo_enclave_fields:
  "hex_encode demo_enclave = hex_encode demo_crates"
  "hex_decode demo_enclave = hex_decode demo_crates"
  "sha256_hash demo_enclave = sha256_hash demo_crates"
  "hmac_sha512 demo_enclave = hmac_sha512 demo_crates"
  "aes256gcm_encrypt demo_enclave = aes256gcm_encrypt demo_crates"
  "aes256gcm_decrypt demo_enclave = aes256gcm_decrypt demo_crates"
  "sec1_point demo_enclave = sec1_point demo_crates"
  "sec1_is_compressed demo_enclave = sec1_is_compressed demo_crates"
  "p256_from_point demo_enclave = p256_from_point demo_crates"
  "p256_to_sec1 demo_enclave = p256_to_sec1 demo_crates"
  "p256_secret demo_enclave = p256_secret demo_crates"
  "p256_public_key demo_enclave = p256_public_key demo_crates"
  "p256_ecdh demo_enclave = p256_ecdh demo_crates"
  "ecdsa_from_slice demo_enclave = ecdsa_from_slice demo_crates"
  "ecdsa_normalize_s demo_enclave = ecdsa_normalize_s demo_crates"
  "ecdsa_sign_prehash demo_enclave = ecdsa_sign_prehash demo_crates"
  "ecdsa_verify_prehash demo_enclave = ecdsa_verify_prehash demo_crates"
  "ecdsa_to_bytes demo_enclave = ecdsa_to_bytes demo_crates"
  "serde_text demo_enclave = serde_text demo_crates"
  "serde_custom demo_enclave = serde_custom demo_crates"
  by (simp_all add: demo_enclave_def demo_wire_def wire_crates.defs enclave_crates.defs crates.defs
      demo_crates_def)

lemma demo_enclave_laws:
  "hex_laws demo_enclave" "sha256_laws demo_enclave" "p256_laws demo_enclave"
  "ecdsa_laws demo_enclave" "aead_laws demo_enclave" "serde_laws demo_enclave"
  using demo_laws
  unfolding hex_laws_def sha256_laws_def p256_laws_def ecdsa_laws_def aead_laws_def serde_laws_def
    low_s_signature_def demo_enclave_fields by simp_all

lemmas demo_enclave_defs = demo_enclave_def demo_wire_def wire_crates.defs enclave_crates.defs
  crates.defs demo_crates_def

lemma demo_pair_laws: "pair_laws demo_enclave"
  by (simp add: pair_laws_def demo_enclave_defs)

lemma demo_pair_signing_laws: "pair_signing_laws demo_enclave"
proof -
  have "\<exists>s a b enc key. ecdsa_from_slice demo_enclave raw = Some s \<and>
      pair_public demo_enclave p = a @ b \<and> uncompressed_point demo_enclave a enc \<and>
      uncompressed_point demo_enclave b key \<and>
      (let t = low_s_signature demo_enclave s in
       length (ecdsa_to_bytes demo_enclave t) = 64 \<and>
       ecdsa_from_slice demo_enclave (ecdsa_to_bytes demo_enclave t) = Some t \<and>
       ecdsa_normalize_s demo_enclave t = None \<and>
       ecdsa_verify_prehash demo_enclave key (sha256_hash demo_enclave m) t)"
    if "pair_sign demo_enclave p m = Some raw" for p m raw
  proof -
    from that have "length p = 32" "raw = demo_hash (1 # p) @ demo_hash (demo_hash m)"
      by (auto simp: demo_enclave_defs split: if_splits)
    then show ?thesis
      by (intro exI [of _ raw] exI [of _ "4 # p @ p"])
        (simp add: demo_enclave_defs uncompressed_point_def low_s_signature_def demo_signature_head Let_def)
  qed
  then show ?thesis by (auto simp: pair_signing_laws_def)
qed

section \<open>Signatures of a pair\<close>

lemma uncompressed_point_parses:
  "uncompressed_point C b key \<Longrightarrow> parse_uncompressed_sec1 C b = Ok key \<and> length b = SEC1_UNCOMPRESSED_LEN"
  by (auto simp: uncompressed_point_def parse_uncompressed_sec1_def SEC1_UNCOMPRESSED_LEN_def)

lemma pair_signature_verifies:
  assumes "pair_signing_laws C" "pair_sign C p m = Some raw" "ecdsa_from_slice C raw = Some s"
  shows "\<exists>public. qos_public_from_bytes C (pair_public C p) = Ok public \<and>
    verify_p256_message C (signing public) m (ecdsa_to_bytes C (low_s_signature C s)) = Ok ()"
proof -
  obtain a b enc key where p: "pair_public C p = a @ b" "uncompressed_point C a enc"
    "uncompressed_point C b key"
    and s: "(let t = low_s_signature C s in
       length (ecdsa_to_bytes C t) = 64 \<and> ecdsa_from_slice C (ecdsa_to_bytes C t) = Some t \<and>
       ecdsa_normalize_s C t = None \<and> ecdsa_verify_prehash C key (sha256_hash C m) t)"
    using pair_signing_laws_def [THEN iffD1, OF assms(1), rule_format, OF assms(2)] assms(3) by auto
  note points = uncompressed_point_parses [OF p(2)] uncompressed_point_parses [OF p(3)]
  have "qos_public_from_bytes C (a @ b) = Ok \<lparr> encryption = a, signing = b \<rparr>"
    using points by (simp add: qos_public_from_bytes_def QOS_P256_PUBLIC_LEN_def SEC1_UNCOMPRESSED_LEN_def)
  with s points show ?thesis
    by (auto simp: p(1) verify_p256_message_def verify_p256_prehash_iff RAW_P256_SIGNATURE_LEN_def Let_def)
qed

end
