(* ===== verification/Enclave_Custody.thy ===== *)
theory Enclave_Custody
  imports Enclave_Base
begin

text \<open>
  \<open>apps/privacy-wallet/src/custody.rs\<close> and \<open>turnkey.rs\<close>: having the wallet's Turnkey key sign
  the derivation message, and the stamp on what is sent to Turnkey.

  The answers of Turnkey are inputs, one list for the submissions and one for the queries; a
  list that runs out is an answer that has not come, and the outcome is then \<open>None\<close> (the
  operation handler's deadline ends the wait). With the outcome the model returns the requests
  sent, in order.
\<close>

section \<open>The interface\<close>

record WalletKey =
  wk_organization_id :: string
  wk_sign_with :: string
  wk_public_key :: bytes

datatype CustodyError = CustodyUnavailable | CustodyDeclined

record RawSignature =
  raw_signature :: bytes
  raw_activity_id :: string

text \<open>A custodian: \<open>None\<close> is an answer that does not come. Every signature it returns is 64
  bytes, the seed's length.\<close>

type_synonym custodian = "WalletKey \<Rightarrow> bytes \<Rightarrow> u64 \<Rightarrow> (CustodyError + RawSignature) option"

locale custody =
  fixes sign_raw :: custodian
  assumes signature_length: "sign_raw w payload t = Some (Ok s) \<Longrightarrow> length (raw_signature s) = 64"
begin

lemma not_a_seed: "length b \<noteq> 64 \<Longrightarrow> sign_raw w payload t = Some (Ok s) \<Longrightarrow> raw_signature s \<noteq> b"
  using signature_length by blast

end

section \<open>Turnkey's activities\<close>

datatype PayloadEncoding = PayloadHexadecimal | OtherPayloadEncoding

datatype HashFunction = HashNotApplicable | OtherHashFunction

record SignRawPayloadIntentV2 =
  srp_sign_with :: string
  srp_payload :: string
  srp_encoding :: PayloadEncoding
  srp_hash_function :: HashFunction

datatype activity_intent = SignRawPayloadIntent SignRawPayloadIntentV2 | OtherIntent

datatype activity_result = SignRawPayloadResult (result_r: string) (result_s: string) | OtherResult

datatype ActivityStatus =
  Completed | ConsensusNeeded | Pending | Rejected | Failed | OtherStatus

datatype ActivityType = SignRawPayloadV2 | OtherActivityType

record Activity =
  act_id :: string
  act_organization_id :: string
  act_type :: ActivityType
  act_intent :: "activity_intent option option"
  act_status :: ActivityStatus
  act_result :: "activity_result option option"

text \<open>
  Turnkey's answer to a submission: a response, with or without an activity; status 403, with
  the client's clock at the retry; or any other error. And to a query of an activity.
\<close>

datatype submit_answer = Submitted "Activity option" | Forbidden nat | SubmitFailed

datatype poll_answer = Polled "Activity option" | PollFailed

datatype turnkey_request =
    SubmitSignRawPayload (submit_timestamp: string) (submit_organization: string)
      (submit_parameters: SignRawPayloadIntentV2)
  | GetActivity (query_organization: string) (query_activity: string)

section \<open>Signing with approval\<close>

fun submit_loop ::
    "string \<Rightarrow> SignRawPayloadIntentV2 \<Rightarrow> nat \<Rightarrow> string \<Rightarrow> submit_answer list \<Rightarrow>
     turnkey_request list \<times> (CustodyError + Activity) option" where
  "submit_loop org params retries timestamp [] = ([SubmitSignRawPayload timestamp org params], None)"
| "submit_loop org params retries timestamp (Submitted activity # answers) =
     ([SubmitSignRawPayload timestamp org params], Some (ok_or CustodyUnavailable activity))"
| "submit_loop org params retries timestamp (Forbidden now # answers) =
     (if retries < 10 then
        let (sent, outcome) = submit_loop org params (retries + 1) (decimal now) answers in
        (SubmitSignRawPayload timestamp org params # sent, outcome)
      else ([SubmitSignRawPayload timestamp org params], Some (Err CustodyUnavailable)))"
| "submit_loop org params retries timestamp (SubmitFailed # answers) =
     ([SubmitSignRawPayload timestamp org params], Some (Err CustodyUnavailable))"

definition activity_matches ::
    "string \<Rightarrow> string \<Rightarrow> SignRawPayloadIntentV2 \<Rightarrow> Activity \<Rightarrow> bool" where
  "activity_matches aid org params activity \<longleftrightarrow>
     \<not> (act_id activity \<noteq> aid
        \<or> act_organization_id activity \<noteq> org
        \<or> act_type activity \<noteq> SignRawPayloadV2
        \<or> Option.bind (act_intent activity) (\<lambda>i. i) \<noteq> Some (SignRawPayloadIntent params))"

text \<open>What one round of the second loop does with the activity in hand: answer, or query it
  again (\<open>None\<close>).\<close>

definition poll_step ::
    "string \<Rightarrow> string \<Rightarrow> SignRawPayloadIntentV2 \<Rightarrow> Activity \<Rightarrow>
     (CustodyError + string \<times> string) option" where
  "poll_step aid org params activity =
     (if \<not> activity_matches aid org params activity then Some (Err CustodyUnavailable)
      else case act_status activity of
        Completed \<Rightarrow>
          (case Option.bind (act_result activity) (\<lambda>r. r) of
             Some (SignRawPayloadResult r s) \<Rightarrow> Some (Ok (r, s))
           | _ \<Rightarrow> Some (Err CustodyUnavailable))
      | ConsensusNeeded \<Rightarrow> None
      | Pending \<Rightarrow> None
      | Rejected \<Rightarrow> Some (Err CustodyDeclined)
      | Failed \<Rightarrow> Some (Err CustodyDeclined)
      | OtherStatus \<Rightarrow> Some (Err CustodyUnavailable))"

fun poll_loop ::
    "string \<Rightarrow> string \<Rightarrow> SignRawPayloadIntentV2 \<Rightarrow> Activity \<Rightarrow> poll_answer list \<Rightarrow>
     turnkey_request list \<times> (CustodyError + string \<times> string) option" where
  "poll_loop aid org params activity answers =
     (case poll_step aid org params activity of
        Some outcome \<Rightarrow> ([], Some outcome)
      | None \<Rightarrow>
          (case answers of
             [] \<Rightarrow> ([GetActivity org aid], None)
           | PollFailed # _ \<Rightarrow> ([GetActivity org aid], Some (Err CustodyUnavailable))
           | Polled None # _ \<Rightarrow> ([GetActivity org aid], Some (Err CustodyUnavailable))
           | Polled (Some activity) # answers \<Rightarrow>
               let (sent, outcome) = poll_loop aid org params activity answers in
               (GetActivity org aid # sent, outcome)))"

declare poll_loop.simps [simp del]

definition sign_with_approval ::
    "submit_answer list \<Rightarrow> poll_answer list \<Rightarrow> string \<Rightarrow> u64 \<Rightarrow> SignRawPayloadIntentV2 \<Rightarrow>
     turnkey_request list \<times> (CustodyError + (string \<times> string) \<times> string) option" where
  "sign_with_approval submits polls org timestamp_ms params =
     (case submit_loop org params 0 (decimal (unat timestamp_ms)) submits of
        (sent, None) \<Rightarrow> (sent, None)
      | (sent, Some (Inl e)) \<Rightarrow> (sent, Some (Err e))
      | (sent, Some (Inr activity)) \<Rightarrow>
          (case poll_loop (act_id activity) org params activity polls of
             (queried, None) \<Rightarrow> (sent @ queried, None)
           | (queried, Some (Inl e)) \<Rightarrow> (sent @ queried, Some (Err e))
           | (queried, Some (Inr rs)) \<Rightarrow> (sent @ queried, Some (Ok (rs, act_id activity)))))"

definition custody_decode_hex :: "'x crates_scheme \<Rightarrow> string \<Rightarrow> CustodyError + bytes" where
  "custody_decode_hex C value =
     ok_or CustodyUnavailable
       (hex_decode C (case strip_prefix ''0x'' value of Some v \<Rightarrow> v | None \<Rightarrow> value))"

definition signing_params :: "'x crates_scheme \<Rightarrow> WalletKey \<Rightarrow> bytes \<Rightarrow> SignRawPayloadIntentV2" where
  "signing_params C wallet payload =
     \<lparr> srp_sign_with = wk_sign_with wallet, srp_payload = hex_encode C payload,
       srp_encoding = PayloadHexadecimal, srp_hash_function = HashNotApplicable \<rparr>"

text \<open>\<open>client_builds\<close> is whether the SDK's client could be built.\<close>

definition turnkey_sign_raw ::
    "'x crates_scheme \<Rightarrow> bool \<Rightarrow> submit_answer list \<Rightarrow> poll_answer list \<Rightarrow>
     WalletKey \<Rightarrow> bytes \<Rightarrow> u64 \<Rightarrow> turnkey_request list \<times> (CustodyError + RawSignature) option" where
  "turnkey_sign_raw C client_builds submits polls wallet payload timestamp_ms =
     (if \<not> client_builds then ([], Some (Err CustodyUnavailable))
      else case sign_with_approval submits polls (wk_organization_id wallet) timestamp_ms
                  (signing_params C wallet payload) of
        (sent, None) \<Rightarrow> (sent, None)
      | (sent, Some (Inl e)) \<Rightarrow> (sent, Some (Err e))
      | (sent, Some (Inr ((hex_r, hex_s), aid))) \<Rightarrow> (sent, Some (
          and_then (custody_decode_hex C hex_r) (\<lambda>r.
          and_then (custody_decode_hex C hex_s) (\<lambda>s.
          if length r \<noteq> 32 \<or> length s \<noteq> 32 then Err CustodyUnavailable
          else Ok \<lparr> raw_signature = r @ s, raw_activity_id = aid \<rparr>)))))"

text \<open>The custodian the enclave runs with, for what Turnkey answers.\<close>

definition turnkey_custodian ::
    "'x crates_scheme \<Rightarrow> bool \<Rightarrow> submit_answer list \<Rightarrow> poll_answer list \<Rightarrow> custodian" where
  "turnkey_custodian C client_builds submits polls =
     (\<lambda>wallet payload timestamp_ms.
        snd (turnkey_sign_raw C client_builds submits polls wallet payload timestamp_ms))"

interpretation turnkey: custody "turnkey_custodian C client_builds submits polls"
  by unfold_locales
    (auto simp: turnkey_custodian_def turnkey_sign_raw_def result_simps
      split: if_splits prod.splits option.splits sum.splits)

section \<open>The stamp\<close>

definition TurnkeyApiStamp_json :: "'x enclave_crates_scheme \<Rightarrow> bytes \<Rightarrow> bytes \<Rightarrow> json" where
  "TurnkeyApiStamp_json C point der = JObject
     [(''publicKey'', JString (hex_encode C point)), (''signature'', JString (hex_encode C der)),
      (''scheme'', JString (signature_scheme_p256 C))]"

text \<open>\<open>QosTurnkeyStamper::stamp\<close>, up to the value of the header. \<open>serde_json::to_vec\<close> of the
  stamp writes the fields in the order of the struct.\<close>

definition turnkey_stamp :: "'x enclave_crates_scheme \<Rightarrow> bytes \<Rightarrow> bytes \<Rightarrow> string option" where
  "turnkey_stamp C quorum body =
     Option.bind (pair_sign C quorum body) (\<lambda>raw.
     Option.bind (ecdsa_from_slice C raw) (\<lambda>sig.
     Option.bind (json_to_vec C
         (TurnkeyApiStamp_json C (pair_signing_point C quorum) (ecdsa_to_der C sig))) (\<lambda>stamp.
     Some (base64_url_no_pad C stamp))))"

section \<open>Facts\<close>

text \<open>
  The first loop submits once, and once more for each 403, stamped with the clock at the retry; an
  activity comes from the answer to the last submission.
\<close>

lemma submit_loop_sent:
  "submit_loop org params n ts as = (sent, r) \<Longrightarrow> n \<le> 10 \<Longrightarrow>
     \<exists>nows rest. as = map Forbidden nows @ rest \<and> length nows + n \<le> 10 \<and>
       sent = map (\<lambda>ts. SubmitSignRawPayload ts org params) (ts # map decimal nows) \<and>
       (\<forall>a. r = Some (Ok a) \<longrightarrow> (\<exists>rest'. rest = Submitted (Some a) # rest'))"
proof (induction org params n ts as arbitrary: sent r rule: submit_loop.induct)
  case (3 org params n ts now as)
  show ?case
  proof (cases "n < 10")
    case True
    obtain sent' where rec: "submit_loop org params (n + 1) (decimal now) as = (sent', r)"
      and sent: "sent = SubmitSignRawPayload ts org params # sent'"
      using "3.prems"(1) True by (auto split: prod.splits)
    from "3.IH" [OF True rec] True obtain nows rest where "as = map Forbidden nows @ rest"
      "length nows + (n + 1) \<le> 10"
      "sent' = map (\<lambda>ts. SubmitSignRawPayload ts org params) (decimal now # map decimal nows)"
      "\<forall>a. r = Some (Ok a) \<longrightarrow> (\<exists>rest'. rest = Submitted (Some a) # rest')"
      by auto
    then show ?thesis by (intro exI [of _ "now # nows"] exI [of _ rest]) (simp add: sent)
  next
    case False
    then have "sent = [SubmitSignRawPayload ts org params]" "r = Some (Err CustodyUnavailable)"
      using "3.prems"(1) by auto
    with "3.prems"(2) show ?thesis by (intro exI [of _ "[]"] exI [of _ "Forbidden now # as"]) auto
  qed
qed (rule exI [of _ "[]"], fastforce simp: result_simps)+

lemma poll_loop_sent:
  "poll_loop aid org params a as = (sent, r) \<Longrightarrow> \<forall>q \<in> set sent. q = GetActivity org aid"
proof (induction aid org params a as arbitrary: sent r rule: poll_loop.induct)
  case (1 aid org params a as)
  show ?case
    using "1.prems" "1.IH" by (subst (asm) poll_loop.simps)
      (auto split: option.splits list.splits poll_answer.splits prod.splits)
qed

lemma poll_step_Ok:
  "poll_step aid org params a = Some (Ok (r, s)) \<longleftrightarrow>
     activity_matches aid org params a \<and> act_status a = Completed \<and>
     act_result a = Some (Some (SignRawPayloadResult r s))"
  by (auto simp: poll_step_def split: ActivityStatus.splits option.splits activity_result.splits bind_splits)

lemma poll_loop_Ok:
  "poll_loop aid org params a as = (sent, Some (Ok (r, s))) \<Longrightarrow>
     \<exists>b. (b = a \<or> Polled (Some b) \<in> set as) \<and> activity_matches aid org params b \<and>
       act_status b = Completed \<and> act_result b = Some (Some (SignRawPayloadResult r s))"
proof (induction aid org params a as arbitrary: sent rule: poll_loop.induct)
  case (1 aid org params a as)
  show ?case
  proof (cases "poll_step aid org params a")
    case None
    then obtain b as' sent' where as: "as = Polled (Some b) # as'"
      and rec: "poll_loop aid org params b as' = (sent', Some (Ok (r, s)))"
      using "1.prems" by (subst (asm) poll_loop.simps)
        (auto split: list.splits poll_answer.splits option.splits prod.splits)
    from "1.IH" [OF None as refl refl rec] show ?thesis unfolding as by auto
  next
    case (Some x)
    then have "x = Ok (r, s)" using "1.prems" by (subst (asm) poll_loop.simps) simp
    with Some show ?thesis by (auto simp: poll_step_Ok)
  qed
qed

lemma turnkey_sign_raw_sent:
  "client_builds \<Longrightarrow> fst (turnkey_sign_raw C client_builds submits polls w payload t) =
     fst (sign_with_approval submits polls (wk_organization_id w) t (signing_params C w payload))"
  by (simp add: turnkey_sign_raw_def split: prod.split option.split sum.split)

lemma sign_with_approval_sent:
  "submit_loop org params 0 (decimal (unat t)) submits = (ss, Some (Ok a)) \<Longrightarrow>
     fst (sign_with_approval submits polls org t params) =
       ss @ fst (poll_loop (act_id a) org params a polls)"
  by (simp add: sign_with_approval_def split: prod.split option.split sum.split)

lemma sign_with_approval_Ok:
  assumes "sign_with_approval submits polls org t params = (sent, Some (Ok ((r, s), aid)))"
  shows "\<exists>ss a qs. submit_loop org params 0 (decimal (unat t)) submits = (ss, Some (Ok a)) \<and>
    poll_loop (act_id a) org params a polls = (qs, Some (Ok (r, s))) \<and> aid = act_id a"
proof -
  obtain ss o1 where sub: "submit_loop org params 0 (decimal (unat t)) submits = (ss, o1)"
    by (cases "submit_loop org params 0 (decimal (unat t)) submits") auto
  with assms obtain a where a: "o1 = Some (Ok a)"
    by (cases o1) (auto simp: sign_with_approval_def split: sum.splits)
  obtain qs o2 where poll: "poll_loop (act_id a) org params a polls = (qs, o2)"
    by (cases "poll_loop (act_id a) org params a polls") auto
  with assms sub a show ?thesis
    by (cases o2) (auto simp: sign_with_approval_def split: sum.splits)
qed

lemma turnkey_sign_raw_Ok:
  assumes "turnkey_sign_raw C client_builds submits polls w payload t = (sent, Some (Ok sig))"
  shows "\<exists>r s aid rb sb.
    sign_with_approval submits polls (wk_organization_id w) t (signing_params C w payload) =
      (sent, Some (Ok ((r, s), aid))) \<and>
    custody_decode_hex C r = Ok rb \<and> custody_decode_hex C s = Ok sb \<and> length rb = 32 \<and> length sb = 32 \<and>
    sig = \<lparr> raw_signature = rb @ sb, raw_activity_id = aid \<rparr>"
proof -
  obtain sent' oc where call: "sign_with_approval submits polls (wk_organization_id w) t
      (signing_params C w payload) = (sent', oc)"
    by (cases "sign_with_approval submits polls (wk_organization_id w) t (signing_params C w payload)") auto
  with assms obtain x where "oc = Some (Ok x)"
    by (cases oc) (auto simp: turnkey_sign_raw_def split: if_splits sum.splits)
  with assms call show ?thesis
    by (cases x) (auto simp: turnkey_sign_raw_def result_simps split: if_splits)
qed

section \<open>Properties\<close>

text \<open>
  C5. Bootstrap never asks Turnkey twice for one approval: it submits again only after a 403, at most ten
  times, always for the same wallet and payload and stamped with the clock at the retry; after any other
  answer, whatever activity it holds and in whatever state, nothing is submitted any more, and every
  further request queries the very activity that the last submission was answered with, in the wallet's
  organization.
\<close>

theorem custody_never_resubmits:
  assumes "turnkey_sign_raw C client_builds submits polls w payload t = (sent, r)"
  shows "\<not> client_builds \<and> sent = [] \<or>
    (\<exists>nows rest aid queries. submits = map Forbidden nows @ rest \<and> length nows \<le> 10 \<and>
       sent = map (\<lambda>ts. SubmitSignRawPayload ts (wk_organization_id w) (signing_params C w payload))
           (decimal (unat t) # map decimal nows) @
         replicate queries (GetActivity (wk_organization_id w) aid) \<and>
       (0 < queries \<longrightarrow> (\<exists>a rest'. rest = Submitted (Some a) # rest' \<and> act_id a = aid)))"
proof (cases client_builds)
  case True
  let ?org = "wk_organization_id w" and ?ps = "signing_params C w payload"
  obtain ss o1 where sub: "submit_loop ?org ?ps 0 (decimal (unat t)) submits = (ss, o1)"
    by (cases "submit_loop ?org ?ps 0 (decimal (unat t)) submits") auto
  obtain nows rest where ss: "submits = map Forbidden nows @ rest" "length nows \<le> 10"
    "ss = map (\<lambda>ts. SubmitSignRawPayload ts ?org ?ps) (decimal (unat t) # map decimal nows)"
    "\<forall>a. o1 = Some (Ok a) \<longrightarrow> (\<exists>rest'. rest = Submitted (Some a) # rest')"
    using submit_loop_sent [OF sub] by auto
  show ?thesis
  proof (cases "\<exists>a. o1 = Some (Ok a)")
    case True
    then obtain a where a: "o1 = Some (Ok a)" by blast
    obtain qs o2 where poll: "poll_loop (act_id a) ?org ?ps a polls = (qs, o2)"
      by (cases "poll_loop (act_id a) ?org ?ps a polls") auto
    have "sent = ss @ qs"
      using turnkey_sign_raw_sent [OF \<open>client_builds\<close>, of C submits polls w payload t] assms sub a poll
      by (simp add: sign_with_approval_sent)
    moreover have "qs = replicate (length qs) (GetActivity ?org (act_id a))"
      using poll_loop_sent [OF poll] by (simp add: replicate_length_same [symmetric] eq_commute)
    ultimately show ?thesis
      using ss a by (intro disjI2 exI [of _ nows] exI [of _ rest] exI [of _ "act_id a"] exI [of _ "length qs"]) auto
  next
    case False
    then have "sent = ss"
      using turnkey_sign_raw_sent [OF \<open>client_builds\<close>, of C submits polls w payload t] assms sub
      by (cases o1) (auto simp: sign_with_approval_def split: sum.splits)
    with ss show ?thesis by (intro disjI2 exI [of _ nows] exI [of _ rest] exI [of _ "[]"] exI [of _ 0]) simp
  qed
qed (use assms in \<open>simp add: turnkey_sign_raw_def\<close>)

text \<open>
  C11. Only the activity that was submitted completes bootstrap: a signature is returned only
  when Turnkey answered with that activity id, in the wallet's organization, of the raw-payload
  type and with exactly the submitted intent, completed; its two halves are 32 bytes each.
\<close>

theorem custody_completes_own_activity:
  assumes "turnkey_sign_raw C client_builds submits polls w payload t = (sent, Some (Ok sig))"
  shows "\<exists>a b r s. Submitted (Some a) \<in> set submits \<and> (b = a \<or> Polled (Some b) \<in> set polls) \<and>
    act_id b = act_id a \<and> act_organization_id b = wk_organization_id w \<and>
    act_type b = SignRawPayloadV2 \<and>
    act_intent b = Some (Some (SignRawPayloadIntent (signing_params C w payload))) \<and>
    act_status b = Completed \<and> act_result b = Some (Some (SignRawPayloadResult r s)) \<and>
    (\<exists>rb sb. custody_decode_hex C r = Ok rb \<and> custody_decode_hex C s = Ok sb \<and>
       length rb = 32 \<and> length sb = 32 \<and> raw_signature sig = rb @ sb) \<and>
    raw_activity_id sig = act_id a"
proof -
  let ?org = "wk_organization_id w" and ?ps = "signing_params C w payload"
  obtain ss a qs r s rb sb where sub: "submit_loop ?org ?ps 0 (decimal (unat t)) submits = (ss, Some (Ok a))"
    and poll: "poll_loop (act_id a) ?org ?ps a polls = (qs, Some (Ok (r, s)))"
    and rb: "custody_decode_hex C r = Ok rb" "custody_decode_hex C s = Ok sb"
    "length rb = 32" "length sb = 32" "sig = \<lparr> raw_signature = rb @ sb, raw_activity_id = act_id a \<rparr>"
    using turnkey_sign_raw_Ok [OF assms] by (auto dest!: sign_with_approval_Ok)
  obtain b where b: "b = a \<or> Polled (Some b) \<in> set polls" "activity_matches (act_id a) ?org ?ps b"
    "act_status b = Completed" "act_result b = Some (Some (SignRawPayloadResult r s))"
    using poll_loop_Ok [OF poll] by blast
  have intent: "act_intent b = Some (Some (SignRawPayloadIntent ?ps))"
    using b(2) by (auto simp: activity_matches_def split: bind_splits)
  show ?thesis
    using submit_loop_sent [OF sub, simplified] b intent rb
    by (intro exI [of _ a] exI [of _ b] exI [of _ r] exI [of _ s]) (auto simp: activity_matches_def)
qed

definition waiting :: "Activity \<Rightarrow> bool" where
  "waiting a \<longleftrightarrow> act_status a = Pending \<or> act_status a = ConsensusNeeded"

lemma poll_loop_waits:
  assumes "activity_matches aid org params fin" "act_status fin = Completed"
    and "act_result fin = Some (Some (SignRawPayloadResult r s))"
  shows "activity_matches aid org params a \<Longrightarrow> waiting a \<Longrightarrow>
    list_all (\<lambda>b. activity_matches aid org params b \<and> waiting b) bs \<Longrightarrow>
    poll_loop aid org params a (map (\<lambda>b. Polled (Some b)) bs @ [Polled (Some fin)]) =
      (replicate (length bs + 1) (GetActivity org aid), Some (Ok (r, s)))"
proof (induction bs arbitrary: a)
  case Nil
  have "poll_step aid org params fin = Some (Ok (r, s))" using assms by (simp add: poll_step_Ok)
  moreover have "poll_step aid org params a = None"
    using Nil by (auto simp: poll_step_def waiting_def)
  ultimately show ?case
    by (simp add: poll_loop.simps [of _ _ _ a] poll_loop.simps [of _ _ _ fin])
next
  case (Cons b bs)
  have "poll_step aid org params a = None"
    using Cons.prems by (auto simp: poll_step_def waiting_def)
  with Cons show ?case by (simp add: poll_loop.simps [of _ _ _ a])
qed

text \<open>
  C36. An approval that takes time is waited for: when the submitted activity and every answer
  but the last is pending or needs consensus, and the last is completed, the signature is the
  last answer's, after one query per answer.
\<close>

theorem custody_waits_for_approval:
  assumes "activity_matches (act_id a) org params fin" "act_status fin = Completed"
    and "act_result fin = Some (Some (SignRawPayloadResult r s))"
    and "activity_matches (act_id a) org params a" "waiting a"
    and "list_all (\<lambda>b. activity_matches (act_id a) org params b \<and> waiting b) bs"
  shows "sign_with_approval (Submitted (Some a) # rest)
      (map (\<lambda>b. Polled (Some b)) bs @ [Polled (Some fin)]) org t params =
    (SubmitSignRawPayload (decimal (unat t)) org params #
       replicate (length bs + 1) (GetActivity org (act_id a)), Some (Ok ((r, s), act_id a)))"
  using poll_loop_waits [OF assms] by (simp add: sign_with_approval_def)

section \<open>Witnesses\<close>

definition demo_wallet :: WalletKey where
  "demo_wallet = \<lparr> wk_organization_id = ''org'', wk_sign_with = ''address'', wk_public_key = replicate 32 1 \<rparr>"

definition demo_activity :: "ActivityStatus \<Rightarrow> Activity" where
  "demo_activity status =
     \<lparr> act_id = ''request-1'', act_organization_id = ''org'', act_type = SignRawPayloadV2,
       act_intent = Some (Some (SignRawPayloadIntent (signing_params demo_crates demo_wallet [7]))),
       act_status = status,
       act_result = Some (Some (SignRawPayloadResult
         (demo_hex_encode (replicate 32 1)) (demo_hex_encode (replicate 32 2)))) \<rparr>"

lemma demo_activity_matches:
  "activity_matches ''request-1'' ''org'' (signing_params demo_crates demo_wallet [7]) (demo_activity st)"
  by (simp add: activity_matches_def demo_activity_def)

theorem custody_never_resubmits_witness:
  "\<exists>queries. fst (turnkey_sign_raw demo_crates True
       [Forbidden 5, Submitted (Some (demo_activity Pending)), Submitted (Some (demo_activity Completed))]
       [Polled (Some (demo_activity Completed))] demo_wallet [7] 1) =
     [SubmitSignRawPayload (decimal 1) ''org'' (signing_params demo_crates demo_wallet [7]),
      SubmitSignRawPayload (decimal 5) ''org'' (signing_params demo_crates demo_wallet [7])] @
     replicate queries (GetActivity ''org'' ''request-1'') \<and> 0 < queries"
proof -
  let ?submits = "[Forbidden 5, Submitted (Some (demo_activity Pending)), Submitted (Some (demo_activity Completed))]"
  let ?run = "turnkey_sign_raw demo_crates True ?submits [Polled (Some (demo_activity Completed))] demo_wallet [7] 1"
  have org: "wk_organization_id demo_wallet = ''org''" by (simp add: demo_wallet_def)
  have first: "submit_loop ''org'' (signing_params demo_crates demo_wallet [7]) 0 (decimal (unat (1 :: u64))) ?submits =
      ([SubmitSignRawPayload (decimal 1) ''org'' (signing_params demo_crates demo_wallet [7]),
        SubmitSignRawPayload (decimal 5) ''org'' (signing_params demo_crates demo_wallet [7])],
       Some (Ok (demo_activity Pending)))"
    by simp
  have "poll_step ''request-1'' ''org'' (signing_params demo_crates demo_wallet [7]) (demo_activity Pending) = None"
    using demo_activity_matches by (simp add: poll_step_def demo_activity_def)
  then have "fst (poll_loop (act_id (demo_activity Pending)) ''org'' (signing_params demo_crates demo_wallet [7])
      (demo_activity Pending) [Polled (Some (demo_activity Completed))]) \<noteq> []"
    by (subst poll_loop.simps) (simp add: demo_activity_def split: prod.splits)
  then have queried: "2 < length (fst ?run)"
    using turnkey_sign_raw_sent [of True demo_crates ?submits "[Polled (Some (demo_activity Completed))]" demo_wallet "[7]" 1]
      sign_with_approval_sent [OF first, of "[Polled (Some (demo_activity Completed))]"]
    by (simp add: org)
  obtain nows rest aid queries where
    sent: "?submits = map Forbidden nows @ rest"
      "fst ?run = map (\<lambda>ts. SubmitSignRawPayload ts ''org'' (signing_params demo_crates demo_wallet [7]))
         (decimal (unat (1 :: u64)) # map decimal nows) @ replicate queries (GetActivity ''org'' aid)"
      "0 < queries \<longrightarrow> (\<exists>a rest'. rest = Submitted (Some a) # rest' \<and> act_id a = aid)"
    using custody_never_resubmits [OF surjective_pairing [of ?run], unfolded org] by blast
  have "nows \<noteq> []" using sent queried by auto
  then have "nows = [5]" using sent(1) by (cases nows; cases "tl nows") auto
  with sent queried show ?thesis
    by (intro exI [of _ queries]) (auto simp: demo_activity_def)
qed

lemma demo_hex_no_prefix: "custody_decode_hex demo_crates (demo_hex_encode (replicate 32 w)) = Ok (replicate 32 w)"
  if "w = 1 \<or> w = 2"
proof -
  have "replicate 32 w = w # replicate 31 w" by (simp add: numeral_eq_Suc)
  then have "strip_prefix ''0x'' (demo_hex_encode (replicate 32 w)) = None"
    using that by (auto simp: hex_digit_def char_of_def bit_0)
  then show ?thesis
    by (simp add: custody_decode_hex_def demo_crates_def demo_hex_roundtrip)
qed

lemma demo_sign_completes:
  "turnkey_sign_raw demo_crates True [Submitted (Some (demo_activity Pending))]
     [Polled (Some (demo_activity Completed))] demo_wallet [7] 1 =
   ([SubmitSignRawPayload (decimal 1) ''org'' (signing_params demo_crates demo_wallet [7]),
     GetActivity ''org'' ''request-1''],
    Some (Ok \<lparr> raw_signature = replicate 32 1 @ replicate 32 2, raw_activity_id = ''request-1'' \<rparr>))"
proof -
  have "sign_with_approval [Submitted (Some (demo_activity Pending))]
     [Polled (Some (demo_activity Completed))] ''org'' 1 (signing_params demo_crates demo_wallet [7]) =
     ([SubmitSignRawPayload (decimal 1) ''org'' (signing_params demo_crates demo_wallet [7]),
       GetActivity ''org'' ''request-1''],
      Some (Ok ((demo_hex_encode (replicate 32 1), demo_hex_encode (replicate 32 2)), ''request-1'')))"
    using poll_loop_waits [of "''request-1''" "''org''" "signing_params demo_crates demo_wallet [7]"
        "demo_activity Completed" "demo_hex_encode (replicate 32 1)" "demo_hex_encode (replicate 32 2)"
        "demo_activity Pending" "[]"] demo_activity_matches
    by (simp add: sign_with_approval_def waiting_def demo_activity_def)
  then show ?thesis
    by (simp add: turnkey_sign_raw_def demo_wallet_def [symmetric] demo_hex_no_prefix)
      (simp add: demo_wallet_def demo_hex_no_prefix)
qed

theorem custody_completes_own_activity_witness:
  "\<exists>a b. Submitted (Some a) \<in> set [Submitted (Some (demo_activity Pending))] \<and>
     (b = a \<or> Polled (Some b) \<in> set [Polled (Some (demo_activity Completed))]) \<and>
     act_id b = act_id a \<and> act_status b = Completed"
  using custody_completes_own_activity [OF demo_sign_completes] by blast

theorem custody_waits_for_approval_witness:
  "sign_with_approval (Submitted (Some (demo_activity Pending)) # [])
      (map (\<lambda>b. Polled (Some b)) [demo_activity ConsensusNeeded] @ [Polled (Some (demo_activity Completed))])
      ''org'' 1 (signing_params demo_crates demo_wallet [7]) =
    (SubmitSignRawPayload (decimal (unat (1 :: u64))) ''org'' (signing_params demo_crates demo_wallet [7]) #
       replicate (length [demo_activity ConsensusNeeded] + 1) (GetActivity ''org'' (act_id (demo_activity Pending))),
     Some (Ok ((demo_hex_encode (replicate 32 1), demo_hex_encode (replicate 32 2)), act_id (demo_activity Pending))))"
  by (rule custody_waits_for_approval)
    (simp_all add: demo_activity_matches waiting_def, simp_all add: demo_activity_def activity_matches_def)

end
