(* ===== verification/Enclave_Sealed.thy ===== *)
theory Enclave_Sealed
  imports Enclave_Custody
begin

text \<open>
  \<open>apps/privacy-wallet/src/operations/sealed.rs\<close> and \<open>bindings.rs\<close>: the checks that tie a
  request to the running release, and the derivation seed sealed to the Quorum key. The
  enclave stores nothing: a seed comes back with the request, and \<open>unseal\<close> accepts it only
  under the wallet, Quorum key and epoch it was sealed for.
\<close>

section \<open>The running enclave\<close>

record ProverTrust =
  trust_signers :: bytes
  trust_anchors :: bytes

record Runtime =
  rt_ephemeral :: bytes
  rt_quorum :: bytes
  rt_custody :: custodian
  rt_provisioning_public :: bytes
  rt_grant_public :: bytes
  rt_prover :: ProverTrust

definition DERIVATION_SUITE :: string where
  "DERIVATION_SUITE = ''spr-ed25519-role-expansion-v1''"

section \<open>Release bindings\<close>

definition check_encrypted_request_bindings :: "EncryptedRequest \<Rightarrow> ServiceInfo \<Rightarrow> unit tvc_result" where
  "check_encrypted_request_bindings outer running =
     (if er_version outer \<noteq> API_VERSION then tvc_err UnsupportedVersion
      else if er_quorum_key_id outer \<noteq> si_quorum_key_id running then tvc_err ReleaseBindingMismatch
      else if er_quorum_key_epoch outer \<noteq> si_quorum_key_epoch running
        then tvc_err QuorumKeyEpochMismatch
      else Ok ())"

definition check_request_bindings :: "OperationRequest \<Rightarrow> ServiceInfo \<Rightarrow> unit tvc_result" where
  "check_request_bindings request running =
     (if req_version request \<noteq> API_VERSION then tvc_err UnsupportedVersion
      else if wd_network (req_wallet_descriptor request) \<noteq> si_network running
        then tvc_err NetworkMismatch
      else if req_target_release_id request \<noteq> si_release_id running
           \<or> req_target_manifest_digest request \<noteq> si_manifest_digest running
           \<or> req_target_executable_digest request \<noteq> si_executable_digest running
        then tvc_err ReleaseBindingMismatch
      else if wd_security_domain_id (req_wallet_descriptor request) \<noteq> si_security_domain_id running
        then tvc_err WalletBindingMismatch
      else if wd_turnkey_wallet_id (req_wallet_descriptor request) = []
        then tvc_err InvalidWalletDescriptor
      else if req_quorum_key_id request \<noteq> si_quorum_key_id running then tvc_err ReleaseBindingMismatch
      else if req_quorum_key_epoch request \<noteq> si_quorum_key_epoch running
        then tvc_err QuorumKeyEpochMismatch
      else Ok ())"

section \<open>Roles\<close>

record Roles =
  role_owner :: bytes
  role_nullifier_key :: bytes
  role_viewing_key :: bytes

record ShieldedAddress =
  sa_signing_pubkey :: bytes
  sa_nullifier_pubkey :: bytes
  sa_viewing_pubkey :: bytes

definition roles_from_seed ::
    "'x enclave_crates_scheme \<Rightarrow> bytes \<Rightarrow> bytes \<Rightarrow> Failure + Roles" where
  "roles_from_seed C ed25519_public_key seed =
     (let message = derivation_message C ed25519_public_key in
      if \<not> ed25519_verify C ed25519_public_key message seed then Err Invalid
      else
        and_then (ok_or Invalid (expand_roles C seed)) (\<lambda>(nullifier_key, viewing_key).
        Ok \<lparr> role_owner = ed25519_public_key, role_nullifier_key = nullifier_key,
             role_viewing_key = viewing_key \<rparr>))"

definition roles_address :: "'x enclave_crates_scheme \<Rightarrow> Roles \<Rightarrow> Failure + ShieldedAddress" where
  "roles_address C roles =
     and_then (ok_or Unavailable (nullifier_pubkey C (role_nullifier_key roles))) (\<lambda>npk.
     Ok \<lparr> sa_signing_pubkey = role_owner roles, sa_nullifier_pubkey = npk,
          sa_viewing_pubkey = viewing_pubkey C (role_viewing_key roles) \<rparr>)"

section \<open>Borsh frames\<close>

record UnsealedSeed =
  us_version :: u8
  us_quorum_key_id :: string
  us_quorum_key_epoch :: u64
  us_wallet_binding :: bytes
  us_derivation_suite :: string
  us_derivation_seed :: bytes

definition put_unsealed :: "UnsealedSeed \<Rightarrow> bytes" where
  "put_unsealed u =
     put_u8 (us_version u) @ put_string (us_quorum_key_id u) @ put_u64 (us_quorum_key_epoch u) @
     us_wallet_binding u @ put_string (us_derivation_suite u) @ us_derivation_seed u"

definition get_unsealed :: "bytes \<Rightarrow> (UnsealedSeed \<times> bytes) option" where
  "get_unsealed b =
     Option.bind (get_u8 b) (\<lambda>(version, b).
     Option.bind (get_string b) (\<lambda>(key, b).
     Option.bind (get_u64 b) (\<lambda>(epoch, b).
     Option.bind (get_bytes 32 b) (\<lambda>(binding, b).
     Option.bind (get_string b) (\<lambda>(suite, b).
     Option.bind (get_bytes 64 b) (\<lambda>(seed, b).
     Some (\<lparr> us_version = version, us_quorum_key_id = key, us_quorum_key_epoch = epoch,
             us_wallet_binding = binding, us_derivation_suite = suite,
             us_derivation_seed = seed \<rparr>, b)))))))"

definition valid_unsealed :: "UnsealedSeed \<Rightarrow> bool" where
  "valid_unsealed u \<longleftrightarrow> string_fits (us_quorum_key_id u) \<and> length (us_wallet_binding u) = 32 \<and>
     string_fits (us_derivation_suite u) \<and> length (us_derivation_seed u) = 64"

interpretation unsealed_codec: prefix_codec valid_unsealed put_unsealed get_unsealed
proof unfold_locales
  show "valid_unsealed u \<Longrightarrow> get_unsealed (put_unsealed u @ r) = Some (u, r)" for u r
    by (cases u) (simp add: valid_unsealed_def get_unsealed_def put_unsealed_def u8_codec.get_put
        string_codec.get_put u64_codec.get_put bytes_codec.get_put)
  show "get_unsealed b = Some (u, r) \<Longrightarrow> valid_unsealed u \<and> b = put_unsealed u @ r" for b u r
    by (auto simp: valid_unsealed_def get_unsealed_def put_unsealed_def u8_codec.get_iff
        string_codec.get_iff u64_codec.get_iff bytes_codec.get_iff split: bind_splits)
qed

definition put_sealed :: "SealedSeed \<Rightarrow> bytes" where
  "put_sealed s =
     put_u8 (ss_version s) @ put_string (ss_quorum_key_id s) @ put_u64 (ss_quorum_key_epoch s) @
     ss_wallet_id_hash s @ put_vec (ss_ciphertext s)"

definition get_sealed :: "bytes \<Rightarrow> (SealedSeed \<times> bytes) option" where
  "get_sealed b =
     Option.bind (get_u8 b) (\<lambda>(version, b).
     Option.bind (get_string b) (\<lambda>(key, b).
     Option.bind (get_u64 b) (\<lambda>(epoch, b).
     Option.bind (get_bytes 32 b) (\<lambda>(hash, b).
     Option.bind (get_vec b) (\<lambda>(ciphertext, b).
     Some (\<lparr> ss_version = version, ss_quorum_key_id = key, ss_quorum_key_epoch = epoch,
             ss_wallet_id_hash = hash, ss_ciphertext = ciphertext \<rparr>, b))))))"

definition valid_sealed :: "SealedSeed \<Rightarrow> bool" where
  "valid_sealed s \<longleftrightarrow> string_fits (ss_quorum_key_id s) \<and> length (ss_wallet_id_hash s) = 32 \<and>
     vec_fits (ss_ciphertext s)"

interpretation sealed_codec: prefix_codec valid_sealed put_sealed get_sealed
proof unfold_locales
  show "valid_sealed s \<Longrightarrow> get_sealed (put_sealed s @ r) = Some (s, r)" for s r
    by (cases s) (simp add: valid_sealed_def get_sealed_def put_sealed_def u8_codec.get_put
        string_codec.get_put u64_codec.get_put bytes_codec.get_put vec_codec.get_put)
  show "get_sealed b = Some (s, r) \<Longrightarrow> valid_sealed s \<and> b = put_sealed s @ r" for b s r
    by (auto simp: valid_sealed_def get_sealed_def put_sealed_def u8_codec.get_iff
        string_codec.get_iff u64_codec.get_iff bytes_codec.get_iff vec_codec.get_iff split: bind_splits)
qed

text \<open>\<open>borsh::to_vec\<close>: a string or vector whose length does not fit in a \<open>u32\<close> is an error.\<close>

definition unsealed_to_vec :: "UnsealedSeed \<Rightarrow> bytes option" where
  "unsealed_to_vec u =
     (if length (us_quorum_key_id u) < 2 ^ 32 \<and> length (us_derivation_suite u) < 2 ^ 32
      then Some (put_unsealed u) else None)"

definition sealed_to_vec :: "SealedSeed \<Rightarrow> bytes option" where
  "sealed_to_vec s =
     (if length (ss_quorum_key_id s) < 2 ^ 32 \<and> vec_fits (ss_ciphertext s)
      then Some (put_sealed s) else None)"

section \<open>Sealing and unsealing\<close>

text \<open>\<open>entropy\<close> is what \<open>P256Public::encrypt\<close> draws.\<close>

definition seal_seed ::
    "'x enclave_crates_scheme \<Rightarrow> bytes \<Rightarrow> OperationRequest \<Rightarrow> Runtime \<Rightarrow> bytes \<Rightarrow>
     Failure + bytes \<times> bytes" where
  "seal_seed C entropy request runtime seed =
     and_then (or_fail Invalid (wallet_binding_digest C (req_wallet_descriptor request))) (\<lambda>binding.
     let contents =
       \<lparr> us_version = API_VERSION, us_quorum_key_id = req_quorum_key_id request,
         us_quorum_key_epoch = req_quorum_key_epoch request, us_wallet_binding = binding,
         us_derivation_suite = DERIVATION_SUITE, us_derivation_seed = seed \<rparr> in
     and_then (ok_or Unavailable (unsealed_to_vec contents)) (\<lambda>plaintext.
     and_then (ok_or Unavailable (pair_encrypt C entropy (rt_quorum runtime) plaintext)) (\<lambda>ciphertext.
     let sealed =
       \<lparr> ss_version = API_VERSION, ss_quorum_key_id = us_quorum_key_id contents,
         ss_quorum_key_epoch = us_quorum_key_epoch contents,
         ss_wallet_id_hash = wallet_id_hash C (wallet_id (req_wallet_descriptor request)),
         ss_ciphertext = ciphertext \<rparr> in
     and_then (ok_or Unavailable (sealed_to_vec sealed)) (\<lambda>b.
     Ok (b, sealed_seed_digest C b)))))"

definition unseal ::
    "'x enclave_crates_scheme \<Rightarrow> OperationRequest \<Rightarrow> Runtime \<Rightarrow> Failure + Roles \<times> bytes" where
  "unseal C request runtime =
     and_then (ok_or Invalid (req_sealed_seed request)) (\<lambda>b.
     and_then (or_fail Invalid (whole_slice get_sealed b)) (\<lambda>sealed.
     let descriptor = req_wallet_descriptor request in
     if ss_version sealed \<noteq> API_VERSION
        \<or> ss_quorum_key_id sealed \<noteq> req_quorum_key_id request
        \<or> ss_quorum_key_epoch sealed \<noteq> req_quorum_key_epoch request
        \<or> ss_wallet_id_hash sealed \<noteq> wallet_id_hash C (wallet_id descriptor)
     then Err Invalid
     else
       and_then (ok_or Invalid (pair_decrypt C (rt_quorum runtime) (ss_ciphertext sealed))) (\<lambda>plaintext.
       and_then (or_fail Invalid (whole_slice get_unsealed plaintext)) (\<lambda>contents.
       and_then (ok_or Invalid (pubkey_from_str C (wd_address descriptor))) (\<lambda>owner.
       if us_version contents \<noteq> API_VERSION
          \<or> us_quorum_key_id contents \<noteq> ss_quorum_key_id sealed
          \<or> us_quorum_key_epoch contents \<noteq> ss_quorum_key_epoch sealed
       then Err Invalid
       else
         and_then (or_fail Invalid (wallet_binding_digest C descriptor)) (\<lambda>binding.
         if us_wallet_binding contents \<noteq> binding \<or> us_derivation_suite contents \<noteq> DERIVATION_SUITE
         then Err Invalid
         else
           and_then (roles_from_seed C owner (us_derivation_seed contents)) (\<lambda>roles.
           Ok (roles, sealed_seed_digest C b))))))))"

section \<open>Facts\<close>

lemma seal_seed_Ok:
  "seal_seed C entropy r rt seed = Ok (b, d) \<longleftrightarrow>
     (\<exists>binding c. wallet_binding_digest C (req_wallet_descriptor r) = Ok binding \<and>
        length (req_quorum_key_id r) < 2 ^ 32 \<and> vec_fits c \<and>
        pair_encrypt C entropy (rt_quorum rt) (put_unsealed
          \<lparr> us_version = API_VERSION, us_quorum_key_id = req_quorum_key_id r,
            us_quorum_key_epoch = req_quorum_key_epoch r, us_wallet_binding = binding,
            us_derivation_suite = DERIVATION_SUITE, us_derivation_seed = seed \<rparr>) = Some c \<and>
        b = put_sealed
          \<lparr> ss_version = API_VERSION, ss_quorum_key_id = req_quorum_key_id r,
            ss_quorum_key_epoch = req_quorum_key_epoch r,
            ss_wallet_id_hash = wallet_id_hash C (wallet_id (req_wallet_descriptor r)),
            ss_ciphertext = c \<rparr> \<and>
        d = sealed_seed_digest C b)"
  by (auto simp: seal_seed_def result_simps Let_def unsealed_to_vec_def sealed_to_vec_def
      DERIVATION_SUITE_def split: if_splits)

lemma unseal_Ok:
  "unseal C r rt = Ok (roles, d) \<longleftrightarrow>
     (\<exists>b s p u owner. req_sealed_seed r = Some b \<and> whole_slice get_sealed b = Ok s \<and>
        ss_version s = API_VERSION \<and> ss_quorum_key_id s = req_quorum_key_id r \<and>
        ss_quorum_key_epoch s = req_quorum_key_epoch r \<and>
        ss_wallet_id_hash s = wallet_id_hash C (wallet_id (req_wallet_descriptor r)) \<and>
        pair_decrypt C (rt_quorum rt) (ss_ciphertext s) = Some p \<and>
        whole_slice get_unsealed p = Ok u \<and>
        pubkey_from_str C (wd_address (req_wallet_descriptor r)) = Some owner \<and>
        us_version u = API_VERSION \<and> us_quorum_key_id u = req_quorum_key_id r \<and>
        us_quorum_key_epoch u = req_quorum_key_epoch r \<and>
        wallet_binding_digest C (req_wallet_descriptor r) = Ok (us_wallet_binding u) \<and>
        us_derivation_suite u = DERIVATION_SUITE \<and>
        roles_from_seed C owner (us_derivation_seed u) = Ok roles \<and> d = sealed_seed_digest C b)"
  (is "?unseal = ?parts")
proof
  show "?unseal \<Longrightarrow> ?parts"
    by (auto simp: unseal_def result_simps Let_def split: if_splits)
  show "?parts \<Longrightarrow> ?unseal"
    by (elim exE conjE) (simp add: unseal_def)
qed

lemma sha256_digest_length:
  "sha256_laws C \<Longrightarrow> length (domain_separated_hash C d p) = 32"
  by (simp add: sha256_laws_def domain_separated_hash_def)

lemma wallet_binding_digest_length:
  "sha256_laws C \<Longrightarrow> wallet_binding_digest C d = Ok h \<Longrightarrow> length h = 32"
  by (auto simp: wallet_binding_digest_exists sha256_laws_def)

lemma derivation_suite_fits: "string_fits DERIVATION_SUITE"
  by (simp add: string_fits_def DERIVATION_SUITE_def as_bytes_def)

lemma sealed_of_seal:
  assumes "sha256_laws C" "string_fits (req_quorum_key_id r)" "length seed = 64"
    and "seal_seed C entropy r rt seed = Ok (b, d)"
  obtains s u where "valid_sealed s" "b = put_sealed s" "valid_unsealed u"
    and "pair_encrypt C entropy (rt_quorum rt) (put_unsealed u) = Some (ss_ciphertext s)"
    and "ss_version s = API_VERSION" "ss_quorum_key_id s = req_quorum_key_id r"
    and "ss_quorum_key_epoch s = req_quorum_key_epoch r"
    and "ss_wallet_id_hash s = wallet_id_hash C (wallet_id (req_wallet_descriptor r))"
    and "us_version u = API_VERSION" "us_quorum_key_id u = req_quorum_key_id r"
    and "us_quorum_key_epoch u = req_quorum_key_epoch r" "us_derivation_suite u = DERIVATION_SUITE"
    and "us_derivation_seed u = seed"
    and "wallet_binding_digest C (req_wallet_descriptor r) = Ok (us_wallet_binding u)"
    and "d = sealed_seed_digest C b"
proof -
  obtain binding c where bc: "wallet_binding_digest C (req_wallet_descriptor r) = Ok binding"
    "vec_fits c" "pair_encrypt C entropy (rt_quorum rt) (put_unsealed
        \<lparr> us_version = API_VERSION, us_quorum_key_id = req_quorum_key_id r,
          us_quorum_key_epoch = req_quorum_key_epoch r, us_wallet_binding = binding,
          us_derivation_suite = DERIVATION_SUITE, us_derivation_seed = seed \<rparr>) = Some c"
    "b = put_sealed
        \<lparr> ss_version = API_VERSION, ss_quorum_key_id = req_quorum_key_id r,
          ss_quorum_key_epoch = req_quorum_key_epoch r,
          ss_wallet_id_hash = wallet_id_hash C (wallet_id (req_wallet_descriptor r)),
          ss_ciphertext = c \<rparr>"
    "d = sealed_seed_digest C b"
    using assms(4) by (auto simp: seal_seed_Ok)
  show thesis
    using bc assms(1-3) sha256_digest_length [OF assms(1)] wallet_binding_digest_length [OF assms(1) bc(1)]
    by (intro that [of "\<lparr> ss_version = API_VERSION, ss_quorum_key_id = req_quorum_key_id r,
          ss_quorum_key_epoch = req_quorum_key_epoch r,
          ss_wallet_id_hash = wallet_id_hash C (wallet_id (req_wallet_descriptor r)),
          ss_ciphertext = c \<rparr>"
        "\<lparr> us_version = API_VERSION, us_quorum_key_id = req_quorum_key_id r,
          us_quorum_key_epoch = req_quorum_key_epoch r, us_wallet_binding = binding,
          us_derivation_suite = DERIVATION_SUITE, us_derivation_seed = seed \<rparr>"])
      (simp_all add: valid_sealed_def valid_unsealed_def wallet_id_hash_def derivation_suite_fits)
qed

lemma unseal_of_seal:
  assumes "hex_laws C" "sha256_laws C" "pair_laws C"
    and "string_fits (req_quorum_key_id r)" "length seed = 64"
    and "seal_seed C entropy r rt seed = Ok (b, d)"
    and "same_wallet (req_wallet_descriptor r) (req_wallet_descriptor s)"
    and "req_quorum_key_id s = req_quorum_key_id r" "req_quorum_key_epoch s = req_quorum_key_epoch r"
    and "req_sealed_seed s = Some b"
    and "pubkey_from_str C (wd_address (req_wallet_descriptor s)) = Some owner"
    and "roles_from_seed C owner seed = Ok roles"
  shows "unseal C s rt = Ok (roles, d)"
proof -
  obtain ss u where seal: "valid_sealed ss" "b = put_sealed ss" "valid_unsealed u"
    "pair_encrypt C entropy (rt_quorum rt) (put_unsealed u) = Some (ss_ciphertext ss)"
    "ss_version ss = API_VERSION" "ss_quorum_key_id ss = req_quorum_key_id r"
    "ss_quorum_key_epoch ss = req_quorum_key_epoch r"
    "ss_wallet_id_hash ss = wallet_id_hash C (wallet_id (req_wallet_descriptor r))"
    "us_version u = API_VERSION" "us_quorum_key_id u = req_quorum_key_id r"
    "us_quorum_key_epoch u = req_quorum_key_epoch r" "us_derivation_suite u = DERIVATION_SUITE"
    "us_derivation_seed u = seed"
    "wallet_binding_digest C (req_wallet_descriptor r) = Ok (us_wallet_binding u)"
    "d = sealed_seed_digest C b"
    using sealed_of_seal [OF assms(2,4-6)] by blast
  have "wallet_binding_json C (req_wallet_descriptor s) = wallet_binding_json C (req_wallet_descriptor r)"
    using wallet_binding_json_same [OF assms(1)] assms(7) by metis
  then have binding: "wallet_binding_digest C (req_wallet_descriptor s) = Ok (us_wallet_binding u)"
    using seal(14) by (simp add: wallet_binding_digest_exists)
  have "wallet_id (req_wallet_descriptor s) = wallet_id (req_wallet_descriptor r)"
    using assms(7) by (simp add: same_wallet_def wallet_id_def)
  moreover have "pair_decrypt C (rt_quorum rt) (ss_ciphertext ss) = Some (put_unsealed u)"
    using assms(3) seal(4) by (auto simp: pair_laws_def)
  ultimately show ?thesis
    unfolding unseal_Ok sealed_codec.whole_iff unsealed_codec.whole_iff
    using seal binding assms(8-12) by (intro exI conjI) auto
qed

section \<open>Properties\<close>

text \<open>
  A seed sealed at bootstrap opens on every later request of the wallet: under any
  descriptor of the same wallet, whichever client, expiry and signature it carries, and the same
  Quorum key and epoch, \<open>unseal\<close> gives the roles of that seed and the digest \<open>seal\<close> reported.
\<close>

lemma sealed_seed_opens_for_its_wallet:
  assumes "hex_laws C" "sha256_laws C" "pair_laws C"
    and "string_fits (req_quorum_key_id r)" "length seed = 64"
    and "seal_seed C entropy r rt seed = Ok (b, d)"
    and "same_wallet (req_wallet_descriptor r) (req_wallet_descriptor s)"
    and "req_quorum_key_id s = req_quorum_key_id r" "req_quorum_key_epoch s = req_quorum_key_epoch r"
    and "req_sealed_seed s = Some b"
    and "pubkey_from_str C (wd_address (req_wallet_descriptor s)) = Some owner"
    and "roles_from_seed C owner seed = Ok roles"
  shows "unseal C s rt = Ok (roles, d)"
  by (rule unseal_of_seal [OF assms])

text \<open>
  C8. A sealed seed is of no use elsewhere: a request that unseals what was sealed for another
  names the same wallet (or the two bindings collide under SHA-256), the same Quorum key and
  epoch, and the seed is a signature of the address it names over its derivation message.
\<close>

theorem sealed_seed_opens_only_for_its_wallet:
  assumes "hex_laws C" "sha256_laws C" "pair_laws C"
    and "string_fits (req_quorum_key_id r)" "length seed = 64"
    and "seal_seed C entropy r rt seed = Ok (b, d)"
    and "req_sealed_seed s = Some b" "unseal C s rt = Ok (roles, digest)"
  shows "(same_wallet (req_wallet_descriptor r) (req_wallet_descriptor s) \<or>
      sha256_collision C (binding_hash_input C (req_wallet_descriptor r))
        (binding_hash_input C (req_wallet_descriptor s))) \<and>
    req_quorum_key_id s = req_quorum_key_id r \<and> req_quorum_key_epoch s = req_quorum_key_epoch r \<and>
    digest = d \<and>
    (\<exists>owner. pubkey_from_str C (wd_address (req_wallet_descriptor s)) = Some owner \<and>
       ed25519_verify C owner (derivation_message C owner) seed \<and> roles_from_seed C owner seed = Ok roles)"
proof -
  obtain ss u where seal: "valid_sealed ss" "b = put_sealed ss" "valid_unsealed u"
    "pair_encrypt C entropy (rt_quorum rt) (put_unsealed u) = Some (ss_ciphertext ss)"
    "ss_quorum_key_id ss = req_quorum_key_id r" "ss_quorum_key_epoch ss = req_quorum_key_epoch r"
    "us_derivation_seed u = seed" "d = sealed_seed_digest C b"
    "wallet_binding_digest C (req_wallet_descriptor r) = Ok (us_wallet_binding u)"
    using sealed_of_seal [OF assms(2,4-6)] by blast
  obtain ss' p u' owner where open1: "valid_sealed ss'" "b = put_sealed ss'"
    "ss_quorum_key_id ss' = req_quorum_key_id s" "ss_quorum_key_epoch ss' = req_quorum_key_epoch s"
    "pair_decrypt C (rt_quorum rt) (ss_ciphertext ss') = Some p" "valid_unsealed u'" "p = put_unsealed u'"
    "pubkey_from_str C (wd_address (req_wallet_descriptor s)) = Some owner"
    "wallet_binding_digest C (req_wallet_descriptor s) = Ok (us_wallet_binding u')"
    "roles_from_seed C owner (us_derivation_seed u') = Ok roles" "digest = sealed_seed_digest C b"
    using assms(7,8) by (auto simp: unseal_Ok sealed_codec.whole_iff unsealed_codec.whole_iff)
  have "ss' = ss"
    using seal(1,2) open1(1,2) sealed_codec.slice.enc_inject by metis
  moreover have "pair_decrypt C (rt_quorum rt) (ss_ciphertext ss) = Some (put_unsealed u)"
    using assms(3) seal(4) by (auto simp: pair_laws_def)
  ultimately have "u' = u"
    using seal(3) open1(5-7) unsealed_codec.slice.enc_inject by simp
  have "same_wallet (req_wallet_descriptor r) (req_wallet_descriptor s) \<or>
      sha256_collision C (binding_hash_input C (req_wallet_descriptor r))
        (binding_hash_input C (req_wallet_descriptor s))"
    using seal(9) open1(9) \<open>u' = u\<close> by (intro wallet_binding_digest_binds [OF assms(1)]) simp
  moreover have "ed25519_verify C owner (derivation_message C owner) seed"
    using open1(10) \<open>u' = u\<close> seal(7) by (auto simp: roles_from_seed_def Let_def split: if_splits)
  ultimately show ?thesis
    using open1 seal \<open>ss' = ss\<close> \<open>u' = u\<close> by auto
qed

section \<open>Witnesses\<close>

definition demo_runtime :: Runtime where
  "demo_runtime =
     \<lparr> rt_ephemeral = replicate 32 3, rt_quorum = replicate 32 4, rt_custody = (\<lambda>w p t. None),
       rt_provisioning_public = 4 # replicate 64 1, rt_grant_public = 4 # replicate 64 1,
       rt_prover = \<lparr> trust_signers = [], trust_anchors = [] \<rparr> \<rparr>"

definition demo_seed :: bytes where
  "demo_seed = demo_hash (as_bytes ''address'') @ demo_hash (as_bytes ''address'')"

definition demo_roles :: Roles where
  "demo_roles = \<lparr> role_owner = demo_hash (as_bytes ''address''),
     role_nullifier_key = demo_hash (as_bytes ''address''),
     role_viewing_key = demo_hash (as_bytes ''address'') \<rparr>"

lemma demo_roles_from_seed:
  "pubkey_from_str demo_enclave ''address'' = Some (demo_hash (as_bytes ''address''))"
  "roles_from_seed demo_enclave (demo_hash (as_bytes ''address'')) demo_seed = Ok demo_roles"
  by (simp_all add: roles_from_seed_def demo_enclave_defs demo_seed_def demo_roles_def)

lemma demo_quorum_fits: "string_fits (req_quorum_key_id demo_request)"
  by (simp add: string_fits_def demo_request_def as_bytes_def)

lemma demo_seal: "\<exists>b d. seal_seed demo_enclave [] demo_request demo_runtime demo_seed = Ok (b, d)"
proof -
  obtain h where h: "wallet_binding_digest demo_enclave (req_wallet_descriptor demo_request) = Ok h"
    by (simp add: wallet_binding_digest_exists)
  have "length h = 32" by (rule wallet_binding_digest_length [OF demo_enclave_laws(2) h])
  then have "length (put_unsealed
      \<lparr> us_version = API_VERSION, us_quorum_key_id = req_quorum_key_id demo_request,
        us_quorum_key_epoch = req_quorum_key_epoch demo_request, us_wallet_binding = h,
        us_derivation_suite = DERIVATION_SUITE, us_derivation_seed = demo_seed \<rparr> @ replicate 32 4) < 2 ^ 32"
    by (simp add: put_unsealed_def put_u8_def put_string_def put_vec_def put_u64_def demo_request_def
        DERIVATION_SUITE_def demo_seed_def)
  with h show ?thesis
    unfolding seal_seed_Ok
    by (auto simp: demo_runtime_def vec_fits_def demo_enclave_defs demo_request_def)
qed

lemma sealed_seed_opens_for_its_wallet_witness:
  "\<exists>b d. seal_seed demo_enclave [] demo_request demo_runtime demo_seed = Ok (b, d) \<and>
     unseal demo_enclave (demo_request \<lparr> req_sealed_seed := Some b, req_operation := Decrypt [] \<rparr>)
       demo_runtime = Ok (demo_roles, d)"
proof -
  obtain b d where seal: "seal_seed demo_enclave [] demo_request demo_runtime demo_seed = Ok (b, d)"
    using demo_seal by blast
  have len: "length demo_seed = 64" by (simp add: demo_seed_def)
  have "unseal demo_enclave (demo_request \<lparr> req_sealed_seed := Some b, req_operation := Decrypt [] \<rparr>)
      demo_runtime = Ok (demo_roles, d)"
    by (rule sealed_seed_opens_for_its_wallet [OF demo_enclave_laws(1,2) demo_pair_laws demo_quorum_fits
          len seal, where owner = "demo_hash (as_bytes ''address'')"])
      (simp_all add: demo_roles_from_seed demo_request_def demo_descriptor_def same_wallet_def)
  with seal show ?thesis by blast
qed

theorem sealed_seed_opens_only_for_its_wallet_witness:
  "\<exists>b d s. seal_seed demo_enclave [] demo_request demo_runtime demo_seed = Ok (b, d) \<and>
     unseal demo_enclave s demo_runtime = Ok (demo_roles, d) \<and>
     ed25519_verify demo_enclave (demo_hash (as_bytes ''address''))
       (derivation_message demo_enclave (demo_hash (as_bytes ''address''))) demo_seed"
proof -
  obtain b d where seal: "seal_seed demo_enclave [] demo_request demo_runtime demo_seed = Ok (b, d)"
    using demo_seal by blast
  define s where "s = demo_request \<lparr> req_sealed_seed := Some b \<rparr>"
  obtain ss u where parts: "valid_sealed ss" "b = put_sealed ss" "valid_unsealed u"
    "pair_encrypt demo_enclave [] (rt_quorum demo_runtime) (put_unsealed u) = Some (ss_ciphertext ss)"
    "ss_version ss = API_VERSION" "ss_quorum_key_id ss = req_quorum_key_id demo_request"
    "ss_quorum_key_epoch ss = req_quorum_key_epoch demo_request"
    "ss_wallet_id_hash ss = wallet_id_hash demo_enclave (wallet_id (req_wallet_descriptor demo_request))"
    "us_version u = API_VERSION" "us_quorum_key_id u = req_quorum_key_id demo_request"
    "us_quorum_key_epoch u = req_quorum_key_epoch demo_request" "us_derivation_suite u = DERIVATION_SUITE"
    "us_derivation_seed u = demo_seed"
    "wallet_binding_digest demo_enclave (req_wallet_descriptor demo_request) = Ok (us_wallet_binding u)"
    "d = sealed_seed_digest demo_enclave b"
    using sealed_of_seal [OF demo_enclave_laws(2) demo_quorum_fits _ seal]
    by (simp add: demo_seed_def) blast
  have "pair_decrypt demo_enclave (rt_quorum demo_runtime) (ss_ciphertext ss) = Some (put_unsealed u)"
    using demo_pair_laws parts(4) by (auto simp: pair_laws_def)
  then have opened: "unseal demo_enclave s demo_runtime = Ok (demo_roles, d)"
    unfolding unseal_Ok sealed_codec.whole_iff unsealed_codec.whole_iff
    using parts demo_roles_from_seed by (intro exI conjI) (auto simp: s_def demo_request_def demo_descriptor_def)
  have len: "length demo_seed = 64" by (simp add: demo_seed_def)
  have sealed: "req_sealed_seed s = Some b" by (simp add: s_def)
  from sealed_seed_opens_only_for_its_wallet [OF demo_enclave_laws(1,2) demo_pair_laws demo_quorum_fits
      len seal sealed opened]
  show ?thesis
    using seal opened demo_roles_from_seed(1) by (auto simp: s_def demo_request_def demo_descriptor_def)
qed

end
