(* ===== verification/Enclave_Keys.thy ===== *)
theory Enclave_Keys
  imports Enclave_Sealed
begin

text \<open>
  \<open>apps/privacy-wallet/src/operations/keys.rs\<close>: the batched functions of the privacy roles.
  A batch answers every item in request order or nothing at all.
\<close>

definition check_batch :: "'a list \<Rightarrow> Failure + unit" where
  "check_batch items =
     (if items = [] \<or> length items > unat MAX_ITEMS_PER_BATCH then Err Invalid else Ok ())"

definition viewing_key :: "'x enclave_crates_scheme \<Rightarrow> Roles \<Rightarrow> bytes \<Rightarrow> Failure + bytes" where
  "viewing_key C roles wanted =
     (if viewing_pubkey C (role_viewing_key roles) \<noteq> wanted then Err Invalid
      else Ok (role_viewing_key roles))"

definition x25519 :: "'x enclave_crates_scheme \<Rightarrow> bytes \<Rightarrow> Failure + bytes" where
  "x25519 C b =
     (if length b \<noteq> 33 then Err Invalid else ok_or Invalid (x25519_from_bytes C b))"

definition decrypt_item :: "'x enclave_crates_scheme \<Rightarrow> Roles \<Rightarrow> DecryptItem \<Rightarrow> Failure + bytes" where
  "decrypt_item C roles item =
     and_then (viewing_key C roles (di_viewing_public_key item)) (\<lambda>viewing.
     and_then (x25519 C (di_transaction_viewing_public_key item)) (\<lambda>transaction_key.
     if length (di_salt item) \<noteq> salt_len C then Err Invalid
     else case di_label item of
       Transfer \<Rightarrow>
         and_then (ok_or Invalid (try_from_word (di_slot_index item) :: u32 option)) (\<lambda>slot.
         ok_or Invalid (decrypt_utxo C viewing (di_ciphertext item) transaction_key (di_salt item) slot))
     | RingDeposit \<Rightarrow>
         if di_slot_index item \<noteq> 0 then Err Invalid
         else ok_or Invalid (decrypt_ring_deposit C viewing (di_ciphertext item) transaction_key
                (di_salt item))))"

definition decrypt_items ::
    "'x enclave_crates_scheme \<Rightarrow> Roles \<Rightarrow> DecryptItem list \<Rightarrow> Failure + OperationResult" where
  "decrypt_items C roles items =
     and_then (check_batch items) (\<lambda>_.
     and_then (traverse (decrypt_item C roles) items) (\<lambda>ps.
     Ok (DecryptResult ps)))"

fun derive_item :: "'x enclave_crates_scheme \<Rightarrow> Roles \<Rightarrow> DeriveItem \<Rightarrow> Failure + bytes" where
  "derive_item C roles (Nullifier utxo_hash blinding) =
     ok_or Invalid (nullifier_of C (role_nullifier_key roles) utxo_hash blinding)"
| "derive_item C roles (MergeDummyNullifier first_nullifier slot_index) =
     and_then (ok_or Invalid (try_from_word slot_index :: u8 option)) (\<lambda>slot.
     ok_or Invalid (merge_dummy_nullifier C (role_nullifier_key roles) first_nullifier slot))"
| "derive_item C roles (MergeOutputBlinding first_nullifier) =
     ok_or Invalid (merge_output_blinding C (role_nullifier_key roles) first_nullifier)"
| "derive_item C roles (MergePrivateTxBlinding first_nullifier) =
     ok_or Invalid (merge_private_tx_blinding C (role_nullifier_key roles) first_nullifier)"
| "derive_item C roles (MergeOutputKey first_nullifier) =
     ok_or Invalid (merge_output_key C (role_nullifier_key roles) first_nullifier)"

definition derive_items ::
    "'x enclave_crates_scheme \<Rightarrow> Roles \<Rightarrow> DeriveItem list \<Rightarrow> Failure + OperationResult" where
  "derive_items C roles items =
     and_then (check_batch items) (\<lambda>_.
     and_then (traverse (derive_item C roles) items) (\<lambda>vs.
     Ok (DeriveResult vs)))"

definition transaction_key_item ::
    "'x enclave_crates_scheme \<Rightarrow> Roles \<Rightarrow> TransactionKeyItem \<Rightarrow> Failure + bytes" where
  "transaction_key_item C roles item =
     and_then (viewing_key C roles (tki_viewing_public_key item)) (\<lambda>viewing.
     ok_or Invalid (transaction_viewing_key C viewing (tki_first_nullifier item)))"

definition transaction_keys ::
    "'x enclave_crates_scheme \<Rightarrow> Roles \<Rightarrow> TransactionKeyItem list \<Rightarrow> Failure + OperationResult" where
  "transaction_keys C roles items =
     and_then (check_batch items) (\<lambda>_.
     and_then (traverse (transaction_key_item C roles) items) (\<lambda>ss.
     Ok (TransactionKeysResult ss)))"

section \<open>Batches\<close>

lemma check_batch_Ok [result_simps]: "check_batch items = Ok u \<longleftrightarrow> items \<noteq> [] \<and> length items \<le> 256"
  by (auto simp: check_batch_def limit_defs not_less)

lemma traverse_answers:
  "traverse f xs = Ok ys \<longleftrightarrow> length ys = length xs \<and> (\<forall>i<length xs. f (xs ! i) = Ok (ys ! i))"
  by (auto simp: traverse_Ok list_all2_conv_all_nth)

lemma decrypt_item_Ok:
  "decrypt_item C roles i = Ok p \<Longrightarrow>
     di_viewing_public_key i = viewing_pubkey C (role_viewing_key roles) \<and>
     (di_label i = RingDeposit \<longrightarrow> di_slot_index i = 0)"
  by (auto simp: decrypt_item_def viewing_key_def result_simps split: DecryptLabel.splits if_splits)

lemma transaction_key_item_Ok:
  "transaction_key_item C roles i = Ok p \<Longrightarrow>
     tki_viewing_public_key i = viewing_pubkey C (role_viewing_key roles)"
  by (auto simp: transaction_key_item_def viewing_key_def result_simps split: if_splits)

lemma check_batch_Err: "check_batch items = Inl f \<Longrightarrow> f = Invalid"
  by (auto simp: check_batch_def split: if_splits)

lemma decrypt_item_Err: "decrypt_item C roles i = Inl f \<Longrightarrow> f = Invalid"
  by (cases "di_label i") (auto simp: decrypt_item_def viewing_key_def x25519_def result_simps split: if_splits)

lemma derive_item_Err: "derive_item C roles i = Inl f \<Longrightarrow> f = Invalid"
  by (cases i) (auto simp: result_simps)

lemma transaction_key_item_Err: "transaction_key_item C roles i = Inl f \<Longrightarrow> f = Invalid"
  by (auto simp: transaction_key_item_def viewing_key_def result_simps split: if_splits)

text \<open>A batch operation ends in a result or refuses the request; it never reports the enclave
  unavailable.\<close>

lemma keys_refuse:
  "decrypt_items C roles ds = Inl f \<Longrightarrow> f = Invalid"
  "derive_items C roles es = Inl f \<Longrightarrow> f = Invalid"
  "transaction_keys C roles ts = Inl f \<Longrightarrow> f = Invalid"
  by (auto simp: decrypt_items_def derive_items_def transaction_keys_def result_simps
      dest: check_batch_Err decrypt_item_Err derive_item_Err transaction_key_item_Err)

definition answers_each :: "('a \<Rightarrow> Failure + 'b) \<Rightarrow> 'a list \<Rightarrow> 'b list \<Rightarrow> bool" where
  "answers_each f xs ys \<longleftrightarrow> length ys = length xs \<and> (\<forall>i<length xs. f (xs ! i) = Ok (ys ! i))"

lemma traverse_answers_each: "traverse f xs = Ok ys \<longleftrightarrow> answers_each f xs ys"
  by (simp add: traverse_answers answers_each_def)

definition own_decrypt_item :: "'x enclave_crates_scheme \<Rightarrow> Roles \<Rightarrow> DecryptItem \<Rightarrow> bool" where
  "own_decrypt_item C roles i \<longleftrightarrow>
     di_viewing_public_key i = viewing_pubkey C (role_viewing_key roles) \<and>
     (di_label i = RingDeposit \<longrightarrow> di_slot_index i = 0)"

definition own_key_item :: "'x enclave_crates_scheme \<Rightarrow> Roles \<Rightarrow> TransactionKeyItem \<Rightarrow> bool" where
  "own_key_item C roles i \<longleftrightarrow> tki_viewing_public_key i = viewing_pubkey C (role_viewing_key roles)"

lemma answers_each_list_all:
  "(\<And>x y. f x = Ok y \<Longrightarrow> P x) \<Longrightarrow> answers_each f xs ys \<Longrightarrow> list_all P xs"
  by (auto simp: answers_each_def list_all_length)

text \<open>
  A batch is answered in full, in request order, or refused whole: an answer has one
  entry per item, the i-th computed from the i-th item alone; a batch has between 1 and 256
  items; and an item under another viewing key, or a ring deposit in a numbered slot, refuses
  the batch.
\<close>

lemma batches_answer_every_item:
  "(decrypt_items C roles ds = Ok r \<longleftrightarrow>
      ds \<noteq> [] \<and> length ds \<le> 256 \<and> list_all (own_decrypt_item C roles) ds \<and>
      (\<exists>ps. r = DecryptResult ps \<and> answers_each (decrypt_item C roles) ds ps)) \<and>
   (derive_items C roles es = Ok r \<longleftrightarrow>
      es \<noteq> [] \<and> length es \<le> 256 \<and>
      (\<exists>vs. r = DeriveResult vs \<and> answers_each (derive_item C roles) es vs)) \<and>
   (transaction_keys C roles ts = Ok r \<longleftrightarrow>
      ts \<noteq> [] \<and> length ts \<le> 256 \<and> list_all (own_key_item C roles) ts \<and>
      (\<exists>ss. r = TransactionKeysResult ss \<and> answers_each (transaction_key_item C roles) ts ss))"
proof -
  have "answers_each (decrypt_item C roles) ds ps \<Longrightarrow> list_all (own_decrypt_item C roles) ds" for ps
    by (rule answers_each_list_all) (auto simp: own_decrypt_item_def dest: decrypt_item_Ok)
  moreover have "answers_each (transaction_key_item C roles) ts ss \<Longrightarrow> list_all (own_key_item C roles) ts" for ss
    by (rule answers_each_list_all) (auto simp: own_key_item_def dest: transaction_key_item_Ok)
  ultimately show ?thesis
    by (auto simp: decrypt_items_def derive_items_def transaction_keys_def traverse_answers_each
        and_then_Ok check_batch_Ok)
qed

end
