(* ===== verification/Enclave_Prove.thy ===== *)
theory Enclave_Prove
  imports Enclave_Sealed
begin

text \<open>
  \<open>apps/privacy-wallet/src/operations/prove.rs\<close>: completing a prover request with the
  nullifier secret and sealing it to an attested prover. \<open>complete\<close> mutates a clone of the
  request; here the updated value is returned, and an update of a JSON object replaces the
  value beside a key that is there.
\<close>

section \<open>JSON access\<close>

fun as_object :: "json \<Rightarrow> (string \<times> json) list option" where
  "as_object (JObject m) = Some m"
| "as_object _ = None"

fun as_array :: "json \<Rightarrow> json list option" where
  "as_array (JArray vs) = Some vs"
| "as_array _ = None"

fun as_str_value :: "json \<Rightarrow> string option" where
  "as_str_value (JString s) = Some s"
| "as_str_value _ = None"

fun is_null :: "json \<Rightarrow> bool" where
  "is_null JNull = True"
| "is_null _ = False"

definition get_str :: "(string \<times> json) list \<Rightarrow> string \<Rightarrow> string option" where
  "get_str m k = Option.bind (map_of m k) as_str_value"

definition get_array :: "(string \<times> json) list \<Rightarrow> string \<Rightarrow> json list option" where
  "get_array m k = Option.bind (map_of m k) as_array"

section \<open>Completing the request\<close>

definition PROVE_PATH :: string where
  "PROVE_PATH = ''/prove/''"

fun trim_start_zeros :: "string \<Rightarrow> string" where
  "trim_start_zeros [] = []"
| "trim_start_zeros (c # cs) = (if c = CHR ''0'' then trim_start_zeros cs else c # cs)"

definition field_hex :: "'x crates_scheme \<Rightarrow> bytes \<Rightarrow> string" where
  "field_hex C secret =
     (let digits = trim_start_zeros (hex_encode C secret) in
      ''0x'' @ (if digits = [] then ''0'' else digits))"

text \<open>The slot's new value and the number of slots filled.\<close>

fun fill :: "json \<Rightarrow> string \<Rightarrow> nat \<Rightarrow> Failure + json \<times> nat" where
  "fill JNull secret filled = Ok (JString secret, filled + 1)"
| "fill (JString s) secret filled = Ok (JString s, filled)"
| "fill _ secret filled = Err Invalid"

definition fill_input :: "string \<Rightarrow> json \<Rightarrow> nat \<Rightarrow> Failure + json \<times> nat" where
  "fill_input secret input filled =
     and_then (ok_or Invalid (as_object input)) (\<lambda>m.
     and_then (ok_or Invalid (get_str m ''isDummy'')) (\<lambda>is_dummy.
     let dummy = (is_dummy \<noteq> ''0x0'') in
     and_then (ok_or Invalid (map_of m ''nullifierSecret'')) (\<lambda>slot.
     if dummy \<and> is_null slot then Err Invalid
     else
       and_then (fill slot secret filled) (\<lambda>(slot, filled).
       Ok (JObject (bt_insert ''nullifierSecret'' slot m), filled)))))"

fun fill_inputs :: "string \<Rightarrow> json list \<Rightarrow> nat \<Rightarrow> Failure + json list \<times> nat" where
  "fill_inputs secret [] filled = Ok ([], filled)"
| "fill_inputs secret (input # inputs) filled =
     and_then (fill_input secret input filled) (\<lambda>(input, filled).
     and_then (fill_inputs secret inputs filled) (\<lambda>(inputs, filled).
     Ok (input # inputs, filled)))"

text \<open>The two arms of the circuit match: the body with its slots filled, and how many were.\<close>

definition fill_transfer ::
    "string \<Rightarrow> (string \<times> json) list \<Rightarrow> Failure + (string \<times> json) list \<times> nat" where
  "fill_transfer secret body =
     and_then (ok_or Invalid (get_array body ''inputs'')) (\<lambda>inputs.
     if inputs = [] \<or> length inputs > MAX_PROVE_INPUTS then Err Invalid
     else
       and_then (fill_inputs secret inputs 0) (\<lambda>(inputs, filled).
       Ok (bt_insert ''inputs'' (JArray inputs) body, filled)))"

definition fill_merge ::
    "string \<Rightarrow> (string \<times> json) list \<Rightarrow> Failure + (string \<times> json) list \<times> nat" where
  "fill_merge secret body =
     and_then (ok_or Invalid (get_array body ''inputs'')) (\<lambda>inputs.
     if inputs = [] \<or> length inputs > MAX_PROVE_INPUTS then Err Invalid
     else
       and_then (ok_or Invalid (map_of body ''userNullifierSecret'')) (\<lambda>slot.
       and_then (fill slot secret 0) (\<lambda>(slot, filled).
       Ok (bt_insert ''userNullifierSecret'' slot body, filled))))"

definition complete :: "'x crates_scheme \<Rightarrow> json \<Rightarrow> bytes \<Rightarrow> Failure + json" where
  "complete C request nullifier_secret_bytes =
     and_then (ok_or Invalid (as_object request)) (\<lambda>body.
     and_then (ok_or Invalid (get_str body ''circuitType'')) (\<lambda>circuit.
     let secret = field_hex C nullifier_secret_bytes in
     and_then
       (if circuit = ''transfer-confidential'' \<or> circuit = ''transfer-ring''
        then fill_transfer secret body
        else if circuit = ''merge'' \<or> circuit = ''merge-ring'' then fill_merge secret body
        else Err Invalid) (\<lambda>(body, filled).
     if filled = 0 then Err Invalid else Ok (JObject body))))"

section \<open>Sealing to the prover\<close>

definition slot_count :: "(string \<times> json) list \<Rightarrow> string \<Rightarrow> Failure + nat" where
  "slot_count body field =
     and_then (ok_or Invalid (get_array body field)) (\<lambda>slots.
     if slots = [] \<or> length slots > MAX_PROVE_INPUTS then Err Invalid else Ok (length slots))"

definition circuit_family :: "string \<Rightarrow> string option" where
  "circuit_family circuit =
     (if circuit = ''transfer-confidential'' then Some ''transfer_confidential''
      else if circuit = ''transfer-ring'' then Some ''transfer_ring''
      else if circuit = ''merge'' then Some ''merge''
      else if circuit = ''merge-ring'' then Some ''merge_ring''
      else None)"

definition proving_key :: "json \<Rightarrow> Failure + string" where
  "proving_key request =
     and_then (ok_or Invalid (as_object request)) (\<lambda>body.
     and_then (ok_or Invalid (get_str body ''circuitType'')) (\<lambda>circuit.
     and_then (ok_or Invalid (circuit_family circuit)) (\<lambda>family.
     and_then (slot_count body ''inputs'') (\<lambda>inputs.
     and_then (if starts_with ''merge'' circuit then Ok 1 else slot_count body ''outputs'') (\<lambda>outputs.
     Ok (family @ ''_'' @ decimal inputs @ ''_'' @ decimal outputs))))))"

definition check_target :: "string \<Rightarrow> string \<Rightarrow> Failure + unit" where
  "check_target target key =
     (if length target > MAX_PROVER_TARGET_LEN \<or> strip_prefix PROVE_PATH target \<noteq> Some key
      then Err Invalid else Ok ())"

definition attested_key ::
    "'x enclave_crates_scheme \<Rightarrow> ProverSealing \<Rightarrow> ProverTrust \<Rightarrow> u64 \<Rightarrow> Failure + bytes" where
  "attested_key C sealing trust now =
     (let refused = Stage ProverStage in
      and_then (ok_or refused (json_to_vec C (ps_policy sealing))) (\<lambda>file.
      if length file > max_signed_policy_bytes C then Err refused
      else
        and_then (ok_or refused (signed_policy_verify C file (trust_signers trust) (now div 1000))) (\<lambda>policy.
        and_then (ok_or refused (attestation_from_value C (ps_attestation sealing))) (\<lambda>attestation.
        ok_or refused (attestation_verify C attestation policy (ps_nonce sealing) (now div 1000)
          (trust_anchors trust))))))"

text \<open>\<open>scrub\<close>: wiping a string leaves it empty.\<close>

fun wiped :: "json \<Rightarrow> json" where
  "wiped (JString s) = JString []"
| "wiped v = v"

definition wipe :: "string \<Rightarrow> json \<Rightarrow> json" where
  "wipe k v =
     (case v of
        JObject m \<Rightarrow>
          (case map_of m k of Some slot \<Rightarrow> JObject (bt_insert k (wiped slot) m) | None \<Rightarrow> JObject m)
      | _ \<Rightarrow> v)"

definition scrub :: "json \<Rightarrow> json" where
  "scrub request =
     (case wipe ''userNullifierSecret'' request of
        JObject m \<Rightarrow>
          (case map_of m ''inputs'' of
             Some (JArray inputs) \<Rightarrow>
               JObject (bt_insert ''inputs'' (JArray (map (wipe ''nullifierSecret'') inputs)) m)
           | _ \<Rightarrow> JObject m)
      | v \<Rightarrow> v)"

text \<open>\<open>seal\<close>; \<open>entropy\<close> is what the encryption draws. The second component is the request as
  it is left in memory when its plaintext has been taken.\<close>

definition seal_prove ::
    "'x enclave_crates_scheme \<Rightarrow> bytes \<Rightarrow> json \<Rightarrow> bytes \<Rightarrow> ProverSealing \<Rightarrow> ProverTrust \<Rightarrow> u64 \<Rightarrow>
     Failure + SealedProverRequest \<times> json" where
  "seal_prove C entropy request nullifier_secret_bytes sealing trust now =
     and_then (proving_key request) (\<lambda>key.
     and_then (check_target (ps_target sealing) key) (\<lambda>_.
     and_then (attested_key C sealing trust now) (\<lambda>prover_key.
     and_then (complete C request nullifier_secret_bytes) (\<lambda>completed.
     let plaintext = json_to_vec C completed; left = scrub completed in
     and_then (ok_or Unavailable plaintext) (\<lambda>plaintext.
     and_then (ok_or Unavailable
         (prover_encrypt C entropy prover_key ''POST'' (ps_target sealing) plaintext))
       (\<lambda>(enc_hex, body, response_key).
     and_then (ok_or Unavailable
         (case hex_decode C enc_hex of
            Some enc \<Rightarrow> if length enc = 32 then Some enc else None
          | None \<Rightarrow> None)) (\<lambda>enc.
     Ok (\<lparr> sprq_target = ps_target sealing, sprq_enc = enc, sprq_ciphertext = body,
           sprq_response_key = response_key \<rparr>, left))))))))"

section \<open>What completing changes\<close>

text \<open>An input before and after: only its nullifier secret slot may differ, and that only from
  \<open>null\<close> to the secret in an input that is not a dummy.\<close>

definition open_slot :: "string \<Rightarrow> json \<Rightarrow> bool" where
  "open_slot k v \<longleftrightarrow> (\<exists>m. v = JObject m \<and> map_of m k = Some JNull)"

definition filled_slot :: "string \<Rightarrow> string \<Rightarrow> json \<Rightarrow> json \<Rightarrow> bool" where
  "filled_slot k secret v w \<longleftrightarrow>
     (\<exists>m n. v = JObject m \<and> w = JObject n \<and> (\<forall>j. j \<noteq> k \<longrightarrow> map_of n j = map_of m j) \<and>
        (map_of m k = Some JNull \<and> map_of n k = Some (JString secret) \<or>
         (\<exists>s. map_of m k = Some (JString s) \<and> map_of n k = Some (JString s))))"

definition filled_input :: "string \<Rightarrow> json \<Rightarrow> json \<Rightarrow> bool" where
  "filled_input secret v w \<longleftrightarrow> filled_slot ''nullifierSecret'' secret v w \<and>
     (open_slot ''nullifierSecret'' v \<longrightarrow>
        (\<exists>m. v = JObject m \<and> get_str m ''isDummy'' = Some ''0x0''))"

lemma fill_Ok:
  "fill slot secret n = Ok (slot', n') \<longleftrightarrow>
     slot = JNull \<and> slot' = JString secret \<and> n' = n + 1 \<or>
     (\<exists>s. slot = JString s \<and> slot' = JString s \<and> n' = n)"
  by (cases slot) auto

lemma as_object_Some: "as_object v = Some m \<longleftrightarrow> v = JObject m"
  by (cases v) auto

lemma wf_json_member: "wf_json (JObject m) \<Longrightarrow> map_of m k = Some v \<Longrightarrow> wf_json v"
  using map_of_SomeD [of m k v] by (auto simp: list_all_iff)

lemma wf_json_insert: "wf_json (JObject m) \<Longrightarrow> wf_json v \<Longrightarrow> wf_json (JObject (bt_insert k v m))"
  by (simp add: bt_sorted_insert list_all_bt_insert)

lemma filled_slot_insert:
  assumes "wf_json (JObject m)" "map_of m k = Some slot"
    and "slot = JNull \<and> slot' = JString secret \<or> (\<exists>s. slot = JString s \<and> slot' = JString s)"
  shows "filled_slot k secret (JObject m) (JObject (bt_insert k slot' m))"
  using assms by (auto simp: filled_slot_def map_of_bt_insert)

lemma fill_input_Ok:
  assumes "wf_json v" "fill_input secret v n = Ok (w, n')"
  shows "filled_input secret v w \<and> wf_json w \<and> n' = n + (if open_slot ''nullifierSecret'' v then 1 else 0)"
proof -
  obtain m d slot slot' where m: "v = JObject m" "get_str m ''isDummy'' = Some d"
    "map_of m ''nullifierSecret'' = Some slot" "\<not> (d \<noteq> ''0x0'' \<and> is_null slot)"
    "fill slot secret n = Ok (slot', n')" "w = JObject (bt_insert ''nullifierSecret'' slot' m)"
    using assms(2) by (auto simp: fill_input_def result_simps as_object_Some split: if_splits)
  have "filled_slot ''nullifierSecret'' secret v w"
    using filled_slot_insert [of m "''nullifierSecret''" slot slot' secret] assms(1) m
    by (auto simp: fill_Ok)
  moreover have "wf_json w"
    using wf_json_insert [of m slot' "''nullifierSecret''"] assms(1) m by (auto simp: fill_Ok)
  ultimately show ?thesis
    using m by (auto simp: filled_input_def open_slot_def fill_Ok)
qed

lemma fill_inputs_Ok:
  "list_all wf_json vs \<Longrightarrow> fill_inputs secret vs n = Ok (ws, n') \<Longrightarrow>
     list_all2 (filled_input secret) vs ws \<and> list_all wf_json ws \<and>
     n' = n + length (filter (open_slot ''nullifierSecret'') vs)"
proof (induction vs arbitrary: n ws n')
  case (Cons v vs)
  then obtain w n1 ws' where w: "fill_input secret v n = Ok (w, n1)"
    and ws: "fill_inputs secret vs n1 = Ok (ws', n')" "ws = w # ws'"
    by (auto simp: result_simps)
  from fill_input_Ok [OF _ w] Cons.IH [OF _ ws(1)] Cons.prems(1) ws(2) show ?case by auto
qed simp

text \<open>What \<open>complete\<close> promises of an object and its completion.\<close>

definition completed_transfer :: "string \<Rightarrow> json \<Rightarrow> json \<Rightarrow> bool" where
  "completed_transfer secret v w \<longleftrightarrow>
     (\<exists>m n vs ws. v = JObject m \<and> w = JObject n \<and> (\<forall>k. k \<noteq> ''inputs'' \<longrightarrow> map_of n k = map_of m k) \<and>
        map_of m ''inputs'' = Some (JArray vs) \<and> map_of n ''inputs'' = Some (JArray ws) \<and>
        list_all2 (filled_input secret) vs ws \<and> list_ex (open_slot ''nullifierSecret'') vs)"

definition completed_merge :: "string \<Rightarrow> json \<Rightarrow> json \<Rightarrow> bool" where
  "completed_merge secret v w \<longleftrightarrow>
     open_slot ''userNullifierSecret'' v \<and> filled_slot ''userNullifierSecret'' secret v w"

text \<open>
  The slots a completion may fill are those of the body's own circuit: an input's own slot for a transfer,
  the one slot of the body for a merge; and there are one to \<open>MAX_PROVE_INPUTS\<close> inputs.
\<close>

definition completed_for_circuit :: "string \<Rightarrow> json \<Rightarrow> json \<Rightarrow> bool" where
  "completed_for_circuit secret v w \<longleftrightarrow>
     (\<exists>m circuit inputs. v = JObject m \<and> map_of m ''circuitType'' = Some (JString circuit) \<and>
        map_of m ''inputs'' = Some (JArray inputs) \<and> inputs \<noteq> [] \<and> length inputs \<le> MAX_PROVE_INPUTS \<and>
        (circuit \<in> {''transfer-confidential'', ''transfer-ring''} \<and> completed_transfer secret v w \<or>
         circuit \<in> {''merge'', ''merge-ring''} \<and> completed_merge secret v w))"

lemma wf_json_array_member: "wf_json (JObject m) \<Longrightarrow> get_array m k = Some vs \<Longrightarrow>
    map_of m k = Some (JArray vs) \<and> list_all wf_json vs"
proof -
  assume wf: "wf_json (JObject m)" and "get_array m k = Some vs"
  then have "map_of m k = Some (JArray vs)"
    by (auto simp: get_array_def elim!: as_array.elims split: bind_splits)
  with wf_json_member [OF wf this] show ?thesis by simp
qed

lemma complete_cases:
  assumes "complete C (JObject m) nsk = Ok w"
  obtains (transfer) circuit body n where "get_str m ''circuitType'' = Some circuit"
      "circuit \<in> {''transfer-confidential'', ''transfer-ring''}"
      "fill_transfer (field_hex C nsk) m = Ok (body, n)" "n \<noteq> 0" "w = JObject body"
    | (merge) circuit body n where "get_str m ''circuitType'' = Some circuit" "circuit \<in> {''merge'', ''merge-ring''}"
      "fill_merge (field_hex C nsk) m = Ok (body, n)" "n \<noteq> 0" "w = JObject body"
proof -
  obtain circuit x where circuit: "get_str m ''circuitType'' = Some circuit"
    and x: "(if circuit = ''transfer-confidential'' \<or> circuit = ''transfer-ring''
        then fill_transfer (field_hex C nsk) m
        else if circuit = ''merge'' \<or> circuit = ''merge-ring'' then fill_merge (field_hex C nsk) m
        else Err Invalid) = Ok x"
    and w: "(case x of (body, filled) \<Rightarrow> if filled = 0 then Err Invalid else Ok (JObject body)) = Ok w"
    using assms unfolding complete_def as_object.simps ok_or.simps and_then.simps Let_def and_then_Ok ok_or_Ok
    by blast
  obtain body n where "x = (body, n)" by fastforce
  with w have n: "n \<noteq> 0" "w = JObject body" by (simp_all split: if_split_asm)
  show thesis
  proof (cases "circuit \<in> {''transfer-confidential'', ''transfer-ring''}")
    case True
    then have "fill_transfer (field_hex C nsk) m = Ok (body, n)" using x unfolding \<open>x = _\<close> by simp
    with circuit True n show ?thesis by (intro transfer)
  next
    case False
    then have "circuit \<in> {''merge'', ''merge-ring''}" "fill_merge (field_hex C nsk) m = Ok (body, n)"
      using x unfolding \<open>x = _\<close> by (simp_all only: split: if_split_asm) simp_all
    with circuit n show ?thesis by (intro merge)
  qed
qed

lemma fill_transfer_Ok:
  "fill_transfer secret m = Ok (body, n) \<Longrightarrow>
     \<exists>vs ws. get_array m ''inputs'' = Some vs \<and> vs \<noteq> [] \<and> length vs \<le> MAX_PROVE_INPUTS \<and>
       fill_inputs secret vs 0 = Ok (ws, n) \<and> body = bt_insert ''inputs'' (JArray ws) m"
  by (auto simp: fill_transfer_def result_simps split: if_splits)

lemma fill_merge_Ok:
  "fill_merge secret m = Ok (body, n) \<Longrightarrow>
     \<exists>vs slot slot'. get_array m ''inputs'' = Some vs \<and> vs \<noteq> [] \<and> length vs \<le> MAX_PROVE_INPUTS \<and>
       map_of m ''userNullifierSecret'' = Some slot \<and> fill slot secret 0 = Ok (slot', n) \<and>
       body = bt_insert ''userNullifierSecret'' slot' m"
  by (auto simp: fill_merge_def result_simps split: if_splits)

lemma fill_transfer_completes:
  assumes "wf_json (JObject m)" "fill_transfer s m = Ok (body, n)" "n \<noteq> 0"
  shows "completed_transfer s (JObject m) (JObject body) \<and> wf_json (JObject body)"
proof -
  obtain vs ws where f: "get_array m ''inputs'' = Some vs" "fill_inputs s vs 0 = Ok (ws, n)"
    "body = bt_insert ''inputs'' (JArray ws) m"
    using fill_transfer_Ok [OF assms(2)] by blast
  note arr = wf_json_array_member [OF assms(1) f(1)]
  have fill: "list_all2 (filled_input s) vs ws" "list_all wf_json ws"
    "n = length (filter (open_slot ''nullifierSecret'') vs)"
    using fill_inputs_Ok [OF _ f(2)] arr by auto
  have "list_ex (open_slot ''nullifierSecret'') vs"
    using fill(3) assms(3) by (auto simp: list_ex_iff filter_empty_conv)
  moreover have "bt_sorted m" using assms(1) by simp
  ultimately have "completed_transfer s (JObject m) (JObject body)"
    using arr fill unfolding completed_transfer_def f(3)
    by (intro exI conjI) (auto simp: map_of_bt_insert)
  moreover have "wf_json (JObject body)" unfolding f(3) using fill(2) by (intro wf_json_insert assms(1)) simp
  ultimately show ?thesis by blast
qed

lemma fill_merge_completes:
  assumes "wf_json (JObject m)" "fill_merge s m = Ok (body, n)" "n \<noteq> 0"
  shows "completed_merge s (JObject m) (JObject body) \<and> wf_json (JObject body)"
proof -
  obtain slot slot' where f: "map_of m ''userNullifierSecret'' = Some slot" "fill slot s 0 = Ok (slot', n)"
    "body = bt_insert ''userNullifierSecret'' slot' m"
    using fill_merge_Ok [OF assms(2)] by blast
  then have slots: "slot = JNull" "slot' = JString s" using assms(3) by (auto simp: fill_Ok)
  then have "completed_merge s (JObject m) (JObject body)"
    using filled_slot_insert [OF assms(1) f(1), of slot' s] f
    by (auto simp: completed_merge_def open_slot_def)
  moreover have "wf_json (JObject body)" unfolding f(3) using slots by (intro wf_json_insert assms(1)) simp
  ultimately show ?thesis by blast
qed

lemma get_str_member: "get_str m k = Some s \<Longrightarrow> map_of m k = Some (JString s)"
  by (auto simp: get_str_def elim!: as_str_value.elims split: bind_splits)

lemma complete_fills:
  assumes "wf_json request" "complete C request nsk = Ok w"
  shows "wf_json w \<and> completed_for_circuit (field_hex C nsk) request w"
proof -
  obtain m where m: "request = JObject m" and wf: "wf_json (JObject m)"
    using assms by (auto simp: complete_def result_simps as_object_Some)
  from assms(2) [unfolded m] show ?thesis
  proof (cases rule: complete_cases)
    case (transfer circuit body n)
    obtain vs where "get_array m ''inputs'' = Some vs" "vs \<noteq> []" "length vs \<le> MAX_PROVE_INPUTS"
      using fill_transfer_Ok [OF transfer(3)] by blast
    then show ?thesis
      using fill_transfer_completes [OF wf transfer(3,4)] wf_json_array_member [OF wf] get_str_member transfer(1,2,5)
      unfolding completed_for_circuit_def m by blast
  next
    case (merge circuit body n)
    obtain vs where "get_array m ''inputs'' = Some vs" "vs \<noteq> []" "length vs \<le> MAX_PROVE_INPUTS"
      using fill_merge_Ok [OF merge(3)] by blast
    then show ?thesis
      using fill_merge_completes [OF wf merge(3,4)] wf_json_array_member [OF wf] get_str_member merge(1,2,5)
      unfolding completed_for_circuit_def m by blast
  qed
qed

lemma complete_wf: "wf_json request \<Longrightarrow> complete C request nsk = Ok w \<Longrightarrow> wf_json w"
  using complete_fills by blast

text \<open>
  C31. Completing a prover request writes the wallet's secret into every open (\<open>null\<close>)
  nullifier secret slot of the request's own circuit and changes nothing else: for a transfer the slots
  are those of its inputs, for a merge the one slot of the body; every other key of the body and of every
  input keeps its value, a slot the client filled is kept, a dummy's slot is never filled, at
  least one slot was open, and a body of another circuit is not completed.
\<close>

theorem complete_fills_open_slots_only:
  assumes "wf_json request" "complete C request nsk = Ok w"
  shows "wf_json w \<and> completed_for_circuit (field_hex C nsk) request w"
  by (rule complete_fills [OF assms])

definition demo_prove_request :: json where
  "demo_prove_request = JObject (bt_of
     [(''circuitType'', JString ''merge''), (''inputs'', JArray [JObject []]),
      (''userNullifierSecret'', JNull)])"

theorem complete_fills_open_slots_only_witness:
  "\<exists>w. complete demo_crates demo_prove_request [0, 171] = Ok w \<and> wf_json w \<and>
     completed_for_circuit (field_hex demo_crates [0, 171]) demo_prove_request w"
proof -
  have wf: "wf_json demo_prove_request"
    unfolding demo_prove_request_def by (rule wf_json_bt_of) simp
  obtain w where w: "complete demo_crates demo_prove_request [0, 171] = Ok w"
    by (simp add: complete_def fill_merge_def demo_prove_request_def get_str_def get_array_def
        map_of_bt_of MAX_PROVE_INPUTS_def)
  with complete_fills_open_slots_only [OF wf w] show ?thesis by blast
qed

section \<open>The field text of the secret\<close>

lemma trim_start_zeros_split: "\<exists>k. s = replicate k CHR ''0'' @ trim_start_zeros s"
proof (induction s)
  case (Cons c s)
  then obtain k where "s = replicate k CHR ''0'' @ trim_start_zeros s" by blast
  then show ?case by (cases "c = CHR ''0''") (auto intro: exI [of _ "Suc k"] exI [of _ 0])
qed simp

lemma trim_start_zeros_head: "trim_start_zeros s \<noteq> [] \<Longrightarrow> hd (trim_start_zeros s) \<noteq> CHR ''0''"
  by (induction s) auto

lemma trim_start_zeros_inject:
  assumes "length s = length t" "trim_start_zeros s = trim_start_zeros t"
  shows "s = t"
proof -
  obtain j k where s: "s = replicate j CHR ''0'' @ trim_start_zeros s"
    and t: "t = replicate k CHR ''0'' @ trim_start_zeros t"
    using trim_start_zeros_split by blast
  have "length s = j + length (trim_start_zeros s)" "length t = k + length (trim_start_zeros t)"
    by (metis length_append length_replicate s, metis length_append length_replicate t)
  with assms have "j = k" by simp
  with s t assms(2) show ?thesis by metis
qed

text \<open>
  The text written into a slot is canonical: \<open>0x\<close> and lowercase hex digits without a
  leading zero (a single \<open>0\<close> for zero), the hex of the secret but for its leading zeros; so two
  secrets of one length have one text only if they are equal.
\<close>

lemma field_hex_canonical:
  assumes "hex_laws C" "length a = length b"
  shows "(\<exists>d k. field_hex C a = ''0x'' @ d \<and> d \<noteq> [] \<and> list_all is_lower_hex_digit d \<and>
      (d = ''0'' \<or> hd d \<noteq> CHR ''0'') \<and>
      (hex_encode C a = replicate k CHR ''0'' @ d \<or> d = ''0'' \<and> hex_encode C a = replicate k CHR ''0'')) \<and>
    (field_hex C a = field_hex C b \<longleftrightarrow> a = b)"
proof -
  let ?t = "\<lambda>x. trim_start_zeros (hex_encode C x)"
  have zero: "?t x \<noteq> ''0''" for x
    using trim_start_zeros_head [of "hex_encode C x"] by auto
  have inj: "field_hex C a = field_hex C b \<longleftrightarrow> ?t a = ?t b"
    using zero [of a] zero [of b] by (auto simp: field_hex_def Let_def)
  have "length (hex_encode C a) = length (hex_encode C b)"
    using assms by (simp add: hex_laws_def)
  then have "?t a = ?t b \<Longrightarrow> hex_encode C a = hex_encode C b"
    by (rule trim_start_zeros_inject)
  then have "field_hex C a = field_hex C b \<longleftrightarrow> a = b"
    using inj encode_lower_hex_inject [OF assms(1), of a b] by (auto simp: encode_lower_hex_def)
  moreover obtain k where k: "hex_encode C a = replicate k CHR ''0'' @ ?t a"
    using trim_start_zeros_split by blast
  moreover have "list_all is_lower_hex_digit (?t a)"
    using assms(1) k unfolding hex_laws_def by (metis list_all_append)
  moreover have "is_lower_hex_digit CHR ''0''"
    by (simp add: is_lower_hex_digit_def is_ascii_digit_def ascii_def)
  ultimately show ?thesis
    using trim_start_zeros_head [of "hex_encode C a"]
    by (cases "?t a = []") (auto simp: field_hex_def Let_def)
qed

lemma field_hex_canonical_witness:
  "(field_hex demo_crates [0, 171] = field_hex demo_crates [171, 0]) = (([0, 171] :: bytes) = [171, 0])"
  using field_hex_canonical [OF demo_hex_laws, of "[0, 171]" "[171, 0]"] by simp

section \<open>What is sealed, and to whom\<close>

text \<open>No text is left in the slot \<open>k\<close> of an object.\<close>

fun slot_clear :: "string \<Rightarrow> json \<Rightarrow> bool" where
  "slot_clear k (JObject m) = (\<forall>s. map_of m k = Some (JString s) \<longrightarrow> s = [])"
| "slot_clear k v = True"

definition all_slots_clear :: "json \<Rightarrow> bool" where
  "all_slots_clear v \<longleftrightarrow> slot_clear ''userNullifierSecret'' v \<and>
     (\<forall>m vs. v = JObject m \<longrightarrow> map_of m ''inputs'' = Some (JArray vs) \<longrightarrow>
        list_all (slot_clear ''nullifierSecret'') vs)"

lemma slot_clear_wipe: "wf_json v \<Longrightarrow> slot_clear k (wipe k v)"
proof (cases v)
  case (JObject m)
  then show "wf_json v \<Longrightarrow> ?thesis"
    by (cases "map_of m k") (auto simp: wipe_def map_of_bt_insert elim!: wiped.elims)
qed (auto simp: wipe_def)

lemma wipe_object: "wf_json (JObject m) \<Longrightarrow> \<exists>n. wipe k (JObject m) = JObject n \<and> bt_sorted n \<and>
    map_of n = (case map_of m k of Some s \<Rightarrow> (map_of m)(k \<mapsto> wiped s) | None \<Rightarrow> map_of m)"
  by (cases "map_of m k") (auto simp: wipe_def map_of_bt_insert bt_sorted_insert)

lemma scrub_clears: "wf_json v \<Longrightarrow> all_slots_clear (scrub v)"
proof (cases v)
  case (JObject m)
  assume wf: "wf_json v"
  obtain n where n: "wipe ''userNullifierSecret'' (JObject m) = JObject n" "bt_sorted n"
    "map_of n = (case map_of m ''userNullifierSecret'' of
       Some s \<Rightarrow> (map_of m)(''userNullifierSecret'' \<mapsto> wiped s) | None \<Rightarrow> map_of m)"
    using wipe_object wf JObject by metis
  have clear: "slot_clear ''userNullifierSecret'' (JObject n)"
    using slot_clear_wipe [OF wf, of "''userNullifierSecret''"] n(1) JObject by simp
  have inputs: "map_of n ''inputs'' = map_of m ''inputs''"
    unfolding n(3) by (simp split: option.split)
  show ?thesis
  proof (cases "\<exists>vs. map_of m ''inputs'' = Some (JArray vs)")
    case True
    then obtain vs where vs: "map_of m ''inputs'' = Some (JArray vs)" by blast
    then have "list_all wf_json vs"
      using wf_json_member [of m "''inputs''" "JArray vs"] wf JObject by simp
    then have "list_all (slot_clear ''nullifierSecret'') (map (wipe ''nullifierSecret'') vs)"
      by (auto simp: list_all_iff slot_clear_wipe)
    then show ?thesis
      using clear n vs inputs JObject
      by (simp add: scrub_def all_slots_clear_def map_of_bt_insert)
  next
    case False
    then have "scrub v = JObject n"
      using n(1) inputs JObject by (auto simp: scrub_def split: option.split json.split)
    with False clear inputs show ?thesis by (auto simp: all_slots_clear_def)
  qed
qed (auto simp: scrub_def wipe_def all_slots_clear_def)

text \<open>
  C32. What leaves the enclave for a prover is the completed request, encrypted to a key whose
  attestation passed for the client's nonce and bound to the circuit's own route
  \<open>/prove/<key>\<close>; and no nullifier secret is left in the request in memory.
\<close>

theorem seal_prove_binds:
  assumes "wf_json request" "seal_prove C entropy request nsk sealing trust now = Ok (sealed, left)"
  shows "\<exists>key pk w p enc_hex.
    proving_key request = Ok key \<and> ps_target sealing = ''/prove/'' @ key \<and>
    attested_key C sealing trust now = Ok pk \<and>
    complete C request nsk = Ok w \<and> json_to_vec C w = Some p \<and>
    prover_encrypt C entropy pk ''POST'' (''/prove/'' @ key) p =
      Some (enc_hex, sprq_ciphertext sealed, sprq_response_key sealed) \<and>
    hex_decode C enc_hex = Some (sprq_enc sealed) \<and> length (sprq_enc sealed) = 32 \<and>
    sprq_target sealed = ps_target sealing \<and> all_slots_clear left"
proof -
  obtain key pk w p enc_hex body rk enc where parts: "proving_key request = Ok key"
    "check_target (ps_target sealing) key = Ok ()" "attested_key C sealing trust now = Ok pk"
    "complete C request nsk = Ok w" "json_to_vec C w = Some p"
    "prover_encrypt C entropy pk ''POST'' (ps_target sealing) p = Some (enc_hex, body, rk)"
    "(case hex_decode C enc_hex of Some enc \<Rightarrow> if length enc = 32 then Some enc else None
       | None \<Rightarrow> None) = Some enc"
    "sealed = \<lparr> sprq_target = ps_target sealing, sprq_enc = enc, sprq_ciphertext = body,
       sprq_response_key = rk \<rparr>" "left = scrub w"
    using assms(2) by (auto simp: seal_prove_def result_simps Let_def)
  have target: "ps_target sealing = ''/prove/'' @ key"
    using parts(2) by (auto simp: check_target_def PROVE_PATH_def strip_prefix_Some split: if_splits)
  have "wf_json w"
    using assms(1) parts(4) complete_wf by blast
  then have "all_slots_clear left" using parts(9) scrub_clears by simp
  with parts target show ?thesis
    by (auto split: option.splits if_splits)
qed

definition demo_sealing :: ProverSealing where
  "demo_sealing = \<lparr> ps_target = ''/prove/merge_1_1'', ps_nonce = replicate 32 0,
     ps_attestation = JNull, ps_policy = JNull \<rparr>"

lemma demo_seal_prove:
  "\<exists>sealed left. seal_prove demo_enclave [] demo_prove_request [0, 171] demo_sealing
     \<lparr> trust_signers = [], trust_anchors = [] \<rparr> 5 = Ok (sealed, left)"
proof -
  have key: "proving_key demo_prove_request = Ok ''merge_1_1''"
    by (simp add: proving_key_def demo_prove_request_def get_str_def map_of_bt_of circuit_family_def
        slot_count_def get_array_def MAX_PROVE_INPUTS_def starts_with_def decimal.simps digit_def
        char_of_def bit_0)
  obtain w where w: "complete demo_enclave demo_prove_request [0, 171] = Ok w"
    by (simp add: complete_def fill_merge_def demo_prove_request_def get_str_def get_array_def
        map_of_bt_of MAX_PROVE_INPUTS_def)
  have fields: "json_to_vec demo_enclave j = Some []"
    "prover_encrypt demo_enclave r k m tg pl = Some (demo_hex_encode (replicate 32 5), pl, replicate 32 6)"
    "hex_decode demo_enclave (demo_hex_encode (replicate 32 5)) = Some (replicate 32 5)"
    "max_signed_policy_bytes demo_enclave = 100" "signed_policy_verify demo_enclave f s n = Some f"
    "attestation_from_value demo_enclave j = Some []"
    "attestation_verify demo_enclave a po no n an = Some (replicate 32 9)" for j r k m tg pl f s n a po no an
    by (simp_all add: demo_enclave_defs demo_hex_roundtrip)
  show ?thesis
    by (simp add: seal_prove_def key w fields attested_key_def demo_sealing_def check_target_def
        MAX_PROVER_TARGET_LEN_def PROVE_PATH_def Let_def)
qed

theorem seal_prove_binds_witness:
  "\<exists>sealed left key. seal_prove demo_enclave [] demo_prove_request [0, 171] demo_sealing
     \<lparr> trust_signers = [], trust_anchors = [] \<rparr> 5 = Ok (sealed, left) \<and>
     sprq_target sealed = ps_target demo_sealing \<and> ps_target demo_sealing = ''/prove/'' @ key \<and>
     all_slots_clear left"
proof -
  obtain sealed left where s: "seal_prove demo_enclave [] demo_prove_request [0, 171] demo_sealing
     \<lparr> trust_signers = [], trust_anchors = [] \<rparr> 5 = Ok (sealed, left)"
    using demo_seal_prove by blast
  have wf: "wf_json demo_prove_request"
    unfolding demo_prove_request_def by (rule wf_json_bt_of) simp
  from seal_prove_binds [OF wf s] s show ?thesis by blast
qed

text \<open>
  The target is the circuit's route and nothing else: a target with any prefix before
  \<open>/prove/<key>\<close>, or anything after it, is refused, as is one longer than 256 bytes.
\<close>

lemma check_target_exact:
  "check_target target key = Ok () \<longleftrightarrow> target = ''/prove/'' @ key \<and> length target \<le> 256"
  by (auto simp: check_target_def PROVE_PATH_def strip_prefix_Some limit_defs)

end
