(* ===== verification/Enclave_Operations.thy ===== *)
theory Enclave_Operations
  imports Enclave_Keys Enclave_Prove
begin

text \<open>
  \<open>apps/privacy-wallet/src/operations/mod.rs\<close> and \<open>bootstrap.rs\<close>: the encrypted operation
  endpoint, from the bytes of the body to the response.

  \<open>Env\<close> is what one call takes from outside: the readings of the clock in the order they are
  made (0 for \<open>validate\<close>, 1 for the grant, 2 for the operation; milliseconds since the epoch,
  or \<open>None\<close> before it), what the random generator gives, and whether bootstrap is still
  running after a number of milliseconds. Everything else is the request and the state.
\<close>

section \<open>State and environment\<close>

record AppState =
  st_info :: ServiceInfo
  st_runtime :: Runtime

record Env =
  env_clock :: "nat \<Rightarrow> nat option"
  env_timed_out :: "u64 \<Rightarrow> bool"
  env_seal_entropy :: bytes
  env_prover_entropy :: bytes
  env_result_secret :: bytes
  env_result_nonce :: bytes

definition OPERATIONS :: "OperationKind list" where
  "OPERATIONS = [BootstrapKind, DecryptKind, DeriveKind, TransactionKeysKind, ProveKind]"

definition NO_SEALED_SEED :: bytes where
  "NO_SEALED_SEED = replicate 32 0"

definition OPERATION_TIMEOUT_MS :: u64 where
  "OPERATION_TIMEOUT_MS = 75000"

fun failure_of_custody :: "CustodyError \<Rightarrow> Failure" where
  "failure_of_custody CustodyUnavailable = Unavailable"
| "failure_of_custody CustodyDeclined = Stage TurnkeySigningStage"

definition sign_ephemeral_low_s :: "'x enclave_crates_scheme \<Rightarrow> bytes \<Rightarrow> bytes \<Rightarrow> unit + bytes" where
  "sign_ephemeral_low_s C ephemeral message =
     and_then (ok_or () (pair_sign C ephemeral message)) (\<lambda>raw.
     and_then (ok_or () (ecdsa_from_slice C raw)) (\<lambda>sig.
     let normalized = (case ecdsa_normalize_s C sig of Some n \<Rightarrow> n | None \<Rightarrow> sig) in
     Ok (ecdsa_to_bytes C normalized)))"

section \<open>Bootstrap\<close>

text \<open>\<open>None\<close> when the custodian does not answer.\<close>

definition bootstrap_run ::
    "'x enclave_crates_scheme \<Rightarrow> Env \<Rightarrow> OperationRequest \<Rightarrow> WalletKey \<Rightarrow> Runtime \<Rightarrow>
     (Failure + OperationResult \<times> bytes) option" where
  "bootstrap_run C env request wallet runtime =
     (let message = derivation_message C (wk_public_key wallet) in
      case rt_custody runtime wallet message (req_issued_at_ms request) of
        None \<Rightarrow> None
      | Some answer \<Rightarrow> Some (
          and_then (map_err failure_of_custody answer) (\<lambda>signature.
          and_then (or_fail Unavailable
              (roles_from_seed C (wk_public_key wallet) (raw_signature signature))) (\<lambda>roles.
          and_then (roles_address C roles) (\<lambda>address.
          and_then (seal_seed C (env_seal_entropy env) request runtime (raw_signature signature))
            (\<lambda>(sealed_seed, digest).
          and_then (ok_or Unavailable (owner_hash C (sa_signing_pubkey address)
              (sa_nullifier_pubkey address) (sa_viewing_pubkey address))) (\<lambda>owner.
          Ok (BootstrapResult (wk_sign_with wallet) owner (sa_nullifier_pubkey address)
                (sa_viewing_pubkey address) sealed_seed (raw_activity_id signature), digest))))))))"

section \<open>Validation\<close>

definition is_canonical_uuid :: "'x enclave_crates_scheme \<Rightarrow> string \<Rightarrow> bool" where
  "is_canonical_uuid C value = (uuid_hyphenated C value = Some value)"

definition validate ::
    "'x enclave_crates_scheme \<Rightarrow> nat option \<Rightarrow> OperationRequest \<Rightarrow> AppState \<Rightarrow> Failure + WalletKey" where
  "validate C reading request state =
     and_then (or_fail Invalid (check_request_bindings request (st_info state))) (\<lambda>_.
     let kind = operation_kind (req_operation request);
         expects_seed = (kind \<noteq> BootstrapKind) in
     if kind \<notin> set (si_supported_operations (st_info state))
        \<or> (req_sealed_seed request \<noteq> None) \<noteq> expects_seed
     then Err Invalid
     else
       and_then (now_ms reading) (\<lambda>now.
       if req_expires_at_ms request < now
          \<or> req_issued_at_ms request > saturating_add now MAX_CLOCK_SKEW_MS
          \<or> req_expires_at_ms request < req_issued_at_ms request
          \<or> req_expires_at_ms request - req_issued_at_ms request > MAX_REQUEST_AGE_MS
       then Err Invalid
       else
         let descriptor = req_wallet_descriptor request in
         and_then (ok_or Invalid (pubkey_from_str C (wd_address descriptor))) (\<lambda>address.
         if wd_version descriptor \<noteq> API_VERSION
            \<or> \<not> is_canonical_uuid C (wd_turnkey_organization_id descriptor)
            \<or> length (wd_turnkey_wallet_id descriptor) > 128
            \<or> length (wd_allowed_clients descriptor) \<noteq> 1
         then Err Invalid
         else
           and_then (or_fail Invalid (descriptor_digest C descriptor)) (\<lambda>digest.
           and_then (or_fail Invalid (verify_p256_prehash C
               (rt_provisioning_public (st_runtime state)) digest
               (wd_provisioning_signature descriptor))) (\<lambda>_.
           let grant = wd_allowed_clients descriptor ! 0 in
           if length (cg_client_public_key grant) \<noteq> 65
              \<or> cg_allowed_operations grant \<noteq> OPERATIONS
              \<or> ca_client_key_id (req_authorization request) \<noteq>
                  client_key_id C (cg_client_public_key grant)
           then Err Invalid
           else
             and_then (or_fail Invalid
                 (verify_client_authorization C request (cg_client_public_key grant))) (\<lambda>_.
             and_then (or_fail FailureDescriptorExpired (check_current descriptor now)) (\<lambda>_.
             Ok \<lparr> wk_organization_id = wd_turnkey_organization_id descriptor,
                  wk_sign_with = wd_address descriptor, wk_public_key = address \<rparr>)))))))"

section \<open>Running an operation\<close>

definition run_operation ::
    "'x enclave_crates_scheme \<Rightarrow> Env \<Rightarrow> OperationRequest \<Rightarrow> WalletKey \<Rightarrow> Runtime \<Rightarrow>
     Failure + OperationResult \<times> bytes" where
  "run_operation C env request wallet runtime =
     (case req_operation request of
        Bootstrap \<Rightarrow>
          and_then (now_ms (env_clock env 2)) (\<lambda>now.
          let until_expiry = saturating_sub (req_expires_at_ms request) now;
              deadline = min OPERATION_TIMEOUT_MS until_expiry in
          case bootstrap_run C env request wallet runtime of
            None \<Rightarrow> Err Unavailable
          | Some answer \<Rightarrow> if env_timed_out env deadline then Err Unavailable else answer)
      | Decrypt items \<Rightarrow>
          and_then (unseal C request runtime) (\<lambda>(roles, digest).
          and_then (decrypt_items C roles items) (\<lambda>r. Ok (r, digest)))
      | Derive items \<Rightarrow>
          and_then (unseal C request runtime) (\<lambda>(roles, digest).
          and_then (derive_items C roles items) (\<lambda>r. Ok (r, digest)))
      | TransactionKeys items \<Rightarrow>
          and_then (unseal C request runtime) (\<lambda>(roles, digest).
          and_then (transaction_keys C roles items) (\<lambda>r. Ok (r, digest)))
      | Prove body prover \<Rightarrow>
          and_then (unseal C request runtime) (\<lambda>(roles, digest).
          and_then (now_ms (env_clock env 2)) (\<lambda>now.
          and_then (seal_prove C (env_prover_entropy env) body
              (nullifier_secret C (role_nullifier_key roles)) prover (rt_prover runtime) now)
            (\<lambda>(sealed, left). Ok (ProveResult sealed, digest)))))"

text \<open>A failure at a named stage is answered inside the result, under the seed the request
  presented.\<close>

definition answer_operation ::
    "'x enclave_crates_scheme \<Rightarrow> Env \<Rightarrow> OperationRequest \<Rightarrow> WalletKey \<Rightarrow> Runtime \<Rightarrow>
     Failure + OperationResult \<times> bytes" where
  "answer_operation C env request wallet runtime =
     (case run_operation C env request wallet runtime of
        Inr answer \<Rightarrow> Ok answer
      | Inl (Stage stage) \<Rightarrow> Ok (FailureResult (operation_kind (req_operation request)) stage,
          (case req_sealed_seed request of
             Some b \<Rightarrow> sealed_seed_digest C b | None \<Rightarrow> NO_SEALED_SEED))
      | Inl failure \<Rightarrow> Err failure)"

section \<open>The endpoint\<close>

text \<open>The request a body carries, with the grant beside it, once everything about it has been
  checked: \<open>execute\<close> up to \<open>run\<close>.\<close>

definition admit ::
    "'x enclave_crates_scheme \<Rightarrow> Env \<Rightarrow> AppState \<Rightarrow> bytes \<Rightarrow> Failure + OperationRequest \<times> WalletKey \<times> bytes"
  where
  "admit C env state body =
     and_then (ok_or Invalid (from_utf8 body)) (\<lambda>text.
     and_then (or_fail Invalid (parse_encrypted_request C text)) (\<lambda>encrypted.
     and_then (or_fail Invalid (check_encrypted_request_bindings encrypted (st_info state))) (\<lambda>_.
     and_then (ok_or Invalid (pair_decrypt C (rt_quorum (st_runtime state)) (er_ciphertext encrypted)))
       (\<lambda>decrypted.
     and_then (ok_or Invalid (from_utf8 decrypted)) (\<lambda>plaintext.
     if \<not> is_rfc8785 C plaintext then Err Invalid
     else
       and_then (or_fail Invalid (parse_operation_request C plaintext)) (\<lambda>request.
       and_then (validate C (env_clock env 0) request state) (\<lambda>wallet.
       and_then (ok_or Invalid (er_wallet_grant encrypted)) (\<lambda>grant.
       and_then (now_ms (env_clock env 1)) (\<lambda>now.
       and_then (or_fail Invalid (verify_wallet_grant C grant (rt_grant_public (st_runtime state))
           (req_wallet_descriptor request) (ca_client_key_id (req_authorization request)) now)) (\<lambda>_.
       and_then (or_fail Invalid (request_digest C request)) (\<lambda>request_hash.
       and_then (or_fail Invalid
           (parse_uncompressed_sec1 C (req_client_response_public_key request))) (\<lambda>_.
       Ok (request, wallet, request_hash)))))))))))))"

definition respond ::
    "'x enclave_crates_scheme \<Rightarrow> Env \<Rightarrow> AppState \<Rightarrow> OperationRequest \<Rightarrow> bytes \<Rightarrow> OperationResult \<Rightarrow> bytes \<Rightarrow>
     Failure + string" where
  "respond C env state request request_hash result proof_seed_digest =
     and_then (or_fail Unavailable (jcs_serialize (OperationResult_json C result))) (\<lambda>result_plaintext.
     and_then (or_fail Unavailable (qos_encrypt C (req_client_response_public_key request)
         (as_bytes result_plaintext) (env_result_secret env) (env_result_nonce env))) (\<lambda>encrypted_result.
     if length encrypted_result > unat MAX_ENCRYPTED_RESPONSE_BYTES then Err Unavailable
     else
       and_then (or_fail Unavailable (jcs_serialize (OperationProofPayload_json C
           \<lparr> opp_type = TVC_APP_PROOF_TYPE, opp_version = API_VERSION,
             opp_request_id = req_request_id request, opp_request_digest = request_hash,
             opp_result_digest = result_digest C encrypted_result,
             opp_operation = operation_kind (req_operation request),
             opp_sealed_seed_digest = proof_seed_digest \<rparr>))) (\<lambda>proof_payload.
       and_then (or_fail Unavailable
           (sign_ephemeral_low_s C (rt_ephemeral (st_runtime state)) (as_bytes proof_payload))) (\<lambda>signature.
       or_fail Unavailable (jcs_serialize (EncryptedResponse_json C
           \<lparr> eres_version = API_VERSION, eres_request_id = req_request_id request,
             eres_encrypted_result = encrypted_result,
             eres_tvc_app_proof =
               \<lparr> ap_scheme = TVC_APP_PROOF_SCHEME,
                 ap_public_key = pair_public C (rt_ephemeral (st_runtime state)),
                 ap_proof_payload = proof_payload, ap_signature = signature \<rparr> \<rparr>))))))"

definition execute ::
    "'x enclave_crates_scheme \<Rightarrow> Env \<Rightarrow> AppState \<Rightarrow> bytes \<Rightarrow> Failure + string" where
  "execute C env state body =
     and_then (admit C env state body) (\<lambda>(request, wallet, request_hash).
     and_then (answer_operation C env request wallet (st_runtime state)) (\<lambda>(result, seed_digest).
     respond C env state request request_hash result seed_digest))"

definition handle_operation ::
    "'x enclave_crates_scheme \<Rightarrow> Env \<Rightarrow> AppState \<Rightarrow> bytes \<Rightarrow> http_response" where
  "handle_operation C env state body =
     (case execute C env state body of
        Inr response \<Rightarrow> http_ok response
      | Inl Invalid \<Rightarrow> public_error_response PE_InvalidRequest
      | Inl FailureDescriptorExpired \<Rightarrow> public_error_response PE_DescriptorExpired
      | Inl Unavailable \<Rightarrow> public_error_response PE_Unavailable
      | Inl (Stage _) \<Rightarrow> public_error_response PE_Unavailable)"

end
