(* ===== verification/Enclave_Mediation.thy ===== *)
theory Enclave_Mediation
  imports Enclave_Operations
begin

text \<open>
  What the operation endpoint guarantees: which requests \<open>validate\<close> and \<open>execute\<close> let through,
  who can reach the custodian, what a response binds and what a failure tells. The conditions
  are stated again in the terms of the policy and the code is shown to check exactly those.
\<close>

section \<open>What is required of a request\<close>

text \<open>The same conditions in the terms of the policy: times are numbers of milliseconds, so no
  wrap-around or saturation hides in them.\<close>

definition request_fresh :: "OperationRequest \<Rightarrow> nat \<Rightarrow> bool" where
  "request_fresh r now \<longleftrightarrow>
     now \<le> unat (req_expires_at_ms r) \<and> unat (req_issued_at_ms r) \<le> now + 60000 \<and>
     unat (req_issued_at_ms r) \<le> unat (req_expires_at_ms r) \<and>
     unat (req_expires_at_ms r) \<le> unat (req_issued_at_ms r) + 300000"

definition descriptor_current :: "WalletDescriptor \<Rightarrow> nat \<Rightarrow> bool" where
  "descriptor_current d now \<longleftrightarrow> now \<le> unat (wd_expires_at_ms d) + 60000"

definition release_bound :: "OperationRequest \<Rightarrow> ServiceInfo \<Rightarrow> bool" where
  "release_bound r running \<longleftrightarrow>
     req_version r = API_VERSION \<and> wd_network (req_wallet_descriptor r) = si_network running \<and>
     req_target_release_id r = si_release_id running \<and>
     req_target_manifest_digest r = si_manifest_digest running \<and>
     req_target_executable_digest r = si_executable_digest running \<and>
     wd_security_domain_id (req_wallet_descriptor r) = si_security_domain_id running \<and>
     wd_turnkey_wallet_id (req_wallet_descriptor r) \<noteq> [] \<and>
     req_quorum_key_id r = si_quorum_key_id running \<and>
     req_quorum_key_epoch r = si_quorum_key_epoch running"

definition well_provisioned :: "'x enclave_crates_scheme \<Rightarrow> WalletDescriptor \<Rightarrow> bytes \<Rightarrow> bool" where
  "well_provisioned C d provisioning_key \<longleftrightarrow>
     wd_version d = API_VERSION \<and> pubkey_from_str C (wd_address d) \<noteq> None \<and>
     is_canonical_uuid C (wd_turnkey_organization_id d) \<and> length (wd_turnkey_wallet_id d) \<le> 128 \<and>
     (\<exists>h. descriptor_digest C d = Ok h \<and>
        verify_p256_prehash C provisioning_key h (wd_provisioning_signature d) = Ok ())"

definition signed_by_client :: "'x enclave_crates_scheme \<Rightarrow> OperationRequest \<Rightarrow> bool" where
  "signed_by_client C r \<longleftrightarrow>
     (\<exists>g. wd_allowed_clients (req_wallet_descriptor r) = [g] \<and> length (cg_client_public_key g) = 65 \<and>
        cg_allowed_operations g = OPERATIONS \<and>
        ca_client_key_id (req_authorization r) = client_key_id C (cg_client_public_key g) \<and>
        verify_client_authorization C r (cg_client_public_key g) = Ok ())"

definition authorized :: "'x enclave_crates_scheme \<Rightarrow> AppState \<Rightarrow> OperationRequest \<Rightarrow> nat \<Rightarrow> bool" where
  "authorized C st r now \<longleftrightarrow>
     release_bound r (st_info st) \<and>
     operation_kind (req_operation r) \<in> set (si_supported_operations (st_info st)) \<and>
     (req_sealed_seed r = None \<longleftrightarrow> req_operation r = Bootstrap) \<and>
     request_fresh r now \<and>
     well_provisioned C (req_wallet_descriptor r) (rt_provisioning_public (st_runtime st)) \<and>
     signed_by_client C r"

definition wallet_key :: "'x enclave_crates_scheme \<Rightarrow> OperationRequest \<Rightarrow> WalletKey" where
  "wallet_key C r =
     \<lparr> wk_organization_id = wd_turnkey_organization_id (req_wallet_descriptor r),
       wk_sign_with = wd_address (req_wallet_descriptor r),
       wk_public_key = the (pubkey_from_str C (wd_address (req_wallet_descriptor r))) \<rparr>"

section \<open>Facts\<close>

lemma now_ms_Ok: "now_ms reading = Ok now \<longleftrightarrow> reading = Some (unat now)"
  using unat_u64_bound [of now]
  by (auto simp: now_ms_def result_simps u64_try_from_Some)

lemma now_ms_Err: "now_ms reading = Err e \<Longrightarrow> e = Unavailable"
  by (auto simp: now_ms_def result_simps)

lemma check_request_bindings_iff: "check_request_bindings r running = Ok () \<longleftrightarrow> release_bound r running"
  by (auto simp: check_request_bindings_def release_bound_def)

lemma check_current_iff: "check_current d now = Ok () \<longleftrightarrow> descriptor_current d (unat now)"
  by (auto simp: check_current_def descriptor_current_def u64_less_saturating_add limit_defs not_less)

lemma u64_le_saturating_add: "(a :: u64) \<le> saturating_add b c \<longleftrightarrow> unat a \<le> unat b + unat c"
  using u64_less_saturating_add [of b c a] by (simp add: not_less flip: not_less)

lemma request_fresh_iff:
  "\<not> (req_expires_at_ms r < now
     \<or> req_issued_at_ms r > saturating_add now MAX_CLOCK_SKEW_MS
     \<or> req_expires_at_ms r < req_issued_at_ms r
     \<or> req_expires_at_ms r - req_issued_at_ms r > MAX_REQUEST_AGE_MS) \<longleftrightarrow> request_fresh r (unat now)"
proof -
  have "unat (req_issued_at_ms r) \<le> unat (req_expires_at_ms r) \<Longrightarrow>
      req_expires_at_ms r - req_issued_at_ms r > MAX_REQUEST_AGE_MS \<longleftrightarrow>
      unat (req_expires_at_ms r) > unat (req_issued_at_ms r) + 300000"
    by (auto simp: word_less_nat_alt unat_sub word_le_nat_alt limit_defs)
  then show ?thesis
    unfolding request_fresh_def de_Morgan_disj not_less u64_le_saturating_add
    by (auto simp: limit_defs word_le_nat_alt not_less not_le word_less_nat_alt)
qed

lemma operation_kind_Bootstrap: "operation_kind p = BootstrapKind \<longleftrightarrow> p = Bootstrap"
  by (cases p) auto

lemma check_current_outcome:
  "or_fail FailureDescriptorExpired (check_current d now) =
     (if descriptor_current d (unat now) then Ok () else Err FailureDescriptorExpired)"
  by (auto simp: check_current_def descriptor_current_def u64_less_saturating_add limit_defs not_less)

lemma list_cases2: "(xs = [] \<Longrightarrow> P) \<Longrightarrow> (\<And>x. xs = [x] \<Longrightarrow> P) \<Longrightarrow> (\<And>x y ys. xs = x # y # ys \<Longrightarrow> P) \<Longrightarrow> P"
  by (cases xs; cases "tl xs") auto

text \<open>Everything \<open>validate\<close> does before the expiry of the descriptor.\<close>

lemma validate_outcome:
  assumes "now_ms reading = Ok now"
  shows "validate C reading r st =
    (if authorized C st r (unat now) then
       if descriptor_current (req_wallet_descriptor r) (unat now) then Ok (wallet_key C r)
       else Err FailureDescriptorExpired
     else Err Invalid)"
proof -
  let ?d = "req_wallet_descriptor r"
  have prov: "or_fail Invalid (verify_p256_prehash C pk h s) = (if verify_p256_prehash C pk h s = Ok () then Ok () else Err Invalid)"
    for pk h s by (cases "verify_p256_prehash C pk h s") auto
  have bind: "or_fail Invalid (check_request_bindings r i) = (if release_bound r i then Ok () else Err Invalid)" for i
    using check_request_bindings_iff [of r i] by (cases "check_request_bindings r i") auto
  have auth: "or_fail Invalid (verify_client_authorization C r pk) =
      (if verify_client_authorization C r pk = Ok () then Ok () else Err Invalid)" for pk
    by (cases "verify_client_authorization C r pk") auto
  show ?thesis
  proof (cases "release_bound r (st_info st) \<and>
      operation_kind (req_operation r) \<in> set (si_supported_operations (st_info st)) \<and>
      (req_sealed_seed r = None \<longleftrightarrow> req_operation r = Bootstrap) \<and> request_fresh r (unat now)")
    case True
    then have fresh: "\<not> (req_expires_at_ms r < now
     \<or> req_issued_at_ms r > saturating_add now MAX_CLOCK_SKEW_MS
     \<or> req_expires_at_ms r < req_issued_at_ms r
     \<or> req_expires_at_ms r - req_issued_at_ms r > MAX_REQUEST_AGE_MS)"
      using request_fresh_iff by blast
    show ?thesis
      unfolding validate_def Let_def assms bind check_current_outcome using True fresh
      by (cases "pubkey_from_str C (wd_address ?d)"; cases "wd_allowed_clients ?d" rule: list_cases2)
        (auto simp add: operation_kind_Bootstrap authorized_def well_provisioned_def
          signed_by_client_def wallet_key_def descriptor_digest_exists prov auth)
  next
    case False
    then show ?thesis
      unfolding validate_def Let_def assms bind check_current_outcome
      by (simp add: operation_kind_Bootstrap request_fresh_iff flip: de_Morgan_disj)
        (auto simp add: authorized_def)
  qed
qed

lemma validate_Ok:
  "validate C reading r st = Ok w \<longleftrightarrow>
     (\<exists>now. now_ms reading = Ok now \<and> authorized C st r (unat now) \<and>
        descriptor_current (req_wallet_descriptor r) (unat now) \<and> w = wallet_key C r)"
proof (cases "now_ms reading")
  case (Inl e)
  then show ?thesis
    by (auto simp: validate_def result_simps Let_def split: if_splits)
next
  case (Inr now)
  then show ?thesis by (auto simp: validate_outcome)
qed

lemma validate_expired:
  "validate C reading r st = Err FailureDescriptorExpired \<longleftrightarrow>
     (\<exists>now. now_ms reading = Ok now \<and> authorized C st r (unat now) \<and>
        \<not> descriptor_current (req_wallet_descriptor r) (unat now))"
proof (cases "now_ms reading")
  case (Inl e)
  then show ?thesis
    using now_ms_Err [OF Inl] by (auto simp: validate_def result_simps Let_def split: if_splits)
next
  case (Inr now)
  then show ?thesis by (auto simp: validate_outcome)
qed

lemma validate_no_stage: "validate C reading r st \<noteq> Err (Stage s)"
proof (cases "now_ms reading")
  case (Inl e)
  then show ?thesis
    using now_ms_Err [OF Inl] by (auto simp: validate_def result_simps Let_def split: if_splits)
next
  case (Inr now)
  then show ?thesis by (simp add: validate_outcome)
qed

text \<open>The body of a call, opened: the envelope around the request, and the request inside.\<close>

definition carries ::
    "'x enclave_crates_scheme \<Rightarrow> AppState \<Rightarrow> bytes \<Rightarrow> EncryptedRequest \<Rightarrow> OperationRequest \<Rightarrow> bool" where
  "carries C st body e r \<longleftrightarrow>
     (\<exists>text decrypted plaintext.
        from_utf8 body = Some text \<and> parse_encrypted_request C text = Ok e \<and>
        pair_decrypt C (rt_quorum (st_runtime st)) (er_ciphertext e) = Some decrypted \<and>
        from_utf8 decrypted = Some plaintext \<and> is_rfc8785 C plaintext \<and>
        parse_operation_request C plaintext = Ok r)"

definition outer_bound :: "EncryptedRequest \<Rightarrow> ServiceInfo \<Rightarrow> bool" where
  "outer_bound e running \<longleftrightarrow>
     er_version e = API_VERSION \<and> er_quorum_key_id e = si_quorum_key_id running \<and>
     er_quorum_key_epoch e = si_quorum_key_epoch running"

lemma check_encrypted_request_bindings_iff:
  "check_encrypted_request_bindings e running = Ok () \<longleftrightarrow> outer_bound e running"
  by (auto simp: check_encrypted_request_bindings_def outer_bound_def)

lemma admit_Ok:
  "admit C env st body = Ok (r, w, h) \<longleftrightarrow>
     (\<exists>e g later. carries C st body e r \<and> outer_bound e (st_info st) \<and>
        validate C (env_clock env 0) r st = Ok w \<and> er_wallet_grant e = Some g \<and>
        now_ms (env_clock env 1) = Ok later \<and>
        verify_wallet_grant C g (rt_grant_public (st_runtime st)) (req_wallet_descriptor r)
          (ca_client_key_id (req_authorization r)) later = Ok () \<and>
        request_digest C r = Ok h \<and>
        is_ok (parse_uncompressed_sec1 C (req_client_response_public_key r)))" (is "?admit = ?parts")
proof
  show "?admit \<Longrightarrow> ?parts"
    by (auto simp: admit_def carries_def result_simps check_encrypted_request_bindings_iff
        split: if_splits)
  assume ?parts
  then obtain e g later s decrypted p where
    "from_utf8 body = Some s" "parse_encrypted_request C s = Ok e"
    "pair_decrypt C (rt_quorum (st_runtime st)) (er_ciphertext e) = Some decrypted"
    "from_utf8 decrypted = Some p" "is_rfc8785 C p"
    "parse_operation_request C p = Ok r" "check_encrypted_request_bindings e (st_info st) = Ok ()"
    "validate C (env_clock env 0) r st = Ok w" "er_wallet_grant e = Some g"
    "now_ms (env_clock env 1) = Ok later"
    "verify_wallet_grant C g (rt_grant_public (st_runtime st)) (req_wallet_descriptor r)
       (ca_client_key_id (req_authorization r)) later = Ok ()"
    "request_digest C r = Ok h" "is_ok (parse_uncompressed_sec1 C (req_client_response_public_key r))"
    unfolding carries_def check_encrypted_request_bindings_iff by blast
  then show ?admit by (auto simp: admit_def is_ok_iff)
qed

lemma execute_Ok:
  "execute C env st body = Ok resp \<longleftrightarrow>
     (\<exists>r w h result d. admit C env st body = Ok (r, w, h) \<and>
        answer_operation C env r w (st_runtime st) = Ok (result, d) \<and>
        respond C env st r h result d = Ok resp)"
  by (auto simp: execute_def result_simps)

section \<open>How operations fail\<close>

lemma roles_from_seed_Err: "roles_from_seed C k seed = Err f \<Longrightarrow> f = Invalid"
  by (auto simp: roles_from_seed_def result_simps Let_def split: if_splits)

lemma unseal_Err: "unseal C r rt = Err f \<Longrightarrow> f = Invalid"
  by (auto simp: unseal_def result_simps Let_def dest: roles_from_seed_Err split: if_splits)

lemma seal_seed_Err: "seal_seed C entropy r rt seed = Err f \<Longrightarrow> f = Invalid \<or> f = Unavailable"
  by (auto simp: seal_seed_def result_simps Let_def)

lemma fill_inputs_Err: "fill_inputs secret inputs n = Err f \<Longrightarrow> f = Invalid"
proof (induction inputs arbitrary: n)
  case (Cons input inputs)
  have fill: "fill slot secret k = Err g \<Longrightarrow> g = Invalid" for slot k g
    by (cases slot) auto
  have "fill_input secret input n = Err g \<Longrightarrow> g = Invalid" for g
    by (auto simp: fill_input_def result_simps Let_def dest: fill split: if_splits)
  with Cons show ?case by (auto simp: result_simps)
qed simp

lemma complete_Err:
  assumes "complete C v secret = Err f"
  shows "f = Invalid"
proof -
  have fill: "fill slot s k = Err g \<Longrightarrow> g = Invalid" for slot s k g
    by (cases slot) auto
  have "fill_transfer s m = Err g \<Longrightarrow> g = Invalid" "fill_merge s m = Err g \<Longrightarrow> g = Invalid" for s m g
    by (auto simp: fill_transfer_def fill_merge_def result_simps dest: fill fill_inputs_Err split: if_splits)
  then have arms: "(if a then fill_transfer s m else if b then fill_merge s m else Err Invalid) = Err g \<Longrightarrow>
      g = Invalid" for a b s m g
    by (auto split: if_splits)
  have last: "(case x of (b, n :: nat) \<Rightarrow> if n = 0 then Err Invalid else Ok (k b)) = Err g \<Longrightarrow> g = Invalid"
    for x :: "(string \<times> json) list \<times> nat" and k :: "(string \<times> json) list \<Rightarrow> json" and g
    by (auto split: prod.splits if_splits)
  from assms show ?thesis
    unfolding complete_def Let_def and_then_Err ok_or_Err
    by - (elim disjE exE conjE; (assumption | erule arms | erule last))
qed

lemma proving_key_Err: "proving_key v = Err f \<Longrightarrow> f = Invalid"
  by (auto simp: proving_key_def slot_count_def result_simps split: if_splits)

lemma attested_key_Err: "attested_key C sealing trust now = Err f \<Longrightarrow> f = Stage ProverStage"
  by (auto simp: attested_key_def result_simps Let_def split: if_splits)

lemma seal_prove_Err:
  "seal_prove C entropy v secret sealing trust now = Err f \<Longrightarrow>
     f = Invalid \<or> f = Unavailable \<or> f = Stage ProverStage"
  by (auto simp: seal_prove_def check_target_def result_simps Let_def
      dest: proving_key_Err attested_key_Err complete_Err split: if_splits)

lemma failure_of_custody_cases: "failure_of_custody e = Unavailable \<or> failure_of_custody e = Stage TurnkeySigningStage"
  by (cases e) auto

lemma bootstrap_run_Err:
  "bootstrap_run C env r w rt = Some (Err f) \<Longrightarrow>
     f = Invalid \<or> f = Unavailable \<or> f = Stage TurnkeySigningStage"
  using failure_of_custody_cases
  by (auto simp: bootstrap_run_def roles_address_def result_simps Let_def dest: seal_seed_Err
      split: option.splits)

lemma run_operation_Err:
  "run_operation C env r w rt = Err f \<Longrightarrow>
     f \<in> {Invalid, Unavailable, Stage ProverStage, Stage TurnkeySigningStage}"
  by (cases "req_operation r")
    (auto simp: run_operation_def result_simps Let_def
      dest: unseal_Err keys_refuse seal_prove_Err bootstrap_run_Err now_ms_Err
      split: option.splits if_splits)

lemma answer_operation_Err: "answer_operation C env r w rt = Err f \<Longrightarrow> f = Invalid \<or> f = Unavailable"
  using run_operation_Err [of C env r w rt]
  by (auto simp: answer_operation_def split: sum.splits Failure.splits)

lemma respond_Err: "respond C env st r h result d = Err f \<Longrightarrow> f = Unavailable"
  by (auto simp: respond_def result_simps split: if_splits)

lemma admit_no_stage: "admit C env st body \<noteq> Err (Stage s)"
  by (auto simp: admit_def result_simps validate_no_stage dest: now_ms_Err split: if_splits)

lemma admit_expired:
  "admit C env st body = Err FailureDescriptorExpired \<longleftrightarrow>
     (\<exists>e r. carries C st body e r \<and> outer_bound e (st_info st) \<and>
        validate C (env_clock env 0) r st = Err FailureDescriptorExpired)" (is "?admit = ?parts")
proof
  show "?admit \<Longrightarrow> ?parts"
    by (auto simp: admit_def carries_def result_simps check_encrypted_request_bindings_iff
        dest: now_ms_Err split: if_splits)
  assume ?parts
  then obtain e r s decrypted p where
    "from_utf8 body = Some s" "parse_encrypted_request C s = Ok e"
    "pair_decrypt C (rt_quorum (st_runtime st)) (er_ciphertext e) = Some decrypted"
    "from_utf8 decrypted = Some p" "is_rfc8785 C p"
    "parse_operation_request C p = Ok r" "check_encrypted_request_bindings e (st_info st) = Ok ()"
    "validate C (env_clock env 0) r st = Err FailureDescriptorExpired"
    unfolding carries_def check_encrypted_request_bindings_iff by blast
  then show ?admit by (simp add: admit_def)
qed

lemma execute_Err:
  "execute C env st body = Err f \<Longrightarrow>
     admit C env st body = Err f \<or> f = Invalid \<or> f = Unavailable"
  by (auto simp: execute_def result_simps dest: answer_operation_Err respond_Err)

lemma execute_expired:
  "execute C env st body = Err FailureDescriptorExpired \<longleftrightarrow>
     admit C env st body = Err FailureDescriptorExpired"
  by (auto simp: execute_def result_simps dest: answer_operation_Err respond_Err)

section \<open>The custodian\<close>

definition with_custody :: "custodian \<Rightarrow> AppState \<Rightarrow> AppState" where
  "with_custody c st = st \<lparr> st_runtime := (st_runtime st) \<lparr> rt_custody := c \<rparr> \<rparr>"

lemma with_custody_simps [simp]:
  "st_info (with_custody c st) = st_info st"
  "rt_custody (st_runtime (with_custody c st)) = c"
  "rt_quorum (st_runtime (with_custody c st)) = rt_quorum (st_runtime st)"
  "rt_ephemeral (st_runtime (with_custody c st)) = rt_ephemeral (st_runtime st)"
  "rt_provisioning_public (st_runtime (with_custody c st)) = rt_provisioning_public (st_runtime st)"
  "rt_grant_public (st_runtime (with_custody c st)) = rt_grant_public (st_runtime st)"
  "rt_prover (st_runtime (with_custody c st)) = rt_prover (st_runtime st)"
  by (simp_all add: with_custody_def)

lemma admit_with_custody [simp]: "admit C env (with_custody c st) body = admit C env st body"
  unfolding admit_def validate_def with_custody_simps by (rule refl)

lemma respond_with_custody [simp]:
  "respond C env (with_custody c st) r h result d = respond C env st r h result d"
  unfolding respond_def with_custody_simps by (rule refl)

lemma unseal_with_custody [simp]:
  "unseal C r (st_runtime (with_custody c st)) = unseal C r (st_runtime st)"
  unfolding unseal_def with_custody_simps by (rule refl)

lemma seal_seed_with_custody [simp]:
  "seal_seed C entropy r (st_runtime (with_custody c st)) seed = seal_seed C entropy r (st_runtime st) seed"
  unfolding seal_seed_def with_custody_simps by (rule refl)

lemma answer_operation_with_custody:
  assumes "req_operation r = Bootstrap \<Longrightarrow>
    c w (derivation_message C (wk_public_key w)) (req_issued_at_ms r) =
      rt_custody (st_runtime st) w (derivation_message C (wk_public_key w)) (req_issued_at_ms r)"
  shows "answer_operation C env r w (st_runtime (with_custody c st)) =
    answer_operation C env r w (st_runtime st)"
proof -
  have "run_operation C env r w (st_runtime (with_custody c st)) = run_operation C env r w (st_runtime st)"
    using assms unfolding run_operation_def bootstrap_run_def with_custody_simps
      unseal_with_custody seal_seed_with_custody Let_def
    by (cases "req_operation r") simp_all
  then show ?thesis by (simp add: answer_operation_def)
qed

section \<open>The answer\<close>

lemma sign_ephemeral_verifies:
  assumes "pair_signing_laws C" "sign_ephemeral_low_s C p m = Ok s"
  shows "\<exists>public. qos_public_from_bytes C (pair_public C p) = Ok public \<and>
    verify_p256_message C (signing public) m s = Ok ()"
proof -
  obtain raw t where "pair_sign C p m = Some raw" "ecdsa_from_slice C raw = Some t"
    "s = ecdsa_to_bytes C (low_s_signature C t)"
    using assms(2) by (auto simp: sign_ephemeral_low_s_def result_simps low_s_signature_def Let_def)
  with pair_signature_verifies [OF assms(1)] show ?thesis by blast
qed

definition proof_payload_of ::
    "'x enclave_crates_scheme \<Rightarrow> OperationRequest \<Rightarrow> bytes \<Rightarrow> bytes \<Rightarrow> bytes \<Rightarrow> OperationProofPayload" where
  "proof_payload_of C r request_hash encrypted_result seed_digest =
     \<lparr> opp_type = TVC_APP_PROOF_TYPE, opp_version = API_VERSION,
       opp_request_id = req_request_id r, opp_request_digest = request_hash,
       opp_result_digest = result_digest C encrypted_result,
       opp_operation = operation_kind (req_operation r), opp_sealed_seed_digest = seed_digest \<rparr>"

lemma guard_Ok: "(if b then Inl e else m) = Inr x \<longleftrightarrow> \<not> b \<and> m = Inr x"
  by simp

lemma max_response: "unat MAX_ENCRYPTED_RESPONSE_BYTES = 262144"
  by (simp add: limit_defs)

lemma respond_Ok:
  "respond C env st r h result d = Ok resp \<Longrightarrow>
     \<exists>plain enc payload sig.
       jcs_serialize (OperationResult_json C result) = Ok plain \<and>
       qos_encrypt C (req_client_response_public_key r) (as_bytes plain) (env_result_secret env)
         (env_result_nonce env) = Ok enc \<and>
       length enc \<le> 262144 \<and>
       jcs_serialize (OperationProofPayload_json C (proof_payload_of C r h enc d)) = Ok payload \<and>
       sign_ephemeral_low_s C (rt_ephemeral (st_runtime st)) (as_bytes payload) = Ok sig \<and>
       jcs_serialize (EncryptedResponse_json C
         \<lparr> eres_version = API_VERSION, eres_request_id = req_request_id r,
           eres_encrypted_result = enc,
           eres_tvc_app_proof =
             \<lparr> ap_scheme = TVC_APP_PROOF_SCHEME,
               ap_public_key = pair_public C (rt_ephemeral (st_runtime st)),
               ap_proof_payload = payload, ap_signature = sig \<rparr> \<rparr>) = Ok resp"
  unfolding respond_def and_then_Ok or_fail_Ok proof_payload_of_def guard_Ok max_response not_less
  by blast

section \<open>Properties\<close>

text \<open>
  \<open>validate\<close> accepts a request exactly when the clock can be read and the request is
  authorized and its descriptor current at that time, and then names the wallet of the
  descriptor; \<open>DescriptorExpired\<close> is the answer to exactly the requests that are authorized
  under an expired descriptor. The conditions are those of the policy, over natural numbers:
  the saturating and wrapping arithmetic of the code never lets another request through.
\<close>

lemma validate_exact:
  "(validate C reading r st = Ok w \<longleftrightarrow>
     (\<exists>now. reading = Some now \<and> now < 2 ^ 64 \<and> authorized C st r now \<and>
        descriptor_current (req_wallet_descriptor r) now \<and> w = wallet_key C r)) \<and>
   (validate C reading r st = Err FailureDescriptorExpired \<longleftrightarrow>
     (\<exists>now. reading = Some now \<and> now < 2 ^ 64 \<and> authorized C st r now \<and>
        \<not> descriptor_current (req_wallet_descriptor r) now))"
proof -
  have clock: "(\<exists>now. now_ms reading = Ok now \<and> P (unat now)) \<longleftrightarrow>
      (\<exists>now. reading = Some now \<and> now < 2 ^ 64 \<and> P now)" for P
    unfolding now_ms_Ok by (metis of_nat_inverse unat_u64_bound u64_try_from_Some u64_try_from_def)
  show ?thesis
    unfolding validate_Ok validate_expired
    using clock [of "\<lambda>now. authorized C st r now \<and> descriptor_current (req_wallet_descriptor r) now \<and>
          w = wallet_key C r"]
      clock [of "\<lambda>now. authorized C st r now \<and> \<not> descriptor_current (req_wallet_descriptor r) now"]
    by blast
qed

text \<open>
  C1. Complete mediation: a response exists only for a body that carries, under the Quorum
  key and in canonical form, a request of this release that was authorized under a current
  descriptor, beside a grant of the gateway for that descriptor and client whose window held
  when it was read; the operation ran on that request and its descriptor's wallet.
\<close>

theorem execute_complete_mediation:
  assumes "execute C env st body = Ok resp"
  shows "\<exists>e r g now later h result digest.
    carries C st body e r \<and> outer_bound e (st_info st) \<and>
    env_clock env 0 = Some now \<and> authorized C st r now \<and>
    descriptor_current (req_wallet_descriptor r) now \<and>
    er_wallet_grant e = Some g \<and> env_clock env 1 = Some later \<and> grant_window g later \<and>
    descriptor_digest C (req_wallet_descriptor r) = Ok (wg_descriptor_digest g) \<and>
    wg_client_key_id g = ca_client_key_id (req_authorization r) \<and>
    (\<exists>d. wallet_grant_digest C g = Ok d \<and>
       verify_p256_prehash C (rt_grant_public (st_runtime st)) d (wg_signature g) = Ok ()) \<and>
    request_digest C r = Ok h \<and>
    answer_operation C env r (wallet_key C r) (st_runtime st) = Ok (result, digest) \<and>
    respond C env st r h result digest = Ok resp"
proof -
  obtain r w h result d where a: "admit C env st body = Ok (r, w, h)"
    and o: "answer_operation C env r w (st_runtime st) = Ok (result, d)"
    and resp: "respond C env st r h result d = Ok resp"
    using assms by (auto simp: execute_Ok)
  from a obtain e g later where parts: "carries C st body e r" "outer_bound e (st_info st)"
    "validate C (env_clock env 0) r st = Ok w" "er_wallet_grant e = Some g"
    "now_ms (env_clock env 1) = Ok later"
    "verify_wallet_grant C g (rt_grant_public (st_runtime st)) (req_wallet_descriptor r)
       (ca_client_key_id (req_authorization r)) later = Ok ()" "request_digest C r = Ok h"
    unfolding admit_Ok by blast
  from parts(3) obtain now :: u64 where "env_clock env 0 = Some (unat now)" "authorized C st r (unat now)"
    "descriptor_current (req_wallet_descriptor r) (unat now)" "w = wallet_key C r"
    unfolding validate_Ok now_ms_Ok by blast
  with parts o resp show ?thesis
    unfolding verify_wallet_grant_iff now_ms_Ok by blast
qed

text \<open>
  C17. Only bootstrap reaches the custodian: two custodians give the same answer to a body
  unless it is admitted as a bootstrap, and then only what they say to one question matters:
  the wallet of the descriptor, its derivation message and the request's time of issue.
\<close>

theorem only_bootstrap_reaches_custody:
  assumes "\<And>r w h. admit C env st body = Ok (r, w, h) \<Longrightarrow> req_operation r = Bootstrap \<Longrightarrow>
    c w (derivation_message C (wk_public_key w)) (req_issued_at_ms r) =
      rt_custody (st_runtime st) w (derivation_message C (wk_public_key w)) (req_issued_at_ms r)"
  shows "execute C env (with_custody c st) body = execute C env st body"
proof (cases "admit C env st body")
  case (Inr x)
  obtain r w h where x: "x = (r, w, h)" by (cases x)
  then show ?thesis
    using Inr answer_operation_with_custody [of r c w C st env] assms [of r w h]
    by (simp add: execute_def)
qed (simp add: execute_def)

text \<open>
  C18. The requester can open and check the answer: the response to an admitted request
  carries its id, an envelope that decrypts under the requester's secret to the canonical text
  of the result, and a proof over a payload that names the request, its digest, the digest of
  that envelope, the operation and the sealed seed it was computed against, signed by the
  enclave's ephemeral key.
\<close>

theorem response_opens_and_verifies:
  assumes "p256_laws C" "aead_laws C" "pair_signing_laws C"
    and "admit C env st body = Ok (r, w, h)" "execute C env st body = Ok resp"
    and "p256_secret C x = Some k"
    and "req_client_response_public_key r = public_key_uncompressed C (p256_public_key C k)"
    and "length (env_result_nonce env) = AES_GCM_NONCE_LEN"
  shows "\<exists>answer result digest plain public.
    answer_operation C env r w (st_runtime st) = Ok (result, digest) \<and>
    jcs_serialize (EncryptedResponse_json C answer) = Ok resp \<and>
    eres_request_id answer = req_request_id r \<and>
    length (eres_encrypted_result answer) \<le> 262144 \<and>
    jcs_serialize (OperationResult_json C result) = Ok plain \<and>
    qos_decrypt C x (eres_encrypted_result answer) = Ok (as_bytes plain) \<and>
    jcs_serialize (OperationProofPayload_json C
      (proof_payload_of C r h (eres_encrypted_result answer) digest)) =
        Ok (ap_proof_payload (eres_tvc_app_proof answer)) \<and>
    qos_public_from_bytes C (ap_public_key (eres_tvc_app_proof answer)) = Ok public \<and>
    ap_public_key (eres_tvc_app_proof answer) = pair_public C (rt_ephemeral (st_runtime st)) \<and>
    verify_p256_message C (signing public) (as_bytes (ap_proof_payload (eres_tvc_app_proof answer)))
      (ap_signature (eres_tvc_app_proof answer)) = Ok ()"
proof -
  obtain result d where o: "answer_operation C env r w (st_runtime st) = Ok (result, d)"
    and resp: "respond C env st r h result d = Ok resp"
    using assms(4,5) by (auto simp: execute_Ok)
  obtain plain enc payload sig where parts:
    "jcs_serialize (OperationResult_json C result) = Ok plain"
    "qos_encrypt C (public_key_uncompressed C (p256_public_key C k)) (as_bytes plain)
       (env_result_secret env) (env_result_nonce env) = Ok enc"
    "length enc \<le> 262144"
    "jcs_serialize (OperationProofPayload_json C (proof_payload_of C r h enc d)) = Ok payload"
    "sign_ephemeral_low_s C (rt_ephemeral (st_runtime st)) (as_bytes payload) = Ok sig"
    "jcs_serialize (EncryptedResponse_json C
         \<lparr> eres_version = API_VERSION, eres_request_id = req_request_id r,
           eres_encrypted_result = enc,
           eres_tvc_app_proof =
             \<lparr> ap_scheme = TVC_APP_PROOF_SCHEME,
               ap_public_key = pair_public C (rt_ephemeral (st_runtime st)),
               ap_proof_payload = payload, ap_signature = sig \<rparr> \<rparr>) = Ok resp"
    using respond_Ok [OF resp] unfolding assms(7) by blast
  have "qos_decrypt C x enc = Ok (as_bytes plain)"
    by (rule qos_decrypt_encrypt [OF assms(1,2,6,8) parts(2)])
  with o parts sign_ephemeral_verifies [OF assms(3) parts(5)] show ?thesis
    by (intro exI [of _ "\<lparr> eres_version = API_VERSION, eres_request_id = req_request_id r,
           eres_encrypted_result = enc,
           eres_tvc_app_proof =
             \<lparr> ap_scheme = TVC_APP_PROOF_SCHEME,
               ap_public_key = pair_public C (rt_ephemeral (st_runtime st)),
               ap_proof_payload = payload, ap_signature = sig \<rparr> \<rparr>"] exI [of _ result] exI [of _ d]) auto
qed

text \<open>
  C35. What a failure tells: a stage failure is never an answer of its own, every answer is
  200, 400, 403 or 503, and 403 goes to exactly the bodies that carry a request of this release
  that is authorized under an expired descriptor.
\<close>

theorem operation_answers:
  "execute C env st body \<noteq> Err (Stage s) \<and>
   http_status (handle_operation C env st body) \<in> {200, 400, 403, 503} \<and>
   (http_status (handle_operation C env st body) = 403 \<longleftrightarrow>
     (\<exists>e r now. carries C st body e r \<and> outer_bound e (st_info st) \<and>
        now_ms (env_clock env 0) = Ok now \<and> authorized C st r (unat now) \<and>
        \<not> descriptor_current (req_wallet_descriptor r) (unat now)))"
proof -
  have stage: "execute C env st body \<noteq> Err (Stage s)"
    using execute_Err [of C env st body "Stage s"] admit_no_stage by blast
  have expired: "http_status (handle_operation C env st body) = 403 \<longleftrightarrow>
      execute C env st body = Err FailureDescriptorExpired"
    by (auto simp: handle_operation_def http_ok_def http_json_def public_error_response_def
        split: sum.splits Failure.splits)
  have "http_status (handle_operation C env st body) \<in> {200, 400, 403, 503}"
    by (auto simp: handle_operation_def http_ok_def http_json_def public_error_response_def
        split: sum.splits Failure.splits)
  with stage show ?thesis
    unfolding expired execute_expired admit_expired validate_expired by blast
qed

text \<open>
  C19. What bootstrap gives out can be used: the blob in its result opens on a later request of
  the same wallet, Quorum key and epoch, to roles whose shielded address is the one the result
  reported, under the digest its proof named.
\<close>

theorem bootstrap_seed_reopens:
  assumes "hex_laws C" "sha256_laws C" "pair_laws C" "string_fits (req_quorum_key_id r)"
    and "bootstrap_run C env r (wallet_key C r) rt =
      Some (Ok (BootstrapResult address owner npk vpk b activity, d))"
    and "rt_custody rt (wallet_key C r) (derivation_message C (wk_public_key (wallet_key C r)))
      (req_issued_at_ms r) = Some (Ok sig)" "length (raw_signature sig) = 64"
    and "pubkey_from_str C (wd_address (req_wallet_descriptor r)) \<noteq> None"
    and "same_wallet (req_wallet_descriptor r) (req_wallet_descriptor s)"
    and "req_quorum_key_id s = req_quorum_key_id r" "req_quorum_key_epoch s = req_quorum_key_epoch r"
    and "req_sealed_seed s = Some b"
  shows "\<exists>roles. unseal C s rt = Ok (roles, d) \<and>
    roles_address C roles = Ok \<lparr> sa_signing_pubkey = wk_public_key (wallet_key C r),
      sa_nullifier_pubkey = npk, sa_viewing_pubkey = vpk \<rparr>"
proof -
  let ?w = "wallet_key C r"
  obtain roles address' where roles: "roles_from_seed C (wk_public_key ?w) (raw_signature sig) = Ok roles"
    "roles_address C roles = Ok address'"
    "seal_seed C (env_seal_entropy env) r rt (raw_signature sig) = Ok (b, d)"
    "sa_nullifier_pubkey address' = npk" "sa_viewing_pubkey address' = vpk"
    using assms(5) unfolding bootstrap_run_def Let_def assms(6)
    by (auto simp: result_simps)
  have "sa_signing_pubkey address' = wk_public_key ?w"
    using roles(1,2) by (auto simp: roles_address_def roles_from_seed_def result_simps Let_def split: if_splits)
  moreover have "unseal C s rt = Ok (roles, d)"
    using assms(8,9) roles(1)
    by (intro unseal_of_seal [OF assms(1-4,7) roles(3) assms(9-12)])
      (auto simp: wallet_key_def same_wallet_def)
  ultimately show ?thesis using roles by (cases address') auto
qed

section \<open>A concrete enclave\<close>

text \<open>A bootstrap request that passes every check, on the toy primitives: one secret, of 32
  ones, is provisioner, gateway and client.\<close>

definition demo_key :: bytes where
  "demo_key = 4 # replicate 64 1"

definition demo_signature :: "bytes \<Rightarrow> bytes" where
  "demo_signature h = demo_hash (1 # replicate 32 1) @ demo_hash h"

definition demo_unsigned_wallet :: WalletDescriptor where
  "demo_unsigned_wallet = demo_descriptor
     \<lparr> wd_allowed_clients := [\<lparr> cg_client_public_key = demo_key, cg_allowed_operations = OPERATIONS \<rparr>] \<rparr>"

definition demo_enrolled :: WalletDescriptor where
  "demo_enrolled = demo_unsigned_wallet \<lparr> wd_provisioning_signature :=
     demo_signature (sha256_hash demo_crates (descriptor_hash_input demo_crates demo_unsigned_wallet)) \<rparr>"

definition demo_unsigned_bootstrap :: OperationRequest where
  "demo_unsigned_bootstrap = demo_request
     \<lparr> req_wallet_descriptor := demo_enrolled, req_client_response_public_key := demo_key,
       req_authorization := \<lparr> ca_client_key_id = client_key_id demo_crates demo_key, ca_signature = [] \<rparr> \<rparr>"

definition demo_bootstrap :: OperationRequest where
  "demo_bootstrap = demo_unsigned_bootstrap \<lparr> req_authorization :=
     \<lparr> ca_client_key_id = client_key_id demo_crates demo_key,
       ca_signature = demo_signature (client_auth_digest demo_crates
         (sha256_hash demo_crates (request_hash_input demo_crates demo_unsigned_bootstrap))) \<rparr> \<rparr>"

definition demo_unsigned_grant :: WalletGrant where
  "demo_unsigned_grant = demo_grant
     \<lparr> wg_descriptor_digest := sha256_hash demo_crates (descriptor_hash_input demo_crates demo_enrolled),
       wg_client_key_id := client_key_id demo_crates demo_key \<rparr>"

definition demo_wallet_grant :: WalletGrant where
  "demo_wallet_grant = demo_unsigned_grant \<lparr> wg_signature :=
     demo_signature (sha256_hash demo_crates (grant_hash_input demo_crates demo_unsigned_grant)) \<rparr>"

definition demo_envelope :: EncryptedRequest where
  "demo_envelope = \<lparr> er_version = 1, er_quorum_key_id = ''quorum'', er_quorum_key_epoch = 1,
     er_ciphertext = as_bytes ''7'' @ replicate 32 4, er_wallet_grant = Some demo_wallet_grant \<rparr>"

definition demo_ping :: QosPingRequest where
  "demo_ping = \<lparr> qpr_version = 1, qpr_encrypted_challenge = as_bytes ''7'' @ replicate 32 4 \<rparr>"

text \<open>Texts are read as the number 7, which stands for the envelope and for the request, for a ping and for
  its challenge. The packages that only other programs use are left open.\<close>

definition demo_host :: "'x \<Rightarrow> 'x enclave_crates_scheme" where
  "demo_host ext = enclave_crates.extend (demo_enclave
     \<lparr> serde_text := (\<lambda>s. (RU64 7, True)), de_encrypted_request := (\<lambda>_. Ok demo_envelope),
       de_operation_request := (\<lambda>_. Ok demo_bootstrap),
       de_qos_ping_request := (\<lambda>_. Ok demo_ping),
       de_qos_ping_challenge := (\<lambda>v. case v of
           JNumber n \<Rightarrow> Ok \<lparr> qpc_type = TVC_QOS_PING_PROOF_TYPE, qpc_version = 1, qpc_challenge = [] \<rparr>
         | _ \<Rightarrow> Err []),
       json_to_vec := (\<lambda>j. if j = EncryptedRequest_json demo_crates demo_envelope \<or>
           j = QosPingRequest_json demo_crates demo_ping then Some (as_bytes ''7'') else None) \<rparr>) ext"

definition demo_custodian :: custodian where
  "demo_custodian w payload t = Some (Ok \<lparr> raw_signature = demo_seed, raw_activity_id = ''activity'' \<rparr>)"

definition demo_state :: AppState where
  "demo_state =
     \<lparr> st_info =
         \<lparr> si_version = 1, si_network = Devnet, si_security_domain_id = replicate 32 17,
           si_release_id = ''release'', si_manifest_digest = replicate 32 2,
           si_executable_digest = replicate 32 3,
           si_quorum_public_key = (4 # replicate 64 4) @ (4 # replicate 64 4),
           si_quorum_key_id = ''quorum'', si_quorum_key_epoch = 1,
           si_ephemeral_public_key = (4 # replicate 64 3) @ (4 # replicate 64 3),
           si_supported_operations = OPERATIONS, si_max_encrypted_request_bytes = 262144,
           si_max_encrypted_response_bytes = 262144, si_proof_type = TVC_APP_PROOF_TYPE \<rparr>,
       st_runtime = demo_runtime \<lparr> rt_custody := demo_custodian \<rparr> \<rparr>"

definition demo_env :: Env where
  "demo_env =
     \<lparr> env_clock = (\<lambda>_. Some 15), env_timed_out = (\<lambda>_. False), env_seal_entropy = [],
       env_prover_entropy = [], env_result_secret = replicate 32 2,
       env_result_nonce = replicate 12 7 \<rparr>"

lemma demo_host_fields:
  "hex_encode (demo_host ext) = hex_encode demo_crates" "hex_decode (demo_host ext) = hex_decode demo_crates"
  "sha256_hash (demo_host ext) = demo_hash" "hmac_sha512 (demo_host ext) = hmac_sha512 demo_crates"
  "aes256gcm_encrypt (demo_host ext) = aes256gcm_encrypt demo_crates"
  "aes256gcm_decrypt (demo_host ext) = aes256gcm_decrypt demo_crates"
  "sec1_point (demo_host ext) = sec1_point demo_crates"
  "sec1_is_compressed (demo_host ext) = sec1_is_compressed demo_crates"
  "p256_from_point (demo_host ext) = p256_from_point demo_crates"
  "p256_to_sec1 (demo_host ext) = p256_to_sec1 demo_crates"
  "p256_secret (demo_host ext) = p256_secret demo_crates"
  "p256_public_key (demo_host ext) = p256_public_key demo_crates"
  "p256_ecdh (demo_host ext) = p256_ecdh demo_crates"
  "ecdsa_from_slice (demo_host ext) = ecdsa_from_slice demo_crates"
  "ecdsa_normalize_s (demo_host ext) = ecdsa_normalize_s demo_crates"
  "ecdsa_verify_prehash (demo_host ext) = ecdsa_verify_prehash demo_crates"
  "ecdsa_to_bytes (demo_host ext) = ecdsa_to_bytes demo_crates"
  "pair_decrypt (demo_host ext) = pair_decrypt demo_enclave"
  "pair_encrypt (demo_host ext) = pair_encrypt demo_enclave"
  "pair_sign (demo_host ext) = pair_sign demo_enclave" "pair_public (demo_host ext) = pair_public demo_enclave"
  "pubkey_from_str (demo_host ext) = pubkey_from_str demo_enclave"
  "uuid_hyphenated (demo_host ext) = (\<lambda>s. Some s)"
  "derivation_message (demo_host ext) = derivation_message demo_enclave"
  "ed25519_verify (demo_host ext) = ed25519_verify demo_enclave"
  "expand_roles (demo_host ext) = expand_roles demo_enclave"
  "nullifier_pubkey (demo_host ext) = (\<lambda>k. Some k)" "viewing_pubkey (demo_host ext) = (\<lambda>k. k)"
  "owner_hash (demo_host ext) = (\<lambda>a b c. Some (demo_hash a))"
  by (simp_all add: demo_host_def demo_enclave_defs)

lemma demo_signature_verifies: "verify_p256_prehash (demo_host ext) demo_key h (demo_signature h) = Ok ()"
  by (simp add: verify_p256_prehash_iff parse_uncompressed_sec1_def demo_host_fields demo_key_def
      demo_signature_def demo_crates_def SEC1_UNCOMPRESSED_LEN_def RAW_P256_SIGNATURE_LEN_def
      demo_signature_head)

lemma demo_client_key_id: "client_key_id (demo_host ext) k = client_key_id demo_crates k"
  by (simp add: client_key_id_def demo_host_fields) (simp add: demo_crates_def)

lemma demo_client_auth_digest: "client_auth_digest (demo_host ext) h = client_auth_digest demo_crates h"
  by (simp add: client_auth_digest_def client_auth_message_def sha256_def encode_lower_hex_def
      demo_host_fields) (simp add: demo_crates_def)

lemma demo_digest:
  "descriptor_digest (demo_host ext) d = Ok (sha256_hash demo_crates (descriptor_hash_input demo_crates d))"
  "wallet_grant_digest (demo_host ext) g = Ok (sha256_hash demo_crates (grant_hash_input demo_crates g))"
  "\<not> has_float (Operation_json (demo_host ext) (req_operation r)) \<Longrightarrow>
     request_digest (demo_host ext) r = Ok (sha256_hash demo_crates (request_hash_input demo_crates r))"
  unfolding descriptor_digest_exists wallet_grant_digest_exists request_digest_exists
    descriptor_hash_input_def [symmetric] grant_hash_input_def [symmetric]
    request_hash_input_def [symmetric] hash_inputs_cong [OF demo_host_fields(1)]
  by (simp_all add: demo_host_fields) (simp_all add: demo_crates_def)

lemma demo_wallet_signed:
  "descriptor_hash_input demo_crates demo_enrolled = descriptor_hash_input demo_crates demo_unsigned_wallet"
  by (simp add: demo_enrolled_def descriptor_hash_input_def descriptor_payload_def)

lemma demo_bootstrap_signed:
  "request_hash_input demo_crates demo_bootstrap = request_hash_input demo_crates demo_unsigned_bootstrap"
  by (simp add: demo_bootstrap_def demo_unsigned_bootstrap_def request_hash_input_def request_payload_def)

lemma demo_grant_signed:
  "grant_hash_input demo_crates demo_wallet_grant = grant_hash_input demo_crates demo_unsigned_grant"
  by (simp add: demo_wallet_grant_def grant_hash_input_def grant_payload_def)

lemma demo_bootstrap_op: "req_operation demo_bootstrap = Bootstrap"
  by (simp add: demo_bootstrap_def demo_unsigned_bootstrap_def demo_request_def)

lemma demo_authorized: "authorized (demo_host ext) demo_state demo_bootstrap 15"
proof -
  let ?h = "sha256_hash demo_crates (request_hash_input demo_crates demo_unsigned_bootstrap)"
  have wallet: "req_wallet_descriptor demo_bootstrap = demo_enrolled"
    by (simp add: demo_bootstrap_def demo_unsigned_bootstrap_def)
  have "request_digest (demo_host ext) demo_bootstrap = Ok ?h"
    by (subst demo_digest(3)) (simp_all add: demo_bootstrap_signed demo_bootstrap_op no_float
        del: has_float.simps)
  then have "verify_client_authorization (demo_host ext) demo_bootstrap demo_key = Ok ()"
    using demo_signature_verifies [of ext "client_auth_digest demo_crates ?h"]
    by (simp add: verify_client_authorization_iff demo_bootstrap_def client_key_id_nonempty
        demo_client_auth_digest)
  then have client: "signed_by_client (demo_host ext) demo_bootstrap"
    by (simp add: signed_by_client_def wallet demo_client_key_id)
      (simp add: demo_enrolled_def demo_unsigned_wallet_def demo_bootstrap_def demo_key_def)
  have "verify_p256_prehash (demo_host ext) demo_key
      (sha256_hash demo_crates (descriptor_hash_input demo_crates demo_enrolled))
      (wd_provisioning_signature demo_enrolled) = Ok ()"
    by (simp only: demo_wallet_signed) (simp add: demo_enrolled_def demo_signature_verifies)
  then have "well_provisioned (demo_host ext) demo_enrolled demo_key"
    by (simp add: well_provisioned_def demo_digest is_canonical_uuid_def demo_host_fields
        demo_roles_from_seed demo_enrolled_def demo_unsigned_wallet_def demo_descriptor_def API_VERSION_def)
  with client show ?thesis
    by (simp add: authorized_def wallet demo_state_def demo_runtime_def flip: demo_key_def)
      (simp add: release_bound_def request_fresh_def demo_bootstrap_def demo_unsigned_bootstrap_def
        demo_request_def demo_enrolled_def demo_unsigned_wallet_def demo_descriptor_def API_VERSION_def
        OPERATIONS_def)
qed

lemma demo_carries: "carries (demo_host ext) demo_state (as_bytes ''7'') demo_envelope demo_bootstrap"
proof -
  have "is_rfc8785 (demo_host ext) ''7''"
    by (simp add: is_rfc8785_def canonicalize_json_str_def parse_strict_value_def demo_host_def
        demo_enclave_defs canonicalize_json_value_spec decimal.simps digit_def char_of_def bit_0)
  moreover have "from_utf8 (as_bytes ''7'') = Some ''7''"
    by (simp add: from_utf8_def as_bytes_def string_of_bytes_def char_of_def bit_0)
  moreover have "pair_decrypt (demo_host ext) (rt_quorum (st_runtime demo_state)) (er_ciphertext demo_envelope) =
      Some (as_bytes ''7'')"
    by (simp add: demo_state_def demo_runtime_def demo_envelope_def demo_host_fields)
      (simp add: demo_enclave_defs as_bytes_def)
  moreover have "parse_encrypted_request (demo_host ext) s = Ok demo_envelope"
    "parse_operation_request (demo_host ext) s = Ok demo_bootstrap" for s
    by (simp_all add: parse_encrypted_request_def parse_operation_request_def parse_strict_json_def
        parse_strict_value_def demo_host_def demo_enclave_defs)
  ultimately show ?thesis unfolding carries_def by blast
qed

lemma demo_wallet_of_bootstrap: "req_wallet_descriptor demo_bootstrap = demo_enrolled"
  by (simp add: demo_bootstrap_def demo_unsigned_bootstrap_def)

lemma demo_admitted:
  "admit (demo_host ext) demo_env demo_state (as_bytes ''7'') = Ok (demo_bootstrap,
     wallet_key (demo_host ext) demo_bootstrap,
     sha256_hash demo_crates (request_hash_input demo_crates demo_unsigned_bootstrap))"
proof -
  have now: "now_ms (env_clock demo_env i) = Ok 15" for i
    by (simp add: demo_env_def now_ms_Ok)
  have "outer_bound demo_envelope (st_info demo_state)"
    by (simp add: outer_bound_def demo_envelope_def demo_state_def API_VERSION_def)
  moreover have "validate (demo_host ext) (env_clock demo_env 0) demo_bootstrap demo_state =
      Ok (wallet_key (demo_host ext) demo_bootstrap)"
    using demo_authorized [of ext] by (simp add: validate_outcome [OF now] demo_wallet_of_bootstrap
        descriptor_current_def)
  moreover have "verify_p256_prehash (demo_host ext) demo_key
      (sha256_hash demo_crates (grant_hash_input demo_crates demo_wallet_grant))
      (wg_signature demo_wallet_grant) = Ok ()"
    by (simp only: demo_grant_signed) (simp add: demo_wallet_grant_def demo_signature_verifies)
  then have "verify_wallet_grant (demo_host ext) demo_wallet_grant (rt_grant_public (st_runtime demo_state))
      (req_wallet_descriptor demo_bootstrap) (ca_client_key_id (req_authorization demo_bootstrap)) 15 = Ok ()"
    by (simp add: verify_wallet_grant_iff demo_digest demo_wallet_of_bootstrap demo_state_def
        demo_runtime_def flip: demo_key_def)
      (simp add: demo_wallet_grant_def demo_unsigned_grant_def demo_grant_def grant_window_def
        demo_bootstrap_def API_VERSION_def)
  moreover have "er_wallet_grant demo_envelope = Some demo_wallet_grant" by (simp add: demo_envelope_def)
  moreover have "request_digest (demo_host ext) demo_bootstrap =
      Ok (sha256_hash demo_crates (request_hash_input demo_crates demo_unsigned_bootstrap))"
    by (subst demo_digest(3)) (simp_all add: demo_bootstrap_signed demo_bootstrap_op no_float
        del: has_float.simps)
  moreover have "is_ok (parse_uncompressed_sec1 (demo_host ext) (req_client_response_public_key demo_bootstrap))"
    by (simp add: demo_bootstrap_def demo_unsigned_bootstrap_def parse_uncompressed_sec1_def
        demo_host_fields demo_key_def demo_crates_def SEC1_UNCOMPRESSED_LEN_def)
  ultimately show ?thesis
    unfolding admit_Ok using demo_carries [of ext] now by blast
qed

lemma demo_bootstraps:
  "\<exists>b d. bootstrap_run (demo_host ext) demo_env demo_bootstrap (wallet_key (demo_host ext) demo_bootstrap)
       (st_runtime demo_state) = Some (Ok (BootstrapResult ''address'' (demo_hash (role_owner demo_roles))
         (role_nullifier_key demo_roles) (role_viewing_key demo_roles) b ''activity'', d)) \<and>
     length b < 1000"
proof -
  let ?rt = "st_runtime demo_state" and ?w = "wallet_key (demo_host ext) demo_bootstrap"
  obtain h where h: "wallet_binding_digest (demo_host ext) demo_enrolled = Ok h" and "length h = 32"
    by (simp add: wallet_binding_digest_exists demo_host_fields)
  define c where "c = put_unsealed
      \<lparr> us_version = API_VERSION, us_quorum_key_id = ''quorum'', us_quorum_key_epoch = 1,
        us_wallet_binding = h, us_derivation_suite = DERIVATION_SUITE, us_derivation_seed = demo_seed \<rparr> @
      replicate 32 4"
  define s where "s = \<lparr> ss_version = API_VERSION, ss_quorum_key_id = ''quorum'', ss_quorum_key_epoch = 1,
        ss_wallet_id_hash = wallet_id_hash (demo_host ext) (wallet_id demo_enrolled), ss_ciphertext = c \<rparr>"
  have len: "length c < 300"
    by (simp add: c_def put_unsealed_def put_u8_def put_string_def put_vec_def put_u64_def as_bytes_def
        DERIVATION_SUITE_def demo_seed_def \<open>length h = 32\<close>)
  then have len_s: "length (put_sealed s) < 1000"
    by (simp add: s_def put_sealed_def put_u8_def put_string_def put_vec_def put_u64_def as_bytes_def
        wallet_id_hash_def domain_separated_hash_def demo_host_fields)
  have seal: "seal_seed (demo_host ext) [] demo_bootstrap ?rt demo_seed = Ok (put_sealed s, sealed_seed_digest (demo_host ext) (put_sealed s))"
    unfolding seal_seed_Ok using h len
    by (simp add: demo_wallet_of_bootstrap demo_bootstrap_def demo_unsigned_bootstrap_def demo_request_def
        demo_state_def demo_runtime_def vec_fits_def demo_host_fields s_def c_def)
      (simp add: demo_enclave_defs)
  have roles: "roles_from_seed (demo_host ext) (demo_hash (as_bytes ''address'')) demo_seed = Ok demo_roles"
    using demo_roles_from_seed(2) unfolding roles_from_seed_def demo_host_fields .
  have w: "wk_sign_with ?w = ''address''" "wk_public_key ?w = demo_hash (as_bytes ''address'')"
    by (simp_all add: wallet_key_def demo_wallet_of_bootstrap demo_host_fields demo_enrolled_def
        demo_unsigned_wallet_def demo_descriptor_def demo_roles_from_seed)
  have "bootstrap_run (demo_host ext) demo_env demo_bootstrap ?w ?rt =
      Some (Ok (BootstrapResult ''address'' (demo_hash (role_owner demo_roles))
         (role_nullifier_key demo_roles) (role_viewing_key demo_roles) (put_sealed s) ''activity'',
         sealed_seed_digest (demo_host ext) (put_sealed s)))"
    using seal roles
    by (simp add: bootstrap_run_def w Let_def demo_state_def demo_custodian_def demo_env_def
        roles_address_def demo_host_fields)
  with len_s show ?thesis by blast
qed

lemma demo_runs:
  "\<exists>b d. answer_operation (demo_host ext) demo_env demo_bootstrap (wallet_key (demo_host ext) demo_bootstrap)
       (st_runtime demo_state) = Ok (BootstrapResult ''address'' (demo_hash (role_owner demo_roles))
         (role_nullifier_key demo_roles) (role_viewing_key demo_roles) b ''activity'', d) \<and>
     length b < 1000"
  using demo_bootstraps [of ext]
  by (fastforce simp: answer_operation_def run_operation_def demo_bootstrap_op demo_env_def now_ms_def
      u64_try_from_def)

lemma demo_response_small:
  "length b < 1000 \<Longrightarrow> length (jcs (OperationResult_json (demo_host ext) (BootstrapResult ''address''
       (demo_hash (role_owner demo_roles)) (role_nullifier_key demo_roles) (role_viewing_key demo_roles)
       b ''activity''))) < 200000"
proof -
  assume b: "length b < 1000"
  have hex: "length (jcs (serialize_hex (demo_host ext) v)) \<le> 20000" if "length v < 1000" for v
    using that length_jcs_hex [of "demo_host ext" v] demo_enclave_laws(1)
    by (simp add: hex_laws_def demo_host_fields demo_enclave_fields)
  have string: "length (jcs (JString s)) \<le> 20000" if "length s < 1000" for s
    using that length_json_quoted [of s] by simp
  show ?thesis
    unfolding OperationResult_json.simps
    by (rule le_less_trans [OF length_jcs_fields [where n = 20000]])
      (use b in \<open>simp_all add: hex string demo_roles_def del: jcs.simps\<close>)
qed

lemma demo_answers: "\<exists>resp. execute (demo_host ext) demo_env demo_state (as_bytes ''7'') = Ok resp"
proof -
  let ?h = "sha256_hash demo_crates (request_hash_input demo_crates demo_unsigned_bootstrap)"
  obtain b d where run: "answer_operation (demo_host ext) demo_env demo_bootstrap
      (wallet_key (demo_host ext) demo_bootstrap) (st_runtime demo_state) =
      Ok (BootstrapResult ''address'' (demo_hash (role_owner demo_roles))
         (role_nullifier_key demo_roles) (role_viewing_key demo_roles) b ''activity'', d)"
    and b: "length b < 1000"
    using demo_runs [of ext] by blast
  let ?result = "BootstrapResult ''address'' (demo_hash (role_owner demo_roles))
         (role_nullifier_key demo_roles) (role_viewing_key demo_roles) b ''activity''"
  define plain where "plain = jcs (OperationResult_json (demo_host ext) ?result)"
  have plain: "jcs_serialize (OperationResult_json (demo_host ext) ?result) = Ok plain"
    by (simp add: jcs_serialize_def canonicalize_json_value_spec plain_def no_float del: has_float.simps)
  have len: "length plain < 200000"
    unfolding plain_def by (rule demo_response_small [OF b])
  define enc where "enc = put_envelope \<lparr> nonce = replicate 12 7,
      ephemeral_sender_public = 4 # replicate 64 2, encrypted_message = as_bytes plain @ replicate 16 0 \<rparr>"
  have enc: "qos_encrypt (demo_host ext) demo_key (as_bytes plain) (replicate 32 2) (replicate 12 7) = Ok enc"
    using len
    by (simp add: qos_encrypt_def qos_encrypt_with_def parse_uncompressed_sec1_def demo_host_fields
        demo_crates_def demo_key_def public_key_uncompressed_def create_cipher_key_def create_aad_def
        u8_len_def AES_GCM_TAG_LEN_def SEC1_UNCOMPRESSED_LEN_def envelope_to_vec_def vec_fits_def
        as_bytes_def enc_def Let_def flip: replicate_add)
  have len_enc: "length enc \<le> 262144"
    using len by (simp add: enc_def put_envelope_def put_vec_def as_bytes_def)
  have json: "jcs_serialize (OperationProofPayload_json (demo_host ext) p) = Ok (jcs (OperationProofPayload_json (demo_host ext) p))"
    "jcs_serialize (EncryptedResponse_json (demo_host ext) r) = Ok (jcs (EncryptedResponse_json (demo_host ext) r))" for p r
    by (simp_all add: jcs_serialize_def canonicalize_json_value_spec OperationProofPayload_json_def
        EncryptedResponse_json_def AppProof_json_def no_float del: has_float.simps)
  have sign: "\<exists>s. sign_ephemeral_low_s (demo_host ext) (rt_ephemeral (st_runtime demo_state)) m = Ok s" for m
    by (simp add: sign_ephemeral_low_s_def demo_host_fields demo_state_def demo_runtime_def)
      (simp add: demo_enclave_defs demo_signature_head Let_def)
  have key: "req_client_response_public_key demo_bootstrap = demo_key"
    by (simp add: demo_bootstrap_def demo_unsigned_bootstrap_def)
  obtain resp where "respond (demo_host ext) demo_env demo_state demo_bootstrap ?h ?result d = Ok resp"
    using sign [of "as_bytes (jcs (OperationProofPayload_json (demo_host ext)
      (proof_payload_of (demo_host ext) demo_bootstrap ?h enc d)))"] plain enc len_enc
    by (auto simp: respond_def key demo_env_def json max_response proof_payload_of_def)
  with demo_admitted [of ext] run show ?thesis unfolding execute_Ok by blast
qed

theorem execute_complete_mediation_witness:
  "\<exists>resp e r g. execute (demo_host ()) demo_env demo_state (as_bytes ''7'') = Ok resp \<and>
     carries (demo_host ()) demo_state (as_bytes ''7'') e r \<and> authorized (demo_host ()) demo_state r 15 \<and>
     er_wallet_grant e = Some g \<and> grant_window g 15"
proof -
  obtain resp where resp: "execute (demo_host ()) demo_env demo_state (as_bytes ''7'') = Ok resp"
    using demo_answers [of "()"] by blast
  from execute_complete_mediation [OF resp] resp show ?thesis
    by (auto simp: demo_env_def)
qed

theorem only_bootstrap_reaches_custody_witness:
  "execute (demo_host ()) demo_env
     (with_custody (\<lambda>w p t. if t = 10 then demo_custodian w p t else None) demo_state) (as_bytes ''7'') =
   execute (demo_host ()) demo_env demo_state (as_bytes ''7'')"
proof (rule only_bootstrap_reaches_custody)
  fix r w h
  assume "admit (demo_host ()) demo_env demo_state (as_bytes ''7'') = Ok (r, w, h)"
  then have "r = demo_bootstrap" by (simp add: demo_admitted)
  then show "(if req_issued_at_ms r = 10
       then demo_custodian w (derivation_message (demo_host ()) (wk_public_key w)) (req_issued_at_ms r) else None) =
     rt_custody (st_runtime demo_state) w (derivation_message (demo_host ()) (wk_public_key w)) (req_issued_at_ms r)"
    by (simp add: demo_state_def demo_bootstrap_def demo_unsigned_bootstrap_def demo_request_def)
qed

theorem response_opens_and_verifies_witness:
  "\<exists>result digest plain (answer :: EncryptedResponse).
     answer_operation (demo_host ()) demo_env demo_bootstrap (wallet_key (demo_host ()) demo_bootstrap)
       (st_runtime demo_state) = Ok (result, digest) \<and>
     jcs_serialize (OperationResult_json (demo_host ()) result) = Ok plain \<and>
     qos_decrypt (demo_host ()) (replicate 32 1) (eres_encrypted_result answer) = Ok (as_bytes plain)"
proof -
  have same: "low_s_signature (demo_host ()) = low_s_signature demo_enclave"
    "uncompressed_point (demo_host ()) = uncompressed_point demo_enclave"
    by (auto simp: fun_eq_iff low_s_signature_def uncompressed_point_def demo_host_fields demo_enclave_fields)
  have laws: "p256_laws (demo_host ())" "aead_laws (demo_host ())"
    using demo_p256_laws demo_aead_laws unfolding p256_laws_def aead_laws_def demo_host_fields .
  have sha: "sha256_hash demo_crates = demo_hash" by (simp add: demo_crates_def)
  have signs: "pair_signing_laws (demo_host ())"
    using demo_pair_signing_laws
    unfolding pair_signing_laws_def demo_host_fields demo_enclave_fields same sha .
  have secret: "p256_secret (demo_host ()) (replicate 32 1) = Some (replicate 32 1)"
    by (simp add: demo_host_fields) (simp add: demo_crates_def)
  have key: "req_client_response_public_key demo_bootstrap =
      public_key_uncompressed (demo_host ()) (p256_public_key (demo_host ()) (replicate 32 1))"
    by (simp add: demo_bootstrap_def demo_unsigned_bootstrap_def demo_key_def public_key_uncompressed_def
        demo_host_fields) (simp add: demo_crates_def flip: replicate_add)
  have nonce: "length (env_result_nonce demo_env) = AES_GCM_NONCE_LEN"
    by (simp add: demo_env_def AES_GCM_NONCE_LEN_def)
  obtain resp where resp: "execute (demo_host ()) demo_env demo_state (as_bytes ''7'') = Ok resp"
    using demo_answers [of "()"] by blast
  from response_opens_and_verifies [OF laws signs demo_admitted resp secret key nonce] show ?thesis by blast
qed

theorem bootstrap_seed_reopens_witness:
  "\<exists>b d roles. unseal (demo_host ()) (demo_bootstrap \<lparr> req_sealed_seed := Some b, req_operation := Decrypt [] \<rparr>)
     (st_runtime demo_state) = Ok (roles, d) \<and> is_ok (roles_address (demo_host ()) roles)"
proof -
  have laws: "hex_laws (demo_host ())" "sha256_laws (demo_host ())" "pair_laws (demo_host ())"
    using demo_enclave_laws(1,2) demo_pair_laws
    unfolding hex_laws_def sha256_laws_def pair_laws_def demo_host_fields demo_enclave_fields
    by simp_all
  have fits: "string_fits (req_quorum_key_id demo_bootstrap)"
    by (simp add: string_fits_def demo_bootstrap_def demo_unsigned_bootstrap_def demo_request_def as_bytes_def)
  obtain b d where run: "bootstrap_run (demo_host ()) demo_env demo_bootstrap (wallet_key (demo_host ()) demo_bootstrap)
      (st_runtime demo_state) = Some (Ok (BootstrapResult ''address'' (demo_hash (role_owner demo_roles))
         (role_nullifier_key demo_roles) (role_viewing_key demo_roles) b ''activity'', d))"
    using demo_bootstraps [of "()"] by blast
  from bootstrap_seed_reopens [OF laws fits run, where s = "demo_bootstrap
      \<lparr> req_sealed_seed := Some b, req_operation := Decrypt [] \<rparr>"]
  show ?thesis
    by (fastforce simp: demo_state_def demo_custodian_def demo_seed_def demo_wallet_of_bootstrap
        demo_host_fields demo_enrolled_def demo_unsigned_wallet_def demo_descriptor_def
        demo_roles_from_seed same_wallet_def result_simps)
qed

end
