(* ===== verification/Enclave_Service.thy ===== *)
theory Enclave_Service
  imports Enclave_Mediation
begin

text \<open>
  \<open>apps/privacy-wallet/src/lib.rs\<close> and \<open>main.rs\<close>: what a running enclave is made of, the routes
  it serves and the ping. A request arrives as its method, path, content type header and body;
  \<open>None\<close> for a body is a stream that broke. The keys and the manifest QOS hands the process are
  arguments of \<open>load_qos_state\<close>, \<open>None\<close> where reading one fails.
\<close>

section \<open>The command line\<close>

definition security_domain_id_from_str :: "'x crates_scheme \<Rightarrow> string \<Rightarrow> string + bytes" where
  "security_domain_id_from_str C v =
     map_err (\<lambda>_. ''must be exactly 32 bytes of lowercase unprefixed hex'') (decode_lower_hex_array C 32 v)"

definition nonempty :: "string \<Rightarrow> string + string" where
  "nonempty v = (if v = [] then Err ''must not be empty'' else Ok v)"

definition positive_epoch :: "string \<Rightarrow> string + u64" where
  "positive_epoch v =
     and_then (ok_or ''must be a canonical positive u64'' (parse_u64 v)) (\<lambda>epoch.
     if epoch = 0 \<or> decimal (unat epoch) \<noteq> v then Err ''must be a canonical positive u64''
     else Ok epoch)"

section \<open>Starting\<close>

record DiscoveryConfig =
  dc_security_domain_id :: bytes
  dc_release_id :: string
  dc_quorum_key_id :: string
  dc_quorum_key_epoch :: u64

definition service_info ::
    "'x enclave_crates_scheme \<Rightarrow> Net \<Rightarrow> DiscoveryConfig \<Rightarrow> bytes \<Rightarrow> bytes \<Rightarrow> bytes \<Rightarrow> bytes \<Rightarrow> ServiceInfo" where
  "service_info C net config manifest_digest executable_digest quorum ephemeral =
     \<lparr> si_version = API_VERSION, si_network = net_network net,
       si_security_domain_id = dc_security_domain_id config, si_release_id = dc_release_id config,
       si_manifest_digest = manifest_digest, si_executable_digest = executable_digest,
       si_quorum_public_key = pair_public C quorum, si_quorum_key_id = dc_quorum_key_id config,
       si_quorum_key_epoch = dc_quorum_key_epoch config,
       si_ephemeral_public_key = pair_public C ephemeral,
       si_supported_operations = OPERATIONS,
       si_max_encrypted_request_bytes = MAX_ENCRYPTED_REQUEST_BYTES,
       si_max_encrypted_response_bytes = MAX_ENCRYPTED_RESPONSE_BYTES,
       si_proof_type = TVC_APP_PROOF_TYPE \<rparr>"

text \<open>The \<open>expect\<close> of \<open>ProverTrust::image\<close> is a panic, \<open>None\<close> here.\<close>

definition prover_trust_image :: "'x enclave_crates_scheme \<Rightarrow> Net \<Rightarrow> ProverTrust option" where
  "prover_trust_image C net =
     map_option (\<lambda>signers. \<lparr> trust_signers = signers, trust_anchors = anchors_production C \<rparr>)
       (policy_signers_new C (network_as_str (net_network net)) (net_policy_signers net)
          (net_policy_threshold net))"

definition app_state_ready ::
    "'x enclave_crates_scheme \<Rightarrow> Net \<Rightarrow> (bytes \<Rightarrow> custodian) \<Rightarrow> ServiceInfo \<Rightarrow> bytes \<Rightarrow> bytes \<Rightarrow>
     AppState option" where
  "app_state_ready C net turnkey_custody info ephemeral quorum =
     map_option (\<lambda>trust.
       \<lparr> st_info = info,
         st_runtime =
           \<lparr> rt_ephemeral = ephemeral, rt_quorum = quorum, rt_custody = turnkey_custody quorum,
             rt_provisioning_public = net_provisioning net, rt_grant_public = net_grant net,
             rt_prover = trust \<rparr> \<rparr>)
       (prover_trust_image C net)"

record ManifestEnvelope =
  me_manifest_hash :: bytes
  me_pivot_hash :: bytes
  me_namespace_quorum_key :: bytes

datatype io_error = InvalidInput string | OtherError string

definition load_qos_state ::
    "'x enclave_crates_scheme \<Rightarrow> Net \<Rightarrow> (bytes \<Rightarrow> custodian) \<Rightarrow> bytes option \<Rightarrow> bytes option \<Rightarrow>
     ManifestEnvelope option \<Rightarrow> DiscoveryConfig \<Rightarrow> (io_error + AppState) option" where
  "load_qos_state C net turnkey_custody ephemeral_key quorum_key manifest_envelope config =
     (if dc_release_id config = [] \<or> dc_quorum_key_id config = []
      then Some (Err (InvalidInput ''release and quorum key identifiers must not be empty''))
      else
        case ok_or (OtherError ''failed to load QOS ephemeral key'') ephemeral_key of
          Inl e \<Rightarrow> Some (Err e)
        | Inr ephemeral \<Rightarrow>
        (case ok_or (OtherError ''failed to load QOS quorum key'') quorum_key of
          Inl e \<Rightarrow> Some (Err e)
        | Inr quorum \<Rightarrow>
        (case ok_or (OtherError ''failed to load QOS manifest'') manifest_envelope of
          Inl e \<Rightarrow> Some (Err e)
        | Inr envelope \<Rightarrow>
          if me_namespace_quorum_key envelope \<noteq> pair_public C quorum
          then Some (Err (OtherError ''QOS quorum key does not match the approved manifest''))
          else map_option Ok (app_state_ready C net turnkey_custody
                 (service_info C net config (me_manifest_hash envelope) (me_pivot_hash envelope)
                    quorum ephemeral)
                 ephemeral quorum))))"

text \<open>
  \<open>main\<close> up to its listener: the arguments by their long names, and the state they start. \<open>clap\<close> ends the
  process when a required argument is missing or its value parser refuses it. The address the process
  listens on is no part of the state.
\<close>

record Cli =
  cli_security_domain_id :: bytes
  cli_release_id :: string
  cli_quorum_key_id :: string
  cli_quorum_key_epoch :: u64

datatype enclave_exit = UsageError | StartFailed io_error

definition cli_argument ::
    "(string \<Rightarrow> string option) \<Rightarrow> string \<Rightarrow> (string \<Rightarrow> string + 'a) \<Rightarrow> enclave_exit + 'a" where
  "cli_argument given name parser =
     and_then (ok_or UsageError (given name)) (\<lambda>v. map_err (\<lambda>_. UsageError) (parser v))"

definition cli_parse :: "'x crates_scheme \<Rightarrow> (string \<Rightarrow> string option) \<Rightarrow> enclave_exit + Cli" where
  "cli_parse C given =
     and_then (cli_argument given ''security-domain-id'' (security_domain_id_from_str C)) (\<lambda>domain.
     and_then (cli_argument given ''release-id'' nonempty) (\<lambda>release.
     and_then (cli_argument given ''quorum-key-id'' nonempty) (\<lambda>key_id.
     and_then (cli_argument given ''quorum-key-epoch'' positive_epoch) (\<lambda>epoch.
     Ok \<lparr> cli_security_domain_id = domain, cli_release_id = release, cli_quorum_key_id = key_id,
          cli_quorum_key_epoch = epoch \<rparr>))))"

definition enclave_main ::
    "'x enclave_crates_scheme \<Rightarrow> Net \<Rightarrow> (bytes \<Rightarrow> custodian) \<Rightarrow> bytes option \<Rightarrow> bytes option \<Rightarrow>
     ManifestEnvelope option \<Rightarrow> (string \<Rightarrow> string option) \<Rightarrow> (enclave_exit + AppState) option" where
  "enclave_main C net turnkey_custody ephemeral_key quorum_key manifest_envelope given =
     (case cli_parse C given of
        Inl e \<Rightarrow> Some (Err e)
      | Inr cli \<Rightarrow>
          map_option (map_err StartFailed)
            (load_qos_state C net turnkey_custody ephemeral_key quorum_key manifest_envelope
               \<lparr> dc_security_domain_id = cli_security_domain_id cli, dc_release_id = cli_release_id cli,
                 dc_quorum_key_id = cli_quorum_key_id cli, dc_quorum_key_epoch = cli_quorum_key_epoch cli \<rparr>))"

section \<open>Routes\<close>

record http_request =
  rq_method :: string
  rq_path :: string
  rq_content_type :: "bytes option"
  rq_body :: "bytes option"

text \<open>\<open>HeaderValue::to_str\<close> takes visible ASCII, spaces and tabs; of those \<open>str::trim\<close> cuts
  spaces and tabs.\<close>

definition header_to_str :: "bytes \<Rightarrow> string option" where
  "header_to_str v =
     (if list_all (\<lambda>b. 32 \<le> unat b \<and> unat b < 127 \<or> unat b = 9) v then Some (string_of_bytes v) else None)"

definition is_blank :: "char \<Rightarrow> bool" where
  "is_blank c = (ascii c = 32 \<or> ascii c = 9)"

definition trim_blanks :: "string \<Rightarrow> string" where
  "trim_blanks s = rev (dropWhile is_blank (rev (dropWhile is_blank s)))"

definition before_semicolon :: "string \<Rightarrow> string" where
  "before_semicolon s = takeWhile (\<lambda>c. c \<noteq> CHR '';'') s"

definition has_json_content_type :: "bytes option \<Rightarrow> bool" where
  "has_json_content_type content_type =
     (case Option.bind content_type header_to_str of
        None \<Rightarrow> False
      | Some v \<Rightarrow> trim_blanks (before_semicolon v) = ''application/json'')"

text \<open>The \<open>POST\<close> that \<open>reqwest\<close> makes of a body of JSON.\<close>

definition json_post :: "string \<Rightarrow> bytes \<Rightarrow> http_request" where
  "json_post path body =
     \<lparr> rq_method = ''POST'', rq_path = path,
       rq_content_type = Some (as_bytes ''application/json''), rq_body = Some body \<rparr>"

text \<open>Its \<open>GET\<close> has no body.\<close>

definition http_get :: "string \<Rightarrow> http_request" where
  "http_get path = \<lparr> rq_method = ''GET'', rq_path = path, rq_content_type = None, rq_body = Some [] \<rparr>"

text \<open>\<open>to_bytes\<close> fails on a body longer than the limit. \<open>usize\<close> has 64 bits on the platforms
  enclaves run on, so the conversion of the limit does not fail.\<close>

definition to_bytes :: "bytes option \<Rightarrow> nat \<Rightarrow> bytes option" where
  "to_bytes body limit =
     Option.bind body (\<lambda>b. if length b \<le> limit then Some b else None)"

definition handle_ping :: "'x enclave_crates_scheme \<Rightarrow> AppState \<Rightarrow> bytes \<Rightarrow> http_response" where
  "handle_ping C state body =
     (case from_utf8 body of None \<Rightarrow> public_error_response PE_InvalidRequest | Some body \<Rightarrow>
     (case parse_qos_ping_request C body of Inl _ \<Rightarrow> public_error_response PE_InvalidRequest | Inr request \<Rightarrow>
     if qpr_version request \<noteq> API_VERSION then public_error_response PE_InvalidRequest
     else
     (case pair_decrypt C (rt_quorum (st_runtime state)) (qpr_encrypted_challenge request) of
        None \<Rightarrow> public_error_response PE_InvalidRequest | Some plaintext \<Rightarrow>
     (case from_utf8 plaintext of None \<Rightarrow> public_error_response PE_InvalidRequest | Some proof_payload \<Rightarrow>
     (case parse_qos_ping_challenge C proof_payload of
        Inl _ \<Rightarrow> public_error_response PE_InvalidRequest | Inr challenge \<Rightarrow>
     if qpc_version challenge \<noteq> API_VERSION \<or> qpc_type challenge \<noteq> TVC_QOS_PING_PROOF_TYPE
        \<or> \<not> is_rfc8785 C proof_payload
     then public_error_response PE_InvalidRequest
     else
     (case sign_ephemeral_low_s C (rt_ephemeral (st_runtime state)) (as_bytes proof_payload) of
        Inl _ \<Rightarrow> public_error_response PE_Unavailable | Inr signature \<Rightarrow>
     (case jcs_serialize (QosPingResponse_json C
         \<lparr> qps_version = API_VERSION,
           qps_tvc_app_proof =
             \<lparr> ap_scheme = TVC_APP_PROOF_SCHEME,
               ap_public_key = pair_public C (rt_ephemeral (st_runtime state)),
               ap_proof_payload = proof_payload, ap_signature = signature \<rparr> \<rparr>) of
        Inr body \<Rightarrow> http_ok body
      | Inl _ \<Rightarrow> public_error_response PE_Unavailable)))))))"

definition known_paths :: "string list" where
  "known_paths = [''/v1/ping'', ''/v1/operations'', ''/health'', ''/v1/info'']"

definition dispatch ::
    "'x enclave_crates_scheme \<Rightarrow> Env \<Rightarrow> AppState \<Rightarrow> http_request \<Rightarrow> http_response" where
  "dispatch C env state request =
     (let body_limit = unat (min (si_max_encrypted_request_bytes (st_info state)) MAX_ENCRYPTED_REQUEST_BYTES);
          m = rq_method request; path = rq_path request in
      case to_bytes (rq_body request) body_limit of
        None \<Rightarrow> public_error_response PE_RequestTooLarge
      | Some body \<Rightarrow>
        if m = ''POST'' \<and> (path = ''/v1/ping'' \<or> path = ''/v1/operations'')
           \<and> \<not> has_json_content_type (rq_content_type request)
        then public_error_response PE_InvalidRequest
        else if m = ''POST'' \<and> path = ''/v1/ping'' then handle_ping C state body
        else if m = ''POST'' \<and> path = ''/v1/operations'' then handle_operation C env state body
        else if m = ''GET'' \<and> path = ''/health'' then
          (case jcs_serialize (HealthResponse_json C \<lparr> hr_status = Healthy \<rparr>) of
             Inr body \<Rightarrow> http_ok body
           | Inl _ \<Rightarrow> public_error_response PE_Unavailable)
        else if m = ''GET'' \<and> path = ''/v1/info'' then
          (case jcs_serialize (ServiceInfo_json C (st_info state)) of
             Inr body \<Rightarrow> http_ok body
           | Inl _ \<Rightarrow> public_error_response PE_InvalidRequest)
        else if path \<in> set known_paths then public_error_response PE_MethodNotAllowed
        else public_error_response PE_NotFound)"

section \<open>Facts\<close>

lemma json_content_type: "has_json_content_type (Some (as_bytes ''application/json''))"
  by (simp add: has_json_content_type_def header_to_str_def as_bytes_def before_semicolon_def trim_blanks_def
      is_blank_def ascii_def string_of_bytes_def char_of_def bit_0)

lemma handle_operation_success:
  "http_status (handle_operation C env est body) < 300 \<Longrightarrow>
     \<exists>resp. execute C env est body = Ok resp \<and> http_body (handle_operation C env est body) = as_bytes resp"
  by (auto simp: handle_operation_def public_error_response_def http_ok_def http_json_def
      split: sum.splits Failure.splits)

lemma dispatch_posted:
  "http_status (dispatch C env est (json_post ''/v1/operations'' body)) < 300 \<Longrightarrow>
     dispatch C env est (json_post ''/v1/operations'' body) = handle_operation C env est body"
  "http_status (dispatch C env est (json_post ''/v1/ping'' body)) < 300 \<Longrightarrow>
     dispatch C env est (json_post ''/v1/ping'' body) = handle_ping C est body"
  using json_content_type
  by (simp_all add: dispatch_def json_post_def Let_def public_error_response_def http_json_def
      to_bytes_def split: option.splits if_splits)

lemma dispatch_info:
  "http_status (dispatch C env est (http_get ''/v1/info'')) < 300 \<Longrightarrow>
     \<exists>text. jcs_serialize (ServiceInfo_json C (st_info est)) = Ok text \<and>
       http_body (dispatch C env est (http_get ''/v1/info'')) = as_bytes text"
  by (auto simp: dispatch_def http_get_def Let_def public_error_response_def http_ok_def http_json_def
      to_bytes_def split: sum.splits)

lemma positive_epoch_Ok: "positive_epoch v = Ok n \<longleftrightarrow> n \<noteq> 0 \<and> v = decimal (unat n)"
proof (cases "parse_u64 v")
  case (Some m)
  have "v = decimal (unat n) \<Longrightarrow> m = n" using Some by simp
  with Some show ?thesis by (auto simp: positive_epoch_def)
next
  case None
  then have "v \<noteq> decimal (unat n)" by auto
  with None show ?thesis by (simp add: positive_epoch_def)
qed

definition coherent :: "'x enclave_crates_scheme \<Rightarrow> Net \<Rightarrow> AppState \<Rightarrow> bool" where
  "coherent C net st \<longleftrightarrow>
     si_version (st_info st) = API_VERSION \<and> si_network (st_info st) = net_network net \<and>
     si_quorum_public_key (st_info st) = pair_public C (rt_quorum (st_runtime st)) \<and>
     si_ephemeral_public_key (st_info st) = pair_public C (rt_ephemeral (st_runtime st)) \<and>
     si_supported_operations (st_info st) = OPERATIONS \<and>
     rt_provisioning_public (st_runtime st) = net_provisioning net \<and>
     rt_grant_public (st_runtime st) = net_grant net \<and>
     si_release_id (st_info st) \<noteq> [] \<and> si_quorum_key_id (st_info st) \<noteq> []"

lemma load_qos_state_Ok:
  "load_qos_state C net tc eph quo env config = Some (Ok st) \<longleftrightarrow>
     (\<exists>ephemeral quorum envelope trust.
        dc_release_id config \<noteq> [] \<and> dc_quorum_key_id config \<noteq> [] \<and>
        eph = Some ephemeral \<and> quo = Some quorum \<and> env = Some envelope \<and>
        me_namespace_quorum_key envelope = pair_public C quorum \<and>
        prover_trust_image C net = Some trust \<and>
        st = \<lparr> st_info = service_info C net config (me_manifest_hash envelope) (me_pivot_hash envelope)
                 quorum ephemeral,
               st_runtime =
                 \<lparr> rt_ephemeral = ephemeral, rt_quorum = quorum, rt_custody = tc quorum,
                   rt_provisioning_public = net_provisioning net, rt_grant_public = net_grant net,
                   rt_prover = trust \<rparr> \<rparr>)"
  by (cases eph; cases quo; cases env) (auto simp: load_qos_state_def app_state_ready_def)

text \<open>The discovery document of a process says what its command line named.\<close>

definition as_asked :: "'x crates_scheme \<Rightarrow> (string \<Rightarrow> string option) \<Rightarrow> ServiceInfo \<Rightarrow> bool" where
  "as_asked C given info \<longleftrightarrow>
     (\<exists>domain. given ''security-domain-id'' = Some domain \<and>
        decode_lower_hex_array C 32 domain = Ok (si_security_domain_id info)) \<and>
     given ''release-id'' = Some (si_release_id info) \<and> given ''quorum-key-id'' = Some (si_quorum_key_id info) \<and>
     given ''quorum-key-epoch'' = Some (decimal (unat (si_quorum_key_epoch info))) \<and> si_quorum_key_epoch info \<noteq> 0"

lemma cli_parse_Ok:
  "cli_parse C given = Ok cli \<longleftrightarrow>
     (\<exists>domain. given ''security-domain-id'' = Some domain \<and>
        decode_lower_hex_array C 32 domain = Ok (cli_security_domain_id cli)) \<and>
     given ''release-id'' = Some (cli_release_id cli) \<and> cli_release_id cli \<noteq> [] \<and>
     given ''quorum-key-id'' = Some (cli_quorum_key_id cli) \<and> cli_quorum_key_id cli \<noteq> [] \<and>
     given ''quorum-key-epoch'' = Some (decimal (unat (cli_quorum_key_epoch cli))) \<and> cli_quorum_key_epoch cli \<noteq> 0"
  by (cases cli)
    (auto simp: cli_parse_def cli_argument_def security_domain_id_from_str_def nonempty_def result_simps
      positive_epoch_Ok split: sum.splits)

lemma enclave_main_Ok:
  "enclave_main C net tc eph quo env given = Some (Ok st) \<longleftrightarrow>
     (\<exists>cli. cli_parse C given = Ok cli \<and>
        load_qos_state C net tc eph quo env
          \<lparr> dc_security_domain_id = cli_security_domain_id cli, dc_release_id = cli_release_id cli,
            dc_quorum_key_id = cli_quorum_key_id cli, dc_quorum_key_epoch = cli_quorum_key_epoch cli \<rparr> = Some (Ok st))"
  by (auto simp: enclave_main_def result_simps split: sum.splits)

text \<open>What serde's derived reader of a struct promises of a JSON object: the field read from it
  is the member of that name.\<close>

definition challenge_reader_law :: "'x wire_crates_scheme \<Rightarrow> bool" where
  "challenge_reader_law C \<longleftrightarrow>
     (\<forall>m c. de_qos_ping_challenge C (JObject m) = Ok c \<longrightarrow>
        map_of m ''type'' = Some (JString (qpc_type c)))"

lemma handle_ping_ok:
  assumes "http_status (handle_ping C st body) < 300"
  shows "\<exists>text request decrypted payload challenge sig.
    from_utf8 body = Some text \<and> parse_qos_ping_request C text = Ok request \<and>
    pair_decrypt C (rt_quorum (st_runtime st)) (qpr_encrypted_challenge request) = Some decrypted \<and>
    from_utf8 decrypted = Some payload \<and>
    parse_qos_ping_challenge C payload = Ok challenge \<and> qpc_version challenge = API_VERSION \<and>
    qpc_type challenge = TVC_QOS_PING_PROOF_TYPE \<and> is_rfc8785 C payload \<and>
    sign_ephemeral_low_s C (rt_ephemeral (st_runtime st)) (as_bytes payload) = Ok sig \<and>
    handle_ping C st body = http_ok (jcs (QosPingResponse_json C
      \<lparr> qps_version = API_VERSION,
        qps_tvc_app_proof =
          \<lparr> ap_scheme = TVC_APP_PROOF_SCHEME,
            ap_public_key = pair_public C (rt_ephemeral (st_runtime st)),
            ap_proof_payload = payload, ap_signature = sig \<rparr> \<rparr>))"
  using assms unfolding handle_ping_def
  by (auto simp: public_error_response_def http_json_def jcs_serialize_def canonicalize_json_value_spec
      split: option.splits sum.splits if_splits)

lemma payload_type:
  assumes "challenge_reader_law C" "parse_qos_ping_challenge C (jcs (OperationProofPayload_json C p)) = Ok c"
    and "is_rfc8785 C (jcs (OperationProofPayload_json C p))"
  shows "qpc_type c = opp_type p"
proof -
  let ?j = "OperationProofPayload_json C p"
  obtain v where v: "parse_strict_value C (jcs ?j) = Ok v"
    and c: "de_qos_ping_challenge C v = Ok c"
    using assms(2) by (auto simp: parse_qos_ping_challenge_def parse_strict_json_def result_simps)
  have "canonicalize_json_value v = Ok (jcs ?j)"
    using assms(3) v by (simp add: is_rfc8785_def canonicalize_json_str_def split: sum.splits)
  moreover have "canonicalize_json_value ?j = Ok (jcs ?j)"
    by (simp add: canonicalize_json_value_spec OperationProofPayload_json_def no_float del: has_float.simps)
  ultimately have "v = ?j"
    using canonicalize_json_value_inject [OF parse_strict_value_wf [OF v] OperationProofPayload_json_wf]
    by blast
  have "map_of (case ?j of JObject m \<Rightarrow> m) ''type'' = Some (JString (opp_type p))"
    by (simp add: OperationProofPayload_json_def map_of_bt_of)
  then show ?thesis
    using assms(1) c \<open>v = ?j\<close> by (auto simp: challenge_reader_law_def OperationProofPayload_json_def)
qed

lemma proof_types_differ: "TVC_QOS_PING_PROOF_TYPE \<noteq> TVC_APP_PROOF_TYPE"
  by (simp add: TVC_QOS_PING_PROOF_TYPE_def TVC_APP_PROOF_TYPE_def)

section \<open>Properties\<close>

text \<open>
  C33. An enclave process that starts is coherent: it advertises the very keys it decrypts and signs
  with, the Quorum key being the one of the approved manifest, serves every operation under
  the network its image was built for, trusts that network's two signing keys, which
  differ, and says of itself what its command line named: the release, the security domain, the Quorum
  key's name and an epoch that is not zero.
\<close>

theorem start_is_coherent:
  assumes "image_net image_env = Some net"
    and "enclave_main C net turnkey_custody ephemeral quorum envelope given = Some (Ok st)"
  shows "coherent C net st \<and> as_asked C given (st_info st) \<and>
    (\<exists>e. envelope = Some e \<and> me_namespace_quorum_key e = si_quorum_public_key (st_info st) \<and>
       me_manifest_hash e = si_manifest_digest (st_info st) \<and>
       me_pivot_hash e = si_executable_digest (st_info st)) \<and>
    length (rt_provisioning_public (st_runtime st)) = 65 \<and>
    length (rt_grant_public (st_runtime st)) = 65 \<and>
    rt_provisioning_public (st_runtime st) \<noteq> rt_grant_public (st_runtime st)"
proof -
  have "net \<in> {DEVNET, MAINNET}" using assms(1) by (auto simp: image_net_network)
  with assms(2) net_keys [of net] show ?thesis
    unfolding enclave_main_Ok load_qos_state_Ok cli_parse_Ok
    by (auto simp: coherent_def service_info_def as_asked_def)
qed

definition demo_arguments :: "string \<Rightarrow> string option" where
  "demo_arguments = map_of
     [(''security-domain-id'', encode_lower_hex demo_enclave (replicate 32 17)), (''release-id'', ''release''),
      (''quorum-key-id'', ''quorum''), (''quorum-key-epoch'', ''1'')]"

lemma demo_cli:
  "cli_parse demo_enclave demo_arguments =
     Ok \<lparr> cli_security_domain_id = replicate 32 17, cli_release_id = ''release'', cli_quorum_key_id = ''quorum'',
          cli_quorum_key_epoch = 1 \<rparr>"
proof -
  have "decimal (unat (1 :: u64)) = ''1''" by (simp add: decimal.simps digit_def char_of_def bit_0)
  then show ?thesis
    using decode_lower_hex_array_iff [OF demo_enclave_laws(1)] unfolding cli_parse_Ok
    by (simp add: demo_arguments_def)
qed

theorem start_is_coherent_witness:
  "\<exists>st. enclave_main demo_enclave MAINNET (\<lambda>q. demo_custodian) (Some (replicate 32 3)) (Some (replicate 32 4))
       (Some \<lparr> me_manifest_hash = replicate 32 2, me_pivot_hash = replicate 32 3,
          me_namespace_quorum_key = pair_public demo_enclave (replicate 32 4) \<rparr>) demo_arguments = Some (Ok st) \<and>
     coherent demo_enclave MAINNET st \<and> as_asked demo_enclave demo_arguments (st_info st)"
proof -
  let ?run = "enclave_main demo_enclave MAINNET (\<lambda>q. demo_custodian) (Some (replicate 32 3)) (Some (replicate 32 4))
       (Some \<lparr> me_manifest_hash = replicate 32 2, me_pivot_hash = replicate 32 3,
          me_namespace_quorum_key = pair_public demo_enclave (replicate 32 4) \<rparr>) demo_arguments"
  have "prover_trust_image demo_enclave MAINNET \<noteq> None"
    by (simp add: prover_trust_image_def demo_enclave_defs)
  then obtain st where st: "?run = Some (Ok st)"
    by (auto simp: enclave_main_def demo_cli load_qos_state_def app_state_ready_def)
  have "image_net (Some ''mainnet'') = Some MAINNET" by (simp add: image_net_network)
  from start_is_coherent [OF this st] st show ?thesis by blast
qed

text \<open>
  C34. The ping is no signing oracle for operations: what it signs under the ephemeral key is
  a canonical challenge of the ping's own type, encrypted to this enclave, and never the
  payload of an operation's App Proof.
\<close>

theorem ping_signs_no_operation_proof:
  assumes "challenge_reader_law C" "http_status (handle_ping C st body) = 200"
    and "opp_type p = TVC_APP_PROOF_TYPE"
  shows "\<exists>payload sig. payload \<noteq> jcs (OperationProofPayload_json C p) \<and> is_rfc8785 C payload \<and>
    sign_ephemeral_low_s C (rt_ephemeral (st_runtime st)) (as_bytes payload) = Ok sig \<and>
    handle_ping C st body = http_ok (jcs (QosPingResponse_json C
      \<lparr> qps_version = API_VERSION,
        qps_tvc_app_proof =
          \<lparr> ap_scheme = TVC_APP_PROOF_SCHEME,
            ap_public_key = pair_public C (rt_ephemeral (st_runtime st)),
            ap_proof_payload = payload, ap_signature = sig \<rparr> \<rparr>))"
proof -
  have "http_status (handle_ping C st body) < 300" using assms(2) by simp
  from handle_ping_ok [OF this] obtain payload challenge sig where ping: "parse_qos_ping_challenge C payload = Ok challenge"
    "qpc_type challenge = TVC_QOS_PING_PROOF_TYPE" "is_rfc8785 C payload"
    "sign_ephemeral_low_s C (rt_ephemeral (st_runtime st)) (as_bytes payload) = Ok sig"
    "handle_ping C st body = http_ok (jcs (QosPingResponse_json C
      \<lparr> qps_version = API_VERSION,
        qps_tvc_app_proof =
          \<lparr> ap_scheme = TVC_APP_PROOF_SCHEME,
            ap_public_key = pair_public C (rt_ephemeral (st_runtime st)),
            ap_proof_payload = payload, ap_signature = sig \<rparr> \<rparr>))"
    by blast
  have "payload \<noteq> jcs (OperationProofPayload_json C p)"
    using payload_type [OF assms(1), of p challenge] ping(1-3) assms(3) proof_types_differ by metis
  with ping show ?thesis by blast
qed

lemma demo_pings: "http_status (handle_ping (demo_host ext) demo_state (as_bytes ''7'')) = 200"
proof -
  have canonical: "is_rfc8785 (demo_host ext) ''7''"
    by (simp add: is_rfc8785_def canonicalize_json_str_def parse_strict_value_def demo_host_def
        demo_enclave_defs canonicalize_json_value_spec decimal.simps digit_def char_of_def bit_0)
  have utf8: "from_utf8 (as_bytes ''7'') = Some ''7''"
    by (simp add: from_utf8_def as_bytes_def string_of_bytes_def char_of_def bit_0)
  have sign: "\<exists>s. sign_ephemeral_low_s (demo_host ext) (rt_ephemeral (st_runtime demo_state)) m = Ok s" for m
    by (simp add: sign_ephemeral_low_s_def demo_state_def demo_runtime_def)
      (simp add: demo_host_def demo_enclave_defs demo_signature_head Let_def)
  have "parse_qos_ping_request (demo_host ext) ''7'' = Ok demo_ping"
    "parse_qos_ping_challenge (demo_host ext) ''7'' =
      Ok \<lparr> qpc_type = TVC_QOS_PING_PROOF_TYPE, qpc_version = 1, qpc_challenge = [] \<rparr>"
    by (simp_all add: parse_qos_ping_request_def parse_qos_ping_challenge_def parse_strict_json_def
        parse_strict_value_def demo_host_def demo_enclave_defs)
  moreover have "pair_decrypt (demo_host ext) (rt_quorum (st_runtime demo_state))
      (as_bytes ''7'' @ replicate 32 4) = Some (as_bytes ''7'')"
    by (simp add: demo_state_def demo_runtime_def)
      (simp add: demo_host_def demo_enclave_defs as_bytes_def)
  ultimately show ?thesis
    using utf8 canonical sign [of "as_bytes ''7''"]
    by (auto simp: handle_ping_def API_VERSION_def http_ok_def http_json_def jcs_serialize_def demo_ping_def
        canonicalize_json_value_spec QosPingResponse_json_def AppProof_json_def no_float
        simp del: has_float.simps)
qed

theorem ping_signs_no_operation_proof_witness:
  "\<exists>payload sig. is_rfc8785 (demo_host ()) payload \<and>
     sign_ephemeral_low_s (demo_host ()) (rt_ephemeral (st_runtime demo_state)) (as_bytes payload) = Ok sig \<and>
     http_status (handle_ping (demo_host ()) demo_state (as_bytes ''7'')) = 200"
proof -
  have law: "challenge_reader_law (demo_host ())"
    by (simp add: challenge_reader_law_def demo_host_def enclave_crates.defs)
  from ping_signs_no_operation_proof [OF law demo_pings, of "\<lparr> opp_type = TVC_APP_PROOF_TYPE, opp_version = 1,
      opp_request_id = [], opp_request_digest = [], opp_result_digest = [], opp_operation = BootstrapKind,
      opp_sealed_seed_digest = [] \<rparr>"] demo_pings [of "()"]
  show ?thesis by auto
qed

end
