(* ===== verification/Local_Testkit.thy ===== *)
theory Local_Testkit
  imports Enclave_Service
begin

text \<open>
  \<open>apps/privacy-wallet/src/local_dev.rs\<close>: the enclave of the local testkit. It is the enclave of the
  images but for its keys, which the testkit pins, and for custody, which is a Solana key of the process
  instead of Turnkey. A failed assertion or \<open>expect\<close> is a panic, \<open>None\<close> here. The testkit is checked
  once and kept; the model checks it at each use.
\<close>

section \<open>Third-party functions\<close>

text \<open>\<open>P256Pair::from_master_seed\<close>, and an Ed25519 key's public half and its signature of a message.\<close>

record local_crates = enclave_crates +
  pair_from_master_seed :: "bytes \<Rightarrow> bytes option"
  ed25519_public :: "bytes \<Rightarrow> bytes"
  ed25519_sign :: "bytes \<Rightarrow> bytes \<Rightarrow> bytes"

definition ed25519_laws :: "'x local_crates_scheme \<Rightarrow> bool" where
  "ed25519_laws C \<longleftrightarrow>
     (\<forall>k m. length (ed25519_sign C k m) = 64 \<and>
        ed25519_verify C (ed25519_public C k) m (ed25519_sign C k m))"

section \<open>The testkit\<close>

definition TESTKIT_VERSION :: u8 where
  "TESTKIT_VERSION = 1"

record Testkit =
  tk_version :: u8
  tk_release_id :: string
  tk_quorum_key_id :: string
  tk_security_domain_label :: string
  tk_manifest_label :: string
  tk_executable_label :: string
  tk_provisioning_private_key_hex :: string
  tk_grant_private_key_hex :: string
  tk_prover_policy_signer_seed_hex :: string
  tk_prover_tee_ikm_hex :: string
  tk_ephemeral_seed_hex :: string
  tk_quorum_seed_hex :: string
  tk_quorum_public_key :: string
  tk_ephemeral_public_key :: string
  tk_operations :: "OperationKind list"

definition decode_32 :: "'x crates_scheme \<Rightarrow> string \<Rightarrow> bytes option" where
  "decode_32 C v = (case decode_lower_hex_array C 32 v of Inl _ \<Rightarrow> None | Inr b \<Rightarrow> Some b)"

text \<open>\<open>parsed\<close> is the fixture as serde reads it.\<close>

definition checked_testkit :: "'x local_crates_scheme \<Rightarrow> Testkit option \<Rightarrow> Testkit option" where
  "checked_testkit C parsed =
     Option.bind parsed (\<lambda>testkit.
     if tk_version testkit \<noteq> TESTKIT_VERSION \<or> tk_operations testkit \<noteq> OPERATIONS then None
     else
       Option.bind (decode_32 C (tk_ephemeral_seed_hex testkit)) (\<lambda>seed.
       Option.bind (pair_from_master_seed C seed) (\<lambda>ephemeral.
       Option.bind (decode_32 C (tk_quorum_seed_hex testkit)) (\<lambda>seed.
       Option.bind (pair_from_master_seed C seed) (\<lambda>quorum.
       if hex_encode C (pair_public C ephemeral) \<noteq> tk_ephemeral_public_key testkit
          \<or> hex_encode C (pair_public C quorum) \<noteq> tk_quorum_public_key testkit
       then None else Some testkit)))))"

definition local_testkit_qos_seeds ::
    "'x local_crates_scheme \<Rightarrow> Testkit option \<Rightarrow> (bytes \<times> bytes) option" where
  "local_testkit_qos_seeds C parsed =
     Option.bind (checked_testkit C parsed) (\<lambda>testkit.
     Option.bind (decode_32 C (tk_ephemeral_seed_hex testkit)) (\<lambda>ephemeral.
     Option.bind (decode_32 C (tk_quorum_seed_hex testkit)) (\<lambda>quorum.
     Some (ephemeral, quorum))))"

definition testkit_prover_keys ::
    "'x local_crates_scheme \<Rightarrow> Testkit option \<Rightarrow> (bytes \<times> bytes) option" where
  "testkit_prover_keys C parsed =
     Option.bind (checked_testkit C parsed) (\<lambda>testkit.
     Option.bind (decode_32 C (tk_prover_policy_signer_seed_hex testkit)) (\<lambda>signer.
     Option.bind (decode_32 C (tk_prover_tee_ikm_hex testkit)) (\<lambda>ikm.
     Some (signer, ikm))))"

definition public_of :: "'x crates_scheme \<Rightarrow> string \<Rightarrow> bytes option" where
  "public_of C private_key_hex =
     Option.bind (decode_32 C private_key_hex) (\<lambda>secret.
     map_option (\<lambda>signing. public_key_uncompressed C (p256_public_key C signing)) (p256_secret C secret))"

section \<open>Custody\<close>

definition local_own :: "'x local_crates_scheme \<Rightarrow> bytes \<Rightarrow> WalletKey \<Rightarrow> CustodyError + unit" where
  "local_own C signing_key wallet =
     (if ed25519_public C signing_key \<noteq> wk_public_key wallet then Err CustodyDeclined else Ok ())"

definition local_custodian :: "'x local_crates_scheme \<Rightarrow> bytes \<Rightarrow> custodian" where
  "local_custodian C signing_key =
     (\<lambda>wallet payload timestamp_ms. Some (
        and_then (local_own C signing_key wallet) (\<lambda>_.
        Ok \<lparr> raw_signature = ed25519_sign C signing_key payload,
             raw_activity_id = ''local-custody-bootstrap'' \<rparr>)))"

section \<open>The state\<close>

text \<open>\<open>StandIn anchors\<close>: the stand-in prover; \<open>ImageProvers\<close>: the live provers the image trusts.\<close>

datatype LocalProverTrust = StandIn bytes | ImageProvers

fun local_prover_trust ::
    "'x local_crates_scheme \<Rightarrow> Net \<Rightarrow> Testkit option \<Rightarrow> LocalProverTrust \<Rightarrow> ProverTrust option" where
  "local_prover_trust C net parsed (StandIn anchors) =
     Option.bind (testkit_prover_keys C parsed) (\<lambda>(signer, _).
     map_option (\<lambda>signers. \<lparr> trust_signers = signers, trust_anchors = anchors \<rparr>)
       (policy_signers_new C (network_as_str (net_network net)) [ed25519_public C signer] 1))"
| "local_prover_trust C net parsed ImageProvers = prover_trust_image C net"

definition local_config :: "'x local_crates_scheme \<Rightarrow> Testkit \<Rightarrow> DiscoveryConfig" where
  "local_config C testkit =
     \<lparr> dc_security_domain_id = sha256_hash C (as_bytes (tk_security_domain_label testkit)),
       dc_release_id = tk_release_id testkit,
       dc_quorum_key_id = tk_quorum_key_id testkit,
       dc_quorum_key_epoch = 1 \<rparr>"

definition local_unattested_state ::
    "'x local_crates_scheme \<Rightarrow> Net \<Rightarrow> Testkit option \<Rightarrow> bytes \<Rightarrow> bytes \<Rightarrow> bytes \<Rightarrow> LocalProverTrust \<Rightarrow>
     AppState option" where
  "local_unattested_state C net parsed ephemeral quorum wallet_secret prover =
     Option.bind (checked_testkit C parsed) (\<lambda>testkit.
     let info = service_info C net (local_config C testkit)
           (sha256_hash C (as_bytes (tk_manifest_label testkit)))
           (sha256_hash C (as_bytes (tk_executable_label testkit))) quorum ephemeral in
     Option.bind (public_of C (tk_provisioning_private_key_hex testkit)) (\<lambda>provisioning_public.
     Option.bind (public_of C (tk_grant_private_key_hex testkit)) (\<lambda>grant_public.
     Option.bind (local_prover_trust C net parsed prover) (\<lambda>trust.
     Some
       \<lparr> st_info = info,
         st_runtime =
           \<lparr> rt_ephemeral = ephemeral, rt_quorum = quorum,
             rt_custody = local_custodian C wallet_secret,
             rt_provisioning_public = provisioning_public, rt_grant_public = grant_public,
             rt_prover = trust \<rparr> \<rparr>))))"

section \<open>Facts\<close>

lemma checked_testkit_Some:
  "checked_testkit C parsed = Some testkit \<longleftrightarrow>
     parsed = Some testkit \<and> tk_version testkit = TESTKIT_VERSION \<and> tk_operations testkit = OPERATIONS \<and>
     (\<exists>eseed qseed ephemeral quorum.
        decode_32 C (tk_ephemeral_seed_hex testkit) = Some eseed \<and>
        pair_from_master_seed C eseed = Some ephemeral \<and>
        decode_32 C (tk_quorum_seed_hex testkit) = Some qseed \<and>
        pair_from_master_seed C qseed = Some quorum \<and>
        hex_encode C (pair_public C ephemeral) = tk_ephemeral_public_key testkit \<and>
        hex_encode C (pair_public C quorum) = tk_quorum_public_key testkit)"
  by (auto simp: checked_testkit_def split: bind_splits if_splits)

lemma local_unattested_state_Some:
  "local_unattested_state C net parsed ephemeral quorum secret prover = Some st \<longleftrightarrow>
     (\<exists>testkit provisioning grant trust.
        checked_testkit C parsed = Some testkit \<and>
        public_of C (tk_provisioning_private_key_hex testkit) = Some provisioning \<and>
        public_of C (tk_grant_private_key_hex testkit) = Some grant \<and>
        local_prover_trust C net parsed prover = Some trust \<and>
        st =
          \<lparr> st_info = service_info C net (local_config C testkit)
              (sha256_hash C (as_bytes (tk_manifest_label testkit)))
              (sha256_hash C (as_bytes (tk_executable_label testkit))) quorum ephemeral,
            st_runtime =
              \<lparr> rt_ephemeral = ephemeral, rt_quorum = quorum,
                rt_custody = local_custodian C secret,
                rt_provisioning_public = provisioning, rt_grant_public = grant, rt_prover = trust \<rparr> \<rparr>)"
  by (auto simp: local_unattested_state_def Let_def split: bind_splits)

text \<open>The local key is a custodian in the sense of the interface that Turnkey implements.\<close>

lemma local_custody: "ed25519_laws C \<Longrightarrow> custody (local_custodian C k)"
  by unfold_locales (auto simp: local_custodian_def ed25519_laws_def result_simps)

lemma local_custodian_answers:
  "local_custodian C k wallet payload t =
     Some (if ed25519_public C k = wk_public_key wallet
       then Ok \<lparr> raw_signature = ed25519_sign C k payload, raw_activity_id = ''local-custody-bootstrap'' \<rparr>
       else Err CustodyDeclined)"
  by (simp add: local_custodian_def local_own_def)

section \<open>Properties\<close>

text \<open>
  With the provers of the image, the local enclave is the very state in which an enclave starts that
  is built with the testkit's two trusted keys, run under a manifest of the testkit's labels, and asks the
  local key where the image asks Turnkey: nothing else of it differs.
\<close>

lemma local_enclave_is_an_image_enclave:
  assumes "local_unattested_state C net (Some testkit) ephemeral quorum secret ImageProvers = Some st"
    and "tk_release_id testkit \<noteq> []" "tk_quorum_key_id testkit \<noteq> []"
  shows "\<exists>provisioning grant.
    public_of C (tk_provisioning_private_key_hex testkit) = Some provisioning \<and>
    public_of C (tk_grant_private_key_hex testkit) = Some grant \<and>
    load_qos_state C (net \<lparr> net_provisioning := provisioning, net_grant := grant \<rparr>)
      (\<lambda>_. local_custodian C secret) (Some ephemeral) (Some quorum)
      (Some \<lparr> me_manifest_hash = sha256_hash C (as_bytes (tk_manifest_label testkit)),
              me_pivot_hash = sha256_hash C (as_bytes (tk_executable_label testkit)),
              me_namespace_quorum_key = pair_public C quorum \<rparr>)
      (local_config C testkit) = Some (Ok st)"
  using assms
  by (auto simp: local_unattested_state_Some load_qos_state_Ok checked_testkit_Some local_config_def
      prover_trust_image_def service_info_def)

text \<open>
  A bootstrap of the local enclave always ends, is declined, as Turnkey would decline it, exactly for a
  wallet that is not the local key's, and when it succeeds it seals the local key's own signature of the
  wallet's derivation message, which verifies under that wallet.
\<close>

lemma local_bootstrap_is_for_its_wallet:
  assumes "ed25519_laws C" "rt_custody runtime = local_custodian C k"
  shows "\<exists>answer. bootstrap_run C env request wallet runtime = Some answer \<and>
    (answer = Err (Stage TurnkeySigningStage) \<longleftrightarrow> wk_public_key wallet \<noteq> ed25519_public C k) \<and>
    (\<forall>result digest. answer = Ok (result, digest) \<longrightarrow>
       (\<exists>seed. length seed = 64 \<and>
          seed = ed25519_sign C k (derivation_message C (wk_public_key wallet)) \<and>
          ed25519_verify C (wk_public_key wallet) (derivation_message C (wk_public_key wallet)) seed \<and>
          (\<exists>sealed. seal_seed C (env_seal_entropy env) request runtime seed = Ok (sealed, digest))))"
proof (cases "ed25519_public C k = wk_public_key wallet")
  case True
  let ?m = "derivation_message C (wk_public_key wallet)"
  have "length (ed25519_sign C k ?m) = 64" "ed25519_verify C (ed25519_public C k) ?m (ed25519_sign C k ?m)"
    using assms(1) by (auto simp: ed25519_laws_def)
  with True show ?thesis
    by (auto simp: bootstrap_run_def assms(2) local_custodian_answers roles_address_def Let_def result_simps
        dest: seal_seed_Err)
next
  case False
  then show ?thesis
    by (auto simp: bootstrap_run_def assms(2) local_custodian_answers Let_def)
qed

section \<open>Witnesses\<close>

definition demo_local :: local_crates where
  "demo_local = enclave_crates.extend demo_enclave
     (local_crates.fields (\<lambda>s. Some s) demo_hash (\<lambda>k m. demo_hash k @ demo_hash k))"

lemmas demo_local_defs = demo_local_def local_crates.defs demo_enclave_defs

lemma demo_local_fields:
  "hex_encode demo_local = hex_encode demo_enclave" "hex_decode demo_local = hex_decode demo_enclave"
  by (simp_all add: demo_local_defs)

lemma demo_ed25519_laws: "ed25519_laws demo_local"
  by (simp add: ed25519_laws_def demo_local_defs)

definition demo_local_testkit :: Testkit where
  "demo_local_testkit =
     \<lparr> tk_version = 1, tk_release_id = ''local-unattested-do-not-deploy'',
       tk_quorum_key_id = ''local-unattested-quorum'',
       tk_security_domain_label = ''ZOLANA_TVC_LOCAL_UNATTESTED_SECURITY_DOMAIN_V1'',
       tk_manifest_label = ''ZOLANA_TVC_LOCAL_UNATTESTED_MANIFEST_V1'',
       tk_executable_label = ''ZOLANA_TVC_LOCAL_UNATTESTED_EXECUTABLE_V1'',
       tk_provisioning_private_key_hex = demo_hex_encode (replicate 32 0x11),
       tk_grant_private_key_hex = demo_hex_encode (replicate 32 0x66),
       tk_prover_policy_signer_seed_hex = demo_hex_encode (replicate 32 0x99),
       tk_prover_tee_ikm_hex = demo_hex_encode (replicate 32 0x88),
       tk_ephemeral_seed_hex = demo_hex_encode (replicate 32 0x45),
       tk_quorum_seed_hex = demo_hex_encode (replicate 32 0x51),
       tk_quorum_public_key = hex_encode demo_local (pair_public demo_local (replicate 32 0x51)),
       tk_ephemeral_public_key = hex_encode demo_local (pair_public demo_local (replicate 32 0x45)),
       tk_operations = OPERATIONS \<rparr>"

lemma demo_decode_32: "length b = 32 \<Longrightarrow> decode_32 demo_local (demo_hex_encode b) = Some b"
  using decode_lower_hex_array_iff [of demo_local 32 "demo_hex_encode b" b] demo_hex_laws
  by (simp add: decode_32_def hex_laws_def demo_local_fields demo_enclave_fields demo_hex_encode_field
      encode_lower_hex_def)

lemma demo_public_of:
  "b \<noteq> 0 \<Longrightarrow> public_of demo_local (demo_hex_encode (replicate 32 b)) = Some (4 # replicate 32 b @ replicate 32 b)"
  by (simp add: public_of_def demo_decode_32) (simp add: demo_local_defs public_key_uncompressed_def)

lemma demo_testkit_keys:
  "tk_provisioning_private_key_hex demo_local_testkit = demo_hex_encode (replicate 32 0x11)"
  "tk_grant_private_key_hex demo_local_testkit = demo_hex_encode (replicate 32 0x66)"
  "tk_prover_policy_signer_seed_hex demo_local_testkit = demo_hex_encode (replicate 32 0x99)"
  "tk_prover_tee_ikm_hex demo_local_testkit = demo_hex_encode (replicate 32 0x88)"
  by (simp_all add: demo_local_testkit_def)

lemma demo_checked_testkit: "checked_testkit demo_local (Some demo_local_testkit) = Some demo_local_testkit"
proof -
  have "pair_from_master_seed demo_local = Some" by (simp add: demo_local_defs fun_eq_iff)
  then show ?thesis
    unfolding checked_testkit_Some
    by (simp add: demo_local_testkit_def TESTKIT_VERSION_def demo_decode_32)
qed

lemma demo_local_starts:
  assumes "local_prover_trust demo_local net (Some demo_local_testkit) prover = Some trust"
  shows "\<exists>st. local_unattested_state demo_local net (Some demo_local_testkit) ephemeral quorum secret prover = Some st"
  unfolding local_unattested_state_Some
  by (simp add: demo_checked_testkit demo_testkit_keys demo_public_of assms)

lemma local_enclave_is_an_image_enclave_witness:
  "\<exists>st keyed. local_unattested_state demo_local DEVNET (Some demo_local_testkit) (replicate 32 3)
       (replicate 32 4) (replicate 32 7) ImageProvers = Some st \<and>
     load_qos_state demo_local keyed (\<lambda>_. local_custodian demo_local (replicate 32 7))
       (Some (replicate 32 3)) (Some (replicate 32 4))
       (Some \<lparr> me_manifest_hash = sha256_hash demo_local (as_bytes (tk_manifest_label demo_local_testkit)),
               me_pivot_hash = sha256_hash demo_local (as_bytes (tk_executable_label demo_local_testkit)),
               me_namespace_quorum_key = pair_public demo_local (replicate 32 4) \<rparr>)
       (local_config demo_local demo_local_testkit) = Some (Ok st)"
proof -
  obtain trust where "prover_trust_image demo_local DEVNET = Some trust"
    by (simp add: prover_trust_image_def demo_local_defs)
  then obtain st where st: "local_unattested_state demo_local DEVNET (Some demo_local_testkit)
      (replicate 32 3) (replicate 32 4) (replicate 32 7) ImageProvers = Some st"
    using demo_local_starts [of DEVNET ImageProvers trust] by (simp, blast)
  have "tk_release_id demo_local_testkit \<noteq> []" "tk_quorum_key_id demo_local_testkit \<noteq> []"
    by (simp_all add: demo_local_testkit_def)
  from local_enclave_is_an_image_enclave [OF st this] st show ?thesis by blast
qed

lemma local_bootstrap_is_for_its_wallet_witness:
  "bootstrap_run demo_local demo_env demo_bootstrap
     \<lparr> wk_organization_id = ''o'', wk_sign_with = ''a'', wk_public_key = replicate 32 8 \<rparr>
     (demo_runtime \<lparr> rt_custody := local_custodian demo_local (replicate 32 7) \<rparr>) =
       Some (Err (Stage TurnkeySigningStage)) \<and>
   bootstrap_run demo_local demo_env demo_bootstrap
     \<lparr> wk_organization_id = ''o'', wk_sign_with = ''a'', wk_public_key = replicate 32 7 \<rparr>
     (demo_runtime \<lparr> rt_custody := local_custodian demo_local (replicate 32 7) \<rparr>) \<noteq>
       Some (Err (Stage TurnkeySigningStage))"
proof -
  have public: "ed25519_public demo_local (replicate 32 7) = replicate 32 7"
    by (simp add: demo_local_defs demo_hash_def)
  note ends = local_bootstrap_is_for_its_wallet [OF demo_ed25519_laws,
      of "demo_runtime \<lparr> rt_custody := local_custodian demo_local (replicate 32 7) \<rparr>" "replicate 32 7"
        demo_env demo_bootstrap]
  show ?thesis
    using ends [of "\<lparr> wk_organization_id = ''o'', wk_sign_with = ''a'', wk_public_key = replicate 32 8 \<rparr>"]
      ends [of "\<lparr> wk_organization_id = ''o'', wk_sign_with = ''a'', wk_public_key = replicate 32 7 \<rparr>"]
    by (auto simp: public)
qed

end
