(* ===== verification/Local_Prover.thy ===== *)
theory Local_Prover
  imports Local_Testkit
begin

text \<open>
  \<open>apps/privacy-wallet/src/local_prover.rs\<close> and \<open>bin/local.rs\<close>: the stand-in attested prover of the local
  testkit, which opens what an enclave sealed, has a plaintext prover work on it and seals the answer,
  and the server that is made of the local enclave and of it. The answers of the plaintext prover and
  the clock, in nanoseconds, are inputs; polling is defined with no bound on its rounds, \<open>None\<close> when it
  does not end.
\<close>

section \<open>Third-party items\<close>

text \<open>\<open>spr_prover_tee\<close>'s prover and Nitro fixtures, its policy file and its names, and \<open>serde_json\<close>.\<close>

record ReleasePayload =
  rpl_network :: string
  rpl_version :: nat
  rpl_expires_at :: u64
  rpl_freshness :: bytes
  rpl_policy :: bytes

record prover_crates = local_crates +
  fixture_from_ikm :: "bytes \<Rightarrow> bytes"
  fixture_hpke_public :: "bytes \<Rightarrow> bytes"
  fixture_open :: "bytes \<Rightarrow> string \<Rightarrow> string \<Rightarrow> bytes \<Rightarrow> bytes \<Rightarrow> (bytes \<times> bytes) option"
  seal_response :: "bytes \<Rightarrow> nat \<Rightarrow> bytes \<Rightarrow> bytes option"
  fixture_policy :: "bytes \<Rightarrow> u64 \<Rightarrow> bytes"
  fixture_anchors :: "bytes \<Rightarrow> u64 \<Rightarrow> bytes \<Rightarrow> bytes"
  fixture_attestation :: "bytes \<Rightarrow> u64 \<Rightarrow> bytes \<Rightarrow> json"
  freshness_of :: "bytes \<Rightarrow> u64 \<Rightarrow> bytes"
  policy_file_sign :: "ReleasePayload \<Rightarrow> bytes \<Rightarrow> u64 \<times> u64 \<Rightarrow> bytes \<Rightarrow> bytes option"
  policy_file_json :: "bytes \<Rightarrow> json option"
  json_from_slice :: "bytes \<Rightarrow> json option"
  json_text :: "json \<Rightarrow> string"
  attestation_path :: string
  header_enc :: string
  header_version :: string
  tee_version :: string

text \<open>
  \<open>fixture_open prover method target enc body\<close> gives the plaintext and the response key;
  \<open>seal_response key status answer\<close>; the fixture items take the nonce, the instant and, but for the
  policy, the HPKE key. The prover opens what was encrypted to its key for the same method and target.
\<close>

definition prover_laws :: "'x prover_crates_scheme \<Rightarrow> bool" where
  "prover_laws C \<longleftrightarrow>
     (\<forall>r p method target m enc_hex body key enc.
        prover_encrypt C r (fixture_hpke_public C p) method target m = Some (enc_hex, body, key) \<longrightarrow>
        hex_decode C enc_hex = Some enc \<longrightarrow> fixture_open C p method target enc body = Some (m, key))"

section \<open>The prover\<close>

definition POLICY_PATH :: string where
  "POLICY_PATH = ''/local/prover-policy''"

definition PROVE_SEGMENT :: string where
  "PROVE_SEGMENT = ''/prove/''"

definition POLICY_LIFETIME_SECS :: u64 where
  "POLICY_LIFETIME_SECS = 86400"

definition UPSTREAM_TIMEOUT :: nat where
  "UPSTREAM_TIMEOUT = 120 * 10 ^ 9"

definition INITIAL_POLL_INTERVAL :: nat where
  "INITIAL_POLL_INTERVAL = 500 * 10 ^ 6"

definition MAX_POLL_INTERVAL :: nat where
  "MAX_POLL_INTERVAL = 5 * 10 ^ 9"

text \<open>\<open>sign_policy\<close> of \<open>operations/prove.rs\<close>; \<open>None\<close> is its \<open>expect\<close>.\<close>

definition sign_policy ::
    "'x prover_crates_scheme \<Rightarrow> bytes \<Rightarrow> string \<Rightarrow> bytes \<Rightarrow> u64 \<Rightarrow> u64 \<Rightarrow> bytes option" where
  "sign_policy C signer network policy fresh_from expires_at =
     (let freshness = signer[0 := (signer ! 0) XOR 0xff];
          release =
            \<lparr> rpl_network = network, rpl_version = 1, rpl_expires_at = expires_at,
              rpl_freshness = freshness_of C freshness (expires_at - fresh_from),
              rpl_policy = policy \<rparr> in
      policy_file_sign C release signer (fresh_from, expires_at) freshness)"

record LocalProver =
  lp_prover :: bytes
  lp_epoch_secs :: u64
  lp_policy :: bytes
  lp_upstream :: string

definition trim_end_slashes :: "string \<Rightarrow> string" where
  "trim_end_slashes s = rev (dropWhile (\<lambda>c. c = CHR ''/'') (rev s))"

text \<open>The clock in whole seconds, \<open>None\<close> before 1970; a sum that overflows is a panic too.\<close>

definition local_prover_new ::
    "'x prover_crates_scheme \<Rightarrow> Net \<Rightarrow> Testkit option \<Rightarrow> u64 option \<Rightarrow> string \<Rightarrow> LocalProver option" where
  "local_prover_new C net parsed clock_secs upstream =
     Option.bind (testkit_prover_keys C parsed) (\<lambda>(signer, ikm).
     Option.bind clock_secs (\<lambda>epoch_secs.
     Option.bind (checked_add epoch_secs POLICY_LIFETIME_SECS) (\<lambda>expires_at.
     Option.bind (sign_policy C signer (network_as_str (net_network net))
         (fixture_policy C (replicate 32 0) epoch_secs) epoch_secs expires_at) (\<lambda>policy.
     Some \<lparr> lp_prover = fixture_from_ikm C ikm, lp_epoch_secs = epoch_secs, lp_policy = policy,
            lp_upstream = trim_end_slashes upstream \<rparr>))))"

definition local_prover_anchors :: "'x prover_crates_scheme \<Rightarrow> LocalProver \<Rightarrow> bytes" where
  "local_prover_anchors C prover =
     fixture_anchors C (replicate 32 0) (lp_epoch_secs prover) (fixture_hpke_public C (lp_prover prover))"

section \<open>The plaintext prover\<close>

datatype upstream_request = PostProve (prove_url: string) (prove_body: bytes) | GetStatus (status_url: string) (status_job: string)

text \<open>An answer to a poll: none, or its status and its body where that is JSON.\<close>

datatype poll_reply = PollLost | PollReply nat "json option"

definition json_get :: "string \<Rightarrow> json \<Rightarrow> json option" where
  "json_get k v = (case v of JObject m \<Rightarrow> map_of m k | _ \<Rightarrow> None)"

definition json_str :: "json \<Rightarrow> string option" where
  "json_str v = (case v of JString s \<Rightarrow> Some s | _ \<Rightarrow> None)"

definition status_success :: "nat \<Rightarrow> bool" where
  "status_success status \<longleftrightarrow> 200 \<le> status \<and> status < 300"

text \<open>What one answer settles: the outcome, or another round (\<open>None\<close>).\<close>

definition poll_verdict :: "'x prover_crates_scheme \<Rightarrow> poll_reply \<Rightarrow> (nat \<times> bytes) option" where
  "poll_verdict C reply =
     (case reply of
        PollLost \<Rightarrow> None
      | PollReply answered body \<Rightarrow>
          if \<not> status_success answered then None
          else case body of
            None \<Rightarrow> None
          | Some status \<Rightarrow>
              (case Option.bind (json_get ''status'' status) json_str of
                 None \<Rightarrow> None
               | Some s \<Rightarrow>
                   if s = ''completed'' then
                     Some (200, as_bytes (json_text C
                       (case json_get ''result'' status of Some proof \<Rightarrow> proof | None \<Rightarrow> status)))
                   else if s = ''failed'' then Some (502, as_bytes (json_text C status))
                   else None))"

text \<open>
  Round \<open>i\<close> compares the clock \<open>now\<close> with the deadline, sleeps for the interval, which then doubles up to its
  cap, and asks. By the next round the clock has moved on by the sleep and by \<open>late i\<close>, all that took time
  besides. With the outcome comes the number of rounds that asked.
\<close>

partial_function (option) poll_job ::
    "'x prover_crates_scheme \<Rightarrow> nat \<Rightarrow> nat \<Rightarrow> nat \<Rightarrow> (nat \<Rightarrow> nat) \<Rightarrow> (nat \<Rightarrow> poll_reply) \<Rightarrow> nat \<Rightarrow>
     (nat \<times> nat \<times> bytes) option" where
  "poll_job C deadline interval now late replies i =
     (if now < deadline then
        (case poll_verdict C (replies i) of
           Some outcome \<Rightarrow> Some (Suc i, outcome)
         | None \<Rightarrow>
             poll_job C deadline (min (interval * 2) MAX_POLL_INTERVAL) (now + interval + late i) late replies (Suc i))
      else Some (i, 504, as_bytes ([CHR ''{'', CHR 0x22] @ ''code'' @ [CHR 0x22, CHR '':'', CHR 0x22] @
        ''upstream_timeout'' @ [CHR 0x22, CHR ''}''])))"

text \<open>
  What a request meets: the answer to the post, the clock when the deadline is set and the time until it is
  read again, the lateness of each round and the answers to the polls.
\<close>

record upstream_inputs =
  ui_post :: "(nat \<times> bytes option) option"
  ui_started :: nat
  ui_until_read :: nat
  ui_late :: "nat \<Rightarrow> nat"
  ui_replies :: "nat \<Rightarrow> poll_reply"

definition upstream_failed :: "nat \<times> bytes" where
  "upstream_failed = (502, as_bytes ([CHR ''{'', CHR 0x22] @ ''code'' @ [CHR 0x22, CHR '':'', CHR 0x22] @
     ''upstream_failed'' @ [CHR 0x22, CHR ''}'']))"

definition job_of :: "'x prover_crates_scheme \<Rightarrow> bytes \<Rightarrow> string option" where
  "job_of C body =
     Option.bind (json_from_slice C body) (\<lambda>answer.
     if json_get ''proof'' answer \<noteq> None then None
     else Option.bind (json_get ''jobId'' answer) json_str)"

definition forward ::
    "'x prover_crates_scheme \<Rightarrow> LocalProver \<Rightarrow> upstream_inputs \<Rightarrow> string \<Rightarrow> bytes \<Rightarrow>
     (upstream_request list \<times> nat \<times> bytes) option" where
  "forward C prover inputs key plaintext =
     (let url = lp_upstream prover @ PROVE_SEGMENT @ key; post = PostProve url plaintext in
      case ui_post inputs of
        None \<Rightarrow> Some ([post], upstream_failed)
      | Some (status, None) \<Rightarrow> Some ([post], upstream_failed)
      | Some (status, Some body) \<Rightarrow>
          (case job_of C body of
             Some job \<Rightarrow>
               if status_success status then
                 map_option (\<lambda>(asked, outcome).
                     (post # replicate asked (GetStatus (url @ ''/status'') job), outcome))
                   (poll_job C (ui_started inputs + UPSTREAM_TIMEOUT) INITIAL_POLL_INTERVAL
                      (ui_started inputs + ui_until_read inputs) (ui_late inputs) (ui_replies inputs) 0)
               else Some ([post], status, body)
           | None \<Rightarrow> Some ([post], status, body)))"

section \<open>Routes\<close>

record prover_request =
  prq_method :: string
  prq_path :: string
  prq_query :: "string option"
  prq_headers :: "(string \<times> bytes) list"
  prq_body :: bytes

text \<open>An answer that carries the version of the sealed protocol, or not.\<close>

record prover_response = http_response +
  prs_version :: "string option"

definition prover_json :: "'x prover_crates_scheme \<Rightarrow> nat \<Rightarrow> json \<Rightarrow> prover_response" where
  "prover_json C status body =
     \<lparr> http_status = status, http_content_type = ''application/json'',
       http_body = as_bytes (json_text C body), prs_version = None \<rparr>"

definition prover_refused :: "'x prover_crates_scheme \<Rightarrow> nat \<Rightarrow> string \<Rightarrow> prover_response" where
  "prover_refused C status name = prover_json C status (JObject [(''code'', JString name)])"

definition attest :: "'x prover_crates_scheme \<Rightarrow> LocalProver \<Rightarrow> prover_request \<Rightarrow> prover_response" where
  "attest C prover request =
     (let query = (case prq_query request of Some q \<Rightarrow> q | None \<Rightarrow> []) in
      case Option.bind (find_map (strip_prefix ''nonce='') (split_on CHR ''&'' query)) (decode_32 C) of
        Some challenge \<Rightarrow>
          prover_json C 200 (fixture_attestation C challenge (lp_epoch_secs prover)
            (fixture_hpke_public C (lp_prover prover)))
      | None \<Rightarrow> prover_refused C 400 ''invalid_nonce'')"

text \<open>\<open>None\<close> is the \<open>expect\<close> of a policy that is not JSON.\<close>

definition serve_policy :: "'x prover_crates_scheme \<Rightarrow> LocalProver \<Rightarrow> prover_response option" where
  "serve_policy C prover = map_option (prover_json C 200) (policy_file_json C (lp_policy prover))"

definition request_target :: "prover_request \<Rightarrow> string" where
  "request_target request =
     prq_path request @ (case prq_query request of Some q \<Rightarrow> CHR ''?'' # q | None \<Rightarrow> [])"

definition prove_key :: "prover_request \<Rightarrow> string option" where
  "prove_key request =
     (case rsplit_once PROVE_SEGMENT (prq_path request) of
        None \<Rightarrow> None
      | Some (_, key) \<Rightarrow> if key \<noteq> [] \<and> CHR ''/'' \<notin> set key then Some key else None)"

definition sealed_answer ::
    "'x prover_crates_scheme \<Rightarrow> bytes \<Rightarrow> nat \<Rightarrow> bytes \<Rightarrow> prover_response" where
  "sealed_answer C response_key status answer =
     (case seal_response C response_key status answer of
        Some sealed \<Rightarrow>
          \<lparr> http_status = 200, http_content_type = ''application/octet-stream'',
            http_body = sealed, prs_version = Some (tee_version C) \<rparr>
      | None \<Rightarrow> prover_refused C 500 ''seal_failed'')"

text \<open>The requests sent to the plaintext prover and the answer, \<open>None\<close> when polling does not end.\<close>

definition prover_dispatch ::
    "'x prover_crates_scheme \<Rightarrow> LocalProver \<Rightarrow> upstream_inputs \<Rightarrow> prover_request \<Rightarrow>
     (upstream_request list \<times> prover_response) option" where
  "prover_dispatch C prover inputs request =
     (if prq_method request = ''GET'' \<and> ends_with (attestation_path C) (prq_path request)
      then Some ([], attest C prover request)
      else
        let key = prove_key request in
        if key = None \<or> prq_method request \<noteq> ''POST'' then Some ([], prover_refused C 404 ''not_found'')
        else
          let enc = Option.bind (map_of (prq_headers request) (header_enc C)) (\<lambda>enc.
                    Option.bind (header_to_str enc) (hex_decode C));
              versioned = (case map_of (prq_headers request) (header_version C) of
                 None \<Rightarrow> False | Some version \<Rightarrow> version = as_bytes (tee_version C)) in
          if enc = None \<or> \<not> versioned then Some ([], prover_refused C 400 ''tee_request_malformed'')
          else
            case fixture_open C (lp_prover prover) ''POST'' (request_target request) (the enc) (prq_body request) of
              None \<Rightarrow> Some ([], prover_refused C 400 ''tee_decryption_failed'')
            | Some (plaintext, response_key) \<Rightarrow>
                map_option (\<lambda>(sent, status, answer). (sent, sealed_answer C response_key status answer))
                  (forward C prover inputs (the key) plaintext))"

text \<open>
  The router: the exact paths of the attestation and of the policy take \<open>GET\<close>, and \<open>HEAD\<close> without the body;
  axum answers any other method there with an empty 405.
\<close>

definition prover_get :: "string \<Rightarrow> prover_response \<Rightarrow> prover_response" where
  "prover_get verb response =
     (if verb = ''GET'' then response
      else if verb = ''HEAD'' then response \<lparr> http_body := [] \<rparr>
      else \<lparr> http_status = 405, http_content_type = [], http_body = [], prs_version = None \<rparr>)"

definition prover_serve ::
    "'x prover_crates_scheme \<Rightarrow> LocalProver \<Rightarrow> upstream_inputs \<Rightarrow> prover_request \<Rightarrow>
     (upstream_request list \<times> prover_response) option" where
  "prover_serve C prover inputs request =
     (if prq_path request = attestation_path C
      then Some ([], prover_get (prq_method request) (attest C prover request))
      else if prq_path request = POLICY_PATH
      then map_option (\<lambda>policy. ([], prover_get (prq_method request) policy)) (serve_policy C prover)
      else prover_dispatch C prover inputs request)"

section \<open>The local server\<close>

datatype LocalStartError =
    KeypairUnreadable | KeypairNotJson | KeypairNot64Bytes | EphemeralKeyFailed | QuorumKeyFailed

text \<open>
  \<open>main\<close> of \<open>bin/local.rs\<close> up to its listeners: the keypair file as it is read and parsed, \<open>None\<close> where
  that fails; the outcome is the enclave's state and the stand-in prover, if one is started. A panic is
  \<open>None\<close>.
\<close>

definition local_main ::
    "'x prover_crates_scheme \<Rightarrow> Net \<Rightarrow> Testkit option \<Rightarrow> u64 option \<Rightarrow> bytes option option \<Rightarrow> bool \<Rightarrow> string \<Rightarrow>
     (LocalStartError + AppState \<times> LocalProver option) option" where
  "local_main C net parsed clock_secs keypair_file live_prover prover_url =
     (case and_then (ok_or KeypairUnreadable keypair_file) (ok_or KeypairNotJson) of
        Inl e \<Rightarrow> Some (Err e)
      | Inr keypair \<Rightarrow>
        if length keypair \<noteq> 64 then Some (Err KeypairNot64Bytes)
        else
          let wallet_secret = take 32 keypair in
          Option.bind (local_testkit_qos_seeds C parsed) (\<lambda>(ephemeral_seed, quorum_seed).
          case pair_from_master_seed C ephemeral_seed of None \<Rightarrow> Some (Err EphemeralKeyFailed)
          | Some ephemeral \<Rightarrow>
          (case pair_from_master_seed C quorum_seed of None \<Rightarrow> Some (Err QuorumKeyFailed)
          | Some quorum \<Rightarrow>
            if live_prover then
              map_option (\<lambda>state. Ok (state, None))
                (local_unattested_state C net parsed ephemeral quorum wallet_secret ImageProvers)
            else
              Option.bind (local_prover_new C net parsed clock_secs prover_url) (\<lambda>prover.
              map_option (\<lambda>state. Ok (state, Some prover))
                (local_unattested_state C net parsed ephemeral quorum wallet_secret
                   (StandIn (local_prover_anchors C prover)))))))"

section \<open>Polling ends\<close>

text \<open>The interval slept in round \<open>i\<close>, and the least time the first \<open>i\<close> rounds take.\<close>

fun poll_interval :: "nat \<Rightarrow> nat" where
  "poll_interval 0 = INITIAL_POLL_INTERVAL"
| "poll_interval (Suc i) = min (poll_interval i * 2) MAX_POLL_INTERVAL"

definition poll_elapsed :: "nat \<Rightarrow> nat" where
  "poll_elapsed i = sum_list (map poll_interval [0..<i])"

lemma poll_elapsed_Suc: "poll_elapsed (Suc i) = poll_elapsed i + poll_interval i"
  by (simp add: poll_elapsed_def)

lemma poll_interval_capped: "poll_interval (Suc (Suc (Suc (Suc n)))) = MAX_POLL_INTERVAL"
  by (induction n) (simp_all add: INITIAL_POLL_INTERVAL_def MAX_POLL_INTERVAL_def)

lemma poll_elapsed_capped:
  "poll_elapsed (Suc (Suc (Suc (Suc n)))) = 7500000000 + n * MAX_POLL_INTERVAL"
proof (induction n)
  case 0
  show ?case
    by (simp add: poll_elapsed_def INITIAL_POLL_INTERVAL_def MAX_POLL_INTERVAL_def)
next
  case (Suc n)
  then show ?case
    using poll_elapsed_Suc [of "Suc (Suc (Suc (Suc n)))"] by (simp only: poll_interval_capped) simp
qed

lemma poll_elapsed_27: "UPSTREAM_TIMEOUT \<le> poll_elapsed 27"
proof -
  have "(27 :: nat) = Suc (Suc (Suc (Suc 23)))" by simp
  then show ?thesis
    using poll_elapsed_capped [of 23] by (simp only: UPSTREAM_TIMEOUT_def MAX_POLL_INTERVAL_def) simp
qed

text \<open>A job polled with the interval of its round, late or not, ends once the sleeps reach the deadline.\<close>

lemma poll_job_ends:
  assumes "deadline + poll_elapsed i \<le> now + poll_elapsed (i + n)"
  shows "\<exists>asked outcome. poll_job C deadline (poll_interval i) now late replies i = Some (asked, outcome) \<and>
    i \<le> asked \<and> asked \<le> i + n"
  using assms
proof (induction n arbitrary: i now)
  case 0
  then show ?case by (subst poll_job.simps) simp
next
  case (Suc n)
  have "\<exists>asked outcome. poll_job C deadline (poll_interval (Suc i)) (now + poll_interval i + late i) late replies (Suc i) =
      Some (asked, outcome) \<and> Suc i \<le> asked \<and> asked \<le> Suc i + n"
    using Suc.IH [of "Suc i" "now + poll_interval i + late i"] Suc.prems by (simp add: poll_elapsed_Suc)
  then show ?case by (subst poll_job.simps) (auto split: option.splits)
qed

section \<open>Opening what an enclave sealed\<close>

lemma strip_prefix_absent: "c \<notin> set s \<Longrightarrow> c \<in> set p \<Longrightarrow> strip_prefix p s = None"
  by (cases "strip_prefix p s") (auto simp: strip_prefix_Some)

lemma rsplit_once_absent:
  assumes "CHR ''/'' \<notin> set s" "sep \<noteq> []" "hd sep = CHR ''/''"
  shows "rsplit_once sep s = None"
  using assms by (induction s) (auto simp: neq_Nil_conv)

lemma rsplit_once_prove: "CHR ''/'' \<notin> set key \<Longrightarrow> rsplit_once PROVE_SEGMENT (PROVE_SEGMENT @ key) = Some ([], key)"
  using rsplit_once_absent [of key PROVE_SEGMENT] strip_prefix_absent [of _ key "''prove/''"]
  by (simp add: PROVE_SEGMENT_def)

lemma decimal_no_slash: "CHR ''/'' \<notin> set (decimal n)"
  using decimal_digits [of n] by (auto simp: list_all_iff is_ascii_digit_def ascii_def)

lemma proving_key_is_a_segment:
  assumes "proving_key request = Ok key"
  shows "key \<noteq> []" "CHR ''/'' \<notin> set key"
proof -
  obtain circuit family n m where "circuit_family circuit = Some family"
    "key = family @ ''_'' @ decimal n @ ''_'' @ decimal m"
    using assms by (auto simp: proving_key_def result_simps)
  then show "key \<noteq> []" "CHR ''/'' \<notin> set key"
    by (auto simp: circuit_family_def decimal_no_slash split: if_splits)
qed

lemma header_of_hex:
  assumes "list_all is_lower_hex_digit v"
  shows "header_to_str (as_bytes v) = Some v"
proof -
  have "32 \<le> unat b \<and> unat b < 127" if "b \<in> set (as_bytes v)" for b
    using that assms by (auto simp: as_bytes_def list_all_iff is_lower_hex_digit_def is_ascii_digit_def
        ascii_def unat_of_char)
  then show ?thesis by (simp add: header_to_str_def list_all_iff)
qed

lemma local_main_Ok:
  "local_main C net parsed clock_secs keypair_file live url = Some (Ok (st, started)) \<longleftrightarrow>
     (\<exists>keypair eseed qseed ephemeral quorum trust.
        keypair_file = Some (Some keypair) \<and> length keypair = 64 \<and>
        local_testkit_qos_seeds C parsed = Some (eseed, qseed) \<and>
        pair_from_master_seed C eseed = Some ephemeral \<and> pair_from_master_seed C qseed = Some quorum \<and>
        local_unattested_state C net parsed ephemeral quorum (take 32 keypair) trust = Some st \<and>
        (if live then trust = ImageProvers \<and> started = None
         else \<exists>prover. local_prover_new C net parsed clock_secs url = Some prover \<and>
           started = Some prover \<and> trust = StandIn (local_prover_anchors C prover)))"
  by (cases "local_prover_new C net parsed clock_secs url")
    (auto simp: local_main_def Let_def result_simps split: sum.splits option.splits bind_splits)

section \<open>Properties\<close>

lemma forward_ends:
  "\<exists>asked job outcome. asked \<le> 27 \<and> forward C prover inputs key plaintext =
    Some (PostProve (lp_upstream prover @ PROVE_SEGMENT @ key) plaintext #
      replicate asked (GetStatus (lp_upstream prover @ PROVE_SEGMENT @ key @ ''/status'') job), outcome)"
proof -
  have "ui_started inputs + UPSTREAM_TIMEOUT + poll_elapsed 0 \<le>
      ui_started inputs + ui_until_read inputs + poll_elapsed (0 + 27)"
    using poll_elapsed_27 by (simp add: poll_elapsed_def)
  from poll_job_ends [OF this] obtain asked outcome where polled: "asked \<le> 27"
    "poll_job C (ui_started inputs + UPSTREAM_TIMEOUT) INITIAL_POLL_INTERVAL
       (ui_started inputs + ui_until_read inputs) (ui_late inputs) (ui_replies inputs) 0 = Some (asked, outcome)"
    by fastforce
  have short: ?thesis if "forward C prover inputs key plaintext =
      Some ([PostProve (lp_upstream prover @ PROVE_SEGMENT @ key) plaintext], outcome)" for outcome
    using that by (intro exI [of _ 0]) simp
  show ?thesis
  proof (cases "ui_post inputs")
    case None
    then show ?thesis by (intro short) (simp add: forward_def)
  next
    case (Some answer)
    then show ?thesis
      using polled short
      by (cases answer; cases "snd answer")
        (auto simp: forward_def Let_def split: option.splits intro!: exI [of _ asked])
  qed
qed

text \<open>
  C29. A request to the stand-in prover always ends: however late its sleeps and requests are, and whatever
  it is answered, polling stops by itself, with an answer or at its deadline, and the plaintext prover was
  asked at most once for a proof and then at most 27 times for one job's status,
  since the interval between two questions doubles from half a second to five seconds.
\<close>

theorem prover_request_ends:
  assumes "policy_file_json C (lp_policy prover) = Some policy"
  shows "\<exists>sent response. prover_serve C prover inputs request = Some (sent, response) \<and>
    (sent = [] \<or> (\<exists>url plaintext asked job. asked \<le> 27 \<and>
       sent = PostProve url plaintext # replicate asked (GetStatus (url @ ''/status'') job)))"
proof -
  have ends: "\<exists>url asked job outcome. asked \<le> 27 \<and> forward C prover inputs key plaintext =
      Some (PostProve url plaintext # replicate asked (GetStatus (url @ ''/status'') job), outcome)"
    for key plaintext
    using forward_ends [of C prover inputs key plaintext] by (metis append.assoc)
  have "\<exists>sent response. prover_dispatch C prover inputs request = Some (sent, response) \<and>
    (sent = [] \<or> (\<exists>url plaintext asked job. asked \<le> 27 \<and>
       sent = PostProve url plaintext # replicate asked (GetStatus (url @ ''/status'') job)))"
    using ends by (fastforce simp: prover_dispatch_def Let_def split: option.splits)
  then show ?thesis using assms by (auto simp: prover_serve_def serve_policy_def)
qed

text \<open>
  C20. What the enclave seals to the stand-in prover's key, sent as the client sends it, opens to the
  completed request and to nothing else: the plaintext prover is asked under the request's circuit for
  exactly the witness the enclave completed, and its answer comes back sealed under the response key that
  the enclave gave the client.
\<close>

theorem local_prover_opens_what_the_enclave_seals:
  assumes "hex_laws C" "prover_laws C"
    and "seal_prove C entropy request nsk sealing trust now = Ok (sealed, left)"
    and "attested_key C sealing trust now = Ok (fixture_hpke_public C (lp_prover prover))"
    and "prq_method rq = ''POST''" "prq_path rq = sprq_target sealed" "prq_query rq = None"
    and "prq_body rq = sprq_ciphertext sealed"
    and "map_of (prq_headers rq) (header_enc C) = Some (as_bytes (hex_encode C (sprq_enc sealed)))"
    and "map_of (prq_headers rq) (header_version C) = Some (as_bytes (tee_version C))"
  shows "\<exists>key w p. proving_key request = Ok key \<and> complete C request nsk = Ok w \<and> json_to_vec C w = Some p \<and>
    prover_dispatch C prover inputs rq =
      map_option (\<lambda>(sent, status, answer). (sent, sealed_answer C (sprq_response_key sealed) status answer))
        (forward C prover inputs key p)"
proof -
  obtain key w p enc_hex enc where parts: "proving_key request = Ok key"
    "check_target (ps_target sealing) key = Ok ()" "complete C request nsk = Ok w"
    "json_to_vec C w = Some p"
    "prover_encrypt C entropy (fixture_hpke_public C (lp_prover prover)) ''POST'' (ps_target sealing) p =
       Some (enc_hex, sprq_ciphertext sealed, sprq_response_key sealed)"
    "hex_decode C enc_hex = Some (sprq_enc sealed)" "sprq_target sealed = ps_target sealing"
    using assms(3,4) by (auto simp: seal_prove_def result_simps Let_def split: option.splits if_splits)
  have target: "ps_target sealing = PROVE_SEGMENT @ key"
    using parts(2) by (auto simp: check_target_def PROVE_PATH_def PROVE_SEGMENT_def strip_prefix_Some
        split: if_splits)
  have key: "prove_key rq = Some key"
    using proving_key_is_a_segment [OF parts(1)] assms(6) parts(7) target
    by (simp add: prove_key_def rsplit_once_prove)
  have enc: "header_to_str (as_bytes (hex_encode C (sprq_enc sealed))) = Some (hex_encode C (sprq_enc sealed))"
    "hex_decode C (hex_encode C (sprq_enc sealed)) = Some (sprq_enc sealed)"
    using assms(1) by (auto simp: hex_laws_def intro: header_of_hex)
  have opened: "fixture_open C (lp_prover prover) ''POST'' (request_target rq) (sprq_enc sealed)
      (sprq_ciphertext sealed) = Some (p, sprq_response_key sealed)"
    using assms(2,6,7) parts(5-7) by (simp add: prover_laws_def request_target_def)
  have "prover_dispatch C prover inputs rq =
      map_option (\<lambda>(sent, status, answer). (sent, sealed_answer C (sprq_response_key sealed) status answer))
        (forward C prover inputs key p)"
    using assms(5,8-10) key enc opened by (simp add: prover_dispatch_def)
  with parts show ?thesis by blast
qed

text \<open>
  A local server that starts advertises the Quorum and ephemeral keys the testkit pins, which are those
  it decrypts and signs with, holds the first half of the keypair file as its custody key, and trusts
  either the image's provers or the very stand-in it starts beside it.
\<close>

lemma local_server_is_pinned:
  assumes "local_main C net (Some testkit) clock_secs keypair_file live url = Some (Ok (st, started))"
  shows "\<exists>keypair. keypair_file = Some (Some keypair) \<and> length keypair = 64 \<and>
    rt_custody (st_runtime st) = local_custodian C (take 32 keypair) \<and>
    hex_encode C (si_quorum_public_key (st_info st)) = tk_quorum_public_key testkit \<and>
    hex_encode C (si_ephemeral_public_key (st_info st)) = tk_ephemeral_public_key testkit \<and>
    si_quorum_public_key (st_info st) = pair_public C (rt_quorum (st_runtime st)) \<and>
    si_ephemeral_public_key (st_info st) = pair_public C (rt_ephemeral (st_runtime st)) \<and>
    (if live then started = None \<and> prover_trust_image C net = Some (rt_prover (st_runtime st))
     else \<exists>prover. started = Some prover \<and>
       trust_anchors (rt_prover (st_runtime st)) = local_prover_anchors C prover)"
proof -
  obtain keypair eseed qseed ephemeral quorum trust where started: "keypair_file = Some (Some keypair)"
    "length keypair = 64" "local_testkit_qos_seeds C (Some testkit) = Some (eseed, qseed)"
    "pair_from_master_seed C eseed = Some ephemeral" "pair_from_master_seed C qseed = Some quorum"
    and state: "local_unattested_state C net (Some testkit) ephemeral quorum (take 32 keypair) trust = Some st"
    and trusts: "if live then trust = ImageProvers \<and> started = None
      else \<exists>prover. local_prover_new C net (Some testkit) clock_secs url = Some prover \<and>
        started = Some prover \<and> trust = StandIn (local_prover_anchors C prover)"
    using assms unfolding local_main_Ok by blast
  have keys: "hex_encode C (pair_public C quorum) = tk_quorum_public_key testkit"
    "hex_encode C (pair_public C ephemeral) = tk_ephemeral_public_key testkit"
    using started(3-5) by (auto simp: local_testkit_qos_seeds_def checked_testkit_Some split: bind_splits)
  have parts: "rt_custody (st_runtime st) = local_custodian C (take 32 keypair)"
    "st_info st = service_info C net (local_config C testkit)
       (sha256_hash C (as_bytes (tk_manifest_label testkit)))
       (sha256_hash C (as_bytes (tk_executable_label testkit))) quorum ephemeral"
    "rt_quorum (st_runtime st) = quorum" "rt_ephemeral (st_runtime st) = ephemeral"
    "local_prover_trust C net (Some testkit) trust = Some (rt_prover (st_runtime st))"
    using state by (auto simp: local_unattested_state_Some checked_testkit_Some)
  have "if live then started = None \<and> prover_trust_image C net = Some (rt_prover (st_runtime st))
     else \<exists>prover. started = Some prover \<and>
       trust_anchors (rt_prover (st_runtime st)) = local_prover_anchors C prover"
    using trusts parts(5) by (cases "rt_prover (st_runtime st)") (auto split: if_splits bind_splits)
  with started(1,2) keys parts(1-4) show ?thesis by (simp add: service_info_def)
qed

section \<open>Witnesses\<close>

text \<open>A prover whose key is the one every toy attestation gives.\<close>

definition demo_prover_crates :: prover_crates where
  "demo_prover_crates = local_crates.extend demo_local (prover_crates.fields
     (\<lambda>ikm. ikm) (\<lambda>p. p) (\<lambda>p m t e b. Some (b, replicate 32 6)) (\<lambda>k s a. Some a)
     (\<lambda>n t. n) (\<lambda>n t k. k) (\<lambda>n t k. JNull) (\<lambda>k t. k) (\<lambda>r k w f. Some []) (\<lambda>f. Some JNull)
     (\<lambda>b. None) (\<lambda>j. []) ''/attestation'' ''x-enc'' ''x-version'' ''1'')"

lemmas demo_prover_defs = demo_prover_crates_def prover_crates.defs demo_local_defs

definition demo_local_prover :: LocalProver where
  "demo_local_prover = \<lparr> lp_prover = replicate 32 9, lp_epoch_secs = 5, lp_policy = [], lp_upstream = ''u'' \<rparr>"

text \<open>A plaintext prover that takes a job and never says anything of it again.\<close>

definition demo_silent :: upstream_inputs where
  "demo_silent =
     \<lparr> ui_post = Some (200, Some []), ui_started = 3, ui_until_read = 0, ui_late = (\<lambda>i. 0),
       ui_replies = (\<lambda>i. PollLost) \<rparr>"

definition demo_sealed_request :: "SealedProverRequest \<Rightarrow> prover_request" where
  "demo_sealed_request sealed =
     \<lparr> prq_method = ''POST'', prq_path = sprq_target sealed, prq_query = None,
       prq_headers = [(''x-enc'', as_bytes (hex_encode demo_prover_crates (sprq_enc sealed))), (''x-version'', as_bytes ''1'')],
       prq_body = sprq_ciphertext sealed \<rparr>"

theorem prover_request_ends_witness:
  "\<exists>sent response. prover_serve
     (demo_prover_crates \<lparr> json_from_slice := (\<lambda>b. Some (JObject [(''jobId'', JString ''j'')])) \<rparr>)
     demo_local_prover demo_silent
     \<lparr> prq_method = ''POST'', prq_path = ''/prove/merge_1_1'', prq_query = None,
       prq_headers = [(''x-enc'', as_bytes ''00''), (''x-version'', as_bytes ''1'')], prq_body = [1] \<rparr> = Some (sent, response) \<and>
     length sent \<le> 28"
proof -
  let ?C = "demo_prover_crates \<lparr> json_from_slice := (\<lambda>b. Some (JObject [(''jobId'', JString ''j'')])) \<rparr>"
  have policy: "policy_file_json ?C (lp_policy demo_local_prover) = Some JNull"
    by (simp add: demo_prover_defs)
  show ?thesis
    using prover_request_ends [OF policy, of demo_silent
        "\<lparr> prq_method = ''POST'', prq_path = ''/prove/merge_1_1'', prq_query = None,
          prq_headers = [(''x-enc'', as_bytes ''00''), (''x-version'', as_bytes ''1'')], prq_body = [1] \<rparr>"]
    by auto
qed

lemma demo_prover_hex: "hex_laws demo_prover_crates"
  using demo_hex_laws by (simp add: hex_laws_def demo_prover_defs)

lemma demo_prover_laws: "prover_laws demo_prover_crates"
  by (simp add: prover_laws_def demo_prover_defs)

lemma demo_prover_seals:
  "\<exists>sealed left. seal_prove demo_prover_crates [] demo_prove_request [0, 171] demo_sealing
     \<lparr> trust_signers = [], trust_anchors = [] \<rparr> 5 = Ok (sealed, left)"
proof -
  have "seal_prove demo_prover_crates = seal_prove demo_enclave"
    by (simp add: fun_eq_iff seal_prove_def attested_key_def complete_def field_hex_def demo_prover_defs)
  then show ?thesis using demo_seal_prove by simp
qed

theorem local_prover_opens_what_the_enclave_seals_witness:
  "\<exists>sealed left p. seal_prove demo_prover_crates [] demo_prove_request [0, 171] demo_sealing
       \<lparr> trust_signers = [], trust_anchors = [] \<rparr> 5 = Ok (sealed, left) \<and>
     prover_dispatch demo_prover_crates demo_local_prover demo_silent (demo_sealed_request sealed) =
       Some ([PostProve ''u/prove/merge_1_1'' p], sealed_answer demo_prover_crates (sprq_response_key sealed) 200 [])"
proof -
  obtain sealed left where sealed: "seal_prove demo_prover_crates [] demo_prove_request [0, 171] demo_sealing
     \<lparr> trust_signers = [], trust_anchors = [] \<rparr> 5 = Ok (sealed, left)"
    using demo_prover_seals by blast
  have attested: "attested_key demo_prover_crates demo_sealing \<lparr> trust_signers = [], trust_anchors = [] \<rparr> 5 =
      Ok (fixture_hpke_public demo_prover_crates (lp_prover demo_local_prover))"
    by (simp add: attested_key_def demo_prover_defs demo_local_prover_def)
  have names: "header_enc demo_prover_crates = ''x-enc''" "header_version demo_prover_crates = ''x-version''"
    "tee_version demo_prover_crates = ''1''" "json_from_slice demo_prover_crates b = None" for b
    by (simp_all add: demo_prover_defs)
  obtain key p where key: "proving_key demo_prove_request = Ok key" and
    "prover_dispatch demo_prover_crates demo_local_prover demo_silent (demo_sealed_request sealed) =
      map_option (\<lambda>(sent, status, answer).
          (sent, sealed_answer demo_prover_crates (sprq_response_key sealed) status answer))
        (forward demo_prover_crates demo_local_prover demo_silent key p)"
    using local_prover_opens_what_the_enclave_seals [OF demo_prover_hex demo_prover_laws sealed attested,
        of "demo_sealed_request sealed" demo_silent]
    by (auto simp: names demo_sealed_request_def)
  moreover have "key = ''merge_1_1''"
    using key by (simp add: proving_key_def demo_prove_request_def get_str_def map_of_bt_of
        circuit_family_def slot_count_def get_array_def MAX_PROVE_INPUTS_def starts_with_def decimal.simps
        digit_def char_of_def bit_0)
  ultimately show ?thesis
    using sealed by (auto simp: forward_def demo_silent_def demo_local_prover_def job_of_def names
        PROVE_SEGMENT_def)
qed

lemma demo_prover_fields:
  "hex_encode demo_prover_crates = hex_encode demo_local" "hex_decode demo_prover_crates = hex_decode demo_local"
  "pair_public demo_prover_crates = pair_public demo_local"
  "pair_from_master_seed demo_prover_crates = pair_from_master_seed demo_local"
  "p256_secret demo_prover_crates = p256_secret demo_local"
  "p256_public_key demo_prover_crates = p256_public_key demo_local"
  "p256_to_sec1 demo_prover_crates = p256_to_sec1 demo_local"
  by (simp_all add: demo_prover_defs)

lemma demo_prover_same:
  "decode_32 demo_prover_crates = decode_32 demo_local"
  "checked_testkit demo_prover_crates = checked_testkit demo_local"
  "public_of demo_prover_crates = public_of demo_local"
proof -
  show decode: "decode_32 demo_prover_crates = decode_32 demo_local"
    by (simp add: fun_eq_iff decode_32_def decode_lower_hex_array_def decode_lower_hex_def demo_prover_fields)
  show "checked_testkit demo_prover_crates = checked_testkit demo_local"
    "public_of demo_prover_crates = public_of demo_local"
    unfolding fun_eq_iff checked_testkit_def public_of_def public_key_uncompressed_def decode
      demo_prover_fields by (rule allI, rule refl)+
qed

lemma local_server_is_pinned_witness:
  "\<exists>st prover. local_main demo_prover_crates DEVNET (Some demo_local_testkit) (Some 5)
       (Some (Some (replicate 64 7))) False ''u/'' = Some (Ok (st, Some prover)) \<and>
     hex_encode demo_prover_crates (si_quorum_public_key (st_info st)) =
       tk_quorum_public_key demo_local_testkit"
proof -
  have trust: "testkit_prover_keys demo_prover_crates (Some demo_local_testkit) =
      Some (replicate 32 0x99, replicate 32 0x88)"
    by (simp add: testkit_prover_keys_def demo_prover_same demo_checked_testkit demo_testkit_keys demo_decode_32)
  have seeds: "local_testkit_qos_seeds demo_prover_crates (Some demo_local_testkit) =
      Some (replicate 32 0x45, replicate 32 0x51)"
    by (simp add: local_testkit_qos_seeds_def demo_prover_same demo_checked_testkit)
      (simp add: demo_local_testkit_def demo_decode_32)
  have pairs: "pair_from_master_seed demo_prover_crates b = Some b"
    "policy_signers_new demo_prover_crates n s t = Some []"
    "policy_file_sign demo_prover_crates r k w f = Some []" for b n s t r k w f
    by (simp_all add: demo_prover_defs)
  obtain prover where prover: "local_prover_new demo_prover_crates DEVNET (Some demo_local_testkit) (Some 5) ''u/'' = Some prover"
    by (simp add: local_prover_new_def trust checked_add_def POLICY_LIFETIME_SECS_def sign_policy_def pairs)
  obtain st where "local_unattested_state demo_prover_crates DEVNET (Some demo_local_testkit)
      (replicate 32 0x45) (replicate 32 0x51) (replicate 32 7)
      (StandIn (local_prover_anchors demo_prover_crates prover)) = Some st"
    by (simp add: local_unattested_state_def demo_prover_same demo_checked_testkit demo_testkit_keys
        demo_public_of trust pairs Let_def)
  then have main: "local_main demo_prover_crates DEVNET (Some demo_local_testkit) (Some 5)
       (Some (Some (replicate 64 7))) False ''u/'' = Some (Ok (st, Some prover))"
    unfolding local_main_Ok using prover by (simp add: seeds pairs)
  from local_server_is_pinned [OF this] main show ?thesis by blast
qed

end
