(* ===== verification/Gateway_Base.thy ===== *)
theory Gateway_Base
  imports Enclave_Service
begin

text \<open>
  What the gateway (\<open>apps/tvc-gateway/src\<close>) is built from: the further third-party functions
  it calls, \<open>error.rs\<close> (every failure as an RFC 9457 problem) and the body extractor of \<open>json.rs\<close>.
  Metrics and logs change nothing the gateway decides and are left out. An \<open>Instant\<close> and a
  \<open>Duration\<close> are natural numbers of nanoseconds.
\<close>

section \<open>Third-party functions\<close>

record gateway_crates = enclave_crates +
  bs58_decode :: "string \<Rightarrow> bytes option"
  bs58_encode :: "bytes \<Rightarrow> string"
  ed25519_strict :: "bytes \<Rightarrow> bytes \<Rightarrow> bytes \<Rightarrow> bool"
  rfc3339_of_millis :: "nat \<Rightarrow> string option"
  uuid_parses :: "string \<Rightarrow> bool"

text \<open>
  \<open>ed25519_strict public message signature\<close>: the key is a point and \<open>verify_strict\<close> holds;
  \<open>rfc3339_of_millis\<close>: \<open>from_timestamp_millis\<close> and \<open>to_rfc3339_opts\<close> with milliseconds and \<open>Z\<close>;
  \<open>uuid_parses\<close>: \<open>Uuid::parse_str\<close> succeeds.
\<close>

section \<open>Errors\<close>

text \<open>\<open>strum\<close> names a variant by its identifier, and reads the name back.\<close>

datatype ApiError =
    Api_InvalidJson
  | Api_InvalidEnrollmentRequest
  | Api_StaleEnrollment
  | Api_InvalidOwnerEnrollmentSignature
  | Api_OriginAuthRequired
  | Api_ProjectRequired
  | Api_ApiKeyRequired
  | Api_ApiKeyInvalid
  | Api_WaasNotEnabled
  | Api_InvalidDescriptor
  | Api_DescriptorExpired
  | Api_ClientKeyRevoked
  | Api_WalletNotOwned
  | Api_SubOrganizationNotOwned
  | Api_TurnkeyRejected
  | Api_NotFound
  | Api_OperationInProgress
  | Api_RequestTooLarge
  | Api_TooManyInFlight
  | Api_EnclaveUnavailable
  | Api_InvalidEnclaveAnswer
  | Api_UpstreamResponseTooLarge
  | Api_BootProofUnavailable
  | Api_TurnkeyUnavailable
  | Api_TurnkeyUnauthorized
  | Api_TurnkeyRateLimited
  | Api_ReplayGuardUnavailable
  | Api_ProvisionerUnavailable
  | Api_WalletGrantUnavailable
  | Api_ApiKeyLookupUnavailable
  | Api_ClockUnavailable
  | Api_ReleaseExpired

fun api_error_code :: "ApiError \<Rightarrow> string" where
  "api_error_code Api_InvalidJson = ''InvalidJson''"
| "api_error_code Api_InvalidEnrollmentRequest = ''InvalidEnrollmentRequest''"
| "api_error_code Api_StaleEnrollment = ''StaleEnrollment''"
| "api_error_code Api_InvalidOwnerEnrollmentSignature = ''InvalidOwnerEnrollmentSignature''"
| "api_error_code Api_OriginAuthRequired = ''OriginAuthRequired''"
| "api_error_code Api_ProjectRequired = ''ProjectRequired''"
| "api_error_code Api_ApiKeyRequired = ''ApiKeyRequired''"
| "api_error_code Api_ApiKeyInvalid = ''ApiKeyInvalid''"
| "api_error_code Api_WaasNotEnabled = ''WaasNotEnabled''"
| "api_error_code Api_InvalidDescriptor = ''InvalidDescriptor''"
| "api_error_code Api_DescriptorExpired = ''DescriptorExpired''"
| "api_error_code Api_ClientKeyRevoked = ''ClientKeyRevoked''"
| "api_error_code Api_WalletNotOwned = ''WalletNotOwned''"
| "api_error_code Api_SubOrganizationNotOwned = ''SubOrganizationNotOwned''"
| "api_error_code Api_TurnkeyRejected = ''TurnkeyRejected''"
| "api_error_code Api_NotFound = ''NotFound''"
| "api_error_code Api_OperationInProgress = ''OperationInProgress''"
| "api_error_code Api_RequestTooLarge = ''RequestTooLarge''"
| "api_error_code Api_TooManyInFlight = ''TooManyInFlight''"
| "api_error_code Api_EnclaveUnavailable = ''EnclaveUnavailable''"
| "api_error_code Api_InvalidEnclaveAnswer = ''InvalidEnclaveAnswer''"
| "api_error_code Api_UpstreamResponseTooLarge = ''UpstreamResponseTooLarge''"
| "api_error_code Api_BootProofUnavailable = ''BootProofUnavailable''"
| "api_error_code Api_TurnkeyUnavailable = ''TurnkeyUnavailable''"
| "api_error_code Api_TurnkeyUnauthorized = ''TurnkeyUnauthorized''"
| "api_error_code Api_TurnkeyRateLimited = ''TurnkeyRateLimited''"
| "api_error_code Api_ReplayGuardUnavailable = ''ReplayGuardUnavailable''"
| "api_error_code Api_ProvisionerUnavailable = ''ProvisionerUnavailable''"
| "api_error_code Api_WalletGrantUnavailable = ''WalletGrantUnavailable''"
| "api_error_code Api_ApiKeyLookupUnavailable = ''ApiKeyLookupUnavailable''"
| "api_error_code Api_ClockUnavailable = ''ClockUnavailable''"
| "api_error_code Api_ReleaseExpired = ''ReleaseExpired''"

fun api_error_detail :: "ApiError \<Rightarrow> string" where
  "api_error_detail Api_InvalidJson =
     ''the body is not the JSON this endpoint takes''"
| "api_error_detail Api_InvalidEnrollmentRequest =
     ''the enrollment names an invalid organization, wallet, address or client key''"
| "api_error_detail Api_StaleEnrollment =
     ''the enrollment is more than five minutes old or more than a minute ahead''"
| "api_error_detail Api_InvalidOwnerEnrollmentSignature =
     ''the wallet address did not sign this enrollment''"
| "api_error_detail Api_OriginAuthRequired =
     ''the request did not come through gatekeeper''"
| "api_error_detail Api_ProjectRequired =
     ''the request names no valid project''"
| "api_error_detail Api_ApiKeyRequired =
     ''the request carries no Helius API key''"
| "api_error_detail Api_ApiKeyInvalid =
     ''Helius does not know this API key''"
| "api_error_detail Api_WaasNotEnabled =
     ''the API key'' @ [CHR 0x27] @ ''s project cannot use WaaS: its plan, or the WaaS rollout''"
| "api_error_detail Api_InvalidDescriptor =
     ''this gateway did not provision the descriptor for the current release''"
| "api_error_detail Api_DescriptorExpired =
     ''the descriptor has expired: enroll the client key again''"
| "api_error_detail Api_ClientKeyRevoked =
     ''the descriptor'' @ [CHR 0x27] @ ''s client key is revoked''"
| "api_error_detail Api_WalletNotOwned =
     ''the wallet does not hold the claimed address''"
| "api_error_detail Api_SubOrganizationNotOwned =
     ''the wallet'' @ [CHR 0x27] @ ''s sub-organization belongs to another project''"
| "api_error_detail Api_TurnkeyRejected =
     ''Turnkey refused the ownership check''"
| "api_error_detail Api_NotFound =
     ''no such endpoint''"
| "api_error_detail Api_OperationInProgress =
     ''an operation with this ciphertext is still running''"
| "api_error_detail Api_RequestTooLarge =
     ''the body is too large''"
| "api_error_detail Api_TooManyInFlight =
     ''too many requests in flight''"
| "api_error_detail Api_EnclaveUnavailable =
     ''the enclave did not answer''"
| "api_error_detail Api_InvalidEnclaveAnswer =
     ''the enclave'' @ [CHR 0x27] @ ''s answer is malformed''"
| "api_error_detail Api_UpstreamResponseTooLarge =
     ''the enclave'' @ [CHR 0x27] @ ''s answer is too large''"
| "api_error_detail Api_BootProofUnavailable =
     ''Turnkey has no Boot Proof for the replica that answered''"
| "api_error_detail Api_TurnkeyUnavailable =
     ''Turnkey did not answer''"
| "api_error_detail Api_TurnkeyUnauthorized =
     ''Turnkey refused this gateway'' @ [CHR 0x27] @ ''s API key''"
| "api_error_detail Api_TurnkeyRateLimited =
     ''Turnkey rate-limited this gateway''"
| "api_error_detail Api_ReplayGuardUnavailable =
     ''the replay guard did not answer''"
| "api_error_detail Api_ProvisionerUnavailable =
     ''the descriptor could not be signed''"
| "api_error_detail Api_WalletGrantUnavailable =
     ''the wallet grant could not be signed''"
| "api_error_detail Api_ApiKeyLookupUnavailable =
     ''the API key could not be checked''"
| "api_error_detail Api_ClockUnavailable =
     ''the gateway clock is unavailable''"
| "api_error_detail Api_ReleaseExpired =
     ''the release this gateway issues descriptors under has expired''"

fun api_error_status :: "ApiError \<Rightarrow> nat" where
  "api_error_status Api_InvalidJson = 400"
| "api_error_status Api_InvalidEnrollmentRequest = 400"
| "api_error_status Api_StaleEnrollment = 400"
| "api_error_status Api_InvalidOwnerEnrollmentSignature = 400"
| "api_error_status Api_OriginAuthRequired = 401"
| "api_error_status Api_ProjectRequired = 401"
| "api_error_status Api_ApiKeyRequired = 401"
| "api_error_status Api_ApiKeyInvalid = 401"
| "api_error_status Api_WaasNotEnabled = 403"
| "api_error_status Api_InvalidDescriptor = 403"
| "api_error_status Api_DescriptorExpired = 403"
| "api_error_status Api_ClientKeyRevoked = 403"
| "api_error_status Api_WalletNotOwned = 403"
| "api_error_status Api_SubOrganizationNotOwned = 403"
| "api_error_status Api_TurnkeyRejected = 403"
| "api_error_status Api_NotFound = 404"
| "api_error_status Api_OperationInProgress = 409"
| "api_error_status Api_RequestTooLarge = 413"
| "api_error_status Api_TooManyInFlight = 429"
| "api_error_status Api_EnclaveUnavailable = 424"
| "api_error_status Api_InvalidEnclaveAnswer = 424"
| "api_error_status Api_UpstreamResponseTooLarge = 424"
| "api_error_status Api_BootProofUnavailable = 424"
| "api_error_status Api_TurnkeyUnavailable = 424"
| "api_error_status Api_TurnkeyUnauthorized = 424"
| "api_error_status Api_TurnkeyRateLimited = 424"
| "api_error_status Api_ReplayGuardUnavailable = 424"
| "api_error_status Api_ProvisionerUnavailable = 424"
| "api_error_status Api_WalletGrantUnavailable = 424"
| "api_error_status Api_ApiKeyLookupUnavailable = 424"
| "api_error_status Api_ClockUnavailable = 503"
| "api_error_status Api_ReleaseExpired = 503"

definition api_errors :: "ApiError list" where
  "api_errors =
     [Api_InvalidJson, Api_InvalidEnrollmentRequest, Api_StaleEnrollment,
      Api_InvalidOwnerEnrollmentSignature, Api_OriginAuthRequired, Api_ProjectRequired,
      Api_ApiKeyRequired, Api_ApiKeyInvalid, Api_WaasNotEnabled,
      Api_InvalidDescriptor, Api_DescriptorExpired, Api_ClientKeyRevoked,
      Api_WalletNotOwned, Api_SubOrganizationNotOwned, Api_TurnkeyRejected,
      Api_NotFound, Api_OperationInProgress, Api_RequestTooLarge,
      Api_TooManyInFlight, Api_EnclaveUnavailable, Api_InvalidEnclaveAnswer,
      Api_UpstreamResponseTooLarge, Api_BootProofUnavailable, Api_TurnkeyUnavailable,
      Api_TurnkeyUnauthorized, Api_TurnkeyRateLimited, Api_ReplayGuardUnavailable,
      Api_ProvisionerUnavailable, Api_WalletGrantUnavailable, Api_ApiKeyLookupUnavailable,
      Api_ClockUnavailable, Api_ReleaseExpired]"

definition api_error_from_str :: "string \<Rightarrow> ApiError option" where
  "api_error_from_str s = find (\<lambda>e. api_error_code e = s) api_errors"

text \<open>\<open>canonical_reason\<close> of the statuses above.\<close>

definition canonical_reason :: "nat \<Rightarrow> string option" where
  "canonical_reason status =
     map_of [(400, ''Bad Request''), (401, ''Unauthorized''), (403, ''Forbidden''), (404, ''Not Found''),
       (409, ''Conflict''), (413, ''Payload Too Large''), (424, ''Failed Dependency''),
       (429, ''Too Many Requests''), (503, ''Service Unavailable'')] status"

fun retry_after :: "ApiError \<Rightarrow> string option" where
  "retry_after Api_TooManyInFlight = Some ''1''"
| "retry_after Api_OperationInProgress = Some ''1''"
| "retry_after _ = None"

record Problem =
  pb_title :: string
  pb_status :: nat
  pb_detail :: string
  pb_code :: string

text \<open>Bodies before \<open>serde_json\<close> writes them; raw JSON is passed on as it came.\<close>

datatype gateway_body =
    ProblemBody Problem
  | ForwardedBody bytes
  | SessionBody (session_info: bytes) (session_ping: bytes) (session_boot_proof: bytes)
  | EnrolledBody WalletDescriptor
  | OperatedBody (operated_response: bytes) (operated_boot_proof: bytes)
  | HealthBody
  | EmptyBody

record gateway_response =
  gr_status :: nat
  gr_content_type :: bytes
  gr_retry_after :: "string option"
  gr_idempotent_replayed :: bool
  gr_body :: gateway_body

definition problem_of :: "ApiError \<Rightarrow> Problem" where
  "problem_of e =
     \<lparr> pb_title = (case canonical_reason (api_error_status e) of Some r \<Rightarrow> r | None \<Rightarrow> ''Error''),
       pb_status = api_error_status e, pb_detail = api_error_detail e, pb_code = api_error_code e \<rparr>"

definition api_error_response :: "ApiError \<Rightarrow> gateway_response" where
  "api_error_response e =
     \<lparr> gr_status = api_error_status e, gr_content_type = as_bytes ''application/problem+json'',
       gr_retry_after = retry_after e, gr_idempotent_replayed = False,
       gr_body = ProblemBody (problem_of e) \<rparr>"

definition json_response :: "gateway_body \<Rightarrow> gateway_response" where
  "json_response body =
     \<lparr> gr_status = 200, gr_content_type = as_bytes ''application/json'', gr_retry_after = None,
       gr_idempotent_replayed = False, gr_body = body \<rparr>"

lemma api_errors_complete: "e \<in> set api_errors"
  by (cases e) (simp_all add: api_errors_def)

lemma api_error_code_inject: "api_error_code a = api_error_code b \<longleftrightarrow> a = b"
  by (cases a; cases b) simp_all

lemma find_eq_Some: "e \<in> set xs \<Longrightarrow> find (\<lambda>x. x = e) xs = Some e"
  by (induction xs) auto

lemma api_error_from_code [simp]: "api_error_from_str (api_error_code e) = Some e"
  using find_eq_Some [OF api_errors_complete, of e]
  by (simp add: api_error_from_str_def api_error_code_inject)

lemma api_error_status_cases: "api_error_status e \<in> {400, 401, 403, 404, 409, 413, 424, 429, 503}"
  by (cases e) simp_all

section \<open>Time\<close>

type_synonym instant = nat

definition from_secs :: "nat \<Rightarrow> nat" where
  "from_secs secs = 1000000000 * secs"

section \<open>Bodies\<close>

text \<open>
  \<open>ApiJson::from_request\<close>: \<open>Bytes::from_request\<close> gives the body, or the status of its refusal;
  \<open>parse\<close> is \<open>serde_json::from_slice\<close> at the endpoint's type.
\<close>

definition api_json :: "(bytes \<Rightarrow> 'a option) \<Rightarrow> nat + bytes \<Rightarrow> ApiError + 'a" where
  "api_json parse received =
     and_then
       (map_err (\<lambda>status. if status = 413 then Api_RequestTooLarge else Api_InvalidJson) received)
       (\<lambda>body. ok_or Api_InvalidJson (parse body))"

section \<open>A concrete instance\<close>

text \<open>The toy functions of the enclave's instance, and toy ones for the gateway's own packages.\<close>

definition demo_gateway :: gateway_crates where
  "demo_gateway = enclave_crates.extend demo_enclave (gateway_crates.fields
     demo_hex_decode demo_hex_encode
     (\<lambda>p m s. s = demo_hash p @ demo_hash m)
     (\<lambda>n. Some (decimal n))
     (\<lambda>s. True))"

lemma demo_gateway_fields:
  "hex_encode demo_gateway = demo_hex_encode" "hex_decode demo_gateway = demo_hex_decode"
  "sha256_hash demo_gateway = demo_hash"
  "sec1_point demo_gateway = sec1_point demo_crates"
  "sec1_is_compressed demo_gateway = sec1_is_compressed demo_crates"
  "p256_from_point demo_gateway = p256_from_point demo_crates"
  "p256_to_sec1 demo_gateway = p256_to_sec1 demo_crates"
  "p256_secret demo_gateway = p256_secret demo_crates"
  "p256_public_key demo_gateway = p256_public_key demo_crates"
  "p256_ecdh demo_gateway = p256_ecdh demo_crates"
  "ecdsa_from_slice demo_gateway = ecdsa_from_slice demo_crates"
  "ecdsa_normalize_s demo_gateway = ecdsa_normalize_s demo_crates"
  "ecdsa_sign_prehash demo_gateway = ecdsa_sign_prehash demo_crates"
  "ecdsa_verify_prehash demo_gateway = ecdsa_verify_prehash demo_crates"
  "ecdsa_to_bytes demo_gateway = ecdsa_to_bytes demo_crates"
  "bs58_decode demo_gateway = demo_hex_decode" "bs58_encode demo_gateway = demo_hex_encode"
  "ed25519_strict demo_gateway = (\<lambda>p m s. s = demo_hash p @ demo_hash m)"
  "rfc3339_of_millis demo_gateway = (\<lambda>n. Some (decimal n))"
  "uuid_parses demo_gateway = (\<lambda>s. True)"
  "pubkey_from_str demo_gateway = (\<lambda>s. Some (demo_hash (as_bytes s)))"
  "uuid_hyphenated demo_gateway = (\<lambda>s. Some s)"
  by (simp_all add: demo_gateway_def demo_enclave_defs gateway_crates.defs)

lemma demo_gateway_laws:
  "hex_laws demo_gateway" "sha256_laws demo_gateway" "p256_laws demo_gateway" "ecdsa_laws demo_gateway"
  using demo_laws
  unfolding hex_laws_def sha256_laws_def p256_laws_def ecdsa_laws_def low_s_signature_def
    demo_gateway_fields by (simp_all add: demo_crates_def)

lemma demo_hex_decode_digits: "demo_hex_decode s = Some b \<Longrightarrow> list_all is_lower_hex_digit s"
  by (induction s arbitrary: b rule: demo_hex_decode.induct) (auto split: if_splits)

end
