(* ===== verification/Gateway_Projects.thy ===== *)
theory Gateway_Projects
  imports Gateway_Base "HOL-Library.AList"
begin

text \<open>
  \<open>project.rs\<close> and \<open>api_keys.rs\<close>: who a request speaks for. The bounded caches of the gateway
  (API keys here, sub-organizations and Boot Proofs in \<open>turnkey.rs\<close>) share one interface, the
  locale \<open>bounded_cache\<close>: what a lookup can return after any run of insertions, and how large the
  cache grows. A \<open>HashMap\<close> is an association list with distinct keys; \<open>AList.update\<close> is
  \<open>insert\<close>.
\<close>

section \<open>Bounded caches\<close>

text \<open>\<open>if cache.len() >= capacity { cache.clear() } cache.insert(k, v)\<close>\<close>

definition capped_insert :: "nat \<Rightarrow> 'k \<Rightarrow> 'v \<Rightarrow> ('k \<times> 'v) list \<Rightarrow> ('k \<times> 'v) list" where
  "capped_insert capacity k v cache = AList.update k v (if length cache \<ge> capacity then [] else cache)"

lemma length_update: "length (AList.update k v m) \<le> Suc (length m)"
  by (induction m) auto

lemma length_capped_insert:
  "0 < capacity \<Longrightarrow> length m \<le> capacity \<Longrightarrow> length (capped_insert capacity k v m) \<le> capacity"
  using length_update [of k v m] by (auto simp: capped_insert_def)

lemma map_of_capped_insert [simp]: "map_of (capped_insert capacity k v m) k = Some v"
  by (simp add: capped_insert_def update_conv)

lemma map_of_capped_insert_other:
  "l \<noteq> k \<Longrightarrow> map_of (capped_insert capacity k v m) l = Some w \<Longrightarrow> map_of m l = Some w"
  by (simp add: capped_insert_def update_conv split: if_splits)

lemma distinct_capped_insert:
  "distinct (map fst m) \<Longrightarrow> distinct (map fst (capped_insert capacity k v m))"
  by (simp add: capped_insert_def distinct_update)

locale bounded_cache =
  fixes empty :: "'c"
    and look :: "'c \<Rightarrow> 'k \<Rightarrow> instant \<Rightarrow> 'v option"
    and keep :: "'c \<Rightarrow> 'k \<Rightarrow> 'v \<Rightarrow> instant \<Rightarrow> 'c"
    and entries :: "'c \<Rightarrow> nat"
    and capacity :: "nat"
    and alive :: "'v \<Rightarrow> instant \<Rightarrow> instant \<Rightarrow> bool"
  assumes look_empty: "look empty k now = None"
    and look_kept: "look (keep c k v t) k now = (if alive v t now then Some v else None)"
    and look_other: "l \<noteq> k \<Longrightarrow> look (keep c k v t) l now = Some w \<Longrightarrow> look c l now = Some w"
    and entries_empty: "entries empty = 0"
    and entries_keep: "entries c \<le> capacity \<Longrightarrow> entries (keep c k v t) \<le> capacity"
begin

text \<open>The cache after a run of insertions, the latest first.\<close>

definition after :: "('k \<times> 'v \<times> instant) list \<Rightarrow> 'c" where
  "after kept = foldr (\<lambda>(k, v, t) c. keep c k v t) kept empty"

lemma after_simps [simp]:
  "after [] = empty" "after ((k, v, t) # kept) = keep (after kept) k v t"
  by (simp_all add: after_def)

text \<open>What a lookup returns was inserted under that key and is still alive.\<close>

lemma look_sound: "look (after kept) k now = Some v \<Longrightarrow> \<exists>t. (k, v, t) \<in> set kept \<and> alive v t now"
proof (induction kept)
  case (Cons e kept)
  obtain l w t where e: "e = (l, w, t)" by (cases e)
  show ?case
  proof (cases "l = k")
    case True
    with Cons.prems show ?thesis by (auto simp: e look_kept split: if_splits)
  next
    case False
    then have "look (after kept) k now = Some v"
      using Cons.prems by (auto simp: e intro: look_other)
    with Cons.IH show ?thesis by auto
  qed
qed (simp add: look_empty)

lemma entries_bounded: "entries (after kept) \<le> capacity"
  by (induction kept) (auto simp: entries_empty entries_keep)

end

section \<open>Project ids\<close>

definition MAX_PROJECT_ID_LEN :: nat where
  "MAX_PROJECT_ID_LEN = 64"

definition PROJECT_ID_HEADER :: string where
  "PROJECT_ID_HEADER = ''x-helius-project-id''"

definition API_KEY_HEADER :: string where
  "API_KEY_HEADER = ''x-api-key''"

definition API_KEY_PARAM :: string where
  "API_KEY_PARAM = ''api-key=''"

definition is_ascii_alphanumeric :: "char \<Rightarrow> bool" where
  "is_ascii_alphanumeric c \<longleftrightarrow>
     48 \<le> ascii c \<and> ascii c \<le> 57 \<or> 65 \<le> ascii c \<and> ascii c \<le> 90 \<or> 97 \<le> ascii c \<and> ascii c \<le> 122"

type_synonym ProjectId = string

definition project_id_parse :: "string \<Rightarrow> ProjectId option" where
  "project_id_parse v =
     (let valid = v \<noteq> [] \<and> length v \<le> MAX_PROJECT_ID_LEN \<and>
        list_all (\<lambda>c. is_ascii_alphanumeric c \<or> c = CHR ''-'') v in
      if valid then Some v else None)"

text \<open>What every \<open>ProjectId\<close> is: its constructor is private to the module.\<close>

definition project_id :: "ProjectId \<Rightarrow> bool" where
  "project_id p \<longleftrightarrow> project_id_parse p = Some p"

lemma project_id_parse_Some: "project_id_parse v = Some p \<Longrightarrow> p = v \<and> project_id p"
  by (auto simp: project_id_def project_id_parse_def Let_def split: if_splits)

lemma ascii_zero: "of_char c = (0 :: byte) \<longleftrightarrow> ascii c = 0"
proof -
  have "of_char c = (0 :: byte) \<longleftrightarrow> unat (of_char c :: byte) = 0" by (simp only: unat_eq_zero)
  then show ?thesis by (simp only: unat_of_char ascii_def)
qed

text \<open>A project id holds no NUL byte.\<close>

lemma project_id_no_nul: "project_id p \<Longrightarrow> 0 \<notin> set (as_bytes p)"
proof -
  assume "project_id p"
  then have "list_all (\<lambda>c. is_ascii_alphanumeric c \<or> c = CHR ''-'') p"
    by (auto simp: project_id_def project_id_parse_def Let_def split: if_splits)
  moreover have "ascii CHR ''-'' = 45" by (simp add: ascii_def)
  ultimately have "\<forall>c \<in> set p. ascii c \<noteq> 0"
    by (auto simp: list_all_iff is_ascii_alphanumeric_def)
  then have "\<forall>c \<in> set p. of_char c \<noteq> (0 :: byte)" unfolding ascii_zero .
  then show ?thesis by (auto simp: as_bytes_def)
qed

section \<open>API keys\<close>

definition REJECTION_TTL :: nat where
  "REJECTION_TTL = from_secs 30"

definition CACHE_CAPACITY :: nat where
  "CACHE_CAPACITY = 100000"

definition MAX_API_KEY_LEN :: nat where
  "MAX_API_KEY_LEN = 64"

text \<open>A key's project, or why dev-api refused it.\<close>

type_synonym Resolved = "ApiError + ProjectId"

record ApiKeys =
  ak_project_ttl :: nat
  ak_cache :: "(bytes \<times> Resolved \<times> instant) list"

definition api_keys_new :: "nat \<Rightarrow> ApiKeys" where
  "api_keys_new project_cache_secs =
     \<lparr> ak_project_ttl = from_secs project_cache_secs, ak_cache = [] \<rparr>"

definition is_api_key :: "string \<Rightarrow> bool" where
  "is_api_key v \<longleftrightarrow> v \<noteq> [] \<and> length v \<le> MAX_API_KEY_LEN \<and>
     list_all (\<lambda>c. is_ascii_alphanumeric c \<or> c = CHR ''-'') v"

text \<open>dev-api's answer: none, or a status and the \<open>projectId\<close> of a body that parses.\<close>

datatype dev_api_reply = NoReply | Reply nat "string option option"

definition is_success :: "nat \<Rightarrow> bool" where
  "is_success status \<longleftrightarrow> 200 \<le> status \<and> status < 300"

fun fetch :: "dev_api_reply \<Rightarrow> ApiError + Resolved" where
  "fetch NoReply = Err Api_ApiKeyLookupUnavailable"
| "fetch (Reply status config) =
     (if status = 401 then Ok (Err Api_ApiKeyInvalid)
      else if status = 403 then Ok (Err Api_WaasNotEnabled)
      else if \<not> is_success status then Err Api_ApiKeyLookupUnavailable
      else
        and_then (ok_or Api_ApiKeyLookupUnavailable config) (\<lambda>project.
        case Option.bind project project_id_parse of
          Some p \<Rightarrow> Ok (Ok p)
        | None \<Rightarrow> Err Api_ApiKeyLookupUnavailable))"

definition resolved_ttl :: "nat \<Rightarrow> Resolved \<Rightarrow> nat" where
  "resolved_ttl project_ttl resolved = (if is_ok resolved then project_ttl else REJECTION_TTL)"

definition api_keys_cached :: "ApiKeys \<Rightarrow> bytes \<Rightarrow> instant \<Rightarrow> Resolved option" where
  "api_keys_cached s digest now =
     (case map_of (ak_cache s) digest of
        None \<Rightarrow> None
      | Some (resolved, fetched_at) \<Rightarrow>
          if now - fetched_at < resolved_ttl (ak_project_ttl s) resolved then Some resolved else None)"

definition api_keys_store :: "ApiKeys \<Rightarrow> bytes \<Rightarrow> Resolved \<Rightarrow> instant \<Rightarrow> ApiKeys" where
  "api_keys_store s digest resolved now =
     s \<lparr> ak_cache := capped_insert CACHE_CAPACITY digest (resolved, now) (ak_cache s) \<rparr>"

text \<open>
  \<open>ApiKeys::project\<close>, with dev-api's reply should it be asked. The cache is locked twice: when
  it is read at \<open>now\<close> and when the answer is stored at \<open>later\<close>.
\<close>

definition api_keys_project ::
    "'x crates_scheme \<Rightarrow> dev_api_reply \<Rightarrow> instant \<Rightarrow> instant \<Rightarrow> ApiKeys \<Rightarrow> string \<Rightarrow> Resolved \<times> ApiKeys"
  where
  "api_keys_project C reply now later s api_key =
     (if \<not> is_api_key api_key then (Err Api_ApiKeyInvalid, s)
      else
        let digest = sha256_hash C (as_bytes api_key) in
        case api_keys_cached s digest now of
          Some resolved \<Rightarrow> (resolved, s)
        | None \<Rightarrow>
            (case fetch reply of
               Inl e \<Rightarrow> (Err e, s)
             | Inr resolved \<Rightarrow> (resolved, api_keys_store s digest resolved later)))"

section \<open>The caller\<close>

text \<open>The parts of a request the caller is read from; header names are lower case.\<close>

record Parts =
  pt_headers :: "(string \<times> bytes) list"
  pt_query :: "string option"

definition api_key :: "Parts \<Rightarrow> string option" where
  "api_key parts =
     (case map_of (pt_headers parts) API_KEY_HEADER of
        Some header \<Rightarrow> header_to_str header
      | None \<Rightarrow>
          Option.bind (pt_query parts) (\<lambda>query.
          find_map (strip_prefix API_KEY_PARAM) (split_on CHR ''&'' query)))"

definition gatekeeper_project :: "Parts \<Rightarrow> bytes \<Rightarrow> string \<Rightarrow> ApiError + ProjectId" where
  "gatekeeper_project parts presented origin_auth_header =
     (if presented \<noteq> as_bytes origin_auth_header then Err Api_OriginAuthRequired
      else ok_or Api_ProjectRequired
        (Option.bind (Option.bind (map_of (pt_headers parts) PROJECT_ID_HEADER) header_to_str)
           project_id_parse))"

definition caller ::
    "'x crates_scheme \<Rightarrow> string \<Rightarrow> dev_api_reply \<Rightarrow> instant \<Rightarrow> instant \<Rightarrow> ApiKeys \<Rightarrow> Parts \<Rightarrow>
     (ApiError + ProjectId) \<times> ApiKeys" where
  "caller C origin_auth_header reply now later s parts =
     (case map_of (pt_headers parts) ''authorization'' of
        Some presented \<Rightarrow> (gatekeeper_project parts presented origin_auth_header, s)
      | None \<Rightarrow>
          (case api_key parts of
             None \<Rightarrow> (Err Api_ApiKeyRequired, s)
           | Some key \<Rightarrow> api_keys_project C reply now later s key))"

section \<open>Facts\<close>

text \<open>
  The cache of API keys, with a lookup's answer alive for the time to live of its kind.
\<close>

definition resolved_alive :: "nat \<Rightarrow> Resolved \<Rightarrow> instant \<Rightarrow> instant \<Rightarrow> bool" where
  "resolved_alive project_ttl resolved fetched_at now \<longleftrightarrow>
     now - fetched_at < resolved_ttl project_ttl resolved"

lemma capacity_pos: "0 < CACHE_CAPACITY"
  by (simp add: CACHE_CAPACITY_def)

interpretation key_cache: bounded_cache "[]"
    "\<lambda>c. api_keys_cached \<lparr> ak_project_ttl = ttl, ak_cache = c \<rparr>"
    "\<lambda>c d r t. capped_insert CACHE_CAPACITY d (r, t) c"
    length CACHE_CAPACITY "resolved_alive ttl" for ttl :: nat
proof unfold_locales
  show "api_keys_cached \<lparr> ak_project_ttl = ttl, ak_cache = c \<rparr> l now = Some w"
    if "l \<noteq> k" "api_keys_cached \<lparr> ak_project_ttl = ttl,
          ak_cache = capped_insert CACHE_CAPACITY k (v, t) c \<rparr> l now = Some w"
    for l k c v t now w
    using that(2) map_of_capped_insert_other [OF that(1), of CACHE_CAPACITY "(v, t)" c]
    by (cases "map_of (capped_insert CACHE_CAPACITY k (v, t) c) l")
      (auto simp add: api_keys_cached_def Let_def)
qed (simp_all add: api_keys_cached_def resolved_alive_def Let_def
    length_capped_insert capacity_pos)

text \<open>The keys after dev-api's answers, the latest first, were stored.\<close>

definition keys_after :: "nat \<Rightarrow> (bytes \<times> Resolved \<times> instant) list \<Rightarrow> ApiKeys" where
  "keys_after secs fetched =
     foldr (\<lambda>(digest, resolved, at) s. api_keys_store s digest resolved at) fetched (api_keys_new secs)"

definition dev_api_answers :: "(bytes \<times> Resolved \<times> instant) list \<Rightarrow> bool" where
  "dev_api_answers fetched \<longleftrightarrow> (\<forall>(digest, resolved, at) \<in> set fetched. \<exists>reply. fetch reply = Ok resolved)"

lemma keys_after_cache:
  "keys_after secs fetched =
     \<lparr> ak_project_ttl = from_secs secs, ak_cache = key_cache.after fetched \<rparr>"
  by (induction fetched) (auto simp: keys_after_def api_keys_new_def api_keys_store_def)

lemma keys_after_cached:
  "api_keys_cached (keys_after secs fetched) digest now = Some r \<Longrightarrow>
     \<exists>t. (digest, r, t) \<in> set fetched \<and> resolved_alive (from_secs secs) r t now"
  unfolding keys_after_cache by (rule key_cache.look_sound)

lemma keys_after_bounded: "length (ak_cache (keys_after secs fetched)) \<le> CACHE_CAPACITY"
  by (simp add: keys_after_cache key_cache.entries_bounded)

lemma keys_after_step: "api_keys_store (keys_after secs fetched) d r t = keys_after secs ((d, r, t) # fetched)"
  by (simp add: keys_after_def)

text \<open>What dev-api is ever recorded to have said of a key: a project or one of two refusals.\<close>

lemma fetch_Ok: "fetch reply = Ok r \<Longrightarrow> (\<exists>p. r = Ok p \<and> project_id p) \<or> r = Err Api_ApiKeyInvalid \<or> r = Err Api_WaasNotEnabled"
  by (cases reply) (auto simp: result_simps bind_eq_Some_conv dest: project_id_parse_Some
      split: if_splits option.splits)

lemma gatekeeper_project_Ok:
  "gatekeeper_project parts presented origin = Ok p \<longleftrightarrow>
     presented = as_bytes origin \<and>
     (\<exists>v name. map_of (pt_headers parts) PROJECT_ID_HEADER = Some v \<and> header_to_str v = Some name \<and>
        project_id_parse name = Some p)"
  by (auto simp: gatekeeper_project_def result_simps bind_eq_Some_conv)

lemma api_keys_project_outcome:
  assumes "dev_api_answers fetched"
    and "api_keys_project C reply now later (keys_after secs fetched) key = (r, s')"
  shows "(r = Err Api_ApiKeyInvalid \<and> \<not> is_api_key key \<and> s' = keys_after secs fetched) \<or>
    is_api_key key \<and>
    (let digest = sha256_hash C (as_bytes key) in
     (\<exists>t. (digest, r, t) \<in> set fetched \<and> resolved_alive (from_secs secs) r t now) \<and>
       s' = keys_after secs fetched \<or>
     fetch reply = Ok r \<and> s' = keys_after secs ((digest, r, later) # fetched) \<or>
     (\<exists>e. fetch reply = Err e \<and> r = Err e) \<and> s' = keys_after secs fetched)"
  using assms(2) keys_after_cached [of secs fetched "sha256_hash C (as_bytes key)" now]
  by (auto simp: api_keys_project_def Let_def keys_after_step split: if_splits option.splits sum.splits)

section \<open>Properties\<close>

definition dev_api_says :: "dev_api_reply \<Rightarrow> (bytes \<times> Resolved \<times> instant) list \<Rightarrow> nat \<Rightarrow> instant \<Rightarrow> bytes \<Rightarrow> ProjectId \<Rightarrow> bool"
  where
  "dev_api_says reply fetched ttl now digest p \<longleftrightarrow>
     fetch reply = Ok (Ok p) \<or> (\<exists>t. (digest, Ok p, t) \<in> set fetched \<and> now - t < ttl)"

text \<open>
  C26. A request speaks for a project only with the origin secret, which gatekeeper holds, and the
  project its header names, or with an API key whose project dev-api gave, now or less than the
  configured time ago; in every other case it is refused. A project id is always well formed. The
  cache stays within its capacity, and a failed lookup leaves it as it was.
\<close>

theorem caller_speaks_for_its_project:
  assumes "dev_api_answers fetched"
    and "caller C origin reply now later (keys_after secs fetched) parts = (r, s')"
  shows "(\<forall>p. r = Ok p \<longrightarrow> project_id p \<and>
      (case map_of (pt_headers parts) ''authorization'' of
         Some presented \<Rightarrow> presented = as_bytes origin \<and>
           map_of (pt_headers parts) PROJECT_ID_HEADER = Some (as_bytes p)
       | None \<Rightarrow> \<exists>key. api_key parts = Some key \<and> is_api_key key \<and>
           dev_api_says reply fetched (from_secs secs) now (sha256_hash C (as_bytes key)) p)) \<and>
    length (ak_cache s') \<le> CACHE_CAPACITY \<and>
    (r = Err Api_ApiKeyLookupUnavailable \<longrightarrow> s' = keys_after secs fetched)"
proof (cases "map_of (pt_headers parts) ''authorization''")
  case (Some presented)
  then have r: "r = gatekeeper_project parts presented origin" and s': "s' = keys_after secs fetched"
    using assms(2) by (auto simp: caller_def)
  have header: "v = as_bytes name" if "header_to_str v = Some name" for v name
    using that by (auto simp: header_to_str_def split: if_splits)
  show ?thesis
    unfolding r s' gatekeeper_project_Ok Some
    using header project_id_parse_Some keys_after_bounded by fastforce
next
  case None
  show ?thesis
  proof (cases "api_key parts")
    case none: None
    with None have "r = Err Api_ApiKeyRequired" "s' = keys_after secs fetched"
      using assms(2) by (auto simp: caller_def)
    then show ?thesis using keys_after_bounded by simp
  next
    case (Some key)
    have valid: "project_id p" if "(d, Ok p, t) \<in> set fetched \<or> fetch reply = Ok (Ok p)" for d p t
      using that assms(1) fetch_Ok by (fastforce simp: dev_api_answers_def)
    have stored: "fetch reply \<noteq> Ok (Err Api_ApiKeyLookupUnavailable)"
      "(d, Err Api_ApiKeyLookupUnavailable, t) \<notin> set fetched" for d t
      using assms(1) fetch_Ok by (fastforce simp: dev_api_answers_def)+
    from None Some assms(2)
    have "api_keys_project C reply now later (keys_after secs fetched) key = (r, s')"
      by (simp add: caller_def)
    from api_keys_project_outcome [OF assms(1) this] None Some show ?thesis
      using valid stored keys_after_bounded
      by (auto simp: dev_api_says_def Let_def resolved_alive_def resolved_ttl_def)
  qed
qed

text \<open>A project resolved two seconds ago, under a time to live of five minutes.\<close>

definition demo_key_parts :: Parts where
  "demo_key_parts = \<lparr> pt_headers = [], pt_query = Some ''a=1&api-key=k1'' \<rparr>"

definition demo_fetched :: "(bytes \<times> Resolved \<times> instant) list" where
  "demo_fetched = [(demo_hash (as_bytes ''k1''), Ok ''project-a'', 0)]"

theorem caller_speaks_for_its_project_witness:
  "fst (caller demo_crates ''origin'' NoReply (from_secs 2) 0 (keys_after 300 demo_fetched) demo_key_parts) =
     Ok ''project-a'' \<and>
   dev_api_says NoReply demo_fetched (from_secs 300) (from_secs 2) (demo_hash (as_bytes ''k1'')) ''project-a''"
proof -
  have fetched: "dev_api_answers demo_fetched"
    by (auto simp: dev_api_answers_def demo_fetched_def project_id_parse_def is_ascii_alphanumeric_def
        ascii_def MAX_PROJECT_ID_LEN_def is_success_def intro!: exI [of _ "Reply 200 (Some (Some ''project-a''))"])
  have key: "api_key demo_key_parts = Some ''k1''"
    by (simp add: api_key_def demo_key_parts_def API_KEY_PARAM_def)
  have "is_api_key ''k1''"
    by (simp add: is_api_key_def MAX_API_KEY_LEN_def is_ascii_alphanumeric_def ascii_def)
  then have "fst (caller demo_crates ''origin'' NoReply (from_secs 2) 0 (keys_after 300 demo_fetched)
      demo_key_parts) = Ok ''project-a''"
    using key by (simp add: caller_def api_keys_project_def api_keys_cached_def keys_after_def
        demo_fetched_def api_keys_store_def api_keys_new_def capped_insert_def resolved_ttl_def
        from_secs_def demo_key_parts_def CACHE_CAPACITY_def)
      (simp add: demo_crates_def resolved_ttl_def)
  then show ?thesis
    using caller_speaks_for_its_project [OF fetched surjective_pairing, of demo_crates "''origin''"
        NoReply "from_secs 2" 0 300 demo_key_parts] key
    by (simp add: demo_key_parts_def) (simp add: demo_crates_def)
qed

end
