(* ===== verification/Gateway_Config.thy ===== *)
theory Gateway_Config
  imports Gateway_Base
begin

text \<open>
  \<open>config.rs\<close>: the configuration a gateway starts with, the checks it must pass, and the loading
  of a signing key. How the files and the environment are merged into a \<open>Config\<close> is figment's
  and not modelled; settings no decision depends on (stage, listen address, metrics, paths) are
  left out. Errors are named by the check that failed; the code gives them a text.
\<close>

section \<open>Text\<close>

text \<open>The characters \<open>char::is_whitespace\<close> accepts, in UTF-8.\<close>

definition white_space :: "string list" where
  "white_space =
     map string_of_bytes
       ([[0x09], [0x0A], [0x0B], [0x0C], [0x0D], [0x20], [0xC2, 0x85], [0xC2, 0xA0], [0xE1, 0x9A, 0x80]]
        @ map (\<lambda>b. [0xE2, 0x80, b])
            [0x80, 0x81, 0x82, 0x83, 0x84, 0x85, 0x86, 0x87, 0x88, 0x89, 0x8A, 0xA8, 0xA9, 0xAF]
        @ [[0xE2, 0x81, 0x9F], [0xE3, 0x80, 0x80]])"

fun strip_any :: "string list \<Rightarrow> string \<Rightarrow> string option" where
  "strip_any [] s = None"
| "strip_any (p # ps) s = (case strip_prefix p s of Some t \<Rightarrow> Some t | None \<Rightarrow> strip_any ps s)"

text \<open>\<open>trim_start_matches\<close>: no pattern is empty.\<close>

function trim_start_matches :: "string list \<Rightarrow> string \<Rightarrow> string" where
  "trim_start_matches ps s =
     (case strip_any ps s of
        Some t \<Rightarrow> if length t < length s then trim_start_matches ps t else s
      | None \<Rightarrow> s)"
  by pat_completeness auto
termination by (relation "measure (\<lambda>(ps, s). length s)") auto

declare trim_start_matches.simps [simp del]

definition trim :: "string \<Rightarrow> string" where
  "trim s = rev (trim_start_matches (map rev white_space) (rev (trim_start_matches white_space s)))"

section \<open>Configuration\<close>

datatype Stage = Dev | Prod

record MetricsConfig =
  mc_statsd_endpoint :: string
  mc_prefix :: string

record EnrollmentConfig =
  enc_domains :: "string list"

record DevApiConfig =
  dac_base_url :: string
  dac_project_cache_secs :: u64

record EnclaveConfig =
  ec_base_url :: string
  ec_request_timeout_ms :: u64
  ec_max_body_bytes :: nat
  ec_max_in_flight_per_project :: u32
  ec_replay_window_secs :: u64
  ec_replay_max_entries :: nat
  ec_replay_redis_url :: "string option"

record TurnkeyApiKey =
  tak_public_key :: string
  tak_private_key :: string

record TurnkeyConfig =
  tkc_api_base_url :: string
  tkc_tvc_organization_id :: string
  tkc_boot_proof_api_key :: TurnkeyApiKey
  tkc_waas_api_key :: TurnkeyApiKey
  tkc_ownership_cache_secs :: u64

record ProvisioningConfig =
  pc_private_key :: string
  pc_expected_public_key :: string
  pc_release_path :: string
  pc_descriptor_ttl_secs :: u64

record WalletGrantConfig =
  wgc_private_key :: string
  wgc_expected_public_key :: string
  wgc_ttl_secs :: u64
  wgc_revoked_client_key_ids :: "string list"

text \<open>The socket address as its text.\<close>

record Config =
  cfg_network :: Network
  cfg_stage :: Stage
  cfg_listen :: string
  cfg_metrics :: MetricsConfig
  cfg_origin_auth_header :: string
  cfg_dev_api :: DevApiConfig
  cfg_enclave :: EnclaveConfig
  cfg_turnkey :: TurnkeyConfig
  cfg_provisioning :: ProvisioningConfig
  cfg_wallet_grant :: WalletGrantConfig
  cfg_enrollment :: EnrollmentConfig

datatype StartupError =
    OriginAuthHeaderTooShort
  | EnclaveUrlHasNoScheme
  | TvcOrganizationNotUuid
  | EnclaveUrlEndsWithSlash
  | DevApiUrlEndsWithSlash
  | DescriptorTtlZero
  | MaxInFlightZero
  | ReplaySettingsZero
  | EnrollmentDomainsInvalid
  | SigningKeyNotHex
  | SigningKeyNotP256
  | SigningKeyMismatch
  | GrantTtlOutOfRange
  | ClockBeforeEpoch
  | ReleaseFileUnreadable
  | ReleaseFileEmpty
  | ReleaseForOtherNetwork
  | ReleaseNotCurrent
  | ReleaseDoesNotVerify ErrorCode
  | ConfigUsage
  | OverlayExpected
  | ConfigUnreadable
  | MetricsUnavailable string
  | TurnkeyPrivateKeyNotHex
  | TurnkeyPublicKeyNotHex
  | TurnkeyKeyPairInvalid
  | ReplayServerUnavailable

definition MIN_SECRET_LEN :: nat where
  "MIN_SECRET_LEN = 32"

text \<open>The gateway's own check of a UUID's text; the enclave has another.\<close>

definition is_canonical_uuid_text :: "string \<Rightarrow> bool" where
  "is_canonical_uuid_text value \<longleftrightarrow>
     length value = 36 \<and>
     list_all (\<lambda>(index, c).
       if index \<in> {8, 13, 18, 23} then c = CHR ''-'' else is_lower_hex_digit c)
       (enumerate 0 value)"

definition domain_ok :: "string \<Rightarrow> bool" where
  "domain_ok domain \<longleftrightarrow>
     domain \<noteq> [] \<and> list_all (\<lambda>w. \<not> str_contains w domain) (''/'' # white_space)"

definition config_validate :: "Config \<Rightarrow> StartupError + unit" where
  "config_validate c =
     and_then (ensure (length (cfg_origin_auth_header c) \<ge> MIN_SECRET_LEN) OriginAuthHeaderTooShort) (\<lambda>_.
     and_then (ensure (list_ex (\<lambda>scheme. starts_with scheme (ec_base_url (cfg_enclave c)))
         [''https://'', ''http://'']) EnclaveUrlHasNoScheme) (\<lambda>_.
     and_then (ensure (is_canonical_uuid_text (tkc_tvc_organization_id (cfg_turnkey c)))
         TvcOrganizationNotUuid) (\<lambda>_.
     and_then (ensure (\<not> ends_with ''/'' (ec_base_url (cfg_enclave c))) EnclaveUrlEndsWithSlash) (\<lambda>_.
     and_then (ensure (\<not> ends_with ''/'' (dac_base_url (cfg_dev_api c))) DevApiUrlEndsWithSlash) (\<lambda>_.
     and_then (ensure (pc_descriptor_ttl_secs (cfg_provisioning c) > 0) DescriptorTtlZero) (\<lambda>_.
     and_then (ensure (ec_max_in_flight_per_project (cfg_enclave c) > 0) MaxInFlightZero) (\<lambda>_.
     and_then (ensure (ec_replay_window_secs (cfg_enclave c) > 0 \<and> ec_replay_max_entries (cfg_enclave c) > 0)
         ReplaySettingsZero) (\<lambda>_.
     ensure (enc_domains (cfg_enrollment c) \<noteq> [] \<and> list_all domain_ok (enc_domains (cfg_enrollment c)))
         EnrollmentDomainsInvalid))))))))"

section \<open>Loading\<close>

definition BASE_FILE :: string where
  "BASE_FILE = ''config.yaml''"

text \<open>\<open>Path::file_name\<close>: the last component, unless it is \<open>..\<close>; empty and \<open>.\<close> components do not count.\<close>

definition path_file_name :: "string \<Rightarrow> string option" where
  "path_file_name path =
     (let components = filter (\<lambda>c. c \<noteq> [] \<and> c \<noteq> ''.'') (split_on CHR ''/'' path) in
      if components = [] \<or> last components = ''..'' then None else Some (last components))"

text \<open>
  \<open>extract\<close> is what Figment makes of the shared file beside an overlay, the overlay and the environment,
  \<open>None\<close> where it fails.
\<close>

definition config_load :: "(string \<Rightarrow> Config option) \<Rightarrow> string \<Rightarrow> StartupError + Config" where
  "config_load extract overlay =
     and_then (ensure (case path_file_name overlay of None \<Rightarrow> False | Some name \<Rightarrow> name \<noteq> BASE_FILE)
         OverlayExpected) (\<lambda>_.
     and_then (ok_or ConfigUnreadable (extract overlay)) (\<lambda>config.
     and_then (config_validate config) (\<lambda>_. Ok config)))"

section \<open>Signing keys\<close>

text \<open>\<open>hex::decode_to_slice\<close> into \<open>n\<close> bytes\<close>

definition hex_decode_to_slice :: "'x crates_scheme \<Rightarrow> nat \<Rightarrow> string \<Rightarrow> bytes option" where
  "hex_decode_to_slice C n s =
     (case hex_decode C s of Some b \<Rightarrow> if length b = n then Some b else None | None \<Rightarrow> None)"

definition public_key_of :: "'x crates_scheme \<Rightarrow> bytes \<Rightarrow> bytes option" where
  "public_key_of C secret =
     Option.bind (p256_secret C secret) (\<lambda>key.
     let point = p256_to_sec1 C (p256_public_key C key) in
     if length point = 65 then Some point else None)"

definition load_signing_key ::
    "'x crates_scheme \<Rightarrow> string \<Rightarrow> string \<Rightarrow> StartupError + bytes \<times> bytes" where
  "load_signing_key C private_key_hex expected_public_key =
     and_then (ok_or SigningKeyNotHex (hex_decode_to_slice C 32 private_key_hex)) (\<lambda>secret.
     and_then (ok_or SigningKeyNotP256 (public_key_of C secret)) (\<lambda>public_key.
     if hex_encode C public_key \<noteq> expected_public_key then Err SigningKeyMismatch
     else Ok (secret, public_key)))"

section \<open>Facts\<close>

lemma load_signing_key_Ok:
  "load_signing_key C hex expected = Ok (secret, public) \<Longrightarrow>
     length secret = 32 \<and> hex_decode C hex = Some secret \<and> hex_encode C public = expected \<and>
     (\<exists>key. p256_secret C secret = Some key \<and> public = p256_to_sec1 C (p256_public_key C key) \<and>
        length public = 65)"
  by (auto simp: load_signing_key_def result_simps hex_decode_to_slice_def public_key_of_def
      bind_eq_Some_conv Let_def split: option.splits if_splits)

lemma config_validate_Ok:
  "config_validate c = Ok () \<longleftrightarrow>
     MIN_SECRET_LEN \<le> length (cfg_origin_auth_header c) \<and>
     (starts_with ''https://'' (ec_base_url (cfg_enclave c)) \<or> starts_with ''http://'' (ec_base_url (cfg_enclave c))) \<and>
     is_canonical_uuid_text (tkc_tvc_organization_id (cfg_turnkey c)) \<and>
     \<not> ends_with ''/'' (ec_base_url (cfg_enclave c)) \<and> \<not> ends_with ''/'' (dac_base_url (cfg_dev_api c)) \<and>
     0 < pc_descriptor_ttl_secs (cfg_provisioning c) \<and>
     0 < ec_max_in_flight_per_project (cfg_enclave c) \<and>
     0 < ec_replay_window_secs (cfg_enclave c) \<and> 0 < ec_replay_max_entries (cfg_enclave c) \<and>
     enc_domains (cfg_enrollment c) \<noteq> [] \<and> list_all domain_ok (enc_domains (cfg_enrollment c))"
  by (auto simp: config_validate_def result_simps)

text \<open>No character of a UUID, and none of a domain, is a line feed.\<close>

lemma uuid_text_no_newline: "is_canonical_uuid_text v \<Longrightarrow> CHR 0x0A \<notin> set v"
proof
  assume v: "is_canonical_uuid_text v" "CHR 0x0A \<in> set v"
  then obtain i where i: "i < length v" "v ! i = CHR 0x0A" by (auto simp: in_set_conv_nth)
  then have "(i, CHR 0x0A) \<in> set (enumerate 0 v)" by (auto simp: in_set_enumerate_eq)
  with v(1) have "is_lower_hex_digit (CHR 0x0A) \<or> CHR 0x0A = CHR ''-''"
    by (auto simp: is_canonical_uuid_text_def list_all_iff split: if_splits)
  then show False by (simp add: is_lower_hex_digit_def is_ascii_digit_def ascii_def)
qed

lemma domain_no_newline: "domain_ok d \<Longrightarrow> CHR 0x0A \<notin> set d"
proof
  assume d: "domain_ok d" "CHR 0x0A \<in> set d"
  then obtain a b where "d = a @ [CHR 0x0A] @ b" by (auto dest: split_list)
  then have "str_contains [CHR 0x0A] d" unfolding str_contains_iff by blast
  moreover have "[CHR 0x0A] \<in> set (''/'' # white_space)"
    by (simp add: white_space_def string_of_bytes_def char_of_def bit_0)
  ultimately show False using d(1) by (auto simp: domain_ok_def list_all_iff)
qed

end
