(* ===== verification/Gateway_Enrollment.thy ===== *)
theory Gateway_Enrollment
  imports Gateway_Projects Gateway_Config
begin

text \<open>
  \<open>enrollment.rs\<close>: the wallet owner's signed request for a client key. The owner signs a text
  that names the gateway's host, the wallet, the client key and the time; \<open>message\<close> builds it line
  by line.
\<close>

section \<open>Enrollment\<close>

definition STATEMENT :: string where
  "STATEMENT = ''Authorize this client key to use your private wallet.''"

definition MAX_ENROLLMENT_AGE_MS :: u64 where
  "MAX_ENROLLMENT_AGE_MS = 5 * 60 * 1000"

record EnrollmentRequest =
  enr_organization_id :: string
  enr_turnkey_wallet_id :: string
  enr_solana_address :: string
  enr_client_public_key :: string
  enr_issued_at_ms :: u64
  enr_owner_signature :: string

record EnrollmentInput =
  eni_organization_id :: string
  eni_turnkey_wallet_id :: string
  eni_solana_address :: string
  eni_owner_public_key :: bytes
  eni_client_public_key :: bytes
  eni_issued_at_ms :: u64

record Enrollment =
  en_network :: Network
  en_domains :: "string list"

definition rfc3339_millis :: "'x gateway_crates_scheme \<Rightarrow> u64 \<Rightarrow> string option" where
  "rfc3339_millis C ms = (if unat ms < 2 ^ 63 then rfc3339_of_millis C (unat ms) else None)"

definition newline :: string where
  "newline = [CHR 0x0A]"

definition message ::
    "'x gateway_crates_scheme \<Rightarrow> string \<Rightarrow> Network \<Rightarrow> EnrollmentRequest \<Rightarrow> string option" where
  "message C domain network request =
     Option.bind (rfc3339_millis C (enr_issued_at_ms request)) (\<lambda>issued_at.
     Option.bind (checked_add (enr_issued_at_ms request) MAX_ENROLLMENT_AGE_MS) (\<lambda>expires_at_ms.
     Option.bind (rfc3339_millis C expires_at_ms) (\<lambda>expires_at.
     Some (domain @ '' wants you to sign in with your Solana account:'' @ newline @
       enr_solana_address request @ newline @ newline @
       STATEMENT @ newline @ newline @
       ''Version: 1'' @ newline @
       ''Chain ID: '' @ network_as_str network @ newline @
       ''Issued At: '' @ issued_at @ newline @
       ''Expiration Time: '' @ expires_at @ newline @
       ''Resources:'' @ newline @
       ''- urn:turnkey:organization:'' @ enr_organization_id request @ newline @
       ''- urn:turnkey:wallet:'' @ enr_turnkey_wallet_id request @ newline @
       ''- urn:zolana-tvc:client-key:'' @ enr_client_public_key request))))"

text \<open>\<open>bs58::decode(..).onto(&mut [u8; 32])\<close> refuses more than 32 bytes.\<close>

definition solana_public_key :: "'x gateway_crates_scheme \<Rightarrow> string \<Rightarrow> bytes option" where
  "solana_public_key C address =
     (case bs58_decode C address of
        Some b \<Rightarrow> if length b = 32 \<and> bs58_encode C b = address then Some b else None
      | None \<Rightarrow> None)"

definition is_ascii_uppercase :: "char \<Rightarrow> bool" where
  "is_ascii_uppercase c \<longleftrightarrow> 65 \<le> ascii c \<and> ascii c \<le> 90"

definition client_public_key :: "'x gateway_crates_scheme \<Rightarrow> string \<Rightarrow> bytes option" where
  "client_public_key C value =
     (let lowercase = list_all (\<lambda>c. \<not> is_ascii_uppercase c) value in
      Option.bind (hex_decode_to_slice C 65 value) (\<lambda>b.
      case parse_uncompressed_sec1 C b of
        Inr _ \<Rightarrow> if lowercase then Some b else None
      | Inl _ \<Rightarrow> None))"

definition validate_enrollment ::
    "'x gateway_crates_scheme \<Rightarrow> EnrollmentRequest \<Rightarrow> ApiError + EnrollmentInput" where
  "validate_enrollment C request =
     (if \<not> is_canonical_uuid_text (enr_organization_id request)
         \<or> \<not> is_canonical_uuid_text (enr_turnkey_wallet_id request)
      then Err Api_InvalidEnrollmentRequest
      else
        and_then (ok_or Api_InvalidEnrollmentRequest (solana_public_key C (enr_solana_address request)))
          (\<lambda>owner_public_key.
        and_then (ok_or Api_InvalidEnrollmentRequest (client_public_key C (enr_client_public_key request)))
          (\<lambda>client_key.
        Ok \<lparr> eni_organization_id = enr_organization_id request,
             eni_turnkey_wallet_id = enr_turnkey_wallet_id request,
             eni_solana_address = enr_solana_address request,
             eni_owner_public_key = owner_public_key,
             eni_client_public_key = client_key,
             eni_issued_at_ms = enr_issued_at_ms request \<rparr>)))"

text \<open>The owner's key must be a point of the curve; \<open>ed25519_strict\<close> fails otherwise.\<close>

definition verify_owner_signature ::
    "'x gateway_crates_scheme \<Rightarrow> EnrollmentInput \<Rightarrow> string \<Rightarrow> string \<Rightarrow> ApiError + unit" where
  "verify_owner_signature C input signed_message signature_hex =
     and_then (ok_or Api_InvalidOwnerEnrollmentSignature (hex_decode_to_slice C 64 signature_hex))
       (\<lambda>signature.
     ensure (ed25519_strict C (eni_owner_public_key input) (as_bytes signed_message) signature)
       Api_InvalidOwnerEnrollmentSignature)"

fun verify_for_domains ::
    "'x gateway_crates_scheme \<Rightarrow> Network \<Rightarrow> EnrollmentRequest \<Rightarrow> EnrollmentInput \<Rightarrow> string list \<Rightarrow>
     ApiError + EnrollmentInput" where
  "verify_for_domains C network request input [] = Err Api_InvalidOwnerEnrollmentSignature"
| "verify_for_domains C network request input (domain # domains) =
     and_then (ok_or Api_InvalidEnrollmentRequest (message C domain network request)) (\<lambda>m.
     if is_ok (verify_owner_signature C input m (enr_owner_signature request)) then Ok input
     else verify_for_domains C network request input domains)"

definition enrollment_verify ::
    "'x gateway_crates_scheme \<Rightarrow> Enrollment \<Rightarrow> EnrollmentRequest \<Rightarrow> u64 \<Rightarrow> ApiError + EnrollmentInput" where
  "enrollment_verify C enrollment request now =
     (let fresh = enr_issued_at_ms request \<le> saturating_add now MAX_CLOCK_SKEW_MS
        \<and> saturating_sub now (enr_issued_at_ms request) \<le> MAX_ENROLLMENT_AGE_MS in
      if \<not> fresh then Err Api_StaleEnrollment
      else
        and_then (validate_enrollment C request) (\<lambda>input.
        verify_for_domains C (en_network enrollment) request input (en_domains enrollment)))"

section \<open>Facts\<close>

definition enrollment_fresh :: "EnrollmentRequest \<Rightarrow> nat \<Rightarrow> bool" where
  "enrollment_fresh r now \<longleftrightarrow>
     unat (enr_issued_at_ms r) \<le> now + 60000 \<and> now \<le> unat (enr_issued_at_ms r) + 300000"

definition valid_enrollment :: "'x gateway_crates_scheme \<Rightarrow> EnrollmentRequest \<Rightarrow> EnrollmentInput \<Rightarrow> bool" where
  "valid_enrollment C r i \<longleftrightarrow>
     is_canonical_uuid_text (enr_organization_id r) \<and> is_canonical_uuid_text (enr_turnkey_wallet_id r) \<and>
     solana_public_key C (enr_solana_address r) = Some (eni_owner_public_key i) \<and>
     client_public_key C (enr_client_public_key r) = Some (eni_client_public_key i) \<and>
     eni_organization_id i = enr_organization_id r \<and> eni_turnkey_wallet_id i = enr_turnkey_wallet_id r \<and>
     eni_solana_address i = enr_solana_address r \<and> eni_issued_at_ms i = enr_issued_at_ms r"

definition owner_signed :: "'x gateway_crates_scheme \<Rightarrow> Enrollment \<Rightarrow> EnrollmentRequest \<Rightarrow> EnrollmentInput \<Rightarrow> bool" where
  "owner_signed C en r i \<longleftrightarrow>
     (\<exists>domain m signature. domain \<in> set (en_domains en) \<and> message C domain (en_network en) r = Some m \<and>
        hex_decode_to_slice C 64 (enr_owner_signature r) = Some signature \<and>
        ed25519_strict C (eni_owner_public_key i) (as_bytes m) signature)"

lemma validate_enrollment_Ok: "validate_enrollment C r = Ok i \<longleftrightarrow> valid_enrollment C r i"
  by (cases i) (auto simp: validate_enrollment_def valid_enrollment_def result_simps)

lemma verify_owner_signature_Ok:
  "is_ok (verify_owner_signature C i m s) \<longleftrightarrow>
     (\<exists>signature. hex_decode_to_slice C 64 s = Some signature \<and>
        ed25519_strict C (eni_owner_public_key i) (as_bytes m) signature)"
  by (auto simp: verify_owner_signature_def result_simps)

text \<open>Whether a message can be formed depends on the time alone, not on the host.\<close>

lemma message_exists: "message C a n r = None \<longleftrightarrow> message C b n' r = None"
  by (auto simp: message_def bind_eq_None_conv)

lemma verify_for_domains_Ok:
  "verify_for_domains C n r i ds = Ok j \<longleftrightarrow>
     j = i \<and> (\<exists>d \<in> set ds. \<exists>m. message C d n r = Some m \<and>
       is_ok (verify_owner_signature C i m (enr_owner_signature r)))"
proof (induction ds)
  case (Cons d ds)
  then show ?case
    using message_exists [of C d n r _ n] by (auto simp: result_simps) (metis option.exhaust)+
qed simp

lemma enrollment_fresh_iff:
  "enr_issued_at_ms r \<le> saturating_add now MAX_CLOCK_SKEW_MS \<and>
     saturating_sub now (enr_issued_at_ms r) \<le> MAX_ENROLLMENT_AGE_MS \<longleftrightarrow> enrollment_fresh r (unat now)"
  using unat_u64_bound [of "enr_issued_at_ms r"]
  by (auto simp: enrollment_fresh_def limit_defs MAX_ENROLLMENT_AGE_MS_def word_le_nat_alt nat_of_u64)

lemma enrollment_verify_Ok:
  "enrollment_verify C en r now = Ok i \<longleftrightarrow>
     enrollment_fresh r (unat now) \<and> valid_enrollment C r i \<and> owner_signed C en r i"
proof -
  have "and_then (validate_enrollment C r) (\<lambda>input.
      verify_for_domains C (en_network en) r input (en_domains en)) = Ok i \<longleftrightarrow>
      valid_enrollment C r i \<and> owner_signed C en r i"
    unfolding and_then_Ok validate_enrollment_Ok verify_for_domains_Ok verify_owner_signature_Ok
      owner_signed_def by blast
  then show ?thesis
    unfolding enrollment_verify_def Let_def enrollment_fresh_iff by simp
qed

section \<open>The text binds what it says\<close>

text \<open>
  What is relied on: a base58 text, and a text \<open>hex\<close> decodes, hold no line feed; neither does an
  RFC 3339 time with milliseconds, and it tells the millisecond.
\<close>

definition enrollment_text_laws :: "'x gateway_crates_scheme \<Rightarrow> bool" where
  "enrollment_text_laws C \<longleftrightarrow>
     (\<forall>b. CHR 0x0A \<notin> set (bs58_encode C b)) \<and>
     (\<forall>s b. hex_decode C s = Some b \<longrightarrow> CHR 0x0A \<notin> set s) \<and>
     (\<forall>n t. rfc3339_of_millis C n = Some t \<longrightarrow> CHR 0x0A \<notin> set t) \<and>
     (\<forall>m n t. rfc3339_of_millis C m = Some t \<longrightarrow> rfc3339_of_millis C n = Some t \<longrightarrow> m = n)"

lemma split_on_line [simp]: "c \<notin> set a \<Longrightarrow> split_on c (a @ c # b) = a # split_on c b"
  by (induction a) auto

lemma split_on_last: "c \<notin> set a \<Longrightarrow> split_on c a = [a]"
  by (induction a) auto

lemma valid_enrollment_lines:
  assumes "enrollment_text_laws C" "valid_enrollment C r i"
  shows "CHR 0x0A \<notin> set (enr_solana_address r)" "CHR 0x0A \<notin> set (enr_organization_id r)"
    "CHR 0x0A \<notin> set (enr_turnkey_wallet_id r)" "CHR 0x0A \<notin> set (enr_client_public_key r)"
proof -
  have "enr_solana_address r = bs58_encode C (eni_owner_public_key i)"
    using assms(2) by (auto simp: valid_enrollment_def solana_public_key_def split: option.splits if_splits)
  then show "CHR 0x0A \<notin> set (enr_solana_address r)"
    using assms(1) by (auto simp: enrollment_text_laws_def)
  have "\<exists>b. hex_decode C (enr_client_public_key r) = Some b"
    using assms(2) by (auto simp: valid_enrollment_def client_public_key_def bind_eq_Some_conv
        hex_decode_to_slice_def Let_def split: option.splits)
  then show "CHR 0x0A \<notin> set (enr_client_public_key r)"
    using assms(1) by (auto simp: enrollment_text_laws_def)
qed (use assms(2) in \<open>auto simp: valid_enrollment_def dest: uuid_text_no_newline\<close>)

lemma network_no_newline: "CHR 0x0A \<notin> set (network_as_str n)"
  by (cases n) simp_all

lemma network_as_str_inject: "network_as_str m = network_as_str n \<longleftrightarrow> m = n"
  by (cases m; cases n) simp_all

lemma message_lines:
  assumes "enrollment_text_laws C" "valid_enrollment C r i" "domain_ok d" "message C d n r = Some m"
  shows "\<exists>issued expires. rfc3339_millis C (enr_issued_at_ms r) = Some issued \<and>
    split_on CHR 0x0A m =
      [d @ '' wants you to sign in with your Solana account:'', enr_solana_address r, [], STATEMENT, [],
       ''Version: 1'', ''Chain ID: '' @ network_as_str n, ''Issued At: '' @ issued,
       ''Expiration Time: '' @ expires, ''Resources:'',
       ''- urn:turnkey:organization:'' @ enr_organization_id r,
       ''- urn:turnkey:wallet:'' @ enr_turnkey_wallet_id r,
       ''- urn:zolana-tvc:client-key:'' @ enr_client_public_key r]"
proof -
  obtain issued expires at where t: "rfc3339_millis C (enr_issued_at_ms r) = Some issued"
    "rfc3339_millis C at = Some expires"
    and m: "m = (d @ '' wants you to sign in with your Solana account:'') @ CHR 0x0A #
       enr_solana_address r @ CHR 0x0A # [] @ CHR 0x0A # STATEMENT @ CHR 0x0A # [] @ CHR 0x0A #
       ''Version: 1'' @ CHR 0x0A # (''Chain ID: '' @ network_as_str n) @ CHR 0x0A #
       (''Issued At: '' @ issued) @ CHR 0x0A # (''Expiration Time: '' @ expires) @ CHR 0x0A #
       ''Resources:'' @ CHR 0x0A # (''- urn:turnkey:organization:'' @ enr_organization_id r) @ CHR 0x0A #
       (''- urn:turnkey:wallet:'' @ enr_turnkey_wallet_id r) @ CHR 0x0A #
       (''- urn:zolana-tvc:client-key:'' @ enr_client_public_key r)"
    using assms(4) unfolding message_def bind_eq_Some_conv newline_def by fastforce
  have "CHR 0x0A \<notin> set issued" "CHR 0x0A \<notin> set expires"
    using t assms(1) by (auto simp: rfc3339_millis_def enrollment_text_laws_def split: if_splits)
  then have no: "CHR 0x0A \<notin> set (d @ '' wants you to sign in with your Solana account:'')"
    "CHR 0x0A \<notin> set STATEMENT" "CHR 0x0A \<notin> set ''Version: 1''"
    "CHR 0x0A \<notin> set (''Chain ID: '' @ network_as_str n)"
    "CHR 0x0A \<notin> set (''Issued At: '' @ issued)" "CHR 0x0A \<notin> set (''Expiration Time: '' @ expires)"
    "CHR 0x0A \<notin> set ''Resources:''" "CHR 0x0A \<notin> set (''- urn:turnkey:organization:'' @ enr_organization_id r)"
    "CHR 0x0A \<notin> set (''- urn:turnkey:wallet:'' @ enr_turnkey_wallet_id r)"
    "CHR 0x0A \<notin> set (''- urn:zolana-tvc:client-key:'' @ enr_client_public_key r)"
    "CHR 0x0A \<notin> set ([] :: string)"
    using valid_enrollment_lines [OF assms(1,2)] domain_no_newline [OF assms(3)]
    by (auto simp: STATEMENT_def network_no_newline)
  show ?thesis
    unfolding m split_on_line [OF no(1)] split_on_line [OF valid_enrollment_lines(1) [OF assms(1,2)]]
      split_on_line [OF no(2)] split_on_line [OF no(3)] split_on_line [OF no(4)] split_on_line [OF no(5)]
      split_on_line [OF no(6)] split_on_line [OF no(7)] split_on_line [OF no(8)] split_on_line [OF no(9)]
      split_on_line [OF no(11)] split_on_last [OF no(10)]
    using t(1) by blast
qed

lemma message_binds:
  assumes "enrollment_text_laws C" "valid_enrollment C r i" "valid_enrollment C s j"
    and "domain_ok d" "domain_ok e" "message C d n r = Some m" "message C e n' s = Some m"
  shows "d = e \<and> n = n' \<and> r \<lparr> enr_owner_signature := [] \<rparr> = s \<lparr> enr_owner_signature := [] \<rparr>"
proof -
  obtain a b where a: "rfc3339_millis C (enr_issued_at_ms r) = Some a" "rfc3339_millis C (enr_issued_at_ms s) = Some b"
    and "a = b" "d = e" "network_as_str n = network_as_str n'"
    "enr_solana_address r = enr_solana_address s" "enr_organization_id r = enr_organization_id s"
    "enr_turnkey_wallet_id r = enr_turnkey_wallet_id s" "enr_client_public_key r = enr_client_public_key s"
    using message_lines [OF assms(1,2,4,6)] message_lines [OF assms(1,3,5,7)] by auto
  moreover have "enr_issued_at_ms r = enr_issued_at_ms s"
    using a \<open>a = b\<close> assms(1)
    by (auto simp: rfc3339_millis_def enrollment_text_laws_def word_unat_eq_iff split: if_splits)
  ultimately show ?thesis
    by (cases r; cases s) (simp add: network_as_str_inject)
qed

section \<open>Properties\<close>

text \<open>
  A client key is enrolled exactly when the request is no more than five minutes old or a minute
  ahead, its fields are well formed, and the key its address names signed the text for one of the
  gateway's hosts and its network. That text says nothing else: no other host, network, wallet,
  address, client key or time gives the same one.
\<close>

lemma enrollment_is_the_owners_word:
  assumes "enrollment_text_laws C" "list_all domain_ok (en_domains en)"
  shows "(enrollment_verify C en r now = Ok i \<longleftrightarrow>
      enrollment_fresh r (unat now) \<and> valid_enrollment C r i \<and> owner_signed C en r i) \<and>
    (\<forall>d m e n s j. d \<in> set (en_domains en) \<longrightarrow> message C d (en_network en) r = Some m \<longrightarrow>
       valid_enrollment C r i \<longrightarrow> valid_enrollment C s j \<longrightarrow> domain_ok e \<longrightarrow> message C e n s = Some m \<longrightarrow>
       e = d \<and> n = en_network en \<and> s \<lparr> enr_owner_signature := [] \<rparr> = r \<lparr> enr_owner_signature := [] \<rparr>)"
proof (intro conjI allI impI)
  show "enrollment_verify C en r now = Ok i \<longleftrightarrow>
      enrollment_fresh r (unat now) \<and> valid_enrollment C r i \<and> owner_signed C en r i"
    by (rule enrollment_verify_Ok)
next
  fix d m e n s j
  assume "d \<in> set (en_domains en)" "message C d (en_network en) r = Some m"
    "valid_enrollment C r i" "valid_enrollment C s j" "domain_ok e" "message C e n s = Some m"
  moreover from this assms(2) have "domain_ok d" by (simp add: list_all_iff)
  ultimately have "e = d \<and> n = en_network en \<and>
      s \<lparr> enr_owner_signature := [] \<rparr> = r \<lparr> enr_owner_signature := [] \<rparr>"
    by - (rule message_binds [OF assms(1)])
  then show "e = d" "n = en_network en" "s \<lparr> enr_owner_signature := [] \<rparr> = r \<lparr> enr_owner_signature := [] \<rparr>"
    by auto
qed

lemma demo_enrollment_text_laws: "enrollment_text_laws demo_gateway"
proof -
  have hex: "CHR 0x0A \<notin> set s" if "list_all is_lower_hex_digit s" for s
  proof -
    have "\<not> is_lower_hex_digit (CHR 0x0A)"
      by (simp add: is_lower_hex_digit_def is_ascii_digit_def ascii_def)
    with that show ?thesis by (auto simp: list_all_iff)
  qed
  have "CHR 0x0A \<notin> set (decimal n)" for n
  proof -
    have "\<not> is_ascii_digit (CHR 0x0A)" by (simp add: is_ascii_digit_def ascii_def)
    with decimal_digits [of n] show ?thesis by (auto simp: list_all_iff)
  qed
  moreover have "CHR 0x0A \<notin> set (demo_hex_encode b)" for b
    using hex demo_hex_laws by (auto simp: hex_laws_def demo_hex_encode_field)
  ultimately show ?thesis
    using hex demo_hex_decode_digits
    by (auto simp: enrollment_text_laws_def demo_gateway_fields)
qed

definition demo_owner :: bytes where
  "demo_owner = replicate 32 3"

definition demo_enrollment :: Enrollment where
  "demo_enrollment = \<lparr> en_network = Devnet, en_domains = [''devnet.helius-rpc.com''] \<rparr>"

definition demo_unsigned_enrollment :: EnrollmentRequest where
  "demo_unsigned_enrollment =
     \<lparr> enr_organization_id = ''1f0e6b1e-2a4c-4f7e-8d2b-3c4d5e6f7a8b'',
       enr_turnkey_wallet_id = ''2a1b3c4d-5e6f-4a8b-9c0d-1e2f3a4b5c6d'',
       enr_solana_address = demo_hex_encode demo_owner,
       enr_client_public_key = demo_hex_encode (4 # replicate 64 1),
       enr_issued_at_ms = 1800000000000, enr_owner_signature = [] \<rparr>"

definition demo_enrollment_request :: EnrollmentRequest where
  "demo_enrollment_request = demo_unsigned_enrollment
     \<lparr> enr_owner_signature := demo_hex_encode (demo_hash demo_owner @ demo_hash (as_bytes
         (the (message demo_gateway ''devnet.helius-rpc.com'' Devnet demo_unsigned_enrollment)))) \<rparr>"

definition demo_enrollment_input :: EnrollmentInput where
  "demo_enrollment_input =
     \<lparr> eni_organization_id = ''1f0e6b1e-2a4c-4f7e-8d2b-3c4d5e6f7a8b'',
       eni_turnkey_wallet_id = ''2a1b3c4d-5e6f-4a8b-9c0d-1e2f3a4b5c6d'',
       eni_solana_address = demo_hex_encode demo_owner, eni_owner_public_key = demo_owner,
       eni_client_public_key = 4 # replicate 64 1, eni_issued_at_ms = 1800000000000 \<rparr>"

lemma demo_uuid_texts:
  "is_canonical_uuid_text ''1f0e6b1e-2a4c-4f7e-8d2b-3c4d5e6f7a8b''"
  "is_canonical_uuid_text ''2a1b3c4d-5e6f-4a8b-9c0d-1e2f3a4b5c6d''"
  by (simp_all add: is_canonical_uuid_text_def is_lower_hex_digit_def is_ascii_digit_def ascii_def)

lemma demo_valid_enrollment: "valid_enrollment demo_gateway demo_enrollment_request demo_enrollment_input"
proof -
  have lower: "list_all (\<lambda>c. \<not> is_ascii_uppercase c) s" if "list_all is_lower_hex_digit s" for s
    using that by (auto simp: list_all_iff is_ascii_uppercase_def is_lower_hex_digit_def is_ascii_digit_def)
  have "list_all is_lower_hex_digit (demo_hex_encode b)" for b
    using demo_hex_laws by (auto simp: hex_laws_def demo_hex_encode_field)
  then have "client_public_key demo_gateway (demo_hex_encode k) = Some k" if "length k = 65" "hd k = 4" for k
    using lower that by (simp add: client_public_key_def hex_decode_to_slice_def demo_gateway_fields
        demo_hex_roundtrip parse_uncompressed_sec1_def SEC1_UNCOMPRESSED_LEN_def demo_crates_def Let_def)
  from this [of "4 # replicate 64 1"]
  have "client_public_key demo_gateway (demo_hex_encode (4 # replicate 64 1)) = Some (4 # replicate 64 1)"
    by (simp del: demo_hex_encode.simps)
  moreover have "solana_public_key demo_gateway (demo_hex_encode demo_owner) = Some demo_owner"
    by (simp add: solana_public_key_def demo_gateway_fields demo_hex_roundtrip demo_owner_def)
  ultimately show ?thesis
    using demo_uuid_texts
    by (simp add: valid_enrollment_def demo_enrollment_request_def demo_unsigned_enrollment_def
        demo_enrollment_input_def del: demo_hex_encode.simps)
qed

lemma demo_owner_signed: "owner_signed demo_gateway demo_enrollment demo_enrollment_request demo_enrollment_input"
proof -
  let ?m = "the (message demo_gateway ''devnet.helius-rpc.com'' Devnet demo_unsigned_enrollment)"
  have "message demo_gateway ''devnet.helius-rpc.com'' Devnet demo_enrollment_request = Some ?m"
    by (simp add: message_def demo_enrollment_request_def demo_unsigned_enrollment_def rfc3339_millis_def
        demo_gateway_fields checked_add_def MAX_ENROLLMENT_AGE_MS_def)
  then show ?thesis
    by (intro owner_signed_def [THEN iffD2] exI [of _ "''devnet.helius-rpc.com''"] exI [of _ ?m])
      (simp add: demo_enrollment_def hex_decode_to_slice_def demo_gateway_fields demo_enrollment_request_def
        demo_hex_roundtrip demo_enrollment_input_def)
qed

lemma enrollment_is_the_owners_word_witness:
  "enrollment_verify demo_gateway demo_enrollment demo_enrollment_request 1800000300000 =
     Ok demo_enrollment_input"
proof -
  have "list_all domain_ok (en_domains demo_enrollment)"
    by (simp add: demo_enrollment_def domain_ok_def white_space_def starts_with_def string_of_bytes_def
        char_of_def bit_0)
  from enrollment_is_the_owners_word [OF demo_enrollment_text_laws this, of demo_enrollment_request
      1800000300000 demo_enrollment_input] show ?thesis
    using demo_valid_enrollment demo_owner_signed
    by (simp add: enrollment_fresh_def demo_enrollment_request_def demo_unsigned_enrollment_def)
qed

end
