(* ===== verification/Release_Policy.thy ===== *)
theory Release_Policy
  imports Client_Auth
begin

text \<open>
  \<open>crates/protocol/src/release.rs\<close>: a release policy counts when enough of the pinned
  authorities signed it. \<open>by_id\<close> is the \<open>HashMap\<close> of the pinned keys as an association list
  that \<open>insert\<close> extends in front; \<open>seen\<close> and \<open>duplicates\<close> are the two \<open>HashSet\<close>s.
\<close>

record ReleaseAuthorityKey =
  rak_key_id :: string
  rak_public_key :: bytes

record PinnedReleaseAuthorities =
  pra_authority_set_id :: string
  pra_threshold :: u8
  pra_keys :: "ReleaseAuthorityKey list"
  pra_minimum_revocation_epoch :: u64

definition policy_signing_digest :: "'x crates_scheme \<Rightarrow> ReleasePolicy \<Rightarrow> bytes tvc_result" where
  "policy_signing_digest C policy =
     and_then (jcs_serialize (ReleasePolicy_json C policy)) (\<lambda>canonical.
     Ok (release_policy_digest C (as_bytes canonical)))"

definition sign_release_policy :: "'x crates_scheme \<Rightarrow> ReleasePolicy \<Rightarrow> bytes \<Rightarrow> bytes tvc_result" where
  "sign_release_policy C policy secret =
     and_then (policy_signing_digest C policy) (sign_p256_prehash C secret)"

fun keys_by_id ::
    "(string \<times> bytes) list \<Rightarrow> ReleaseAuthorityKey list \<Rightarrow> (string \<times> bytes) list tvc_result" where
  "keys_by_id by_id [] = Ok by_id"
| "keys_by_id by_id (key # keys) =
     (if map_of by_id (rak_key_id key) \<noteq> None then tvc_err ReleasePolicyInvalid
      else keys_by_id ((rak_key_id key, rak_public_key key) # by_id) keys)"

fun duplicate_ids ::
    "string set \<Rightarrow> string set \<Rightarrow> ReleaseAuthoritySignature list \<Rightarrow> string set" where
  "duplicate_ids seen duplicates [] = duplicates"
| "duplicate_ids seen duplicates (s # ss) =
     (if ras_key_id s \<in> seen then duplicate_ids seen (insert (ras_key_id s) duplicates) ss
      else duplicate_ids (insert (ras_key_id s) seen) duplicates ss)"

fun count_accepted ::
    "'x crates_scheme \<Rightarrow> (string \<times> bytes) list \<Rightarrow> string set \<Rightarrow> bytes \<Rightarrow> u8 \<Rightarrow>
     ReleaseAuthoritySignature list \<Rightarrow> u8 tvc_result" where
  "count_accepted C by_id duplicates digest accepted [] = Ok accepted"
| "count_accepted C by_id duplicates digest accepted (s # ss) =
     (if ras_key_id s \<in> duplicates then count_accepted C by_id duplicates digest accepted ss
      else case map_of by_id (ras_key_id s) of
        None \<Rightarrow> count_accepted C by_id duplicates digest accepted ss
      | Some public \<Rightarrow>
          and_then (verify_p256_prehash C public digest (ras_signature s)) (\<lambda>_.
          and_then (ok_or (TvcError ReleasePolicyInvalid) (checked_add accepted 1)) (\<lambda>accepted.
          count_accepted C by_id duplicates digest accepted ss)))"

definition verify_signed_release_policy ::
    "'x crates_scheme \<Rightarrow> SignedReleasePolicy \<Rightarrow> PinnedReleaseAuthorities \<Rightarrow> Network \<Rightarrow> u64 \<Rightarrow>
     unit tvc_result" where
  "verify_signed_release_policy C policy authorities network now_ms =
     (if rp_version (srp_policy policy) \<noteq> API_VERSION then tvc_err UnsupportedVersion
      else if rp_network (srp_policy policy) \<noteq> network then tvc_err NetworkMismatch
      else if pra_threshold authorities = 0 \<or> pra_keys authorities = [] then tvc_err ReleasePolicyInvalid
      else if srp_authority_set_id policy \<noteq> pra_authority_set_id authorities
        then tvc_err ReleasePolicyInvalid
      else if rp_turnkey_trust_root_id (srp_policy policy) \<noteq> EXPECTED_TURNKEY_TRUST_ROOT_ID
        then tvc_err ReleasePolicyInvalid
      else if rp_revocation_epoch (srp_policy policy) < pra_minimum_revocation_epoch authorities
        then tvc_err ReleasePolicyInvalid
      else if now_ms < rp_valid_from_ms (srp_policy policy) \<or> now_ms > rp_expires_at_ms (srp_policy policy)
        then tvc_err ExpiredRequest
      else if srp_signatures policy = [] then tvc_err ReleasePolicyInvalid
      else
        and_then (keys_by_id [] (pra_keys authorities)) (\<lambda>by_id.
        let duplicates = duplicate_ids {} {} (srp_signatures policy) in
        and_then (policy_signing_digest C (srp_policy policy)) (\<lambda>digest.
        and_then (count_accepted C by_id duplicates digest 0 (srp_signatures policy)) (\<lambda>accepted.
        if accepted < pra_threshold authorities then tvc_err ReleasePolicyInvalid
        else Ok ()))))"

section \<open>Facts\<close>

definition pinned :: "PinnedReleaseAuthorities \<Rightarrow> (string \<times> bytes) list" where
  "pinned a = map (\<lambda>k. (rak_key_id k, rak_public_key k)) (pra_keys a)"

lemma keys_by_id_Ok:
  "keys_by_id m ks = Ok by_id \<longleftrightarrow>
     distinct (map rak_key_id ks) \<and> rak_key_id ` set ks \<inter> fst ` set m = {} \<and>
     by_id = rev (map (\<lambda>k. (rak_key_id k, rak_public_key k)) ks) @ m"
  by (induction m ks rule: keys_by_id.induct) (auto simp: map_of_eq_None_iff split: if_splits)

lemma duplicate_ids_repeated:
  "duplicate_ids seen dups ss =
     dups \<union> {k. count_list (map ras_key_id ss) k > (if k \<in> seen then 0 else 1)}"
  by (induction seen dups ss rule: duplicate_ids.induct)
    (auto simp: count_list_0_iff split: if_splits)

text \<open>The signatures that count: of a pinned key, and the only one with that key's name.\<close>

definition counted ::
    "(string \<times> bytes) list \<Rightarrow> string set \<Rightarrow> ReleaseAuthoritySignature list \<Rightarrow> ReleaseAuthoritySignature list"
  where
  "counted by_id dups ss = filter (\<lambda>s. ras_key_id s \<notin> dups \<and> map_of by_id (ras_key_id s) \<noteq> None) ss"

lemma count_accepted_Ok:
  "count_accepted C by_id dups d n ss = Ok r \<longleftrightarrow>
     unat r = unat n + length (counted by_id dups ss) \<and>
     (\<forall>s \<in> set (counted by_id dups ss).
        verify_p256_prehash C (the (map_of by_id (ras_key_id s))) d (ras_signature s) = Ok ())"
proof (induction C by_id dups d n ss rule: count_accepted.induct)
  case (1 C by_id dups d n)
  then show ?case by (auto simp: counted_def word_unat_eq_iff)
next
  case (2 C by_id dups d n s ss)
  show ?case
  proof (cases "ras_key_id s \<in> dups \<or> map_of by_id (ras_key_id s) = None")
    case False
    then obtain pk where pk: "map_of by_id (ras_key_id s) = Some pk" "ras_key_id s \<notin> dups" by auto
    have step: "counted by_id dups (s # ss) = s # counted by_id dups ss"
      using pk by (simp add: counted_def)
    have bound: "unat r < 2 ^ LENGTH(8)" using unsigned_less [of r, where 'a = nat] by simp
    show ?thesis
    proof (cases "checked_add n 1")
      case None
      then have "unat n + 1 \<ge> 2 ^ LENGTH(8)" by (auto simp: checked_add_def split: if_splits)
      with bound step pk None show ?thesis by (auto simp: result_simps)
    next
      case (Some m)
      then have m: "unat m = unat n + 1" by (simp add: checked_add_Some)
      have "count_accepted C by_id dups d n (s # ss) = Ok r \<longleftrightarrow>
          verify_p256_prehash C pk d (ras_signature s) = Ok () \<and>
          count_accepted C by_id dups d m ss = Ok r"
        using pk Some by (auto simp: result_simps)
      also have "\<dots> \<longleftrightarrow> verify_p256_prehash C pk d (ras_signature s) = Ok () \<and>
          unat r = unat m + length (counted by_id dups ss) \<and>
          (\<forall>s \<in> set (counted by_id dups ss).
             verify_p256_prehash C (the (map_of by_id (ras_key_id s))) d (ras_signature s) = Ok ())"
        using "2.IH"(3) [OF pk(2,1)] Some by auto
      finally show ?thesis using m pk step by auto
    qed
  qed (use 2 in \<open>auto simp: counted_def\<close>)
qed

lemma duplicate_ids_count:
  "k \<notin> duplicate_ids {} {} ss \<longleftrightarrow> count_list (map ras_key_id ss) k \<le> 1"
  by (auto simp: duplicate_ids_repeated)

lemma counted_distinct:
  assumes "\<And>s. s \<in> set (filter P ss) \<Longrightarrow> count_list (map ras_key_id ss) (ras_key_id s) \<le> 1"
  shows "distinct (map ras_key_id (filter P ss))"
  using assms
proof (induction ss)
  case (Cons s ss)
  have rest: "distinct (map ras_key_id (filter P ss))"
  proof (rule Cons.IH)
    show "count_list (map ras_key_id ss) (ras_key_id t) \<le> 1" if "t \<in> set (filter P ss)" for t
    proof -
      have "t \<in> set (filter P (s # ss))" using that by auto
      from Cons.prems [OF this] show ?thesis by (simp split: if_splits)
    qed
  qed
  show ?case
  proof (cases "P s")
    case True
    then have "count_list (map ras_key_id ss) (ras_key_id s) = 0" using Cons.prems [of s] by simp
    then have "ras_key_id s \<notin> ras_key_id ` set ss" by (simp add: count_list_0_iff)
    with True rest show ?thesis by auto
  qed (use rest in simp)
qed simp

section \<open>Properties\<close>

text \<open>
  C12. A policy verifies only for the network it is for, in its validity window and epoch, and
  only with valid signatures of at least the threshold many different pinned keys over the
  digest of the policy.
\<close>

theorem release_policy_threshold:
  assumes "verify_signed_release_policy C p a network now = Ok ()"
  shows "rp_network (srp_policy p) = network \<and>
    pra_minimum_revocation_epoch a \<le> rp_revocation_epoch (srp_policy p) \<and>
    rp_valid_from_ms (srp_policy p) \<le> now \<and> now \<le> rp_expires_at_ms (srp_policy p) \<and>
    (\<exists>K d. 0 < card K \<and> unat (pra_threshold a) \<le> card K \<and>
       policy_signing_digest C (srp_policy p) = Ok d \<and>
       (\<forall>k \<in> K. \<exists>pk s. map_of (pinned a) k = Some pk \<and> s \<in> set (srp_signatures p) \<and>
          ras_key_id s = k \<and> verify_p256_prehash C pk d (ras_signature s) = Ok ()))"
proof -
  obtain by_id d n where by_id: "keys_by_id [] (pra_keys a) = Ok by_id"
    and d: "policy_signing_digest C (srp_policy p) = Ok d"
    and n: "count_accepted C by_id (duplicate_ids {} {} (srp_signatures p)) d 0 (srp_signatures p) = Ok n"
    and le: "pra_threshold a \<le> n" "pra_threshold a \<noteq> 0"
    and header: "rp_network (srp_policy p) = network"
      "pra_minimum_revocation_epoch a \<le> rp_revocation_epoch (srp_policy p)"
      "rp_valid_from_ms (srp_policy p) \<le> now" "now \<le> rp_expires_at_ms (srp_policy p)"
    using assms by (auto simp: verify_signed_release_policy_def result_simps Let_def not_less split: if_splits)
  let ?c = "counted by_id (duplicate_ids {} {} (srp_signatures p)) (srp_signatures p)"
  have same: "map_of by_id = map_of (pinned a)"
  proof -
    have "by_id = rev (pinned a)" "distinct (map fst (pinned a))"
      using by_id by (simp_all add: keys_by_id_Ok pinned_def comp_def)
    then show ?thesis by (intro map_of_inject_set [THEN iffD2]) (simp_all flip: rev_map)
  qed
  have "distinct (map ras_key_id ?c)"
    unfolding counted_def by (rule counted_distinct) (auto simp: duplicate_ids_count)
  then have card: "card (ras_key_id ` set ?c) = length ?c"
    by (metis distinct_card length_map set_map)
  have len: "length ?c = unat n" and valid: "\<forall>s \<in> set ?c.
      verify_p256_prehash C (the (map_of by_id (ras_key_id s))) d (ras_signature s) = Ok ()"
    using n by (auto simp: count_accepted_Ok)
  have "\<exists>pk s. map_of (pinned a) k = Some pk \<and> s \<in> set (srp_signatures p) \<and>
      ras_key_id s = k \<and> verify_p256_prehash C pk d (ras_signature s) = Ok ()"
    if "k \<in> ras_key_id ` set ?c" for k
  proof -
    from that obtain s where s: "s \<in> set ?c" "k = ras_key_id s" by auto
    then have "s \<in> set (srp_signatures p)" "map_of by_id (ras_key_id s) \<noteq> None"
      by (auto simp: counted_def)
    with s valid same show ?thesis by force
  qed
  moreover have "unat (pra_threshold a) \<le> card (ras_key_id ` set ?c)" "0 < card (ras_key_id ` set ?c)"
    using le card len by (auto simp: word_le_nat_alt unat_eq_zero intro: ccontr)
  ultimately show ?thesis using header d by blast
qed

text \<open>
  A signature whose key is not pinned neither helps nor hurts: adding one of a new key
  name to the end of a policy's signatures leaves the outcome as it was.
\<close>

lemma release_unknown_key_skipped:
  assumes "srp_signatures p \<noteq> []"
    and "ras_key_id s \<notin> set (map rak_key_id (pra_keys a))"
    and "ras_key_id s \<notin> set (map ras_key_id (srp_signatures p))"
  shows "verify_signed_release_policy C (p \<lparr> srp_signatures := srp_signatures p @ [s] \<rparr>) a network now =
    verify_signed_release_policy C p a network now"
proof -
  have dups: "duplicate_ids A B (ss @ [s]) = duplicate_ids A B ss"
    if "ras_key_id s \<notin> A" "ras_key_id s \<notin> ras_key_id ` set ss" for A B ss
    using that by (induction A B ss rule: duplicate_ids.induct) auto
  have count: "count_accepted C by_id dups d n (ss @ [s]) = count_accepted C by_id dups d n ss"
    if "map_of by_id (ras_key_id s) = None" for by_id dups d n ss
    using that by (induction C by_id dups d n ss rule: count_accepted.induct)
      (auto split: option.splits sum.splits intro!: arg_cong2 [where f = and_then])
  have absent: "map_of by_id (ras_key_id s) = None" if "keys_by_id [] (pra_keys a) = Ok by_id" for by_id
    using that assms(2) by (auto simp: keys_by_id_Ok map_of_eq_None_iff)
  show ?thesis
  proof (cases "keys_by_id [] (pra_keys a)")
    case (Inr by_id)
    with assms dups [of "{}"] count absent show ?thesis
      by (simp add: verify_signed_release_policy_def)
  qed (use assms in \<open>simp add: verify_signed_release_policy_def\<close>)
qed

section \<open>Witnesses\<close>

definition demo_policy :: ReleasePolicy where
  "demo_policy =
     \<lparr> rp_version = 1, rp_release_id = ''r'', rp_network = Devnet, rp_tvc_application_id = ''app'',
       rp_security_domain_id = replicate 32 1, rp_accepted_manifest_digests = [],
       rp_accepted_executable_digests = [], rp_quorum_key_id = ''q'', rp_quorum_key_epoch = 1,
       rp_quorum_public_key = [], rp_allowed_operations = [], rp_max_encrypted_request_bytes = 1,
       rp_max_encrypted_response_bytes = 1, rp_turnkey_trust_root_id = ''aws-nitro-root-g1'',
       rp_turnkey_proof_schema_versions = [], rp_valid_from_ms = 0, rp_expires_at_ms = 100,
       rp_revocation_epoch = 3 \<rparr>"

definition demo_authorities :: PinnedReleaseAuthorities where
  "demo_authorities =
     \<lparr> pra_authority_set_id = ''set'', pra_threshold = 1,
       pra_keys = [\<lparr> rak_key_id = ''k'', rak_public_key = 4 # replicate 64 1 \<rparr>],
       pra_minimum_revocation_epoch = 2 \<rparr>"

lemma no_float_release_policy:
  "\<not> has_float (ReleasePolicy_json C x)"
  by (simp add: ReleasePolicy_json_def no_float del: has_float.simps)

lemma demo_policy_signature:
  "\<exists>d s. policy_signing_digest demo_crates demo_policy = Ok d \<and>
     verify_p256_prehash demo_crates (4 # replicate 64 1) d s = Ok ()"
proof -
  obtain d where d: "policy_signing_digest demo_crates demo_policy = Ok d"
    by (simp add: policy_signing_digest_def jcs_serialize_def canonicalize_json_value_spec
        no_float_release_policy)
  have "verify_p256_prehash demo_crates (4 # replicate 64 1) d (demo_hash (1 # replicate 32 1) @ demo_hash d) = Ok ()"
    by (simp add: verify_p256_prehash_iff parse_uncompressed_sec1_def demo_crates_def
        SEC1_UNCOMPRESSED_LEN_def RAW_P256_SIGNATURE_LEN_def demo_signature_head)
  with d show ?thesis by blast
qed

theorem release_policy_threshold_witness:
  "\<exists>p. verify_signed_release_policy demo_crates p demo_authorities Devnet 50 = Ok () \<and>
     (\<exists>K d. 0 < card K \<and> policy_signing_digest demo_crates (srp_policy p) = Ok (d :: bytes) \<and>
        K \<subseteq> dom (map_of (pinned demo_authorities)))"
proof -
  obtain d s where d: "policy_signing_digest demo_crates demo_policy = Ok d"
    and s: "verify_p256_prehash demo_crates (4 # replicate 64 1) d s = Ok ()"
    using demo_policy_signature by blast
  define p where "p = \<lparr> srp_policy = demo_policy, srp_authority_set_id = ''set'',
      srp_signatures = [\<lparr> ras_key_id = ''k'', ras_signature = s \<rparr>] \<rparr>"
  have ok: "verify_signed_release_policy demo_crates p demo_authorities Devnet 50 = Ok ()"
    using d s by (simp add: verify_signed_release_policy_def p_def demo_authorities_def
        demo_policy_def API_VERSION_def EXPECTED_TURNKEY_TRUST_ROOT_ID_def checked_add_def)
  from release_policy_threshold [OF this] ok show ?thesis by blast
qed

lemma release_unknown_key_skipped_witness:
  "\<exists>p s. verify_signed_release_policy demo_crates p demo_authorities Devnet 50 = Ok () \<and>
     ras_key_id s = ''unknown'' \<and> s \<in> set (srp_signatures p)"
proof -
  obtain d s where d: "policy_signing_digest demo_crates demo_policy = Ok d"
    and s: "verify_p256_prehash demo_crates (4 # replicate 64 1) d s = Ok ()"
    using demo_policy_signature by blast
  define p where "p = \<lparr> srp_policy = demo_policy, srp_authority_set_id = ''set'',
      srp_signatures = [\<lparr> ras_key_id = ''k'', ras_signature = s \<rparr>] \<rparr>"
  define u where "u = \<lparr> ras_key_id = ''unknown'', ras_signature = [] \<rparr>"
  have ok: "verify_signed_release_policy demo_crates p demo_authorities Devnet 50 = Ok ()"
    using d s by (simp add: verify_signed_release_policy_def p_def demo_authorities_def
        demo_policy_def API_VERSION_def EXPECTED_TURNKEY_TRUST_ROOT_ID_def checked_add_def)
  have "verify_signed_release_policy demo_crates (p \<lparr> srp_signatures := srp_signatures p @ [u] \<rparr>)
      demo_authorities Devnet 50 = Ok ()"
    using ok by (subst release_unknown_key_skipped) (simp_all add: p_def u_def demo_authorities_def)
  then show ?thesis by (intro exI conjI) (auto simp: u_def)
qed

end
