(* ===== verification/Gateway_Provisioning.thy ===== *)
theory Gateway_Provisioning
  imports Gateway_Enrollment Release_Policy
begin

text \<open>
  \<open>provisioner.rs\<close> and \<open>wallet_grant.rs\<close>: the gateway's two signing keys. The provisioner signs
  the descriptor of an enrolled client key under the network's release, and recognises what it
  signed; the wallet grants admit one operation at a time to the enclave. The file a release is
  read from is an argument: what reading and parsing it gave, \<open>None\<close> when that failed.
\<close>

section \<open>The clock\<close>

definition clock_reading :: "nat option \<Rightarrow> u64 option" where
  "clock_reading reading = Option.bind reading u64_try_from"

definition clock_ms :: "nat option \<Rightarrow> ApiError + u64" where
  "clock_ms reading = ok_or Api_ClockUnavailable (clock_reading reading)"

section \<open>The provisioner\<close>

type_synonym ReleaseFile = "SignedReleasePolicy \<times> PinnedReleaseAuthorities"

record Provisioner =
  pv_secret :: bytes
  pv_public_key :: bytes
  pv_policy :: ReleasePolicy
  pv_descriptor_ttl_ms :: u64

definition provisioning_key ::
    "'x crates_scheme \<Rightarrow> ProvisioningConfig \<Rightarrow> StartupError + bytes \<times> bytes" where
  "provisioning_key C config =
     load_signing_key C (trim_start_matches [''0x''] (trim (pc_private_key config)))
       (pc_expected_public_key config)"

fun release_error :: "TvcError \<Rightarrow> StartupError" where
  "release_error (TvcError c) = (if c = ExpiredRequest then ReleaseNotCurrent else ReleaseDoesNotVerify c)"

definition read_release ::
    "'x crates_scheme \<Rightarrow> ReleaseFile option option \<Rightarrow> Network \<Rightarrow> u64 \<Rightarrow> StartupError + ReleasePolicy" where
  "read_release C file network now =
     and_then (ok_or ReleaseFileUnreadable file) (\<lambda>release.
     and_then (ok_or ReleaseFileEmpty release) (\<lambda>(release_policy, release_authorities).
     and_then (ensure (rp_network (srp_policy release_policy) = network) ReleaseForOtherNetwork) (\<lambda>_.
     and_then (map_err release_error
         (verify_signed_release_policy C release_policy release_authorities network now)) (\<lambda>_.
     Ok (srp_policy release_policy)))))"

definition provisioner_new ::
    "'x crates_scheme \<Rightarrow> ProvisioningConfig \<Rightarrow> Network \<Rightarrow> nat option \<Rightarrow> ReleaseFile option option \<Rightarrow>
     StartupError + Provisioner" where
  "provisioner_new C config network reading file =
     and_then (provisioning_key C config) (\<lambda>(secret, public_key).
     and_then (ok_or ClockBeforeEpoch (clock_reading reading)) (\<lambda>now.
     and_then (read_release C file network now) (\<lambda>policy.
     Ok \<lparr> pv_secret = secret, pv_public_key = public_key, pv_policy = policy,
          pv_descriptor_ttl_ms = saturating_mul (pc_descriptor_ttl_secs config) 1000 \<rparr>)))"

definition provisioner_check_current :: "Provisioner \<Rightarrow> u64 \<Rightarrow> ApiError + unit" where
  "provisioner_check_current pv now =
     (if now > rp_expires_at_ms (pv_policy pv) then Err Api_ReleaseExpired else Ok ())"

definition provisioner_sign ::
    "'x crates_scheme \<Rightarrow> Provisioner \<Rightarrow> EnrollmentInput \<Rightarrow> ApiError + WalletDescriptor" where
  "provisioner_sign C pv input =
     (let descriptor =
        \<lparr> wd_version = API_VERSION,
          wd_security_domain_id = rp_security_domain_id (pv_policy pv),
          wd_network = rp_network (pv_policy pv),
          wd_turnkey_organization_id = eni_organization_id input,
          wd_turnkey_wallet_id = eni_turnkey_wallet_id input,
          wd_address = eni_solana_address input,
          wd_allowed_clients =
            [\<lparr> cg_client_public_key = eni_client_public_key input,
               cg_allowed_operations = rp_allowed_operations (pv_policy pv) \<rparr>],
          wd_expires_at_ms = saturating_add (eni_issued_at_ms input) (pv_descriptor_ttl_ms pv),
          wd_provisioning_signature = [] \<rparr> in
      and_then (or_fail Api_ProvisionerUnavailable (descriptor_digest C descriptor)) (\<lambda>digest.
      and_then (or_fail Api_ProvisionerUnavailable (sign_p256_prehash C (pv_secret pv) digest)) (\<lambda>signature.
      Ok (descriptor \<lparr> wd_provisioning_signature := signature \<rparr>))))"

definition provisioner_verify ::
    "'x crates_scheme \<Rightarrow> Provisioner \<Rightarrow> WalletDescriptor \<Rightarrow> u64 \<Rightarrow> ApiError + unit" where
  "provisioner_verify C pv descriptor now =
     (if wd_version descriptor \<noteq> API_VERSION
         \<or> wd_security_domain_id descriptor \<noteq> rp_security_domain_id (pv_policy pv)
         \<or> wd_network descriptor \<noteq> rp_network (pv_policy pv)
         \<or> length (wd_allowed_clients descriptor) \<noteq> 1
      then Err Api_InvalidDescriptor
      else
        and_then (or_fail Api_InvalidDescriptor (descriptor_digest C descriptor)) (\<lambda>digest.
        and_then (or_fail Api_InvalidDescriptor
            (verify_p256_prehash C (pv_public_key pv) digest (wd_provisioning_signature descriptor))) (\<lambda>_.
        or_fail Api_DescriptorExpired (check_current descriptor now))))"

section \<open>Wallet grants\<close>

record WalletGrants =
  wgs_secret :: bytes
  wgs_lifetime_ms :: u64
  wgs_revoked_client_key_ids :: "string list"

definition wallet_grants_new :: "'x crates_scheme \<Rightarrow> WalletGrantConfig \<Rightarrow> StartupError + WalletGrants" where
  "wallet_grants_new C config =
     and_then (load_signing_key C (trim (wgc_private_key config)) (wgc_expected_public_key config))
       (\<lambda>(secret, _).
     let lifetime_ms = saturating_mul (wgc_ttl_secs config) 1000 in
     and_then (ensure (lifetime_ms > 0 \<and> lifetime_ms \<le> MAX_WALLET_GRANT_LIFETIME_MS) GrantTtlOutOfRange) (\<lambda>_.
     Ok \<lparr> wgs_secret = secret, wgs_lifetime_ms = lifetime_ms,
          wgs_revoked_client_key_ids = wgc_revoked_client_key_ids config \<rparr>))"

definition unrevoked :: "WalletGrants \<Rightarrow> string \<Rightarrow> ApiError + string" where
  "unrevoked grants key_id =
     (if key_id \<in> set (wgs_revoked_client_key_ids grants) then Err Api_ClientKeyRevoked else Ok key_id)"

definition check_client_key :: "'x crates_scheme \<Rightarrow> WalletGrants \<Rightarrow> bytes \<Rightarrow> ApiError + unit" where
  "check_client_key C grants public =
     and_then (unrevoked grants (client_key_id C public)) (\<lambda>_. Ok ())"

definition issue_grant ::
    "'x crates_scheme \<Rightarrow> WalletGrants \<Rightarrow> ProjectId \<Rightarrow> WalletDescriptor \<Rightarrow> u64 \<Rightarrow> ApiError + WalletGrant" where
  "issue_grant C grants project descriptor now =
     (case wd_allowed_clients descriptor of
        [client] \<Rightarrow>
          and_then (unrevoked grants (client_key_id C (cg_client_public_key client))) (\<lambda>key_id.
          and_then (or_fail Api_WalletGrantUnavailable (descriptor_digest C descriptor)) (\<lambda>digest.
          or_fail Api_WalletGrantUnavailable (sign_wallet_grant C
            \<lparr> wg_version = API_VERSION, wg_descriptor_digest = digest, wg_client_key_id = key_id,
              wg_project_id = project, wg_issued_at_ms = now,
              wg_expires_at_ms = saturating_add now (wgs_lifetime_ms grants), wg_signature = [] \<rparr>
            (wgs_secret grants))))
      | _ \<Rightarrow> Err Api_InvalidDescriptor)"

section \<open>Facts\<close>

definition key_pair :: "'x crates_scheme \<Rightarrow> bytes \<Rightarrow> bytes \<Rightarrow> bool" where
  "key_pair C secret public \<longleftrightarrow>
     (\<exists>k. p256_secret C secret = Some k \<and> public = public_key_uncompressed C (p256_public_key C k))"

lemma load_signing_key_pair: "load_signing_key C h e = Ok (secret, public) \<Longrightarrow> key_pair C secret public"
  by (auto simp: key_pair_def public_key_uncompressed_def dest!: load_signing_key_Ok)

lemma key_pair_verifies:
  "p256_laws C \<Longrightarrow> ecdsa_laws C \<Longrightarrow> key_pair C secret public \<Longrightarrow> sign_p256_prehash C secret d = Ok s \<Longrightarrow>
     verify_p256_prehash C public d s = Ok ()"
  by (auto simp: key_pair_def dest: sign_verify)

lemma provisioner_new_Ok:
  "provisioner_new C config network reading file = Ok pv \<Longrightarrow>
     key_pair C (pv_secret pv) (pv_public_key pv) \<and> rp_network (pv_policy pv) = network \<and>
     (\<exists>p a now. file = Some (Some (p, a)) \<and> clock_reading reading = Some now \<and> pv_policy pv = srp_policy p \<and>
        verify_signed_release_policy C p a network now = Ok ())"
  by (auto simp: provisioner_new_def provisioning_key_def read_release_def result_simps
      dest: load_signing_key_pair split: if_splits)

lemma wallet_grants_new_Ok:
  "wallet_grants_new C config = Ok wg \<Longrightarrow>
     (\<exists>public. key_pair C (wgs_secret wg) public) \<and> 0 < unat (wgs_lifetime_ms wg) \<and>
     unat (wgs_lifetime_ms wg) \<le> 3600000"
  by (auto simp: wallet_grants_new_def result_simps Let_def limit_defs word_le_nat_alt unat_gt_0
      split: if_splits) (blast intro: load_signing_key_pair)+

text \<open>The descriptor an enrollment is signed to, but for the signature.\<close>

definition enrolled_descriptor :: "Provisioner \<Rightarrow> EnrollmentInput \<Rightarrow> WalletDescriptor \<Rightarrow> bool" where
  "enrolled_descriptor pv i d \<longleftrightarrow>
     wd_version d = API_VERSION \<and> wd_security_domain_id d = rp_security_domain_id (pv_policy pv) \<and>
     wd_network d = rp_network (pv_policy pv) \<and> wd_turnkey_organization_id d = eni_organization_id i \<and>
     wd_turnkey_wallet_id d = eni_turnkey_wallet_id i \<and> wd_address d = eni_solana_address i \<and>
     wd_allowed_clients d = [\<lparr> cg_client_public_key = eni_client_public_key i,
       cg_allowed_operations = rp_allowed_operations (pv_policy pv) \<rparr>] \<and>
     wd_expires_at_ms d = saturating_add (eni_issued_at_ms i) (pv_descriptor_ttl_ms pv)"

lemma provisioner_sign_Ok:
  assumes "p256_laws C" "ecdsa_laws C" "key_pair C (pv_secret pv) (pv_public_key pv)"
    and "provisioner_sign C pv i = Ok d"
  shows "enrolled_descriptor pv i d \<and>
    (\<exists>h. descriptor_digest C d = Ok h \<and>
       verify_p256_prehash C (pv_public_key pv) h (wd_provisioning_signature d) = Ok ())"
  using assms(4) key_pair_verifies [OF assms(1-3)]
  by (auto simp: provisioner_sign_def result_simps Let_def enrolled_descriptor_def
      descriptor_digest_payload descriptor_payload_def)

lemma provisioner_verify_Ok:
  "provisioner_verify C pv d now = Ok () \<longleftrightarrow>
     wd_version d = API_VERSION \<and> wd_security_domain_id d = rp_security_domain_id (pv_policy pv) \<and>
     wd_network d = rp_network (pv_policy pv) \<and> length (wd_allowed_clients d) = 1 \<and>
     (\<exists>h. descriptor_digest C d = Ok h \<and>
        verify_p256_prehash C (pv_public_key pv) h (wd_provisioning_signature d) = Ok ()) \<and>
     descriptor_current d (unat now)"
  by (auto simp: provisioner_verify_def result_simps check_current_iff split: if_splits)

lemma issue_grant_Ok:
  assumes "p256_laws C" "ecdsa_laws C" "key_pair C (wgs_secret wg) public"
    and "issue_grant C wg project d now = Ok g"
  shows "wg_version g = API_VERSION \<and> descriptor_digest C d = Ok (wg_descriptor_digest g) \<and>
    (\<exists>c. wd_allowed_clients d = [c] \<and> wg_client_key_id g = client_key_id C (cg_client_public_key c) \<and>
       wg_client_key_id g \<notin> set (wgs_revoked_client_key_ids wg)) \<and>
    wg_project_id g = project \<and> wg_issued_at_ms g = now \<and>
    wg_expires_at_ms g = saturating_add now (wgs_lifetime_ms wg) \<and>
    (\<exists>h. wallet_grant_digest C g = Ok h \<and> verify_p256_prehash C public h (wg_signature g) = Ok ())"
  using assms(4) key_pair_verifies [OF assms(1-3)]
  by (auto simp: issue_grant_def sign_wallet_grant_def unrevoked_def result_simps Let_def
      wallet_grant_digest_payload grant_payload_def split: list.splits if_splits)

lemma issued_grant_verifies:
  assumes "p256_laws C" "ecdsa_laws C" "key_pair C (wgs_secret wg) public"
    and "unat (wgs_lifetime_ms wg) \<le> 3600000" "issue_grant C wg project d now = Ok g"
    and "wd_allowed_clients d = [c]"
    and "unat now \<le> unat later + 60000" "unat later \<le> unat now + unat (wgs_lifetime_ms wg) + 60000"
  shows "verify_wallet_grant C g public d (client_key_id C (cg_client_public_key c)) later = Ok ()"
proof -
  note grant = issue_grant_Ok [OF assms(1-3,5)]
  have "grant_window g (unat later)"
    using assms(4,7,8) grant unat_u64_bound [of now] unat_u64_bound [of later]
    by (auto simp: grant_window_def unat_saturating_add min_def)
  then show ?thesis using grant assms(6) by (auto simp: verify_wallet_grant_iff)
qed

section \<open>The enclave the gateway serves\<close>

text \<open>The enclave was built with the gateway's two public keys and runs the release it issues for.\<close>

definition enclave_of :: "'x enclave_crates_scheme \<Rightarrow> Provisioner \<Rightarrow> WalletGrants \<Rightarrow> AppState \<Rightarrow> bool" where
  "enclave_of C pv wg st \<longleftrightarrow>
     rt_provisioning_public (st_runtime st) = pv_public_key pv \<and>
     key_pair C (wgs_secret wg) (rt_grant_public (st_runtime st)) \<and>
     si_network (st_info st) = rp_network (pv_policy pv) \<and>
     si_security_domain_id (st_info st) = rp_security_domain_id (pv_policy pv) \<and>
     rp_allowed_operations (pv_policy pv) = OPERATIONS"

text \<open>The packages agree on two texts: \<open>uuid\<close> writes a lower-case hyphenated UUID as it is, and
  \<open>solana_pubkey\<close> reads the base58 of 32 bytes.\<close>

definition text_agreement_laws :: "'x gateway_crates_scheme \<Rightarrow> bool" where
  "text_agreement_laws C \<longleftrightarrow>
     (\<forall>v. is_canonical_uuid_text v \<longrightarrow> uuid_hyphenated C v = Some v) \<and>
     (\<forall>s b. bs58_decode C s = Some b \<longrightarrow> length b = 32 \<longrightarrow> pubkey_from_str C s \<noteq> None)"

lemma valid_enrollment_enclave:
  assumes "text_agreement_laws C" "valid_enrollment C r i"
  shows "pubkey_from_str C (eni_solana_address i) \<noteq> None" "is_canonical_uuid C (eni_organization_id i)"
    "length (eni_turnkey_wallet_id i) = 36" "length (eni_client_public_key i) = 65"
  using assms
  by (auto simp: valid_enrollment_def text_agreement_laws_def is_canonical_uuid_def
      is_canonical_uuid_text_def solana_public_key_def client_public_key_def hex_decode_to_slice_def
      bind_eq_Some_conv Let_def split: option.splits if_splits sum.splits) 

section \<open>Properties\<close>

text \<open>
  The gateway recognises every descriptor it signs, until a minute after the lifetime it gave it
  from the time the owner signed; then it says that the descriptor has expired. The descriptor grants
  the enrolled client key, and no other, exactly the operations of the release, for the wallet,
  address and organization the owner named.
\<close>

lemma provisioner_recognises_its_descriptors:
  assumes "p256_laws C" "ecdsa_laws C" "provisioner_new C config network reading file = Ok pv"
    and "provisioner_sign C pv i = Ok d"
  shows "enrolled_descriptor pv i d \<and>
    provisioner_verify C pv d now =
      (if unat now \<le> min (unat (eni_issued_at_ms i) + unat (pv_descriptor_ttl_ms pv)) (2 ^ 64 - 1) + 60000
       then Ok () else Err Api_DescriptorExpired)"
proof -
  have "key_pair C (pv_secret pv) (pv_public_key pv)" using provisioner_new_Ok [OF assms(3)] by simp
  from provisioner_sign_Ok [OF assms(1,2) this assms(4)] obtain h where d: "enrolled_descriptor pv i d"
    "descriptor_digest C d = Ok h" "verify_p256_prehash C (pv_public_key pv) h (wd_provisioning_signature d) = Ok ()"
    by auto
  have "provisioner_verify C pv d now = or_fail Api_DescriptorExpired (check_current d now)"
    using d by (auto simp: provisioner_verify_def enrolled_descriptor_def)
  moreover have "or_fail Api_DescriptorExpired (check_current d now) =
      (if descriptor_current d (unat now) then Ok () else Err Api_DescriptorExpired)"
    using check_current_iff [of d now] by (cases "check_current d now") auto
  moreover have "descriptor_current d (unat now) \<longleftrightarrow>
      unat now \<le> min (unat (eni_issued_at_ms i) + unat (pv_descriptor_ttl_ms pv)) (2 ^ 64 - 1) + 60000"
    using d(1) by (simp add: descriptor_current_def enrolled_descriptor_def unat_saturating_add)
  ultimately show ?thesis using d(1) by simp
qed

text \<open>
  What the gateway issues, its enclave accepts: the descriptor of an accepted enrollment meets every
  condition the enclave sets on a descriptor, and a grant for it verifies at the enclave from a minute
  before it was issued until a minute after its lifetime.
\<close>

lemma issued_for_its_enclave:
  assumes "p256_laws C" "ecdsa_laws C" "text_agreement_laws C"
    and "key_pair C (pv_secret pv) (pv_public_key pv)" "enclave_of C pv wg st" "valid_enrollment C r i"
    and "provisioner_sign C pv i = Ok d"
  shows "well_provisioned C d (rt_provisioning_public (st_runtime st))"
    and "wd_network d = si_network (st_info st)" "wd_security_domain_id d = si_security_domain_id (st_info st)"
    and "wd_turnkey_wallet_id d \<noteq> []" "length (eni_client_public_key i) = 65"
    and "wd_allowed_clients d = [\<lparr> cg_client_public_key = eni_client_public_key i, cg_allowed_operations = OPERATIONS \<rparr>]"
proof -
  note fields = valid_enrollment_enclave [OF assms(3,6)]
  have sign: "enrolled_descriptor pv i d" "\<exists>h. descriptor_digest C d = Ok h \<and>
      verify_p256_prehash C (pv_public_key pv) h (wd_provisioning_signature d) = Ok ()"
    using provisioner_sign_Ok [OF assms(1,2,4,7)] by blast+
  then have d: "wd_address d = eni_solana_address i" "wd_turnkey_wallet_id d = eni_turnkey_wallet_id i"
    "wd_turnkey_organization_id d = eni_organization_id i" "wd_version d = API_VERSION"
    by (auto simp: enrolled_descriptor_def)
  show "well_provisioned C d (rt_provisioning_public (st_runtime st))"
    using sign d fields(1-3) assms(5) by (auto simp: well_provisioned_def enclave_of_def)
  show "wd_turnkey_wallet_id d \<noteq> []" using d(2) fields(3) by auto
  show "length (eni_client_public_key i) = 65" by (rule fields(4))
  show "wd_network d = si_network (st_info st)" "wd_security_domain_id d = si_security_domain_id (st_info st)"
    "wd_allowed_clients d = [\<lparr> cg_client_public_key = eni_client_public_key i, cg_allowed_operations = OPERATIONS \<rparr>]"
    using sign(1) assms(5) by (simp_all add: enrolled_descriptor_def enclave_of_def)
qed

lemma gateway_serves_its_enclave:
  assumes "p256_laws C" "ecdsa_laws C" "text_agreement_laws C"
    and "provisioner_new C config network reading file = Ok pv" "wallet_grants_new C grant_config = Ok wg"
    and "enclave_of C pv wg st" "enrollment_verify C en r enrolled_at = Ok i"
    and "provisioner_sign C pv i = Ok d" "issue_grant C wg project d now = Ok g"
  shows "well_provisioned C d (rt_provisioning_public (st_runtime st)) \<and>
    wd_network d = si_network (st_info st) \<and> wd_security_domain_id d = si_security_domain_id (st_info st) \<and>
    wd_turnkey_wallet_id d \<noteq> [] \<and> length (eni_client_public_key i) = 65 \<and>
    wd_allowed_clients d = [\<lparr> cg_client_public_key = eni_client_public_key i, cg_allowed_operations = OPERATIONS \<rparr>] \<and>
    (\<forall>later. unat now \<le> unat later + 60000 \<longrightarrow>
       unat later \<le> unat now + unat (wgs_lifetime_ms wg) + 60000 \<longrightarrow>
       verify_wallet_grant C g (rt_grant_public (st_runtime st)) d
         (client_key_id C (eni_client_public_key i)) later = Ok ())"
proof -
  have pair: "key_pair C (pv_secret pv) (pv_public_key pv)" using provisioner_new_Ok [OF assms(4)] by simp
  have valid: "valid_enrollment C r i" using assms(7) by (simp add: enrollment_verify_Ok)
  note issued = issued_for_its_enclave [OF assms(1-3) pair assms(6) valid assms(8)]
  have grants: "key_pair C (wgs_secret wg) (rt_grant_public (st_runtime st))"
    using assms(6) by (simp add: enclave_of_def)
  have "unat (wgs_lifetime_ms wg) \<le> 3600000" using wallet_grants_new_Ok [OF assms(5)] by simp
  from issued_grant_verifies [OF assms(1,2) grants this assms(9) issued(6)] issued show ?thesis by simp
qed

section \<open>Witnesses\<close>

text \<open>A gateway of the enclave of \<open>demo_state\<close>: both of its keys are the secret of 32 ones.\<close>

definition demo_served_policy :: ReleasePolicy where
  "demo_served_policy = demo_policy
     \<lparr> rp_security_domain_id := replicate 32 17, rp_allowed_operations := OPERATIONS, rp_expires_at_ms := 1900000000000 \<rparr>"

definition demo_provisioning :: ProvisioningConfig where
  "demo_provisioning =
     \<lparr> pc_private_key = demo_hex_encode (replicate 32 1),
       pc_expected_public_key = demo_hex_encode demo_key, pc_release_path = ''release.json'',
       pc_descriptor_ttl_secs = 86400 \<rparr>"

definition demo_grant_config :: WalletGrantConfig where
  "demo_grant_config =
     \<lparr> wgc_private_key = demo_hex_encode (replicate 32 1),
       wgc_expected_public_key = demo_hex_encode demo_key, wgc_ttl_secs = 120,
       wgc_revoked_client_key_ids = [] \<rparr>"

definition demo_provisioner :: Provisioner where
  "demo_provisioner =
     \<lparr> pv_secret = replicate 32 1, pv_public_key = demo_key, pv_policy = demo_served_policy,
       pv_descriptor_ttl_ms = 86400000 \<rparr>"

definition demo_grants :: WalletGrants where
  "demo_grants =
     \<lparr> wgs_secret = replicate 32 1, wgs_lifetime_ms = 120000, wgs_revoked_client_key_ids = [] \<rparr>"

lemma strip_any_None: "(\<And>p t. p \<in> set ps \<Longrightarrow> s \<noteq> p @ t) \<Longrightarrow> strip_any ps s = None"
proof (induction ps)
  case (Cons p ps)
  have "strip_prefix p s = None" using Cons.prems [of p] by (cases "strip_prefix p s") (auto simp: strip_prefix_Some)
  with Cons show ?case by simp
qed simp

text \<open>Lower-case hexadecimal passes unchanged.\<close>

lemma trim_hex:
  assumes "list_all is_lower_hex_digit s"
  shows "trim s = s" "trim_start_matches [''0x''] s = s"
proof -
  have keep: "trim_start_matches ps t = t"
    if "list_all is_lower_hex_digit t" "\<forall>p \<in> set ps. \<not> list_all is_lower_hex_digit p" for ps t
  proof -
    have "strip_any ps t = None" by (rule strip_any_None) (use that in auto)
    then show ?thesis by (simp add: trim_start_matches.simps)
  qed
  have "\<forall>p \<in> set white_space. \<not> list_all is_lower_hex_digit p"
    "\<forall>p \<in> set (map rev white_space). \<not> list_all is_lower_hex_digit p"
    by (simp_all add: white_space_def string_of_bytes_def is_lower_hex_digit_def is_ascii_digit_def ascii_def
        char_of_def bit_0)
  with assms show "trim s = s" by (simp add: trim_def keep list_all_rev)
  show "trim_start_matches [''0x''] s = s"
    by (rule keep [OF assms]) (simp add: is_lower_hex_digit_def is_ascii_digit_def ascii_def)
qed

lemma demo_secret_trimmed:
  "trim (demo_hex_encode b) = demo_hex_encode b"
  "trim_start_matches [''0x''] (demo_hex_encode b) = demo_hex_encode b"
  using demo_hex_laws by (auto simp: trim_hex hex_laws_def demo_hex_encode_field)

lemma demo_load_key:
  "load_signing_key demo_gateway (demo_hex_encode (replicate 32 1)) (demo_hex_encode demo_key) =
     Ok (replicate 32 1, demo_key)"
  by (simp add: load_signing_key_def hex_decode_to_slice_def public_key_of_def demo_gateway_fields
      demo_hex_roundtrip demo_key_def demo_crates_def Let_def flip: replicate_add del: demo_hex_encode.simps)

lemma demo_provisioner_starts:
  "\<exists>file. provisioner_new demo_gateway demo_provisioning Devnet (Some 50) file = Ok demo_provisioner"
proof -
  obtain d where d: "policy_signing_digest demo_gateway demo_served_policy = Ok d"
    by (simp add: policy_signing_digest_def jcs_serialize_def canonicalize_json_value_spec
        no_float_release_policy)
  have s: "verify_p256_prehash demo_gateway (4 # replicate 64 1) d (demo_signature d) = Ok ()"
    unfolding verify_p256_prehash_iff parse_uncompressed_sec1_def demo_gateway_fields demo_signature_def
    by (simp add: demo_crates_def SEC1_UNCOMPRESSED_LEN_def RAW_P256_SIGNATURE_LEN_def demo_signature_head)
  define p where "p = \<lparr> srp_policy = demo_served_policy, srp_authority_set_id = ''set'',
      srp_signatures = [\<lparr> ras_key_id = ''k'', ras_signature = demo_signature d \<rparr>] \<rparr>"
  have "verify_signed_release_policy demo_gateway p demo_authorities Devnet 50 = Ok ()"
    using d s by (simp add: verify_signed_release_policy_def p_def demo_authorities_def demo_served_policy_def
        demo_policy_def API_VERSION_def EXPECTED_TURNKEY_TRUST_ROOT_ID_def checked_add_def)
  then have "read_release demo_gateway (Some (Some (p, demo_authorities))) Devnet 50 = Ok demo_served_policy"
    by (simp add: read_release_def p_def) (simp add: demo_served_policy_def demo_policy_def)
  then have "provisioner_new demo_gateway demo_provisioning Devnet (Some 50) (Some (Some (p, demo_authorities))) =
      Ok demo_provisioner"
    by (simp add: provisioner_new_def provisioning_key_def demo_provisioning_def demo_secret_trimmed
        demo_load_key clock_reading_def u64_try_from_def demo_provisioner_def saturating_mul_def
        del: demo_hex_encode.simps)
  then show ?thesis by blast
qed

lemma demo_grants_start: "wallet_grants_new demo_gateway demo_grant_config = Ok demo_grants"
  by (simp add: wallet_grants_new_def demo_grant_config_def demo_secret_trimmed demo_load_key
      demo_grants_def saturating_mul_def limit_defs del: demo_hex_encode.simps)

lemma demo_sign_exists: "\<exists>s. sign_p256_prehash demo_gateway (replicate 32 1) h = Ok s"
  by (simp add: sign_p256_prehash_def demo_gateway_fields) (simp add: demo_crates_def Let_def)

lemma demo_sign: "\<exists>d. provisioner_sign demo_gateway demo_provisioner i = Ok d"
proof -
  obtain s where "sign_p256_prehash demo_gateway (replicate 32 1) h = Ok (s h)" for h
    using demo_sign_exists by metis
  then show ?thesis
    by (simp add: provisioner_sign_def demo_provisioner_def Let_def descriptor_digest_exists)
qed

lemma provisioner_recognises_its_descriptors_witness:
  "\<exists>d. provisioner_sign demo_gateway demo_provisioner demo_enrollment_input = Ok d \<and>
     provisioner_verify demo_gateway demo_provisioner d 1800086460000 = Ok () \<and>
     provisioner_verify demo_gateway demo_provisioner d 1800086460001 = Err Api_DescriptorExpired"
proof -
  obtain f where new: "provisioner_new demo_gateway demo_provisioning Devnet (Some 50) f = Ok demo_provisioner"
    using demo_provisioner_starts by blast
  obtain d where d: "provisioner_sign demo_gateway demo_provisioner demo_enrollment_input = Ok d"
    using demo_sign by blast
  from provisioner_recognises_its_descriptors [OF demo_gateway_laws(3,4) new d] d show ?thesis
    by (simp add: demo_enrollment_input_def demo_provisioner_def)
qed

lemma gateway_serves_its_enclave_witness:
  "\<exists>d g. provisioner_sign demo_gateway demo_provisioner demo_enrollment_input = Ok d \<and>
     issue_grant demo_gateway demo_grants ''project-a'' d 1800000001000 = Ok g \<and>
     well_provisioned demo_gateway d (rt_provisioning_public (st_runtime demo_state)) \<and>
     verify_wallet_grant demo_gateway g (rt_grant_public (st_runtime demo_state)) d
       (client_key_id demo_gateway demo_key) 1800000121000 = Ok ()"
proof -
  obtain f where new: "provisioner_new demo_gateway demo_provisioning Devnet (Some 50) f = Ok demo_provisioner"
    using demo_provisioner_starts by blast
  obtain d where d: "provisioner_sign demo_gateway demo_provisioner demo_enrollment_input = Ok d"
    using demo_sign by blast
  have clients: "wd_allowed_clients d = [\<lparr> cg_client_public_key = 4 # replicate 64 1, cg_allowed_operations = OPERATIONS \<rparr>]"
    using d by (auto simp: provisioner_sign_def result_simps Let_def demo_provisioner_def
        demo_enrollment_input_def demo_served_policy_def)
  obtain s where "sign_p256_prehash demo_gateway (replicate 32 1) h = Ok (s h)" for h
    using demo_sign_exists by metis
  then obtain g where g: "issue_grant demo_gateway demo_grants ''project-a'' d 1800000001000 = Ok g"
    by (simp add: issue_grant_def clients unrevoked_def demo_grants_def descriptor_digest_exists
        sign_wallet_grant_def wallet_grant_digest_exists Let_def)
  have pair: "key_pair demo_gateway (replicate 32 1) demo_key"
    using demo_load_key by (rule load_signing_key_pair)
  have enclave: "enclave_of demo_gateway demo_provisioner demo_grants demo_state"
    using pair by (simp add: enclave_of_def demo_provisioner_def demo_grants_def demo_state_def
        demo_runtime_def demo_served_policy_def demo_policy_def flip: demo_key_def)
  have texts: "text_agreement_laws demo_gateway"
    by (simp add: text_agreement_laws_def demo_gateway_fields)
  have "enrollment_verify demo_gateway demo_enrollment demo_enrollment_request 1800000000000 = Ok demo_enrollment_input"
    unfolding enrollment_verify_Ok using demo_valid_enrollment demo_owner_signed
    by (simp add: enrollment_fresh_def demo_enrollment_request_def demo_unsigned_enrollment_def)
  from gateway_serves_its_enclave [OF demo_gateway_laws(3,4) texts new demo_grants_start enclave this d g]
  show ?thesis using d g by (simp add: demo_grants_def demo_enrollment_input_def demo_key_def)
qed

end
