(* ===== verification/Release_Ceremony.thy ===== *)
theory Release_Ceremony
  imports Gateway_Provisioning
begin

text \<open>
  \<open>crates/protocol/examples/sign-release-policy.rs\<close>: the ceremony that signs a release policy with a key
  drawn for it and forgotten, and prints the release file that clients and the gateway read. The texts
  of errors are a datatype; what the ceremony reads, the answers of the file system and the clock are
  inputs, and what it writes or prints is its output.
\<close>

section \<open>The key\<close>

datatype CeremonyError =
    CeremonyIo
  | CouldNotDrawScalar
  | SigningKeyRefused
  | PolicyNotSigned TvcError
  | FailsOwnVerification TvcError
  | TestkitUnreadable
  | CeremonyClock
  | QuorumKeyNotHex
  | PolicyUnreadable
  | CeremonyUsage

text \<open>
  \<open>/dev/urandom\<close>: whether it opens, and what reading 32 bytes gives each time, \<open>None\<close> when that fails.
\<close>

record urandom =
  ur_opens :: bool
  ur_reads :: "nat \<Rightarrow> bytes option"

text \<open>\<open>draw_scalar C source left i\<close>: the rounds from the \<open>i\<close>-th on, of which \<open>left\<close> are left.\<close>

fun draw_scalar :: "'x crates_scheme \<Rightarrow> urandom \<Rightarrow> nat \<Rightarrow> nat \<Rightarrow> CeremonyError + bytes" where
  "draw_scalar C source 0 i = Err CouldNotDrawScalar"
| "draw_scalar C source (Suc left) i =
     and_then (ok_or CeremonyIo (ur_reads source i)) (\<lambda>drawn.
     if p256_secret C drawn \<noteq> None then Ok drawn else draw_scalar C source left (Suc i))"

definition urandom_scalar :: "'x crates_scheme \<Rightarrow> urandom \<Rightarrow> CeremonyError + bytes" where
  "urandom_scalar C source =
     and_then (ensure (ur_opens source) CeremonyIo) (\<lambda>_. draw_scalar C source 64 0)"

section \<open>Signing\<close>

definition ceremony_key_id :: "ReleasePolicy \<Rightarrow> string" where
  "ceremony_key_id policy = rp_release_id policy @ ''-authority-1''"

definition ceremony_sign ::
    "'x crates_scheme \<Rightarrow> urandom \<Rightarrow> ReleasePolicy \<Rightarrow> string \<Rightarrow> CeremonyError + ReleaseFile" where
  "ceremony_sign C source policy authority_set_id =
     and_then (urandom_scalar C source) (\<lambda>secret.
     and_then (ok_or SigningKeyRefused (p256_secret C secret)) (\<lambda>signing_key.
     let public = public_key_uncompressed C (p256_public_key C signing_key) in
     and_then (map_err PolicyNotSigned (sign_release_policy C policy secret)) (\<lambda>signature.
     let key_id = ceremony_key_id policy;
         signed =
           \<lparr> srp_policy = policy, srp_authority_set_id = authority_set_id,
             srp_signatures = [\<lparr> ras_key_id = key_id, ras_signature = signature \<rparr>] \<rparr>;
         authorities =
           \<lparr> pra_authority_set_id = authority_set_id, pra_threshold = 1,
             pra_keys = [\<lparr> rak_key_id = key_id, rak_public_key = public \<rparr>],
             pra_minimum_revocation_epoch = 0 \<rparr> in
     and_then (map_err FailsOwnVerification
         (verify_signed_release_policy C signed authorities (rp_network policy)
            (rp_valid_from_ms policy))) (\<lambda>_.
     Ok (signed, authorities)))))"

section \<open>The local testkit's release\<close>

text \<open>The fields of \<open>packages/tvc-wallet/src/local-testkit.json\<close> that the ceremony reads.\<close>

record CeremonyTestkit =
  ctk_release_id :: string
  ctk_quorum_key_id :: string
  ctk_security_domain_label :: string
  ctk_manifest_label :: string
  ctk_executable_label :: string
  ctk_quorum_public_key :: string
  ctk_operations :: "OperationKind list"

definition LOCAL_VALIDITY_MS :: u64 where
  "LOCAL_VALIDITY_MS = 30 * 24 * 60 * 60 * 1000"

definition local_testkit_policy ::
    "'x crates_scheme \<Rightarrow> CeremonyTestkit option \<Rightarrow> nat option \<Rightarrow> CeremonyError + ReleasePolicy" where
  "local_testkit_policy C parsed reading =
     and_then (ok_or TestkitUnreadable parsed) (\<lambda>testkit.
     and_then (ok_or CeremonyClock reading) (\<lambda>millis.
     and_then (ok_or CeremonyClock (u64_try_from millis)) (\<lambda>now.
     and_then (ok_or QuorumKeyNotHex (hex_decode C (ctk_quorum_public_key testkit))) (\<lambda>quorum_public_key.
     Ok \<lparr> rp_version = API_VERSION,
          rp_release_id = ctk_release_id testkit,
          rp_network = Devnet,
          rp_tvc_application_id = ''local-testkit'',
          rp_security_domain_id = sha256_hash C (as_bytes (ctk_security_domain_label testkit)),
          rp_accepted_manifest_digests =
            [hex_encode C (sha256_hash C (as_bytes (ctk_manifest_label testkit)))],
          rp_accepted_executable_digests =
            [hex_encode C (sha256_hash C (as_bytes (ctk_executable_label testkit)))],
          rp_quorum_key_id = ctk_quorum_key_id testkit,
          rp_quorum_key_epoch = 1,
          rp_quorum_public_key = quorum_public_key,
          rp_allowed_operations = ctk_operations testkit,
          rp_max_encrypted_request_bytes = 262144,
          rp_max_encrypted_response_bytes = 262144,
          rp_turnkey_trust_root_id = EXPECTED_TURNKEY_TRUST_ROOT_ID,
          rp_turnkey_proof_schema_versions = [''turnkey.boot_proof.v1''],
          rp_valid_from_ms = saturating_sub now (60 * 60 * 1000),
          rp_expires_at_ms = saturating_add now LOCAL_VALIDITY_MS,
          rp_revocation_epoch = 0 \<rparr>))))"

section \<open>The command\<close>

definition ReleaseAuthorityKey_json :: "'x crates_scheme \<Rightarrow> ReleaseAuthorityKey \<Rightarrow> json" where
  "ReleaseAuthorityKey_json C x = JObject (bt_of
       [(''keyId'', JString (rak_key_id x)),
        (''publicKey'', serialize_hex C (rak_public_key x))])"

definition PinnedReleaseAuthorities_json :: "'x crates_scheme \<Rightarrow> PinnedReleaseAuthorities \<Rightarrow> json" where
  "PinnedReleaseAuthorities_json C x = JObject (bt_of
       [(''authoritySetId'', JString (pra_authority_set_id x)),
        (''threshold'', serialize_uint (unat (pra_threshold x))),
        (''keys'', JArray (map (ReleaseAuthorityKey_json C) (pra_keys x))),
        (''minimumRevocationEpoch'', serialize_decimal (pra_minimum_revocation_epoch x))])"

definition release_file_json :: "'x crates_scheme \<Rightarrow> ReleaseFile \<Rightarrow> json" where
  "release_file_json C file = JObject (bt_of
       [(''releasePolicy'', SignedReleasePolicy_json C (fst file)),
        (''releaseAuthorities'', PinnedReleaseAuthorities_json C (snd file))])"

text \<open>
  What the command takes from outside: its randomness, the parsed testkit, the clock in milliseconds,
  whether the output directory could be made and the file in it written, and the policy in the file at
  a path, \<open>None\<close> when it cannot be read or parsed.
\<close>

record ceremony_env =
  ce_urandom :: urandom
  ce_testkit :: "CeremonyTestkit option"
  ce_clock :: "nat option"
  ce_makes_dir :: bool
  ce_writes :: bool
  ce_policy :: "string \<Rightarrow> ReleasePolicy option"

datatype ceremony_effect = MakeDir string | WriteIn string string json | PrintJson json

text \<open>What the command did to the outside, and how it ended.\<close>

definition ceremony_run ::
    "'x crates_scheme \<Rightarrow> ceremony_env \<Rightarrow> string list \<Rightarrow> ceremony_effect list \<times> (CeremonyError + unit)" where
  "ceremony_run C env args =
     (case args of
        path # second # others \<Rightarrow>
          if others = [] \<and> path = ''--local-testkit'' then
            (case and_then (local_testkit_policy C (ce_testkit env) (ce_clock env)) (\<lambda>policy.
                  ceremony_sign C (ce_urandom env) policy ''local-testkit'') of
               Inl e \<Rightarrow> ([], Err e)
             | Inr file \<Rightarrow>
                 if \<not> ce_makes_dir env then ([], Err CeremonyIo)
                 else if \<not> ce_writes env then ([MakeDir second], Err CeremonyIo)
                 else ([MakeDir second,
                        WriteIn second ''release.json'' (release_file_json C file)], Ok ()))
          else
            (case and_then (ok_or PolicyUnreadable (ce_policy env path)) (\<lambda>policy.
                  ceremony_sign C (ce_urandom env) policy second) of
               Inl e \<Rightarrow> ([], Err e)
             | Inr file \<Rightarrow> ([PrintJson (release_file_json C file)], Ok ()))
      | _ \<Rightarrow> ([], Err CeremonyUsage))"

section \<open>Facts\<close>

lemma draw_scalar_Ok:
  "draw_scalar C source left i = Ok secret \<longleftrightarrow>
     (\<exists>j < left. ur_reads source (i + j) = Some secret \<and> p256_secret C secret \<noteq> None \<and>
        (\<forall>k < j. \<exists>b. ur_reads source (i + k) = Some b \<and> p256_secret C b = None))"
proof (induction C source left i rule: draw_scalar.induct)
  case (2 C source left i)
  show ?case
  proof (cases "ur_reads source i")
    case None
    then show ?thesis by (force simp: Ex_less_Suc2)
  next
    case (Some b)
    then show ?thesis using "2.IH" [of b]
      by (auto simp: Ex_less_Suc2 All_less_Suc2)
  qed
qed simp

lemma ceremony_sign_Ok:
  "ceremony_sign C source policy set_id = Ok file \<longleftrightarrow>
     (\<exists>secret key signature. urandom_scalar C source = Ok secret \<and> p256_secret C secret = Some key \<and>
        sign_release_policy C policy secret = Ok signature \<and>
        file =
          (\<lparr> srp_policy = policy, srp_authority_set_id = set_id,
             srp_signatures =
               [\<lparr> ras_key_id = ceremony_key_id policy, ras_signature = signature \<rparr>] \<rparr>,
           \<lparr> pra_authority_set_id = set_id, pra_threshold = 1,
             pra_keys =
               [\<lparr> rak_key_id = ceremony_key_id policy,
                  rak_public_key = public_key_uncompressed C (p256_public_key C key) \<rparr>],
             pra_minimum_revocation_epoch = 0 \<rparr>) \<and>
        verify_signed_release_policy C (fst file) (snd file) (rp_network policy)
          (rp_valid_from_ms policy) = Ok ())"
  by (auto simp: ceremony_sign_def result_simps Let_def)

text \<open>Only the window of a policy depends on the time.\<close>

lemma verify_in_window:
  assumes "verify_signed_release_policy C p a net t = Ok ()"
  shows "verify_signed_release_policy C p a net now =
    (if now < rp_valid_from_ms (srp_policy p) \<or> now > rp_expires_at_ms (srp_policy p)
     then tvc_err ExpiredRequest else Ok ())"
  using assms by (auto simp: verify_signed_release_policy_def split: if_splits)

lemma verify_one_authority:
  assumes "srp_signatures p = [s]" "pra_keys a = [k]" "rak_key_id k = ras_key_id s"
    and "pra_threshold a = 1" "srp_authority_set_id p = pra_authority_set_id a"
  shows "verify_signed_release_policy C p a net now = Ok () \<longleftrightarrow>
    rp_version (srp_policy p) = API_VERSION \<and> rp_network (srp_policy p) = net \<and>
    rp_turnkey_trust_root_id (srp_policy p) = EXPECTED_TURNKEY_TRUST_ROOT_ID \<and>
    pra_minimum_revocation_epoch a \<le> rp_revocation_epoch (srp_policy p) \<and>
    rp_valid_from_ms (srp_policy p) \<le> now \<and> now \<le> rp_expires_at_ms (srp_policy p) \<and>
    (\<exists>d. policy_signing_digest C (srp_policy p) = Ok d \<and>
       verify_p256_prehash C (rak_public_key k) d (ras_signature s) = Ok ())"
  using assms
  by (auto simp: verify_signed_release_policy_def result_simps not_less checked_add_def split: if_splits)

lemma ceremony_signature_verifies:
  assumes "p256_laws C" "ecdsa_laws C" "p256_secret C secret = Some key"
    and "sign_release_policy C policy secret = Ok signature"
  shows "\<exists>d. policy_signing_digest C policy = Ok d \<and>
    verify_p256_prehash C (public_key_uncompressed C (p256_public_key C key)) d signature = Ok ()"
  using assms sign_verify [OF assms(1-3)] by (auto simp: sign_release_policy_def result_simps)

lemma ceremony_signs:
  assumes "p256_laws C" "ecdsa_laws C" and drawn: "urandom_scalar C source = Ok secret"
    and signature: "sign_release_policy C policy secret = Ok signature"
    and fields: "rp_version policy = API_VERSION"
      "rp_turnkey_trust_root_id policy = EXPECTED_TURNKEY_TRUST_ROOT_ID"
      "rp_valid_from_ms policy \<le> rp_expires_at_ms policy"
  shows "\<exists>file. ceremony_sign C source policy set_id = Ok file"
proof -
  from drawn obtain key where key: "p256_secret C secret = Some key"
    by (auto simp: urandom_scalar_def draw_scalar_Ok split: if_splits)
  from ceremony_signature_verifies [OF assms(1,2) key signature] fields drawn key signature
  show ?thesis by (auto simp: ceremony_sign_Ok verify_one_authority)
qed

lemma policy_signing_digest_exists: "\<exists>d. policy_signing_digest C policy = Ok d"
  by (simp add: policy_signing_digest_def jcs_serialize_def canonicalize_json_value_spec
      no_float_release_policy)

lemma gateway_reads_signed:
  assumes "ceremony_sign C source policy set_id = Ok file"
  shows "read_release C (Some (Some file)) network now =
    (if rp_network policy \<noteq> network then Err ReleaseForOtherNetwork
     else if now < rp_valid_from_ms policy \<or> rp_expires_at_ms policy < now then Err ReleaseNotCurrent
     else Ok policy)"
proof -
  from assms have "srp_policy (fst file) = policy" and
    "verify_signed_release_policy C (fst file) (snd file) (rp_network policy) (rp_valid_from_ms policy) = Ok ()"
    by (auto simp: ceremony_sign_Ok)
  then show ?thesis
    by (auto simp: read_release_def case_prod_beta ensure_def
        verify_in_window [where t = "rp_valid_from_ms (srp_policy (fst file))"])
qed

lemma ReleaseAuthorityKey_json_inject [json_inject]:
  "hex_laws C \<Longrightarrow> ReleaseAuthorityKey_json C x = ReleaseAuthorityKey_json C y \<longleftrightarrow> x = y"
  by (simp add: ReleaseAuthorityKey_json_def bt_of_inject json_inject)
    (auto intro!: ReleaseAuthorityKey.equality)

lemma PinnedReleaseAuthorities_json_inject [json_inject]:
  "hex_laws C \<Longrightarrow> PinnedReleaseAuthorities_json C x = PinnedReleaseAuthorities_json C y \<longleftrightarrow> x = y"
  by (simp add: PinnedReleaseAuthorities_json_def bt_of_inject json_inject
      map_inject_iff [where f = "ReleaseAuthorityKey_json C"])
    (auto intro!: PinnedReleaseAuthorities.equality)

lemma release_file_json_inject:
  "hex_laws C \<Longrightarrow> release_file_json C x = release_file_json C y \<longleftrightarrow> x = y"
  by (simp add: release_file_json_def bt_of_inject json_inject prod_eq_iff)

section \<open>Properties\<close>

text \<open>
  The ceremony succeeds exactly when a usable key came up within its draws, the policy could be
  signed, and the policy is of this protocol's version, under the pinned Turnkey root and with a window
  that is not empty: its own check refuses nothing else.
\<close>

lemma ceremony_succeeds_exactly:
  assumes "p256_laws C" "ecdsa_laws C"
  shows "(\<exists>file. ceremony_sign C source policy set_id = Ok file) \<longleftrightarrow>
    (\<exists>secret signature. urandom_scalar C source = Ok secret \<and>
       sign_release_policy C policy secret = Ok signature) \<and>
    rp_version policy = API_VERSION \<and>
    rp_turnkey_trust_root_id policy = EXPECTED_TURNKEY_TRUST_ROOT_ID \<and>
    rp_valid_from_ms policy \<le> rp_expires_at_ms policy"
    (is "?signed \<longleftrightarrow> ?keyed \<and> ?fields")
proof
  assume ?signed
  then show "?keyed \<and> ?fields"
    by (auto simp: ceremony_sign_Ok verify_one_authority)
next
  assume "?keyed \<and> ?fields"
  then show ?signed using ceremony_signs [OF assms] by blast
qed

text \<open>
  C21. What the ceremony puts out is one policy under the one key of a new authority set, and a gateway
  that reads it starts with that policy exactly on the policy's network and within its window; it says
  which of the two failed otherwise.
\<close>

theorem gateway_reads_the_signed_release:
  assumes "ceremony_sign C source policy set_id = Ok file"
  shows "read_release C (Some (Some file)) network now =
    (if rp_network policy \<noteq> network then Err ReleaseForOtherNetwork
     else if now < rp_valid_from_ms policy \<or> rp_expires_at_ms policy < now then Err ReleaseNotCurrent
     else Ok policy)"
  by (rule gateway_reads_signed [OF assms])

text \<open>
  C30. A run for the local testkit that ends well has written one release file, for devnet, that a gateway
  takes from an hour before the ceremony to thirty days after it and at no other time, with no wrap at
  either end of the clock; and no other release has the file's JSON.
\<close>

theorem local_testkit_release_window:
  assumes "hex_laws C" and "ceremony_run C env [''--local-testkit'', dir] = (effects, Ok ())"
  shows "\<exists>file policy now. effects =
      [MakeDir dir, WriteIn dir ''release.json'' (release_file_json C file)] \<and>
    ce_clock env = Some (unat (now :: u64)) \<and>
    (\<forall>network t. read_release C (Some (Some file)) network t = Ok policy \<longleftrightarrow>
       network = Devnet \<and> unat now - 3600000 \<le> unat t \<and>
       unat t \<le> min (unat now + 2592000000) (2 ^ 64 - 1)) \<and>
    (\<forall>other. release_file_json C other = release_file_json C file \<longrightarrow> other = file)"
proof -
  obtain policy release where policy: "local_testkit_policy C (ce_testkit env) (ce_clock env) = Ok policy"
    and release: "ceremony_sign C (ce_urandom env) policy ''local-testkit'' = Ok release"
    and effects: "effects = [MakeDir dir, WriteIn dir ''release.json'' (release_file_json C release)]"
    using assms(2) by (auto simp: ceremony_run_def result_simps split: sum.splits if_splits)
  from policy obtain now where clock: "ce_clock env = Some (unat now)" and fields: "rp_network policy = Devnet"
    "rp_valid_from_ms policy = saturating_sub now 3600000"
    "rp_expires_at_ms policy = saturating_add now 2592000000"
    by (auto simp: local_testkit_policy_def result_simps u64_try_from_Some LOCAL_VALIDITY_MS_def)
  have window: "read_release C (Some (Some release)) network t = Ok policy \<longleftrightarrow>
      network = Devnet \<and> unat now - 3600000 \<le> unat t \<and> unat t \<le> min (unat now + 2592000000) (2 ^ 64 - 1)"
    for network t
    unfolding gateway_reads_signed [OF release]
    by (auto simp: fields nat_of_u64 word_less_nat_alt)
  show ?thesis
    by (intro exI conjI) (use effects clock window in \<open>auto simp: release_file_json_inject [OF assms(1)]\<close>)
qed

section \<open>Witnesses\<close>

text \<open>A first draw that is no scalar, then one that is.\<close>

definition demo_urandom :: urandom where
  "demo_urandom = \<lparr> ur_opens = True, ur_reads = (\<lambda>i. Some (replicate 32 (if i = 0 then 0 else 1))) \<rparr>"

lemma demo_draw: "urandom_scalar demo_crates demo_urandom = Ok (replicate 32 1)"
proof -
  have "draw_scalar demo_crates demo_urandom 64 0 = Ok (replicate 32 1)"
    unfolding draw_scalar_Ok by (rule exI [of _ 1]) (simp add: demo_urandom_def demo_crates_def)
  then show ?thesis by (simp add: urandom_scalar_def demo_urandom_def)
qed

lemma demo_policy_signed: "\<exists>s. sign_release_policy demo_crates policy (replicate 32 1) = Ok s"
  using policy_signing_digest_exists [of demo_crates policy]
  by (auto simp: sign_release_policy_def sign_p256_prehash_def demo_crates_def)

lemma demo_ceremony:
  assumes "rp_version policy = API_VERSION"
    "rp_turnkey_trust_root_id policy = EXPECTED_TURNKEY_TRUST_ROOT_ID"
    "rp_valid_from_ms policy \<le> rp_expires_at_ms policy"
  shows "\<exists>file. ceremony_sign demo_crates demo_urandom policy set_id = Ok file"
  using ceremony_signs [OF demo_p256_laws demo_ecdsa_laws demo_draw _ assms] demo_policy_signed by blast

lemma demo_policy_fields:
  "rp_version demo_policy = API_VERSION"
  "rp_turnkey_trust_root_id demo_policy = EXPECTED_TURNKEY_TRUST_ROOT_ID"
  "rp_valid_from_ms demo_policy \<le> rp_expires_at_ms demo_policy"
  by (simp_all add: demo_policy_def API_VERSION_def EXPECTED_TURNKEY_TRUST_ROOT_ID_def)

lemma ceremony_succeeds_exactly_witness:
  "(\<exists>file. ceremony_sign demo_crates demo_urandom demo_policy ''set'' = Ok file) \<and>
   \<not> (\<exists>file. ceremony_sign demo_crates demo_urandom (demo_policy \<lparr> rp_expires_at_ms := 0, rp_valid_from_ms := 1 \<rparr>) ''set'' = Ok file)"
  unfolding ceremony_succeeds_exactly [OF demo_p256_laws demo_ecdsa_laws]
  by (simp add: demo_draw demo_policy_signed demo_policy_def API_VERSION_def
      EXPECTED_TURNKEY_TRUST_ROOT_ID_def)

theorem gateway_reads_the_signed_release_witness:
  "\<exists>file. ceremony_sign demo_crates demo_urandom demo_policy ''set'' = Ok file \<and>
     read_release demo_crates (Some (Some file)) Devnet 50 = Ok demo_policy \<and>
     read_release demo_crates (Some (Some file)) Devnet 101 = Err ReleaseNotCurrent \<and>
     read_release demo_crates (Some (Some file)) Mainnet 50 = Err ReleaseForOtherNetwork"
proof -
  obtain file' where "ceremony_sign demo_crates demo_urandom demo_policy ''set'' = Ok file'"
    using demo_ceremony [OF demo_policy_fields] by blast
  with gateway_reads_the_signed_release [OF this] show ?thesis
    by (auto simp: demo_policy_def intro!: exI [of _ file'])
qed

text \<open>The testkit of the repository, but for the quorum key, of which a stand-in is enough here.\<close>

definition demo_testkit :: CeremonyTestkit where
  "demo_testkit =
     \<lparr> ctk_release_id = ''local-unattested-do-not-deploy'', ctk_quorum_key_id = ''local-unattested-quorum'',
       ctk_security_domain_label = ''ZOLANA_TVC_LOCAL_UNATTESTED_SECURITY_DOMAIN_V1'',
       ctk_manifest_label = ''ZOLANA_TVC_LOCAL_UNATTESTED_MANIFEST_V1'',
       ctk_executable_label = ''ZOLANA_TVC_LOCAL_UNATTESTED_EXECUTABLE_V1'',
       ctk_quorum_public_key = ''04'',
       ctk_operations = [BootstrapKind, DecryptKind, DeriveKind, TransactionKeysKind, ProveKind] \<rparr>"

definition demo_ceremony_env :: ceremony_env where
  "demo_ceremony_env =
     \<lparr> ce_urandom = demo_urandom, ce_testkit = Some demo_testkit, ce_clock = Some 5,
       ce_makes_dir = True, ce_writes = True, ce_policy = (\<lambda>_. None) \<rparr>"

theorem local_testkit_release_window_witness:
  "\<exists>effects file policy. ceremony_run demo_crates demo_ceremony_env [''--local-testkit'', ''out''] = (effects, Ok ()) \<and>
     effects = [MakeDir ''out'', WriteIn ''out'' ''release.json'' (release_file_json demo_crates file)] \<and>
     read_release demo_crates (Some (Some file)) Devnet 0 = Ok policy \<and>
     read_release demo_crates (Some (Some file)) Devnet 2592000005 = Ok policy \<and>
     read_release demo_crates (Some (Some file)) Devnet 2592000006 \<noteq> Ok policy"
proof -
  obtain policy where policy: "local_testkit_policy demo_crates (Some demo_testkit) (Some 5) = Ok policy"
    and fields: "rp_version policy = API_VERSION"
      "rp_turnkey_trust_root_id policy = EXPECTED_TURNKEY_TRUST_ROOT_ID"
      "rp_valid_from_ms policy \<le> rp_expires_at_ms policy"
    by (auto simp: local_testkit_policy_def u64_try_from_def demo_testkit_def demo_hex_encode_field
        demo_crates_def is_lower_hex_digit_def is_ascii_digit_def ascii_def saturating_sub_def)
  obtain release where "ceremony_sign demo_crates demo_urandom policy ''local-testkit'' = Ok release"
    using demo_ceremony [OF fields] by blast
  with policy obtain effects where run:
    "ceremony_run demo_crates demo_ceremony_env [''--local-testkit'', ''out''] = (effects, Ok ())"
    by (auto simp: ceremony_run_def demo_ceremony_env_def)
  obtain release policy now where "effects =
      [MakeDir ''out'', WriteIn ''out'' ''release.json'' (release_file_json demo_crates release)]"
    and now: "ce_clock demo_ceremony_env = Some (unat (now :: u64))"
    and window: "\<forall>network t. read_release demo_crates (Some (Some release)) network t = Ok policy \<longleftrightarrow>
       network = Devnet \<and> unat now - 3600000 \<le> unat t \<and>
       unat t \<le> min (unat now + 2592000000) (2 ^ 64 - 1)"
    using local_testkit_release_window [OF demo_hex_laws run] by blast
  from now have "unat now = 5" by (simp add: demo_ceremony_env_def)
  with run window \<open>effects = _\<close> show ?thesis
    by (intro exI [of _ effects] exI [of _ release] exI [of _ policy]) simp
qed

end
