(* ===== verification/Gateway_Limits.thy ===== *)
theory Gateway_Limits
  imports Gateway_Projects
begin

text \<open>
  \<open>limits.rs\<close>: how many requests each project holds at once. Semaphores are shared through
  \<open>Arc\<close>, so the model keeps them in a store: \<open>lm_semaphores\<close> holds the free permits of every
  semaphore ever created, by its position, and a permit is the position of its semaphore. A
  permit returns when it is dropped, to the semaphore it was taken from, whether or not the map
  still names it.
\<close>

section \<open>The limiter\<close>

type_synonym sem_id = nat

definition LIMITER_PRUNE_THRESHOLD :: nat where
  "LIMITER_PRUNE_THRESHOLD = 10000"

record InFlightLimiter =
  lm_max_per_project :: nat
  lm_by_project :: "(ProjectId \<times> sem_id) list"
  lm_semaphores :: "nat list"

definition limiter_new :: "nat \<Rightarrow> InFlightLimiter" where
  "limiter_new max_per_project =
     \<lparr> lm_max_per_project = max_per_project, lm_by_project = [], lm_semaphores = [] \<rparr>"

definition limiter_semaphore :: "InFlightLimiter \<Rightarrow> ProjectId \<Rightarrow> sem_id \<times> InFlightLimiter" where
  "limiter_semaphore l project =
     (let kept = (if length (lm_by_project l) > LIMITER_PRUNE_THRESHOLD
            then filter (\<lambda>e. lm_semaphores l ! snd e < lm_max_per_project l) (lm_by_project l)
            else lm_by_project l) in
      case map_of kept project of
        Some s \<Rightarrow> (s, l \<lparr> lm_by_project := kept \<rparr>)
      | None \<Rightarrow>
          let s = length (lm_semaphores l) in
          (s, l \<lparr> lm_by_project := (project, s) # kept,
                  lm_semaphores := lm_semaphores l @ [lm_max_per_project l] \<rparr>))"

definition try_acquire_owned :: "InFlightLimiter \<Rightarrow> sem_id \<Rightarrow> (ApiError + sem_id) \<times> InFlightLimiter" where
  "try_acquire_owned l s =
     (if lm_semaphores l ! s = 0 then (Err Api_TooManyInFlight, l)
      else (Ok s, l \<lparr> lm_semaphores := (lm_semaphores l) [s := lm_semaphores l ! s - 1] \<rparr>))"

definition limiter_try_acquire ::
    "InFlightLimiter \<Rightarrow> ProjectId \<Rightarrow> (ApiError + sem_id) \<times> InFlightLimiter" where
  "limiter_try_acquire l project =
     (case limiter_semaphore l project of (s, l) \<Rightarrow> try_acquire_owned l s)"

text \<open>What dropping an \<open>OwnedSemaphorePermit\<close> does.\<close>

definition drop_permit :: "InFlightLimiter \<Rightarrow> sem_id \<Rightarrow> InFlightLimiter" where
  "drop_permit l s = l \<lparr> lm_semaphores := (lm_semaphores l) [s := lm_semaphores l ! s + 1] \<rparr>"

section \<open>Callers\<close>

text \<open>
  Callers on many threads: \<open>try_acquire\<close> is two steps, the lookup under the lock of the map and
  the taking of the permit after the lock is released, and the calls of other threads may come in
  between. \<open>looking\<close> lists the calls that have looked their semaphore up and not yet tried it,
  \<open>held\<close> the permits that are out, each with its project. The condition of \<open>looked\<close> is the one
  restriction on the interleaving: a lookup that prunes the map meets no call in \<open>looking\<close> whose
  semaphore is idle. The section on overlapping calls below shows what happens without it.
\<close>

type_synonym limiter_state =
  "InFlightLimiter \<times> (ProjectId \<times> sem_id) list \<times> (ProjectId \<times> sem_id) list"

definition prunes_none_of :: "InFlightLimiter \<Rightarrow> (ProjectId \<times> sem_id) list \<Rightarrow> bool" where
  "prunes_none_of l looking \<longleftrightarrow> length (lm_by_project l) \<le> LIMITER_PRUNE_THRESHOLD \<or>
     (\<forall>(q, t) \<in> set looking. lm_semaphores l ! t < lm_max_per_project l)"

inductive limiter_step :: "limiter_state \<Rightarrow> limiter_state \<Rightarrow> bool" where
  looked: "limiter_semaphore l p = (s, l') \<Longrightarrow> prunes_none_of l looking \<Longrightarrow>
    limiter_step (l, looking, held) (l', (p, s) # looking, held)"
| taken: "(p, s) \<in> set looking \<Longrightarrow> try_acquire_owned l s = (Ok t, l') \<Longrightarrow>
    limiter_step (l, looking, held) (l', remove1 (p, s) looking, (p, t) # held)"
| refused: "(p, s) \<in> set looking \<Longrightarrow> try_acquire_owned l s = (Err e, l') \<Longrightarrow>
    limiter_step (l, looking, held) (l', remove1 (p, s) looking, held)"
| dropped: "(p, s) \<in> set held \<Longrightarrow>
    limiter_step (l, looking, held) (drop_permit l s, looking, remove1 (p, s) held)"

definition limiter_reachable :: "nat \<Rightarrow> limiter_state \<Rightarrow> bool" where
  "limiter_reachable n st \<longleftrightarrow> limiter_step\<^sup>*\<^sup>* (limiter_new n, [], []) st"

text \<open>A call that no other call interrupts is two of these steps.\<close>

lemma uninterrupted_call:
  assumes "limiter_try_acquire l p = (r, l')" "prunes_none_of l looking"
  shows "limiter_step\<^sup>*\<^sup>* (l, looking, held)
    (l', looking, case r of Ok s \<Rightarrow> (p, s) # held | Err e \<Rightarrow> held)"
proof -
  obtain s l1 where l1: "limiter_semaphore l p = (s, l1)" by fastforce
  with assms(1) have call: "try_acquire_owned l1 s = (r, l')" by (simp add: limiter_try_acquire_def)
  have one: "limiter_step (l, looking, held) (l1, (p, s) # looking, held)"
    by (rule looked) (use l1 assms(2) in auto)
  have two: "limiter_step (l1, (p, s) # looking, held)
      (l', looking, case r of Ok s \<Rightarrow> (p, s) # held | Err e \<Rightarrow> held)"
    using taken [of p s "(p, s) # looking" l1 _ l'] refused [of p s "(p, s) # looking" l1 _ l'] call
    by (cases r) auto
  then have "limiter_step\<^sup>*\<^sup>* (l1, (p, s) # looking, held)
      (l', looking, case r of Ok s \<Rightarrow> (p, s) # held | Err e \<Rightarrow> held)"
    by (rule r_into_rtranclp)
  with one show ?thesis by (rule converse_rtranclp_into_rtranclp)
qed

section \<open>The invariant\<close>

text \<open>
  Every permit out, and every semaphore a call has looked up, is of the semaphore the map names
  for its project, and every semaphore's free and taken permits add up to the share.
\<close>

definition limiter_inv :: "limiter_state \<Rightarrow> bool" where
  "limiter_inv st \<longleftrightarrow>
     (case st of (l, looking, held) \<Rightarrow>
        (\<forall>e \<in> set (lm_by_project l). snd e < length (lm_semaphores l)) \<and>
        (\<forall>(p, s) \<in> set looking \<union> set held. map_of (lm_by_project l) p = Some s) \<and>
        distinct (map fst (lm_by_project l)) \<and> distinct (map snd (lm_by_project l)) \<and>
        (\<forall>s < length (lm_semaphores l).
           lm_semaphores l ! s + count_list (map snd held) s = lm_max_per_project l))"

lemma map_of_filter_Some:
  "distinct (map fst m) \<Longrightarrow> map_of m k = Some v \<Longrightarrow> P (k, v) \<Longrightarrow> map_of (filter P m) k = Some v"
  by (induction m) (auto simp: map_of_eq_None_iff dest: map_of_SomeD)

lemma distinct_filter_map: "distinct (map f m) \<Longrightarrow> distinct (map f (filter P m))"
  by (induction m) auto

lemma count_held: "(p, s) \<in> set held \<Longrightarrow> 0 < count_list (map snd held) s"
  by (induction held) auto

lemma limiter_inv_sum:
  assumes "limiter_inv (l, looking, held)" "(p, s) \<in> set looking \<union> set held"
  shows "s < length (lm_semaphores l)"
    "lm_semaphores l ! s + count_list (map snd held) s = lm_max_per_project l"
proof -
  have "map_of (lm_by_project l) p = Some s" using assms by (auto simp: limiter_inv_def)
  then show "s < length (lm_semaphores l)"
    using assms(1) by (auto simp: limiter_inv_def dest: map_of_SomeD)
  then show "lm_semaphores l ! s + count_list (map snd held) s = lm_max_per_project l"
    using assms(1) by (simp add: limiter_inv_def)
qed

lemma limiter_semaphore_inv:
  assumes "limiter_inv (l, looking, held)" "limiter_semaphore l p = (s, l')" "prunes_none_of l looking"
  shows "limiter_inv (l', (p, s) # looking, held) \<and> lm_max_per_project l' = lm_max_per_project l"
proof -
  define kept where "kept = (if length (lm_by_project l) > LIMITER_PRUNE_THRESHOLD
    then filter (\<lambda>e. lm_semaphores l ! snd e < lm_max_per_project l) (lm_by_project l)
    else lm_by_project l)"
  have sub: "set kept \<subseteq> set (lm_by_project l)" by (auto simp: kept_def)
  have dist: "distinct (map fst kept)" "distinct (map snd kept)"
    using assms(1) by (auto simp: kept_def limiter_inv_def distinct_filter_map)
  have named: "map_of kept q = Some t" if "(q, t) \<in> set looking \<union> set held" for q t
  proof -
    have q: "map_of (lm_by_project l) q = Some t" "distinct (map fst (lm_by_project l))"
      using assms(1) that by (auto simp: limiter_inv_def)
    have "lm_semaphores l ! t < lm_max_per_project l" if "(q, t) \<in> set held"
      using limiter_inv_sum(2) [OF assms(1), of q t] count_held [OF that] that by simp
    moreover have "lm_semaphores l ! t < lm_max_per_project l"
      if "(q, t) \<in> set looking" "length (lm_by_project l) > LIMITER_PRUNE_THRESHOLD"
      using assms(3) that by (auto simp: prunes_none_of_def)
    ultimately show ?thesis
      using q \<open>(q, t) \<in> _\<close> by (auto simp: kept_def map_of_filter_Some)
  qed
  show ?thesis
  proof (cases "map_of kept p")
    case None
    then have new: "s = length (lm_semaphores l)" "l' = l \<lparr> lm_by_project := (p, s) # kept,
        lm_semaphores := lm_semaphores l @ [lm_max_per_project l] \<rparr>"
      using assms(2) by (auto simp: limiter_semaphore_def kept_def [symmetric] Let_def)
    have "count_list (map snd held) (length (lm_semaphores l)) = 0"
      using limiter_inv_sum(1) [OF assms(1)] by (fastforce simp: count_list_0_iff)
    moreover have "q \<noteq> p" if "(q, t) \<in> set looking \<union> set held" for q t
      using named [OF that] None by auto
    moreover have "length (lm_semaphores l) \<notin> set (map snd kept)"
      using assms(1) sub by (fastforce simp: limiter_inv_def)
    ultimately show ?thesis
      using assms(1) sub dist named None new
      by (fastforce simp: limiter_inv_def nth_append map_of_eq_None_iff less_Suc_eq)
  next
    case (Some t)
    then have "s = t" "l' = l \<lparr> lm_by_project := kept \<rparr>"
      using assms(2) by (auto simp: limiter_semaphore_def kept_def [symmetric] Let_def)
    with assms(1) sub dist named Some show ?thesis
      by (auto simp: limiter_inv_def)
  qed
qed

lemma try_acquire_owned_cases:
  assumes "try_acquire_owned l s = (r, l')"
  obtains "r = Err Api_TooManyInFlight" "l' = l" "lm_semaphores l ! s = 0"
  | "r = Ok s" "l' = l \<lparr> lm_semaphores := (lm_semaphores l) [s := lm_semaphores l ! s - 1] \<rparr>"
    "lm_semaphores l ! s \<noteq> 0"
  using assms by (auto simp: try_acquire_owned_def split: if_splits)

lemma limiter_inv_remove_looking:
  assumes "limiter_inv (l, looking, held)"
  shows "limiter_inv (l, remove1 e looking, held)"
  using assms set_remove1_subset [of e looking] by (auto simp: limiter_inv_def)

lemma limiter_inv_taken:
  assumes "limiter_inv (l, looking, held)" "(p, s) \<in> set looking" "lm_semaphores l ! s \<noteq> 0"
  shows "limiter_inv (l \<lparr> lm_semaphores := (lm_semaphores l) [s := lm_semaphores l ! s - 1] \<rparr>,
    looking, (p, s) # held)"
  using assms limiter_inv_sum [OF assms(1), of p s]
  by (auto simp: limiter_inv_def nth_list_update)

lemma limiter_inv_dropped:
  assumes "limiter_inv (l, looking, held)" "(p, s) \<in> set held"
  shows "limiter_inv (drop_permit l s, looking, remove1 (p, s) held)"
proof -
  have "count_list (map snd held) t =
      count_list (map snd (remove1 (p, s) held)) t + (if t = s then 1 else 0)" for t
    using assms(2) by (induction held) auto
  then have "lm_semaphores (drop_permit l s) ! t + count_list (map snd (remove1 (p, s) held)) t =
      lm_semaphores l ! t + count_list (map snd held) t" if "t < length (lm_semaphores l)" for t
    using that by (simp add: drop_permit_def nth_list_update)
  moreover have "set (remove1 (p, s) held) \<subseteq> set held" by (rule set_remove1_subset)
  moreover have "lm_by_project (drop_permit l s) = lm_by_project l"
    "length (lm_semaphores (drop_permit l s)) = length (lm_semaphores l)"
    "lm_max_per_project (drop_permit l s) = lm_max_per_project l"
    by (simp_all add: drop_permit_def)
  ultimately show ?thesis
    using assms(1) by (auto simp: limiter_inv_def)
qed

lemma limiter_step_inv:
  assumes "limiter_inv st" "limiter_step st st'"
  shows "limiter_inv st' \<and> lm_max_per_project (fst st') = lm_max_per_project (fst st)"
  using assms(2,1)
proof cases
  case (looked l p s l' looking held)
  then show ?thesis using limiter_semaphore_inv assms(1) by auto
next
  case (taken p s looking l t l' held)
  with assms(1) limiter_inv_taken [of l looking held p s] show ?thesis
    by (auto elim!: try_acquire_owned_cases intro!: limiter_inv_remove_looking)
next
  case (refused p s looking l e l' held)
  with assms(1) show ?thesis
    by (auto elim!: try_acquire_owned_cases intro!: limiter_inv_remove_looking)
next
  case (dropped p s held l looking)
  with assms(1) limiter_inv_dropped show ?thesis by (auto simp: drop_permit_def)
qed

lemma limiter_reachable_inv:
  assumes "limiter_reachable n st"
  shows "limiter_inv st \<and> lm_max_per_project (fst st) = n"
  using assms unfolding limiter_reachable_def
proof (induction rule: rtranclp_induct)
  case base
  then show ?case by (simp add: limiter_inv_def limiter_new_def)
next
  case (step st st')
  then show ?case using limiter_step_inv by metis
qed

lemma eq_snd_of_distinct: "distinct (map snd m) \<Longrightarrow> (a, c) \<in> set m \<Longrightarrow> (b, c) \<in> set m \<Longrightarrow> a = b"
  by (induction m) force+

lemma held_count:
  assumes "\<forall>(q, t) \<in> set held. q = p \<longleftrightarrow> t = s"
  shows "count_list (map fst held) p = count_list (map snd held) s"
  using assms by (induction held) auto

text \<open>The permits of a project are those of its semaphore.\<close>

lemma held_of_project:
  assumes "limiter_inv (l, looking, held)" "(p, s) \<in> set looking \<union> set held"
  shows "count_list (map fst held) p = count_list (map snd held) s"
proof (rule held_count, clarify)
  fix q t assume "(q, t) \<in> set held"
  then have "map_of (lm_by_project l) q = Some t" "map_of (lm_by_project l) p = Some s"
    "distinct (map snd (lm_by_project l))"
    using assms by (auto simp: limiter_inv_def)
  then show "q = p \<longleftrightarrow> t = s"
    by (metis map_of_SomeD option.inject eq_snd_of_distinct)
qed

section \<open>Properties\<close>

text \<open>
  C27. However the calls of \<open>try_acquire\<close> overlap and however permits come and go, as long as no
  lookup prunes the idle semaphore of a call that has not yet tried it, a project never holds
  more permits than its share, and a call that tries the semaphore it has looked up is given a
  permit exactly when its project's share is not used up at that moment.
\<close>

theorem limiter_share:
  assumes "limiter_reachable n (l, looking, held)"
  shows "count_list (map fst held) p \<le> n \<and>
    (\<forall>(p, s) \<in> set looking.
      fst (try_acquire_owned l s) = (if count_list (map fst held) p < n then Ok s else Err Api_TooManyInFlight))"
proof -
  have inv: "limiter_inv (l, looking, held)" "lm_max_per_project l = n"
    using limiter_reachable_inv [OF assms] by auto
  have sum: "lm_semaphores l ! s + count_list (map fst held) p = n"
    if "(p, s) \<in> set looking \<union> set held" for p s
    using limiter_inv_sum(2) [OF inv(1) that] held_of_project [OF inv(1) that] inv(2) by simp
  have "count_list (map fst held) p \<le> n"
  proof (cases "\<exists>s. (p, s) \<in> set held")
    case True
    with sum show ?thesis by (metis UnCI le_add2)
  next
    case False
    then have "count_list (map fst held) p = 0" by (force simp: count_list_0_iff)
    then show ?thesis by simp
  qed
  moreover have "fst (try_acquire_owned l s) = (if count_list (map fst held) p < n then Ok s else Err Api_TooManyInFlight)"
    if "(p, s) \<in> set looking" for p s
    using sum [of p s] that by (auto simp: try_acquire_owned_def)
  ultimately show ?thesis by blast
qed

text \<open>Two projects with a share of one: \<open>a\<close> holds its permit, and both have looked again.\<close>

theorem limiter_share_witness:
  "\<exists>l. limiter_reachable 1 (l, [(''b'', 1), (''a'', 0)], [(''a'', 0)]) \<and>
     fst (try_acquire_owned l 0) = Err Api_TooManyInFlight \<and> fst (try_acquire_owned l 1) = Ok 1"
proof -
  let ?l1 = "snd (limiter_semaphore (limiter_new 1) ''a'')"
  let ?l2 = "snd (try_acquire_owned ?l1 0)"
  let ?l3 = "snd (limiter_semaphore ?l2 ''a'')"
  let ?l4 = "snd (limiter_semaphore ?l3 ''b'')"
  note defs = limiter_semaphore_def limiter_new_def try_acquire_owned_def LIMITER_PRUNE_THRESHOLD_def
    prunes_none_of_def
  have "limiter_step (limiter_new 1, [], []) (?l1, [(''a'', 0)], [])"
    by (rule looked) (simp_all add: defs)
  moreover have "limiter_step (?l1, [(''a'', 0)], []) (?l2, remove1 (''a'', 0) [(''a'', 0)], [(''a'', 0)])"
    by (rule taken) (simp_all add: defs)
  moreover have "limiter_step (?l2, [], [(''a'', 0)]) (?l3, [(''a'', 0)], [(''a'', 0)])"
    by (rule looked) (simp_all add: defs)
  moreover have "limiter_step (?l3, [(''a'', 0)], [(''a'', 0)]) (?l4, [(''b'', 1), (''a'', 0)], [(''a'', 0)])"
    by (rule looked) (simp_all add: defs)
  ultimately have reach: "limiter_reachable 1 (?l4, [(''b'', 1), (''a'', 0)], [(''a'', 0)])"
    unfolding limiter_reachable_def by (auto intro: rtranclp.rtrancl_into_rtrancl)
  with limiter_share [OF reach, of "''a''"] show ?thesis
    by (intro exI [of _ ?l4]) auto
qed

section \<open>Overlapping calls\<close>

text \<open>
  \<open>try_acquire\<close> takes the permit after the lock on the map is released. A project whose
  semaphore has been looked up but not yet taken is idle, so a lookup for another project can
  prune it; the project then gets a second semaphore, and holds a permit of each. This is what
  the condition \<open>prunes_none_of\<close> of the steps above leaves out.
\<close>

lemma new_semaphore:
  assumes "map_of (lm_by_project l) p = None"
  shows "\<exists>l'. limiter_semaphore l p = (length (lm_semaphores l), l') \<and>
    lm_semaphores l' = lm_semaphores l @ [lm_max_per_project l]"
proof -
  have "map_of (filter P (lm_by_project l)) p = None" for P
    using assms by (auto simp: map_of_eq_None_iff)
  with assms show ?thesis by (simp add: limiter_semaphore_def Let_def)
qed

lemma overlapping_calls_exceed_share:
  assumes "length (lm_by_project l) = LIMITER_PRUNE_THRESHOLD" "lm_max_per_project l = 1"
    and "map_of (lm_by_project l) p = None" "p \<noteq> q"
    and "\<forall>e \<in> set (lm_by_project l). snd e < length (lm_semaphores l)"
  shows "\<exists>s t l1 l2 l3 l4. limiter_semaphore l p = (s, l1) \<and>
    limiter_semaphore l1 q = (t, l2) \<and> try_acquire_owned l2 s = (Ok s, l3) \<and>
    (\<exists>u. limiter_try_acquire l3 p = (Ok u, l4) \<and> u \<noteq> s)"
proof -
  define s where "s = length (lm_semaphores l)"
  obtain l1 where l1: "limiter_semaphore l p = (s, l1)"
    "l1 = l \<lparr> lm_by_project := (p, s) # lm_by_project l, lm_semaphores := lm_semaphores l @ [1] \<rparr>"
    using assms(1-3) by (simp add: limiter_semaphore_def s_def Let_def)
  obtain t l2 where l2: "limiter_semaphore l1 q = (t, l2)" by fastforce
  have "map_of (filter (\<lambda>e. lm_semaphores l1 ! snd e < lm_max_per_project l1) (lm_by_project l1)) p = None"
    using assms(3) by (auto simp: map_of_eq_None_iff l1(2) s_def assms(2))
  then have l2_facts: "map_of (lm_by_project l2) p = None" "lm_semaphores l2 ! s = 1"
    "s < length (lm_semaphores l2)" "lm_max_per_project l2 = 1"
    using l2 assms(1,2,4)
    by (auto simp: limiter_semaphore_def Let_def l1(2) s_def nth_append split: option.splits)
  obtain l3 where l3: "try_acquire_owned l2 s = (Ok s, l3)"
    "l3 = l2 \<lparr> lm_semaphores := (lm_semaphores l2) [s := 0] \<rparr>"
    using l2_facts by (simp add: try_acquire_owned_def)
  have "map_of (lm_by_project l3) p = None" "lm_max_per_project l3 = 1"
    "length (lm_semaphores l3) = length (lm_semaphores l2)"
    using l2_facts by (simp_all add: l3(2))
  from new_semaphore [OF this(1)] this(2,3) obtain l4
    where "limiter_semaphore l3 p = (length (lm_semaphores l2), l4)"
      "lm_semaphores l4 = lm_semaphores l3 @ [1]" by auto
  then have "\<exists>l5. limiter_try_acquire l3 p = (Ok (length (lm_semaphores l2)), l5)"
    by (simp add: limiter_try_acquire_def try_acquire_owned_def l3(2) nth_append)
  with l1(1) l2 l3(1) l2_facts(3) show ?thesis by blast
qed

end
