(* ===== verification/Gateway_Turnkey.thy ===== *)
theory Gateway_Turnkey
  imports Gateway_Limits Gateway_Config
begin

text \<open>
  \<open>turnkey.rs\<close> but for the sharing of Boot Proof lookups, which is the next theory: the slots a
  Turnkey call takes, the names of sub-organizations and the accounts of wallets, and what a Turnkey
  failure becomes. What Turnkey answers is an argument.
\<close>

section \<open>Calls\<close>

definition MAX_CONCURRENT_TURNKEY_CALLS :: nat where
  "MAX_CONCURRENT_TURNKEY_CALLS = 32"

definition MAX_CONCURRENT_TURNKEY_CALLS_PER_PROJECT :: nat where
  "MAX_CONCURRENT_TURNKEY_CALLS_PER_PROJECT = 8"

definition OWNERSHIP_CACHE_CAPACITY :: nat where
  "OWNERSHIP_CACHE_CAPACITY = 100000"

definition BOOT_PROOF_CACHE_CAPACITY :: nat where
  "BOOT_PROOF_CACHE_CAPACITY = 256"

definition EPHEMERAL_KEY_HEX_LEN :: nat where
  "EPHEMERAL_KEY_HEX_LEN = 260"

definition TURNKEY_PRIVATE_KEY_HEX_LEN :: nat where
  "TURNKEY_PRIVATE_KEY_HEX_LEN = 64"

definition TURNKEY_PUBLIC_KEY_HEX_LEN :: nat where
  "TURNKEY_PUBLIC_KEY_HEX_LEN = 66"

datatype CallShare = ProjectShare ProjectId | SharedShare

text \<open>The client's errors, as far as the code tells them apart.\<close>

datatype TurnkeyClientError = UnexpectedHttpStatus nat | OtherClientError

record Turnkey =
  tk_tvc_organization_id :: string
  tk_ownership_ttl :: nat
  tk_boot_proof_cache :: "(string \<times> bytes) list"
  tk_sub_org_projects :: "(string \<times> string \<times> instant) list"
  tk_calls :: nat
  tk_project_calls :: InFlightLimiter

definition is_ascii_hexdigit :: "char \<Rightarrow> bool" where
  "is_ascii_hexdigit c \<longleftrightarrow> is_ascii_digit c \<or> 97 \<le> ascii c \<and> ascii c \<le> 102 \<or> 65 \<le> ascii c \<and> ascii c \<le> 70"

definition is_lower_or_upper_hex :: "string \<Rightarrow> nat \<Rightarrow> bool" where
  "is_lower_or_upper_hex value len \<longleftrightarrow> length value = len \<and> list_all is_ascii_hexdigit value"

definition is_lower_hex :: "string \<Rightarrow> nat \<Rightarrow> bool" where
  "is_lower_hex value len \<longleftrightarrow> length value = len \<and> list_all is_lower_hex_digit value"

text \<open>\<open>pair_ok private public\<close>: \<open>TurnkeyP256ApiKey::from_strings\<close> accepts the pair.\<close>

definition turnkey_client :: "(string \<Rightarrow> string \<Rightarrow> bool) \<Rightarrow> TurnkeyApiKey \<Rightarrow> StartupError + unit" where
  "turnkey_client pair_ok key =
     and_then (ensure (is_lower_or_upper_hex (tak_private_key key) TURNKEY_PRIVATE_KEY_HEX_LEN)
         TurnkeyPrivateKeyNotHex) (\<lambda>_.
     and_then (ensure (is_lower_or_upper_hex (tak_public_key key) TURNKEY_PUBLIC_KEY_HEX_LEN)
         TurnkeyPublicKeyNotHex) (\<lambda>_.
     ensure (pair_ok (tak_private_key key) (tak_public_key key)) TurnkeyKeyPairInvalid))"

definition turnkey_new :: "(string \<Rightarrow> string \<Rightarrow> bool) \<Rightarrow> TurnkeyConfig \<Rightarrow> StartupError + Turnkey" where
  "turnkey_new pair_ok config =
     and_then (turnkey_client pair_ok (tkc_boot_proof_api_key config)) (\<lambda>_.
     and_then (turnkey_client pair_ok (tkc_waas_api_key config)) (\<lambda>_.
     Ok \<lparr> tk_tvc_organization_id = tkc_tvc_organization_id config,
          tk_ownership_ttl = from_secs (unat (tkc_ownership_cache_secs config)),
          tk_boot_proof_cache = [], tk_sub_org_projects = [], tk_calls = MAX_CONCURRENT_TURNKEY_CALLS,
          tk_project_calls = limiter_new MAX_CONCURRENT_TURNKEY_CALLS_PER_PROJECT \<rparr>))"

definition turnkey_status :: "nat option \<Rightarrow> ApiError \<Rightarrow> ApiError" where
  "turnkey_status status rejected =
     (case status of
        Some s \<Rightarrow>
          if s = 400 \<or> s = 403 \<or> s = 404 then rejected
          else if s = 401 then Api_TurnkeyUnauthorized
          else if s = 429 then Api_TurnkeyRateLimited
          else Api_TurnkeyUnavailable
      | None \<Rightarrow> Api_TurnkeyUnavailable)"

definition turnkey_failure :: "TurnkeyClientError \<Rightarrow> ApiError \<Rightarrow> ApiError" where
  "turnkey_failure error rejected =
     turnkey_status (case error of UnexpectedHttpStatus s \<Rightarrow> Some s | OtherClientError \<Rightarrow> None) rejected"

definition NOT_OWNED :: ApiError where
  "NOT_OWNED = Api_TurnkeyRejected"

text \<open>
  A call's slots: the project's own, if it takes one, and a shared one. When no shared slot is free,
  the project's is dropped again.
\<close>

type_synonym CallPermit = "sem_id option"

definition call_permit :: "Turnkey \<Rightarrow> CallShare \<Rightarrow> (ApiError + CallPermit) \<times> Turnkey" where
  "call_permit tk share =
     (case (case share of
          ProjectShare project \<Rightarrow>
            map_prod (map_sum id Some) (\<lambda>l. tk \<lparr> tk_project_calls := l \<rparr>)
              (limiter_try_acquire (tk_project_calls tk) project)
        | SharedShare \<Rightarrow> (Ok None, tk)) of
        (Inl e, tk) \<Rightarrow> (Err e, tk)
      | (Inr own, tk) \<Rightarrow>
          if tk_calls tk = 0 then
            (Err Api_TooManyInFlight,
             case own of
               Some s \<Rightarrow> tk \<lparr> tk_project_calls := drop_permit (tk_project_calls tk) s \<rparr>
             | None \<Rightarrow> tk)
          else (Ok own, tk \<lparr> tk_calls := tk_calls tk - 1 \<rparr>))"

definition drop_call :: "Turnkey \<Rightarrow> CallPermit \<Rightarrow> Turnkey" where
  "drop_call tk own =
     (let tk = tk \<lparr> tk_calls := tk_calls tk + 1 \<rparr> in
      case own of
        Some s \<Rightarrow> tk \<lparr> tk_project_calls := drop_permit (tk_project_calls tk) s \<rparr>
      | None \<Rightarrow> tk)"

section \<open>Ownership\<close>

record ClaimedWallet =
  cw_organization_id :: string
  cw_wallet_id :: string
  cw_address :: string

text \<open>Turnkey's answers: the name of an organization, and the wallet ids and addresses of the first
  hundred accounts of a wallet.\<close>

record turnkey_replies =
  tr_whoami :: "string \<Rightarrow> TurnkeyClientError + string"
  tr_accounts :: "string \<Rightarrow> string \<Rightarrow> TurnkeyClientError + (string \<times> string) list"

definition cached_sub_org_project :: "Turnkey \<Rightarrow> string \<Rightarrow> instant \<Rightarrow> string option" where
  "cached_sub_org_project tk organization_id now =
     (case map_of (tk_sub_org_projects tk) organization_id of
        None \<Rightarrow> None
      | Some (name, fetched_at) \<Rightarrow> if now - fetched_at < tk_ownership_ttl tk then Some name else None)"

definition fetch_sub_org_project ::
    "Turnkey \<Rightarrow> turnkey_replies \<Rightarrow> ProjectId \<Rightarrow> string \<Rightarrow> instant \<Rightarrow> (ApiError + string) \<times> Turnkey" where
  "fetch_sub_org_project tk replies project organization_id later =
     (case call_permit tk (ProjectShare project) of
        (Inl e, tk) \<Rightarrow> (Err e, tk)
      | (Inr call, tk) \<Rightarrow>
          (case tr_whoami replies organization_id of
             Inl error \<Rightarrow> (Err (turnkey_failure error NOT_OWNED), drop_call tk call)
           | Inr name \<Rightarrow>
               (Ok name,
                drop_call (tk \<lparr> tk_sub_org_projects := capped_insert OWNERSHIP_CACHE_CAPACITY
                    organization_id (name, later) (tk_sub_org_projects tk) \<rparr>) call)))"

definition verify_sub_org_project ::
    "Turnkey \<Rightarrow> turnkey_replies \<Rightarrow> instant \<Rightarrow> instant \<Rightarrow> ProjectId \<Rightarrow> string \<Rightarrow> (ApiError + unit) \<times> Turnkey" where
  "verify_sub_org_project tk replies now later project organization_id =
     (case (case cached_sub_org_project tk organization_id now of
          Some name \<Rightarrow> (Ok name, tk)
        | None \<Rightarrow> fetch_sub_org_project tk replies project organization_id later) of
        (Inl e, tk) \<Rightarrow> (Err e, tk)
      | (Inr name, tk) \<Rightarrow> (if name \<noteq> project then Err Api_SubOrganizationNotOwned else Ok (), tk))"

definition verify_ownership ::
    "Turnkey \<Rightarrow> turnkey_replies \<Rightarrow> instant \<Rightarrow> instant \<Rightarrow> ProjectId \<Rightarrow> ClaimedWallet \<Rightarrow> (ApiError + unit) \<times> Turnkey"
  where
  "verify_ownership tk replies now later project wallet =
     (case verify_sub_org_project tk replies now later project (cw_organization_id wallet) of
        (Inl e, tk) \<Rightarrow> (Err e, tk)
      | (Inr _, tk) \<Rightarrow>
          (case call_permit tk (ProjectShare project) of
             (Inl e, tk) \<Rightarrow> (Err e, tk)
           | (Inr call, tk) \<Rightarrow>
               (case tr_accounts replies (cw_organization_id wallet) (cw_wallet_id wallet) of
                  Inl error \<Rightarrow> Err (turnkey_failure error NOT_OWNED)
                | Inr accounts \<Rightarrow>
                    if list_ex (\<lambda>account. fst account = cw_wallet_id wallet \<and> snd account = cw_address wallet)
                         accounts
                    then Ok () else Err Api_WalletNotOwned,
                drop_call tk call)))"

section \<open>Facts\<close>

lemma turnkey_status_kind:
  "turnkey_status s rejected = rejected \<or> api_error_status (turnkey_status s rejected) = 424"
  by (auto simp: turnkey_status_def split: option.splits)

lemma is_lower_hex_not_upper: "is_lower_hex v n \<Longrightarrow> is_lower_or_upper_hex v n"
  by (auto simp: is_lower_hex_def is_lower_or_upper_hex_def is_lower_hex_digit_def is_ascii_hexdigit_def
      list_all_iff)

text \<open>The names of sub-organizations Turnkey gave, the latest first.\<close>

definition names_after :: "(string \<times> string \<times> instant) list \<Rightarrow> (string \<times> string \<times> instant) list" where
  "names_after fetched = foldr (\<lambda>(org, name, t) c. capped_insert OWNERSHIP_CACHE_CAPACITY org (name, t) c) fetched []"

definition name_cached :: "nat \<Rightarrow> (string \<times> string \<times> instant) list \<Rightarrow> string \<Rightarrow> instant \<Rightarrow> string option" where
  "name_cached ttl c org now =
     (case map_of c org of None \<Rightarrow> None | Some (name, t) \<Rightarrow> if now - t < ttl then Some name else None)"

interpretation name_cache: bounded_cache "[]" "name_cached ttl"
    "\<lambda>c org name t. capped_insert OWNERSHIP_CACHE_CAPACITY org (name, t) c"
    length OWNERSHIP_CACHE_CAPACITY "\<lambda>_ t now. now - t < ttl" for ttl :: nat
proof unfold_locales
  show "name_cached ttl c l now = Some w"
    if "l \<noteq> k" "name_cached ttl (capped_insert OWNERSHIP_CACHE_CAPACITY k (v, t) c) l now = Some w"
    for l k c v t now w
    using that(2) map_of_capped_insert_other [OF that(1), of OWNERSHIP_CACHE_CAPACITY "(v, t)" c]
    by (cases "map_of (capped_insert OWNERSHIP_CACHE_CAPACITY k (v, t) c) l") (auto simp add: name_cached_def)
qed (simp_all add: name_cached_def length_capped_insert OWNERSHIP_CACHE_CAPACITY_def)

lemma names_after: "names_after fetched = name_cache.after fetched"
  by (simp add: names_after_def name_cache.after_def)

lemma cached_name_was_given:
  assumes "tk_sub_org_projects tk = names_after fetched" "cached_sub_org_project tk org now = Some name"
  shows "\<exists>t. (org, name, t) \<in> set fetched \<and> now - t < tk_ownership_ttl tk"
proof -
  have "name_cached (tk_ownership_ttl tk) (name_cache.after fetched) org now = Some name"
    using assms by (simp add: cached_sub_org_project_def name_cached_def names_after)
  from name_cache.look_sound [OF this] show ?thesis .
qed

section \<open>Slots\<close>

text \<open>The semaphores have the free permits they had, and the new ones are full.\<close>

definition permits_kept :: "InFlightLimiter \<Rightarrow> InFlightLimiter \<Rightarrow> bool" where
  "permits_kept l l' \<longleftrightarrow>
     lm_max_per_project l' = lm_max_per_project l \<and> length (lm_semaphores l) \<le> length (lm_semaphores l') \<and>
     (\<forall>i < length (lm_semaphores l'). lm_semaphores l' ! i =
        (if i < length (lm_semaphores l) then lm_semaphores l ! i else lm_max_per_project l)) \<and>
     (\<forall>e \<in> set (lm_by_project l'). snd e < length (lm_semaphores l'))"

definition names_valid :: "InFlightLimiter \<Rightarrow> bool" where
  "names_valid l \<longleftrightarrow> (\<forall>e \<in> set (lm_by_project l). snd e < length (lm_semaphores l))"

definition slots_kept :: "Turnkey \<Rightarrow> Turnkey \<Rightarrow> bool" where
  "slots_kept tk tk' \<longleftrightarrow> tk_calls tk' = tk_calls tk \<and> permits_kept (tk_project_calls tk) (tk_project_calls tk')"

lemma permits_kept_refl: "names_valid l \<Longrightarrow> permits_kept l l"
  by (simp add: permits_kept_def names_valid_def)

lemma permits_kept_trans: "permits_kept a b \<Longrightarrow> permits_kept b c \<Longrightarrow> permits_kept a c"
  by (auto simp: permits_kept_def)

lemma permits_kept_valid: "permits_kept a b \<Longrightarrow> names_valid b"
  by (simp add: permits_kept_def names_valid_def)

lemma semaphore_permits:
  assumes "names_valid l" "limiter_semaphore l p = (s, l')"
  shows "permits_kept l l' \<and> s < length (lm_semaphores l')"
proof -
  define kept where "kept = (if length (lm_by_project l) > LIMITER_PRUNE_THRESHOLD
    then filter (\<lambda>e. lm_semaphores l ! snd e < lm_max_per_project l) (lm_by_project l)
    else lm_by_project l)"
  have valid: "(q, t) \<in> set kept \<Longrightarrow> t < length (lm_semaphores l)" for q t
    using assms(1) by (auto simp: kept_def names_valid_def split: if_splits)
  have named: "map_of kept p = Some t \<Longrightarrow> t < length (lm_semaphores l)" for t
    using valid by (auto dest!: map_of_SomeD)
  show ?thesis
    using assms(2) valid named
    by (cases "map_of kept p")
      (auto simp: limiter_semaphore_def kept_def [symmetric] Let_def permits_kept_def
        nth_append less_Suc_eq)
qed

lemma acquire_permits:
  assumes "names_valid l" "limiter_try_acquire l p = (r, l')"
  shows "case r of Inl _ \<Rightarrow> permits_kept l l' | Inr s \<Rightarrow> permits_kept l (drop_permit l' s)"
proof -
  obtain s l1 where l1: "limiter_semaphore l p = (s, l1)" "try_acquire_owned l1 s = (r, l')"
    using assms(2) by (auto simp: limiter_try_acquire_def split: prod.splits)
  note kept = semaphore_permits [OF assms(1) l1(1)]
  show ?thesis
  proof (cases "lm_semaphores l1 ! s = 0")
    case True
    with l1 kept show ?thesis by (auto simp: try_acquire_owned_def)
  next
    case False
    then have "drop_permit l' s = l1" "r = Ok s"
      using l1(2) by (auto simp: try_acquire_owned_def drop_permit_def list_update_same_conv kept)
    with kept show ?thesis by simp
  qed
qed

lemma call_slots:
  assumes "names_valid (tk_project_calls tk)" "call_permit tk share = (r, tk')"
  shows "case r of Inl _ \<Rightarrow> slots_kept tk tk' | Inr own \<Rightarrow>
    slots_kept tk (drop_call tk' own) \<and> tk_sub_org_projects tk' = tk_sub_org_projects tk \<and>
    tk_ownership_ttl tk' = tk_ownership_ttl tk"
  using assms permits_kept_refl [OF assms(1)]
  by (cases share; cases "tk_calls tk = 0")
    (auto simp: call_permit_def drop_call_def slots_kept_def map_prod_def Let_def
      dest!: acquire_permits [OF assms(1)] split: prod.splits sum.splits option.splits if_splits)

lemma slots_kept_refl: "names_valid (tk_project_calls tk) \<Longrightarrow> slots_kept tk tk"
  by (simp add: slots_kept_def permits_kept_refl)

lemma slots_kept_trans: "slots_kept a b \<Longrightarrow> slots_kept b c \<Longrightarrow> slots_kept a c"
  by (auto simp: slots_kept_def intro: permits_kept_trans)

lemma slots_kept_valid: "slots_kept a b \<Longrightarrow> names_valid (tk_project_calls b)"
  by (auto simp: slots_kept_def dest: permits_kept_valid)

lemma slots_kept_cache:
  "slots_kept tk (drop_call (tk' \<lparr> tk_sub_org_projects := c \<rparr>) own) = slots_kept tk (drop_call tk' own)"
  by (simp add: slots_kept_def drop_call_def Let_def split: option.splits)

lemma drop_call_params [simp]:
  "tk_sub_org_projects (drop_call tk own) = tk_sub_org_projects tk"
  "tk_ownership_ttl (drop_call tk own) = tk_ownership_ttl tk"
  by (simp_all add: drop_call_def Let_def split: option.splits)

lemma call_permit_params:
  "call_permit tk share = (r, tk') \<Longrightarrow>
     tk_sub_org_projects tk' = tk_sub_org_projects tk \<and> tk_ownership_ttl tk' = tk_ownership_ttl tk"
  by (cases share)
    (auto simp: call_permit_def map_prod_def split: prod.splits sum.splits option.splits if_splits)

lemma fetch_slots:
  assumes "names_valid (tk_project_calls tk)" "fetch_sub_org_project tk replies p org later = (r, tk')"
  shows "slots_kept tk tk'"
  using assms(2) call_slots [OF assms(1), of "ProjectShare p"]
  by (auto simp: fetch_sub_org_project_def slots_kept_cache split: prod.splits sum.splits)

lemma verify_sub_org_slots:
  assumes "names_valid (tk_project_calls tk)" "verify_sub_org_project tk replies now later p org = (r, tk')"
  shows "slots_kept tk tk'"
  using assms(2) fetch_slots [OF assms(1)] slots_kept_refl [OF assms(1)]
  by (auto simp: verify_sub_org_project_def split: option.splits prod.splits sum.splits)

lemma verify_ownership_slots:
  assumes "names_valid (tk_project_calls tk)" "verify_ownership tk replies now later p w = (r, tk')"
  shows "slots_kept tk tk'"
proof -
  obtain q tk1 where 1: "verify_sub_org_project tk replies now later p (cw_organization_id w) = (q, tk1)"
    by fastforce
  note kept = verify_sub_org_slots [OF assms(1) 1]
  show ?thesis
    using assms(2) kept call_slots [OF slots_kept_valid [OF kept], of "ProjectShare p"]
    by (auto simp: verify_ownership_def 1 dest: slots_kept_trans split: prod.splits sum.splits)
qed

lemma verify_sub_org_Ok:
  assumes "tk_sub_org_projects tk = names_after fetched"
    and "verify_sub_org_project tk replies now later p org = (Ok (), tk')"
  shows "(tr_whoami replies org = Ok p \<or> (\<exists>t. (org, p, t) \<in> set fetched \<and> now - t < tk_ownership_ttl tk)) \<and>
    (tk_sub_org_projects tk' = names_after fetched \<or>
     tk_sub_org_projects tk' = names_after ((org, p, later) # fetched))"
proof (cases "cached_sub_org_project tk org now")
  case (Some name)
  with assms cached_name_was_given [OF assms(1) Some] show ?thesis
    by (auto simp: verify_sub_org_project_def split: if_splits)
next
  case None
  obtain r tk1 where call: "call_permit tk (ProjectShare p) = (r, tk1)" by fastforce
  from None assms call_permit_params [OF call] show ?thesis
    by (auto simp: verify_sub_org_project_def fetch_sub_org_project_def call names_after_def
        split: sum.splits if_splits)
qed

lemma verify_ownership_Ok:
  assumes "tk_sub_org_projects tk = names_after fetched"
    and "verify_ownership tk replies now later p w = (Ok (), tk')"
  shows "(tr_whoami replies (cw_organization_id w) = Ok p \<or>
      (\<exists>t. (cw_organization_id w, p, t) \<in> set fetched \<and> now - t < tk_ownership_ttl tk)) \<and>
    (\<exists>accounts. tr_accounts replies (cw_organization_id w) (cw_wallet_id w) = Ok accounts \<and>
       (cw_wallet_id w, cw_address w) \<in> set accounts) \<and>
    (\<exists>fetched'. tk_sub_org_projects tk' = names_after fetched') \<and>
    length (tk_sub_org_projects tk') \<le> OWNERSHIP_CACHE_CAPACITY"
proof -
  obtain tk1 where 1: "verify_sub_org_project tk replies now later p (cw_organization_id w) = (Ok (), tk1)"
    using assms(2) by (cases "verify_sub_org_project tk replies now later p (cw_organization_id w)")
      (auto simp: verify_ownership_def split: sum.splits)
  obtain r tk2 where call: "call_permit tk1 (ProjectShare p) = (r, tk2)" by fastforce
  have "\<exists>accounts. tr_accounts replies (cw_organization_id w) (cw_wallet_id w) = Ok accounts \<and>
      (cw_wallet_id w, cw_address w) \<in> set accounts" "tk_sub_org_projects tk' = tk_sub_org_projects tk1"
    using assms(2) call_permit_params [OF call]
    by (auto simp: verify_ownership_def 1 call list_ex_iff split: sum.splits if_splits)
  moreover have "length (names_after f) \<le> OWNERSHIP_CACHE_CAPACITY" for f
    by (simp add: names_after name_cache.entries_bounded)
  ultimately show ?thesis using verify_sub_org_Ok [OF assms(1) 1] by auto
qed

section \<open>Properties\<close>

text \<open>
  A client key is enrolled for a wallet only if Turnkey itself said so: the sub-organization's name
  is the caller's project, as Turnkey gives it now or gave it less than the configured time ago, and
  the wallet's accounts, as Turnkey gives them now, hold the claimed address in that very wallet.
\<close>

lemma ownership_is_turnkeys_word:
  assumes "tk_sub_org_projects tk = names_after fetched"
    and "verify_ownership tk replies now later p w = (Ok (), tk')"
  shows "(tr_whoami replies (cw_organization_id w) = Ok p \<or>
      (\<exists>t. (cw_organization_id w, p, t) \<in> set fetched \<and> now - t < tk_ownership_ttl tk)) \<and>
    (\<exists>accounts. tr_accounts replies (cw_organization_id w) (cw_wallet_id w) = Ok accounts \<and>
       (cw_wallet_id w, cw_address w) \<in> set accounts) \<and>
    (\<exists>fetched'. tk_sub_org_projects tk' = names_after fetched') \<and>
    length (tk_sub_org_projects tk') \<le> OWNERSHIP_CACHE_CAPACITY"
  using verify_ownership_Ok [OF assms] .

definition demo_turnkey :: Turnkey where
  "demo_turnkey =
     \<lparr> tk_tvc_organization_id = ''tvc'', tk_ownership_ttl = from_secs 600, tk_boot_proof_cache = [],
       tk_sub_org_projects = [], tk_calls = 1, tk_project_calls = limiter_new 8 \<rparr>"

definition demo_replies :: turnkey_replies where
  "demo_replies =
     \<lparr> tr_whoami = (\<lambda>_. Ok ''project-a''), tr_accounts = (\<lambda>_ w. Ok [(w, ''other''), (w, ''address'')]) \<rparr>"

definition demo_claim :: ClaimedWallet where
  "demo_claim = \<lparr> cw_organization_id = ''org'', cw_wallet_id = ''wallet'', cw_address = ''address'' \<rparr>"

lemmas turnkey_defs = verify_ownership_def verify_sub_org_project_def fetch_sub_org_project_def
  cached_sub_org_project_def call_permit_def drop_call_def limiter_try_acquire_def
  limiter_semaphore_def try_acquire_owned_def limiter_new_def drop_permit_def LIMITER_PRUNE_THRESHOLD_def

lemma ownership_is_turnkeys_word_witness:
  "\<exists>tk'. verify_ownership demo_turnkey demo_replies 0 1 ''project-a'' demo_claim = (Ok (), tk') \<and>
     length (tk_sub_org_projects tk') \<le> OWNERSHIP_CACHE_CAPACITY"
proof -
  obtain tk' where "verify_ownership demo_turnkey demo_replies 0 1 ''project-a'' demo_claim = (Ok (), tk')"
    by (simp add: turnkey_defs demo_turnkey_def demo_replies_def demo_claim_def Let_def)
  moreover from ownership_is_turnkeys_word [OF _ this, of "[]"]
  have "length (tk_sub_org_projects tk') \<le> OWNERSHIP_CACHE_CAPACITY"
    by (simp add: demo_turnkey_def names_after_def)
  ultimately show ?thesis by blast
qed

text \<open>
  However a check of ownership ends, with success, a refusal of Turnkey or no slot left, it gives
  back every slot it took, the project's and the shared one.
\<close>

lemma turnkey_calls_return_their_slots:
  assumes "names_valid (tk_project_calls tk)"
  shows "slots_kept tk (snd (verify_ownership tk replies now later p w)) \<and>
    slots_kept tk (snd (verify_sub_org_project tk replies now later p org))"
  using verify_ownership_slots [OF assms] verify_sub_org_slots [OF assms] by (metis prod.collapse)

lemma turnkey_calls_return_their_slots_witness:
  "slots_kept demo_turnkey (snd (verify_ownership demo_turnkey demo_replies 0 1 ''project-b'' demo_claim))"
  using turnkey_calls_return_their_slots [of demo_turnkey]
  by (simp add: demo_turnkey_def names_valid_def limiter_new_def)

end
