(* ===== verification/Gateway_Flights.thy ===== *)
theory Gateway_Flights
  imports Gateway_Turnkey
begin

text \<open>
  The Boot Proof lookups of \<open>turnkey.rs\<close>: at most one Turnkey call per ephemeral key at a time, whose
  answer concurrent callers share. \<open>boot_proof\<close> is the function for a caller no other meets;
  \<open>flight_step\<close> are the atomic steps of any number of callers, one per lock held or value awaited,
  with callers that are dropped while they await. A \<open>watch\<close> channel is a status in a store, the
  sender's drop without an answer \<open>Closed\<close>. Whether a slot is free is left open in the steps.
\<close>

section \<open>A caller on its own\<close>

type_synonym proof_answer = "ApiError + bytes"

text \<open>Turnkey's reply, with the JSON of the proof in it once written.\<close>

datatype boot_proof_reply =
    BootProofFailed TurnkeyClientError
  | NoBootProof
  | BootProofUnwritable
  | BootProofBody bytes

fun fetch_boot_proof :: "boot_proof_reply \<Rightarrow> proof_answer" where
  "fetch_boot_proof (BootProofFailed error) = Err (turnkey_failure error Api_BootProofUnavailable)"
| "fetch_boot_proof NoBootProof = Err Api_BootProofUnavailable"
| "fetch_boot_proof BootProofUnwritable = Err Api_BootProofUnavailable"
| "fetch_boot_proof (BootProofBody body) = Ok body"

definition cached_boot_proof :: "(string \<times> bytes) list \<Rightarrow> string \<Rightarrow> bytes option" where
  "cached_boot_proof cache ephemeral_key = map_of cache ephemeral_key"

definition cache_boot_proof :: "string \<Rightarrow> proof_answer \<Rightarrow> (string \<times> bytes) list \<Rightarrow> (string \<times> bytes) list" where
  "cache_boot_proof ephemeral_key looked_up cache =
     (case looked_up of
        Inr body \<Rightarrow> capped_insert BOOT_PROOF_CACHE_CAPACITY ephemeral_key body cache
      | Inl _ \<Rightarrow> cache)"

definition boot_proof ::
    "Turnkey \<Rightarrow> (string \<Rightarrow> string \<Rightarrow> boot_proof_reply) \<Rightarrow> CallShare \<Rightarrow> string \<Rightarrow> proof_answer \<times> Turnkey" where
  "boot_proof tk replies share ephemeral_key =
     (if \<not> is_lower_hex ephemeral_key EPHEMERAL_KEY_HEX_LEN then (Err Api_InvalidEnclaveAnswer, tk)
      else case cached_boot_proof (tk_boot_proof_cache tk) ephemeral_key of
        Some cached \<Rightarrow> (Ok cached, tk)
      | None \<Rightarrow>
          (case call_permit tk share of
             (Inl e, tk) \<Rightarrow> (Err e, tk)
           | (Inr call, tk) \<Rightarrow>
               let looked_up = fetch_boot_proof (replies (tk_tvc_organization_id tk) ephemeral_key);
                   tk = tk \<lparr> tk_boot_proof_cache :=
                     cache_boot_proof ephemeral_key looked_up (tk_boot_proof_cache tk) \<rparr> in
               (looked_up, drop_call tk call)))"

interpretation proof_cache: bounded_cache "[]" "\<lambda>c k now. cached_boot_proof c k"
    "\<lambda>c k b t. cache_boot_proof k (Ok b) c" length BOOT_PROOF_CACHE_CAPACITY "\<lambda>b t now. True"
proof unfold_locales
  show "cached_boot_proof c l = Some w"
    if "l \<noteq> k" "cached_boot_proof (cache_boot_proof k (Ok v) c) l = Some w" for l k c v w
    using that by (auto simp: cached_boot_proof_def cache_boot_proof_def intro: map_of_capped_insert_other)
qed (simp_all add: cached_boot_proof_def cache_boot_proof_def length_capped_insert
    BOOT_PROOF_CACHE_CAPACITY_def)

section \<open>Callers together\<close>

datatype flight_status = Pending | Answered proof_answer | Closed

text \<open>Where a caller stands, with the key it asks for and the flight it waits for or runs.\<close>

datatype pc =
    Idle
  | Asking string
  | Missed string
  | Permitted string
  | Waiting string nat
  | Looking string nat
  | Telling string nat proof_answer
  | Landing string nat proof_answer
  | Finished string proof_answer
  | Gone

text \<open>
  \<open>fl_channels\<close>: the key and the status of every flight, by its number; \<open>fl_said\<close>: what Turnkey has
  answered, which no step reads.
\<close>

record flights =
  fl_cache :: "(string \<times> bytes) list"
  fl_flights :: "(string \<times> nat) list"
  fl_channels :: "(string \<times> flight_status) list"
  fl_pcs :: "nat \<Rightarrow> pc"
  fl_said :: "(string \<times> proof_answer) set"

definition flights_new :: flights where
  "flights_new =
     \<lparr> fl_cache = [], fl_flights = [], fl_channels = [], fl_pcs = (\<lambda>_. Idle), fl_said = {} \<rparr>"

definition goto :: "nat \<Rightarrow> pc \<Rightarrow> flights \<Rightarrow> flights" where
  "goto c p s = s \<lparr> fl_pcs := (fl_pcs s) (c := p) \<rparr>"

text \<open>\<open>FlightLanding::drop\<close>\<close>

definition flight_landed :: "string \<Rightarrow> nat \<Rightarrow> flights \<Rightarrow> flights" where
  "flight_landed key f s =
     (if map_of (fl_flights s) key = Some f then s \<lparr> fl_flights := AList.delete key (fl_flights s) \<rparr> else s)"

definition set_status :: "nat \<Rightarrow> flight_status \<Rightarrow> flights \<Rightarrow> flights" where
  "set_status f st s = s \<lparr> fl_channels := (fl_channels s) [f := (fst (fl_channels s ! f), st)] \<rparr>"

inductive flight_step :: "flights \<Rightarrow> flights \<Rightarrow> bool" where
  ask: "fl_pcs s c = Idle \<Longrightarrow> is_lower_hex k EPHEMERAL_KEY_HEX_LEN \<Longrightarrow> flight_step s (goto c (Asking k) s)"
| malformed: "fl_pcs s c = Idle \<Longrightarrow> \<not> is_lower_hex k EPHEMERAL_KEY_HEX_LEN \<Longrightarrow>
    flight_step s (goto c (Finished k (Err Api_InvalidEnclaveAnswer)) s)"
| hit: "fl_pcs s c = Asking k \<Longrightarrow> cached_boot_proof (fl_cache s) k = Some b \<Longrightarrow>
    flight_step s (goto c (Finished k (Ok b)) s)"
| miss: "fl_pcs s c = Asking k \<Longrightarrow> cached_boot_proof (fl_cache s) k = None \<Longrightarrow> flight_step s (goto c (Missed k) s)"
| join: "fl_pcs s c = Missed k \<Longrightarrow> map_of (fl_flights s) k = Some f \<Longrightarrow> flight_step s (goto c (Waiting k f) s)"
| permit: "fl_pcs s c = Missed k \<Longrightarrow> map_of (fl_flights s) k = None \<Longrightarrow> flight_step s (goto c (Permitted k) s)"
| refuse: "fl_pcs s c = Missed k \<Longrightarrow> map_of (fl_flights s) k = None \<Longrightarrow>
    flight_step s (goto c (Finished k (Err Api_TooManyInFlight)) s)"
| late: "fl_pcs s c = Permitted k \<Longrightarrow> map_of (fl_flights s) k = Some f \<Longrightarrow> flight_step s (goto c (Asking k) s)"
| launch: "fl_pcs s c = Permitted k \<Longrightarrow> map_of (fl_flights s) k = None \<Longrightarrow> f = length (fl_channels s) \<Longrightarrow>
    flight_step s (goto c (Looking k f)
      (s \<lparr> fl_flights := (k, f) # fl_flights s, fl_channels := fl_channels s @ [(k, Pending)] \<rparr>))"
| looked_up: "fl_pcs s c = Looking k f \<Longrightarrow> r = fetch_boot_proof reply \<Longrightarrow>
    flight_step s (goto c (Telling k f r)
      (s \<lparr> fl_cache := cache_boot_proof k r (fl_cache s), fl_said := insert (k, r) (fl_said s) \<rparr>))"
| tell: "fl_pcs s c = Telling k f r \<Longrightarrow> flight_step s (goto c (Landing k f r) (set_status f (Answered r) s))"
| land: "fl_pcs s c = Landing k f r \<Longrightarrow> flight_step s (goto c (Finished k r) (flight_landed k f s))"
| abandon: "fl_pcs s c = Looking k f \<Longrightarrow>
    flight_step s (goto c Gone (set_status f Closed (flight_landed k f s)))"
| leave: "fl_pcs s c = Waiting k f \<Longrightarrow> flight_step s (goto c Gone s)"
| answered: "fl_pcs s c = Waiting k f \<Longrightarrow> snd (fl_channels s ! f) = Answered r \<Longrightarrow>
    flight_step s (goto c (Finished k r) s)"
| closed: "fl_pcs s c = Waiting k f \<Longrightarrow> snd (fl_channels s ! f) = Closed \<Longrightarrow> flight_step s (goto c (Asking k) s)"

inductive_cases flight_stepE: "flight_step s s'"

section \<open>The invariant\<close>

fun flight_of :: "pc \<Rightarrow> (string \<times> nat) option" where
  "flight_of (Looking k f) = Some (k, f)"
| "flight_of (Telling k f r) = Some (k, f)"
| "flight_of (Landing k f r) = Some (k, f)"
| "flight_of _ = None"

definition own_refusal :: "proof_answer \<Rightarrow> bool" where
  "own_refusal r \<longleftrightarrow> r = Err Api_InvalidEnclaveAnswer \<or> r = Err Api_TooManyInFlight"

definition has_flight :: "flights \<Rightarrow> string \<Rightarrow> nat \<Rightarrow> flight_status \<Rightarrow> bool" where
  "has_flight s k f st \<longleftrightarrow>
     map_of (fl_flights s) k = Some f \<and> f < length (fl_channels s) \<and> fl_channels s ! f = (k, st)"

fun pc_ok :: "flights \<Rightarrow> pc \<Rightarrow> bool" where
  "pc_ok s (Waiting k f) = (f < length (fl_channels s) \<and> fst (fl_channels s ! f) = k)"
| "pc_ok s (Looking k f) = has_flight s k f Pending"
| "pc_ok s (Telling k f r) = (has_flight s k f Pending \<and> (k, r) \<in> fl_said s)"
| "pc_ok s (Landing k f r) = (has_flight s k f (Answered r) \<and> (k, r) \<in> fl_said s)"
| "pc_ok s (Finished k r) = ((k, r) \<in> fl_said s \<or> own_refusal r)"
| "pc_ok s _ = True"

definition alone :: "flights \<Rightarrow> bool" where
  "alone s \<longleftrightarrow>
     (\<forall>c d k f g. flight_of (fl_pcs s c) = Some (k, f) \<longrightarrow> flight_of (fl_pcs s d) = Some (k, g) \<longrightarrow> c = d)"

definition manned :: "flights \<Rightarrow> bool" where
  "manned s \<longleftrightarrow>
     (\<forall>k f. map_of (fl_flights s) k = Some f \<longrightarrow> (\<exists>c. flight_of (fl_pcs s c) = Some (k, f))) \<and>
     (\<forall>f k. f < length (fl_channels s) \<longrightarrow> fl_channels s ! f = (k, Pending) \<longrightarrow>
        (\<exists>c. flight_of (fl_pcs s c) = Some (k, f)))"

definition truthful :: "flights \<Rightarrow> bool" where
  "truthful s \<longleftrightarrow>
     (\<forall>f k r. f < length (fl_channels s) \<longrightarrow> fl_channels s ! f = (k, Answered r) \<longrightarrow> (k, r) \<in> fl_said s) \<and>
     (\<forall>k b. map_of (fl_cache s) k = Some b \<longrightarrow> (k, Ok b) \<in> fl_said s)"

definition flight_inv :: "flights \<Rightarrow> bool" where
  "flight_inv s \<longleftrightarrow> (\<forall>c. pc_ok s (fl_pcs s c)) \<and> alone s \<and> manned s \<and> truthful s"

lemma flight_of_channel:
  "pc_ok s p \<Longrightarrow> flight_of p = Some (k, f) \<Longrightarrow>
     map_of (fl_flights s) k = Some f \<and> f < length (fl_channels s) \<and> fst (fl_channels s ! f) = k"
  by (cases p) (auto simp: has_flight_def)

lemma goto_simps [simp]:
  "fl_cache (goto c p s) = fl_cache s" "fl_flights (goto c p s) = fl_flights s"
  "fl_channels (goto c p s) = fl_channels s" "fl_said (goto c p s) = fl_said s"
  "fl_pcs (goto c p s) = (fl_pcs s) (c := p)"
  by (simp_all add: goto_def)

lemma pc_ok_goto [simp]: "pc_ok (goto c p s) q = pc_ok s q"
  by (cases q) (simp_all add: has_flight_def)

text \<open>A caller that runs no flight, and goes where it runs none.\<close>

lemma inv_goto:
  assumes "flight_inv s" "flight_of (fl_pcs s c) = None" "flight_of p = None" "pc_ok s p"
  shows "flight_inv (goto c p s)"
proof -
  have "flight_of (((fl_pcs s) (c := p)) d) = flight_of (fl_pcs s d)" for d using assms(2,3) by simp
  then show ?thesis using assms
    by (simp add: flight_inv_def alone_def manned_def truthful_def del: fun_upd_apply) simp
qed

lemma flight_inv_new: "flight_inv flights_new"
  by (simp add: flight_inv_def flights_new_def alone_def manned_def truthful_def)

text \<open>What else has to stay for a caller that stays.\<close>

lemma pc_ok_frame:
  assumes "pc_ok s p" "length (fl_channels s) \<le> length (fl_channels s')" "fl_said s \<subseteq> fl_said s'"
    and "\<And>f. f < length (fl_channels s) \<Longrightarrow> fst (fl_channels s' ! f) = fst (fl_channels s ! f)"
    and "\<And>k f. flight_of p = Some (k, f) \<Longrightarrow> f < length (fl_channels s) \<Longrightarrow>
      map_of (fl_flights s) k = Some f \<Longrightarrow>
      map_of (fl_flights s') k = Some f \<and> fl_channels s' ! f = fl_channels s ! f"
  shows "pc_ok s' p"
  using assms by (cases p) (auto simp: has_flight_def)

lemma mannedE:
  assumes "flight_inv s" "map_of (fl_flights s) k = Some f"
  obtains c where "flight_of (fl_pcs s c) = Some (k, f)"
  using assms by (simp add: flight_inv_def manned_def) blast

lemma pending_mannedE:
  assumes "flight_inv s" "f < length (fl_channels s)" "fl_channels s ! f = (k, Pending)"
  obtains c where "flight_of (fl_pcs s c) = Some (k, f)"
  using assms by (simp add: flight_inv_def manned_def) blast

lemma other_flight:
  assumes "flight_inv s" "flight_of (fl_pcs s c) = Some (k, f)" "d \<noteq> c" "flight_of (fl_pcs s d) = Some (l, g)"
  shows "l \<noteq> k \<and> g \<noteq> f"
proof -
  have "pc_ok s (fl_pcs s c)" "pc_ok s (fl_pcs s d)" using assms(1) by (auto simp: flight_inv_def)
  note channels = flight_of_channel [OF this(1) assms(2)] flight_of_channel [OF this(2) assms(4)]
  have "l \<noteq> k" using assms by (auto simp: flight_inv_def alone_def)
  with channels show ?thesis by auto
qed

lemma set_status_simps [simp]:
  "fl_cache (set_status f st s) = fl_cache s" "fl_flights (set_status f st s) = fl_flights s"
  "fl_said (set_status f st s) = fl_said s" "fl_pcs (set_status f st s) = fl_pcs s"
  "length (fl_channels (set_status f st s)) = length (fl_channels s)"
  "g < length (fl_channels s) \<Longrightarrow> fst (fl_channels (set_status f st s) ! g) = fst (fl_channels s ! g)"
  "g \<noteq> f \<Longrightarrow> fl_channels (set_status f st s) ! g = fl_channels s ! g"
  "f < length (fl_channels s) \<Longrightarrow> fl_channels (set_status f st s) ! f = (fst (fl_channels s ! f), st)"
  by (simp_all add: set_status_def) (cases "g = f", simp_all)

lemma flight_landed_simps [simp]:
  "fl_cache (flight_landed k f s) = fl_cache s" "fl_channels (flight_landed k f s) = fl_channels s"
  "fl_said (flight_landed k f s) = fl_said s" "fl_pcs (flight_landed k f s) = fl_pcs s"
  "l \<noteq> k \<Longrightarrow> map_of (fl_flights (flight_landed k f s)) l = map_of (fl_flights s) l"
  "map_of (fl_flights s) k = Some f \<Longrightarrow> map_of (fl_flights (flight_landed k f s)) k = None"
  by (simp_all add: flight_landed_def delete_conv')

lemma inv_launch:
  assumes "flight_inv s" "fl_pcs s c = Permitted k" "map_of (fl_flights s) k = None"
  shows "flight_inv (goto c (Looking k (length (fl_channels s)))
    (s \<lparr> fl_flights := (k, length (fl_channels s)) # fl_flights s, fl_channels := fl_channels s @ [(k, Pending)] \<rparr>))"
    (is "flight_inv (goto c ?p ?s)")
proof -
  have ok: "pc_ok s (fl_pcs s d)" for d using assms(1) by (simp add: flight_inv_def)
  have "pc_ok ?s (fl_pcs s d)" for d
    by (rule pc_ok_frame [OF ok]) (use assms(3) in \<open>auto simp: nth_append\<close>)
  moreover have "pc_ok ?s ?p" by (simp add: has_flight_def nth_append)
  moreover have others: "\<And>d l g. flight_of (((fl_pcs s) (c := ?p)) d) = Some (l, g) \<longleftrightarrow>
      d = c \<and> l = k \<and> g = length (fl_channels s) \<or> flight_of (fl_pcs s d) = Some (l, g)"
    using assms(2) by auto
  have unflown: "flight_of (fl_pcs s d) \<noteq> Some (k, g)" for d g
    using flight_of_channel [OF ok, of d k g] assms(3) by auto
  have "alone (goto c ?p ?s)"
    unfolding alone_def
  proof (intro allI impI)
    fix a b l g h
    assume "flight_of (fl_pcs (goto c ?p ?s) a) = Some (l, g)" "flight_of (fl_pcs (goto c ?p ?s) b) = Some (l, h)"
    then have "a = c \<and> b = c \<or> flight_of (fl_pcs s a) = Some (l, g) \<and> flight_of (fl_pcs s b) = Some (l, h)"
      using unflown by (auto simp: others simp del: fun_upd_apply)
    then show "a = b" using assms(1) by (auto simp: flight_inv_def alone_def)
  qed
  moreover have "manned s" using assms(1) by (simp add: flight_inv_def)
  then have "manned (goto c ?p ?s)"
    by (auto simp: manned_def others map_upd_Some_unfold nth_append less_Suc_eq simp del: fun_upd_apply split: if_splits)
  moreover have "truthful (goto c ?p ?s)"
    using assms by (auto simp: flight_inv_def truthful_def nth_append less_Suc_eq split: if_splits)
  ultimately show ?thesis by (simp add: flight_inv_def)
qed

lemma cache_boot_proof_Some:
  "map_of (cache_boot_proof k r cache) l = Some b \<Longrightarrow> map_of cache l = Some b \<or> l = k \<and> r = Ok b"
  by (cases "l = k") (auto simp: cache_boot_proof_def split: sum.splits dest: map_of_capped_insert_other)

lemma inv_looked_up:
  assumes "flight_inv s" "fl_pcs s c = Looking k f"
  shows "flight_inv (goto c (Telling k f r)
    (s \<lparr> fl_cache := cache_boot_proof k r (fl_cache s), fl_said := insert (k, r) (fl_said s) \<rparr>))"
    (is "flight_inv (goto c ?p ?s)")
proof -
  have ok: "pc_ok s (fl_pcs s d)" for d using assms(1) by (simp add: flight_inv_def)
  have "pc_ok ?s (fl_pcs s d)" for d by (rule pc_ok_frame [OF ok]) auto
  moreover have "pc_ok ?s ?p" using ok [of c] assms(2) by (simp add: has_flight_def)
  moreover have same: "flight_of (((fl_pcs s) (c := ?p)) d) = flight_of (fl_pcs s d)" for d
    using assms(2) by simp
  have "alone (goto c ?p ?s)" "manned (goto c ?p ?s)"
    using assms(1) same by (simp_all add: flight_inv_def alone_def manned_def del: fun_upd_apply)
  moreover have "truthful (goto c ?p ?s)"
    using assms(1) by (auto simp: flight_inv_def truthful_def dest: cache_boot_proof_Some)
  ultimately show ?thesis by (simp add: flight_inv_def)
qed

lemma inv_tell:
  assumes "flight_inv s" "fl_pcs s c = Telling k f r"
  shows "flight_inv (goto c (Landing k f r) (set_status f (Answered r) s))" (is "flight_inv (goto c ?p ?s)")
proof -
  have ok: "pc_ok s (fl_pcs s d)" for d using assms(1) by (simp add: flight_inv_def)
  have f: "f < length (fl_channels s)" "fl_channels s ! f = (k, Pending)" "(k, r) \<in> fl_said s"
    "map_of (fl_flights s) k = Some f"
    using ok [of c] assms(2) by (simp_all add: has_flight_def)
  have "pc_ok ?s (fl_pcs s d)" if "d \<noteq> c" for d
    by (rule pc_ok_frame [OF ok]) (use other_flight [OF assms(1) _ that] assms(2) in auto)
  moreover have "pc_ok ?s ?p" using f by (simp add: has_flight_def)
  moreover have same: "flight_of (((fl_pcs s) (c := ?p)) d) = flight_of (fl_pcs s d)" for d
    using assms(2) by simp
  have "alone (goto c ?p ?s)"
    using assms(1) same by (simp add: flight_inv_def alone_def del: fun_upd_apply)
  moreover have "manned s" using assms(1) by (simp add: flight_inv_def)
  then have "manned (goto c ?p ?s)"
    using same f by (auto simp: manned_def set_status_def nth_list_update simp del: fun_upd_apply)
  moreover have "truthful (goto c ?p ?s)"
    using assms(1) f by (auto simp: flight_inv_def truthful_def set_status_def nth_list_update)
  ultimately show ?thesis by (simp add: flight_inv_def)
qed

lemma inv_land:
  assumes "flight_inv s" "flight_of (fl_pcs s c) = Some (k, f)" "flight_of p = None"
    and "snd (fl_channels s ! f) \<noteq> Pending" "pc_ok s p"
  shows "flight_inv (goto c p (flight_landed k f s))" (is "flight_inv (goto c p ?s)")
proof -
  have ok: "pc_ok s (fl_pcs s d)" for d using assms(1) by (simp add: flight_inv_def)
  note f = flight_of_channel [OF ok assms(2)]
  have "pc_ok ?s (fl_pcs s d)" if "d \<noteq> c" for d
    by (rule pc_ok_frame [OF ok]) (use other_flight [OF assms(1,2) that] in auto)
  moreover have "pc_ok ?s p" by (rule pc_ok_frame [OF assms(5)]) (use assms(3) in auto)
  moreover have "alone (goto c p ?s)"
    using assms(1,3) by (auto simp: flight_inv_def alone_def split: if_splits)
  moreover have "manned (goto c p ?s)"
    unfolding manned_def
  proof (intro conjI allI impI)
    fix l g assume g: "map_of (fl_flights (goto c p ?s)) l = Some g"
    then have "l \<noteq> k" using f by auto
    with g have "map_of (fl_flights s) l = Some g" by simp
    then obtain d where "flight_of (fl_pcs s d) = Some (l, g)" by (rule mannedE [OF assms(1)])
    with \<open>l \<noteq> k\<close> assms(2) show "\<exists>d. flight_of (fl_pcs (goto c p ?s) d) = Some (l, g)"
      by (intro exI [of _ d]) auto
  next
    fix g l assume g: "g < length (fl_channels (goto c p ?s))" "fl_channels (goto c p ?s) ! g = (l, Pending)"
    then have "g < length (fl_channels s)" "fl_channels s ! g = (l, Pending)" by simp_all
    then obtain d where "flight_of (fl_pcs s d) = Some (l, g)" by (rule pending_mannedE [OF assms(1)])
    moreover have "g \<noteq> f" using g assms(4) by auto
    ultimately show "\<exists>d. flight_of (fl_pcs (goto c p ?s) d) = Some (l, g)"
      using assms(2) by (intro exI [of _ d]) auto
  qed
  moreover have "truthful (goto c p ?s)" using assms(1) by (simp add: flight_inv_def truthful_def)
  ultimately show ?thesis by (simp add: flight_inv_def)
qed

lemma inv_abandon:
  assumes "flight_inv s" "fl_pcs s c = Looking k f"
  shows "flight_inv (goto c Gone (set_status f Closed (flight_landed k f s)))" (is "flight_inv (goto c _ ?s)")
proof -
  have ok: "pc_ok s (fl_pcs s d)" for d using assms(1) by (simp add: flight_inv_def)
  have c: "flight_of (fl_pcs s c) = Some (k, f)" using assms(2) by simp
  note f = flight_of_channel [OF ok c]
  have "pc_ok ?s (fl_pcs s d)" if "d \<noteq> c" for d
    by (rule pc_ok_frame [OF ok]) (use other_flight [OF assms(1) c that] in auto)
  moreover have "alone (goto c Gone ?s)"
    using assms(1) by (auto simp: flight_inv_def alone_def split: if_splits)
  moreover have "manned (goto c Gone ?s)"
    unfolding manned_def
  proof (intro conjI allI impI)
    fix l g assume g: "map_of (fl_flights (goto c Gone ?s)) l = Some g"
    then have "l \<noteq> k" using f by auto
    with g have "map_of (fl_flights s) l = Some g" by simp
    then obtain d where "flight_of (fl_pcs s d) = Some (l, g)" by (rule mannedE [OF assms(1)])
    with \<open>l \<noteq> k\<close> c show "\<exists>d. flight_of (fl_pcs (goto c Gone ?s) d) = Some (l, g)"
      by (intro exI [of _ d]) auto
  next
    fix g l assume g: "g < length (fl_channels (goto c Gone ?s))" "fl_channels (goto c Gone ?s) ! g = (l, Pending)"
    have "g \<noteq> f" using g f by auto
    with g have "g < length (fl_channels s)" "fl_channels s ! g = (l, Pending)" by simp_all
    then obtain d where "flight_of (fl_pcs s d) = Some (l, g)" by (rule pending_mannedE [OF assms(1)])
    then show "\<exists>d. flight_of (fl_pcs (goto c Gone ?s) d) = Some (l, g)"
      using c \<open>g \<noteq> f\<close> by (intro exI [of _ d]) auto
  qed
  moreover have "truthful (goto c Gone ?s)"
    using assms(1) f by (auto simp: flight_inv_def truthful_def set_status_def nth_list_update split: if_splits)
  ultimately show ?thesis by (simp add: flight_inv_def)
qed

lemma cached_is_said: "flight_inv s \<Longrightarrow> cached_boot_proof (fl_cache s) k = Some b \<Longrightarrow> (k, Ok b) \<in> fl_said s"
  by (simp add: flight_inv_def truthful_def cached_boot_proof_def)

lemma answer_is_said:
  "flight_inv s \<Longrightarrow> fl_pcs s c = Waiting k f \<Longrightarrow> snd (fl_channels s ! f) = Answered r \<Longrightarrow> (k, r) \<in> fl_said s"
  by (cases "fl_channels s ! f") (fastforce simp: flight_inv_def truthful_def dest: spec [of _ c])

lemma flight_joined:
  assumes "flight_inv s" "map_of (fl_flights s) k = Some f"
  shows "f < length (fl_channels s) \<and> fst (fl_channels s ! f) = k"
proof -
  from assms obtain c where "flight_of (fl_pcs s c) = Some (k, f)" using mannedE [OF assms] by blast
  moreover have "pc_ok s (fl_pcs s c)" using assms(1) by (simp add: flight_inv_def)
  ultimately show ?thesis using flight_of_channel by blast
qed

lemma flight_inv_step: "flight_step s s' \<Longrightarrow> flight_inv s \<Longrightarrow> flight_inv s'"
proof (induction rule: flight_step.induct)
  case (launch s c k f)
  then show ?case using inv_launch by simp
next
  case (looked_up s c k f r reply)
  then show ?case using inv_looked_up by simp
next
  case (tell s c k f r)
  then show ?case by (rule inv_tell [rotated])
next
  case (land s c k f r)
  then have "pc_ok s (Landing k f r)" by (metis flight_inv_def)
  with land show ?case by (intro inv_land) (auto simp: has_flight_def)
next
  case (abandon s c k f)
  then show ?case by (rule inv_abandon [rotated])
qed (auto intro!: inv_goto simp: own_refusal_def cached_is_said answer_is_said dest: flight_joined)

inductive flight_reachable :: "flights \<Rightarrow> bool" where
  start: "flight_reachable flights_new"
| step: "flight_reachable s \<Longrightarrow> flight_step s s' \<Longrightarrow> flight_reachable s'"

lemma reachable_flight_inv: "flight_reachable s \<Longrightarrow> flight_inv s"
  by (induction rule: flight_reachable.induct) (auto intro: flight_inv_new flight_inv_step)

section \<open>Every caller comes to an answer\<close>

definition answerable :: "nat \<Rightarrow> string \<Rightarrow> flights \<Rightarrow> bool" where
  "answerable c k s \<longleftrightarrow>
     (\<exists>s' r. flight_step\<^sup>*\<^sup>* s s' \<and> fl_pcs s' c = Finished k r \<and> (k, r) \<in> fl_said s')"

lemma answerable_step: "flight_step s s' \<Longrightarrow> answerable c k s' \<Longrightarrow> answerable c k s"
  unfolding answerable_def by (meson converse_rtranclp_into_rtranclp)

lemma answerable_steps: "flight_step\<^sup>*\<^sup>* s s' \<Longrightarrow> answerable c k s' \<Longrightarrow> answerable c k s"
  unfolding answerable_def by (meson rtranclp_trans)

lemma answerable_finished: "fl_pcs s c = Finished k r \<Longrightarrow> (k, r) \<in> fl_said s \<Longrightarrow> answerable c k s"
  unfolding answerable_def by blast

text \<open>A caller that runs a flight comes to tell of its answer, whatever Turnkey replies.\<close>

lemma runner_tells:
  assumes "flight_inv s" "flight_of (fl_pcs s d) = Some (k, f)"
  shows "\<exists>s' r. flight_step\<^sup>*\<^sup>* s s' \<and> flight_inv s' \<and> fl_pcs s' d = Landing k f r \<and>
    (\<forall>c. c \<noteq> d \<longrightarrow> fl_pcs s' c = fl_pcs s c)"
proof -
  have tell: "\<exists>s'. flight_step t s' \<and> flight_inv s' \<and> fl_pcs s' d = Landing k f r \<and>
      (\<forall>c. c \<noteq> d \<longrightarrow> fl_pcs s' c = fl_pcs t c)" if "flight_inv t" "fl_pcs t d = Telling k f r" for t r
    using flight_step.tell [OF that(2)] flight_inv_step that(1) by fastforce
  consider r where "fl_pcs s d = Landing k f r" | r where "fl_pcs s d = Telling k f r" | "fl_pcs s d = Looking k f"
    using assms(2) by (cases "fl_pcs s d") auto
  then show ?thesis
  proof cases
    case 1
    then show ?thesis using assms(1) by blast
  next
    case 2
    then show ?thesis using tell [OF assms(1)] by blast
  next
    case 3
    let ?r = "fetch_boot_proof NoBootProof"
    let ?t = "goto d (Telling k f ?r)
      (s \<lparr> fl_cache := cache_boot_proof k ?r (fl_cache s), fl_said := insert (k, ?r) (fl_said s) \<rparr>)"
    have step: "flight_step s ?t" by (rule flight_step.looked_up [OF 3 refl])
    have inv: "flight_inv ?t" by (rule flight_inv_step [OF step assms(1)])
    have at: "fl_pcs ?t d = Telling k f ?r" by simp
    obtain s' where s': "flight_step ?t s'" "flight_inv s'" "fl_pcs s' d = Landing k f ?r"
      "\<forall>c. c \<noteq> d \<longrightarrow> fl_pcs s' c = fl_pcs ?t c" using tell [OF inv at] by blast
    moreover have "flight_step\<^sup>*\<^sup>* s s'" using step s'(1) by (meson converse_rtranclp_into_rtranclp r_into_rtranclp)
    ultimately show ?thesis by (intro exI [of _ s'] exI [of _ ?r]) auto
  qed
qed

lemma runner_answerable:
  assumes "flight_inv s" "flight_of (fl_pcs s c) = Some (k, f)"
  shows "answerable c k s"
proof -
  from runner_tells [OF assms] obtain s' r where s': "flight_step\<^sup>*\<^sup>* s s'" "flight_inv s'" "fl_pcs s' c = Landing k f r"
    by blast
  have "pc_ok s' (fl_pcs s' c)" using s'(2) by (simp add: flight_inv_def)
  then have "answerable c k (goto c (Finished k r) (flight_landed k f s'))"
    using s'(3) by (intro answerable_finished) auto
  then show ?thesis using flight_step.land [OF s'(3)] s'(1) by (blast intro: answerable_step answerable_steps)
qed

lemma answered_answerable:
  assumes "flight_inv s" "fl_pcs s c = Waiting k f" "snd (fl_channels s ! f) = Answered r"
  shows "answerable c k s"
  by (rule answerable_step [OF flight_step.answered [OF assms(2,3)]])
    (use answer_is_said [OF assms] in \<open>simp add: answerable_finished\<close>)

lemma waiting_answerable:
  assumes "flight_inv s" "fl_pcs s c = Waiting k f" "snd (fl_channels s ! f) \<noteq> Closed"
  shows "answerable c k s"
proof (cases "snd (fl_channels s ! f)")
  case Pending
  have "pc_ok s (Waiting k f)" using assms(1,2) by (metis flight_inv_def)
  then have "f < length (fl_channels s)" "fl_channels s ! f = (k, Pending)"
    using Pending by (auto intro: prod_eqI)
  then obtain d where d: "flight_of (fl_pcs s d) = Some (k, f)" by (rule pending_mannedE [OF assms(1)])
  then have "d \<noteq> c" using assms(2) by auto
  from runner_tells [OF assms(1) d] \<open>d \<noteq> c\<close> assms(2) obtain s' r where s': "flight_step\<^sup>*\<^sup>* s s'" "flight_inv s'"
    "fl_pcs s' d = Landing k f r" "fl_pcs s' c = Waiting k f" by metis
  have "pc_ok s' (Landing k f r)" using s'(2,3) by (metis flight_inv_def)
  then have "snd (fl_channels s' ! f) = Answered r" by (simp add: has_flight_def)
  then show ?thesis using answered_answerable [OF s'(2,4)] s'(1) by (blast intro: answerable_steps)
qed (use assms answered_answerable in auto)

lemma flight_not_closed:
  assumes "flight_inv s" "map_of (fl_flights s) k = Some f"
  shows "snd (fl_channels s ! f) \<noteq> Closed"
proof -
  obtain d where d: "flight_of (fl_pcs s d) = Some (k, f)" by (rule mannedE [OF assms])
  have "pc_ok s (fl_pcs s d)" using assms(1) by (simp add: flight_inv_def)
  then show ?thesis using d by (cases "fl_pcs s d") (auto simp: has_flight_def)
qed

lemma missed_answerable:
  assumes "flight_inv s" "fl_pcs s c = Missed k"
  shows "answerable c k s"
proof (cases "map_of (fl_flights s) k")
  case (Some f)
  note join = flight_step.join [OF assms(2) Some]
  have "answerable c k (goto c (Waiting k f) s)"
    by (rule waiting_answerable [OF flight_inv_step [OF join assms(1)]])
      (use flight_not_closed [OF assms(1) Some] in simp_all)
  then show ?thesis by (rule answerable_step [OF join])
next
  case None
  note permit = flight_step.permit [OF assms(2) None]
  let ?s = "goto c (Permitted k) s"
  have launch: "flight_step ?s (goto c (Looking k (length (fl_channels ?s)))
      (?s \<lparr> fl_flights := (k, length (fl_channels ?s)) # fl_flights ?s,
           fl_channels := fl_channels ?s @ [(k, Pending)] \<rparr>))" (is "flight_step _ ?t")
    using None by (intro flight_step.launch) simp_all
  have "flight_inv ?t" by (rule flight_inv_step [OF launch flight_inv_step [OF permit assms(1)]])
  then have "answerable c k ?t" by (rule runner_answerable) simp
  then show ?thesis using permit launch by (blast intro: answerable_step)
qed

lemma asking_answerable:
  assumes "flight_inv s" "fl_pcs s c = Asking k"
  shows "answerable c k s"
proof (cases "cached_boot_proof (fl_cache s) k")
  case None
  note miss = flight_step.miss [OF assms(2) None]
  have "answerable c k (goto c (Missed k) s)"
    by (rule missed_answerable [OF flight_inv_step [OF miss assms(1)]]) simp
  then show ?thesis by (rule answerable_step [OF miss])
next
  case (Some b)
  show ?thesis by (rule answerable_step [OF flight_step.hit [OF assms(2) Some]])
    (use cached_is_said [OF assms(1) Some] in \<open>simp add: answerable_finished\<close>)
qed

lemma closed_answerable:
  assumes "flight_inv s" "fl_pcs s c = Waiting k f" "snd (fl_channels s ! f) = Closed"
  shows "answerable c k s"
proof (rule answerable_step [OF flight_step.closed [OF assms(2,3)]])
  show "answerable c k (goto c (Asking k) s)"
    by (rule asking_answerable [OF flight_inv_step [OF flight_step.closed [OF assms(2,3)] assms(1)]]) simp
qed

lemma permitted_answerable:
  assumes "flight_inv s" "fl_pcs s c = Permitted k"
  shows "answerable c k s"
proof (cases "map_of (fl_flights s) k")
  case (Some f)
  note late = flight_step.late [OF assms(2) Some]
  have "answerable c k (goto c (Asking k) s)"
    by (rule asking_answerable [OF flight_inv_step [OF late assms(1)]]) simp
  then show ?thesis by (rule answerable_step [OF late])
next
  case None
  note launch = flight_step.launch [OF assms(2) None refl]
  show ?thesis
    by (rule answerable_step [OF launch runner_answerable [OF flight_inv_step [OF launch assms(1)]]]) simp
qed

fun unanswered :: "pc \<Rightarrow> string option" where
  "unanswered (Asking k) = Some k"
| "unanswered (Missed k) = Some k"
| "unanswered (Permitted k) = Some k"
| "unanswered (Waiting k f) = Some k"
| "unanswered (Looking k f) = Some k"
| "unanswered (Telling k f r) = Some k"
| "unanswered (Landing k f r) = Some k"
| "unanswered _ = None"

lemma unanswered_answerable:
  assumes "flight_inv s" "unanswered (fl_pcs s c) = Some k"
  shows "answerable c k s"
proof (cases "flight_of (fl_pcs s c)")
  case (Some kf)
  obtain f where "flight_of (fl_pcs s c) = Some (k, f)" using Some assms(2) by (cases "fl_pcs s c") auto
  with assms(1) show ?thesis by (rule runner_answerable)
next
  case None
  then consider "fl_pcs s c = Asking k" | "fl_pcs s c = Missed k" | "fl_pcs s c = Permitted k"
    | f where "fl_pcs s c = Waiting k f" using assms(2) by (cases "fl_pcs s c") auto
  then show ?thesis
    by cases (use assms(1) asking_answerable missed_answerable permitted_answerable waiting_answerable
        closed_answerable in blast)+
qed

section \<open>A caller on its own takes the steps of one among many\<close>

lemma call_permit_kept:
  assumes "call_permit tk share = (r, tk')"
  shows "tk_boot_proof_cache tk' = tk_boot_proof_cache tk \<and>
    tk_tvc_organization_id tk' = tk_tvc_organization_id tk \<and> (\<forall>e. r = Err e \<longrightarrow> e = Api_TooManyInFlight)"
  using assms
  by (cases share)
    (auto simp: call_permit_def limiter_try_acquire_def try_acquire_owned_def map_prod_def Let_def
      split: prod.splits sum.splits option.splits if_splits)

lemma drop_call_cache [simp]: "tk_boot_proof_cache (drop_call tk own) = tk_boot_proof_cache tk"
  by (simp add: drop_call_def Let_def split: option.splits)

text \<open>The steps of a caller that looks up \<open>k\<close> while no flight is up.\<close>

lemma flight_alone:
  assumes "fl_pcs s c = Permitted k" "fl_flights s = []"
  shows "\<exists>s'. flight_step\<^sup>*\<^sup>* s s' \<and> fl_pcs s' c = Finished k (fetch_boot_proof reply) \<and>
    fl_cache s' = cache_boot_proof k (fetch_boot_proof reply) (fl_cache s) \<and> fl_flights s' = []"
proof -
  let ?r = "fetch_boot_proof reply"
  let ?f = "length (fl_channels s)"
  let ?a = "goto c (Looking k ?f) (s \<lparr> fl_flights := (k, ?f) # fl_flights s,
      fl_channels := fl_channels s @ [(k, Pending)] \<rparr>)"
  let ?b = "goto c (Telling k ?f ?r) (?a \<lparr> fl_cache := cache_boot_proof k ?r (fl_cache ?a),
      fl_said := insert (k, ?r) (fl_said ?a) \<rparr>)"
  let ?c = "goto c (Landing k ?f ?r) (set_status ?f (Answered ?r) ?b)"
  let ?d = "goto c (Finished k ?r) (flight_landed k ?f ?c)"
  have "flight_step s ?a" using assms by (intro flight_step.launch) simp_all
  moreover have "flight_step ?a ?b" by (rule flight_step.looked_up [OF _ refl]) simp
  moreover have "flight_step ?b ?c" by (rule flight_step.tell) simp
  moreover have "flight_step ?c ?d" by (rule flight_step.land) simp
  ultimately have "flight_step\<^sup>*\<^sup>* s ?d" by (meson converse_rtranclp_into_rtranclp r_into_rtranclp)
  then show ?thesis by (intro exI [of _ ?d]) (simp add: flight_landed_def assms(2) delete_idem)
qed

section \<open>A caller at Turnkey, and one that waits for it\<close>

definition demo_ephemeral_key :: string where
  "demo_ephemeral_key = replicate EPHEMERAL_KEY_HEX_LEN (CHR ''a'')"

definition demo_flights :: flights where
  "demo_flights =
     goto 1 (Waiting demo_ephemeral_key 0) (goto 1 (Missed demo_ephemeral_key) (goto 1 (Asking demo_ephemeral_key)
       (goto 0 (Looking demo_ephemeral_key 0)
         ((goto 0 (Permitted demo_ephemeral_key) (goto 0 (Missed demo_ephemeral_key) (goto 0 (Asking demo_ephemeral_key) flights_new)))
            \<lparr> fl_flights := [(demo_ephemeral_key, 0)], fl_channels := [(demo_ephemeral_key, Pending)] \<rparr>))))"

lemma demo_ephemeral_key_hex: "is_lower_hex demo_ephemeral_key EPHEMERAL_KEY_HEX_LEN"
  by (simp add: is_lower_hex_def demo_ephemeral_key_def list_all_iff is_lower_hex_digit_def is_ascii_digit_def
      ascii_def of_char_of)

lemma demo_flights_reachable: "flight_reachable demo_flights"
proof -
  note key = demo_ephemeral_key_hex
  let ?l = "goto 0 (Permitted demo_ephemeral_key) (goto 0 (Missed demo_ephemeral_key) (goto 0 (Asking demo_ephemeral_key) flights_new))"
  have "flight_reachable (goto 0 (Asking demo_ephemeral_key) flights_new)"
    by (rule flight_reachable.step [OF flight_reachable.start flight_step.ask [OF _ key]]) (simp add: flights_new_def)
  then have "flight_reachable (goto 0 (Missed demo_ephemeral_key) (goto 0 (Asking demo_ephemeral_key) flights_new))"
    by (rule flight_reachable.step) (rule flight_step.miss, simp_all add: flights_new_def cached_boot_proof_def)
  then have "flight_reachable ?l"
    by (rule flight_reachable.step) (rule flight_step.permit, simp_all add: flights_new_def)
  then have "flight_reachable (goto 0 (Looking demo_ephemeral_key (length (fl_channels ?l)))
      (?l \<lparr> fl_flights := (demo_ephemeral_key, length (fl_channels ?l)) # fl_flights ?l,
          fl_channels := fl_channels ?l @ [(demo_ephemeral_key, Pending)] \<rparr>))" (is "flight_reachable ?m")
    by (rule flight_reachable.step) (rule flight_step.launch, simp_all add: flights_new_def)
  then have "flight_reachable (goto 1 (Asking demo_ephemeral_key) ?m)"
    by (rule flight_reachable.step) (rule flight_step.ask [OF _ key], simp add: flights_new_def)
  then have "flight_reachable (goto 1 (Missed demo_ephemeral_key) (goto 1 (Asking demo_ephemeral_key) ?m))"
    by (rule flight_reachable.step) (rule flight_step.miss, simp_all add: flights_new_def cached_boot_proof_def)
  then have "flight_reachable (goto 1 (Waiting demo_ephemeral_key 0) (goto 1 (Missed demo_ephemeral_key) (goto 1 (Asking demo_ephemeral_key) ?m)))"
    by (rule flight_reachable.step) (rule flight_step.join, simp_all add: flights_new_def)
  then show ?thesis by (simp add: demo_flights_def flights_new_def)
qed

section \<open>Properties\<close>

definition honest :: "flights \<Rightarrow> bool" where
  "honest s \<longleftrightarrow> (\<forall>c k r. fl_pcs s c = Finished k r \<longrightarrow> (k, r) \<in> fl_said s \<or> own_refusal r)"

text \<open>
  C15. However many callers ask at once, and whichever of them are dropped while they wait, one of them
  at most runs the lookup of a key; and each that finishes has the answer Turnkey gave for the key it
  asked for, or the refusal it met before any lookup.
\<close>

theorem lookups_are_single_and_honest:
  assumes "flight_reachable s"
  shows "alone s \<and> honest s"
proof -
  have inv: "flight_inv s" by (rule reachable_flight_inv [OF assms])
  have "(k, r) \<in> fl_said s \<or> own_refusal r" if "fl_pcs s c = Finished k r" for c k r
  proof -
    have "pc_ok s (fl_pcs s c)" using inv by (simp add: flight_inv_def)
    then show ?thesis using that by simp
  qed
  then show ?thesis using inv by (simp add: flight_inv_def honest_def)
qed

theorem lookups_are_single_and_honest_witness: "alone demo_flights \<and> honest demo_flights"
  by (rule lookups_are_single_and_honest [OF demo_flights_reachable])

text \<open>
  C10. No caller is stranded: whatever the others did, also when the one that ran its lookup was dropped
  half way, a caller that waits or is under way can still come to an answer of Turnkey for its key.
\<close>

theorem no_caller_is_stranded:
  assumes "flight_reachable s" "unanswered (fl_pcs s c) = Some k"
  shows "\<exists>s' r. flight_step\<^sup>*\<^sup>* s s' \<and> fl_pcs s' c = Finished k r \<and> (k, r) \<in> fl_said s'"
  using unanswered_answerable [OF reachable_flight_inv [OF assms(1)] assms(2)] by (simp add: answerable_def)

theorem no_caller_is_stranded_witness:
  "\<exists>s' r. flight_step\<^sup>*\<^sup>* demo_flights s' \<and> fl_pcs s' 1 = Finished demo_ephemeral_key r \<and> (demo_ephemeral_key, r) \<in> fl_said s'"
  by (rule no_caller_is_stranded [OF demo_flights_reachable]) (simp add: demo_flights_def)

text \<open>
  C16. The answer and the cache of \<open>boot_proof\<close>, for a caller that meets no other, are those of a run
  of the steps, which leaves no flight behind: the steps refine the function.
\<close>

theorem boot_proof_is_a_run_of_steps:
  assumes "fl_pcs s c = Idle" "fl_flights s = []" "fl_cache s = tk_boot_proof_cache tk"
    and "boot_proof tk replies share k = (answer, tk')"
  shows "\<exists>s'. flight_step\<^sup>*\<^sup>* s s' \<and> fl_pcs s' c = Finished k answer \<and>
    fl_cache s' = tk_boot_proof_cache tk' \<and> fl_flights s' = []"
proof (cases "is_lower_hex k EPHEMERAL_KEY_HEX_LEN")
  case False
  then show ?thesis
    using assms flight_step.malformed [OF assms(1) False]
    by (intro exI [of _ "goto c (Finished k (Err Api_InvalidEnclaveAnswer)) s"]) (auto simp: boot_proof_def)
next
  case key: True
  let ?a = "goto c (Asking k) s"
  have a: "flight_step\<^sup>*\<^sup>* s ?a" using flight_step.ask [OF assms(1) key] by blast
  show ?thesis
  proof (cases "cached_boot_proof (fl_cache s) k")
    case (Some b)
    have "flight_step ?a (goto c (Finished k (Ok b)) ?a)" by (rule flight_step.hit) (simp_all add: Some)
    with a have "flight_step\<^sup>*\<^sup>* s (goto c (Finished k (Ok b)) ?a)" by simp
    moreover have "answer = Ok b \<and> tk' = tk" using assms(3,4) key Some by (simp add: boot_proof_def)
    ultimately show ?thesis using assms(2,3) by (intro exI [of _ "goto c (Finished k (Ok b)) ?a"]) simp
  next
    case None
    let ?m = "goto c (Missed k) ?a"
    have m: "flight_step\<^sup>*\<^sup>* s ?m" using a flight_step.miss [of ?a c k] None by simp
    obtain r tk1 where call: "call_permit tk share = (r, tk1)" by fastforce
    note kept = call_permit_kept [OF call]
    show ?thesis
    proof (cases r)
      case (Inl e)
      let ?z = "goto c (Finished k (Err Api_TooManyInFlight)) ?m"
      have "flight_step\<^sup>*\<^sup>* s ?z" using m flight_step.refuse [of ?m c k] assms(2) by simp
      moreover have "answer = Err Api_TooManyInFlight \<and> tk_boot_proof_cache tk' = tk_boot_proof_cache tk"
        using assms(3,4) key None call Inl kept by (simp add: boot_proof_def)
      ultimately show ?thesis using assms(2,3) by (intro exI [of _ ?z]) simp
    next
      case (Inr own)
      let ?p = "goto c (Permitted k) ?m"
      have p: "flight_step\<^sup>*\<^sup>* s ?p" using m flight_step.permit [of ?m c k] assms(2) by simp
      obtain s' where "flight_step\<^sup>*\<^sup>* ?p s'"
        "fl_pcs s' c = Finished k (fetch_boot_proof (replies (tk_tvc_organization_id tk1) k))"
        "fl_cache s' = cache_boot_proof k (fetch_boot_proof (replies (tk_tvc_organization_id tk1) k)) (fl_cache s)"
        "fl_flights s' = []"
        using flight_alone [of ?p c k "replies (tk_tvc_organization_id tk1) k"] assms(2) by auto
      moreover have "flight_step\<^sup>*\<^sup>* s s'" using p calculation(1) by (rule rtranclp_trans)
      ultimately show ?thesis
        using assms(3,4) key None call Inr kept by (intro exI [of _ s']) (auto simp: boot_proof_def Let_def)
    qed
  qed
qed

theorem boot_proof_is_a_run_of_steps_witness:
  "\<exists>s'. flight_step\<^sup>*\<^sup>* flights_new s' \<and>
     fl_pcs s' 0 = Finished demo_ephemeral_key (fst (boot_proof demo_turnkey (\<lambda>_ _. BootProofBody []) SharedShare demo_ephemeral_key)) \<and>
     fl_cache s' = tk_boot_proof_cache (snd (boot_proof demo_turnkey (\<lambda>_ _. BootProofBody []) SharedShare demo_ephemeral_key)) \<and>
     fl_flights s' = []"
  by (rule boot_proof_is_a_run_of_steps [of flights_new 0 demo_turnkey])
    (simp_all add: flights_new_def demo_turnkey_def)

end
