(* ===== verification/Gateway_Upstream.thy ===== *)
theory Gateway_Upstream
  imports Gateway_Projects Gateway_Config
begin

text \<open>
  \<open>upstream.rs\<close>: the requests the gateway sends the enclave, and how much of an answer it reads.
  The network is an argument: what a request to a URL, with the JSON of its body, is answered
  with. An answer's body arrives in chunks; \<open>None\<close> among them is a read that fails.
\<close>

record Forwarded =
  fw_status :: nat
  fw_content_type :: bytes
  fw_body :: bytes

datatype upstream_reply =
    NotSent
  | Responded nat "bytes option" "nat option" "bytes option list"

type_synonym network = "string \<Rightarrow> json option \<Rightarrow> upstream_reply"

definition forwarded_is_success :: "Forwarded \<Rightarrow> bool" where
  "forwarded_is_success f = is_success (fw_status f)"

definition is_server_error :: "nat \<Rightarrow> bool" where
  "is_server_error status \<longleftrightarrow> 500 \<le> status \<and> status < 600"

definition forwarded_response :: "Forwarded \<Rightarrow> gateway_response" where
  "forwarded_response f =
     \<lparr> gr_status = fw_status f, gr_content_type = fw_content_type f, gr_retry_after = None,
       gr_idempotent_replayed = False, gr_body = ForwardedBody (fw_body f) \<rparr>"

text \<open>The sum of two buffer lengths stays below \<open>usize::MAX\<close>, so it does not saturate.\<close>

fun read_chunks :: "nat \<Rightarrow> bytes \<Rightarrow> bytes option list \<Rightarrow> ApiError + bytes" where
  "read_chunks max_body_bytes body [] = Ok body"
| "read_chunks max_body_bytes body (None # chunks) = Err Api_EnclaveUnavailable"
| "read_chunks max_body_bytes body (Some chunk # chunks) =
     (if length body + length chunk > max_body_bytes then Err Api_UpstreamResponseTooLarge
      else read_chunks max_body_bytes (body @ chunk) chunks)"

definition read_capped :: "nat option \<Rightarrow> bytes option list \<Rightarrow> nat \<Rightarrow> ApiError + bytes" where
  "read_capped content_length chunks max_body_bytes =
     (if (case content_length of Some len \<Rightarrow> len > max_body_bytes | None \<Rightarrow> False)
      then Err Api_UpstreamResponseTooLarge
      else read_chunks max_body_bytes [] chunks)"

fun enclave_send :: "EnclaveConfig \<Rightarrow> upstream_reply \<Rightarrow> ApiError + Forwarded" where
  "enclave_send config NotSent = Err Api_EnclaveUnavailable"
| "enclave_send config (Responded status content_type content_length chunks) =
     (if is_server_error status then Err Api_EnclaveUnavailable
      else
        and_then (read_capped content_length chunks (ec_max_body_bytes config)) (\<lambda>body.
        Ok \<lparr> fw_status = status,
             fw_content_type = (case content_type of Some t \<Rightarrow> t | None \<Rightarrow> as_bytes ''application/json''),
             fw_body = body \<rparr>))"

definition enclave_info :: "EnclaveConfig \<Rightarrow> network \<Rightarrow> ApiError + Forwarded" where
  "enclave_info config net = enclave_send config (net (ec_base_url config @ ''/v1/info'') None)"

definition enclave_ping ::
    "'x crates_scheme \<Rightarrow> EnclaveConfig \<Rightarrow> network \<Rightarrow> QosPingRequest \<Rightarrow> ApiError + Forwarded" where
  "enclave_ping C config net request =
     enclave_send config (net (ec_base_url config @ ''/v1/ping'') (Some (QosPingRequest_json C request)))"

definition enclave_operations ::
    "'x crates_scheme \<Rightarrow> EnclaveConfig \<Rightarrow> network \<Rightarrow> EncryptedRequest \<Rightarrow> ApiError + Forwarded" where
  "enclave_operations C config net request =
     enclave_send config
       (net (ec_base_url config @ ''/v1/operations'') (Some (EncryptedRequest_json C request)))"

section \<open>Facts\<close>

definition arrived :: "bytes option list \<Rightarrow> bytes" where
  "arrived chunks = concat (map (case_option [] (\<lambda>c. c)) chunks)"

definition within_cap :: "nat \<Rightarrow> nat option \<Rightarrow> bool" where
  "within_cap n len = (case len of Some l \<Rightarrow> l \<le> n | None \<Rightarrow> True)"

lemma read_chunks_Ok:
  "read_chunks n body chunks = Ok b \<longleftrightarrow>
     None \<notin> set chunks \<and> b = body @ arrived chunks \<and> (chunks \<noteq> [] \<longrightarrow> length b \<le> n)"
  by (induction n body chunks rule: read_chunks.induct) (auto simp: arrived_def)

lemma read_chunks_Err:
  "read_chunks n body chunks = Err e \<Longrightarrow> e = Api_EnclaveUnavailable \<or> e = Api_UpstreamResponseTooLarge"
  by (induction n body chunks rule: read_chunks.induct) (auto split: if_splits)

lemma read_capped_Ok:
  "read_capped len chunks n = Ok b \<longleftrightarrow>
     within_cap n len \<and> None \<notin> set chunks \<and> b = arrived chunks \<and> length b \<le> n"
  by (cases chunks) (auto simp: read_capped_def read_chunks_Ok arrived_def within_cap_def split: option.splits)

lemma enclave_send_Ok:
  "enclave_send config reply = Ok f \<longleftrightarrow>
     (\<exists>ct len chunks. reply = Responded (fw_status f) ct len chunks \<and> \<not> is_server_error (fw_status f) \<and>
        within_cap (ec_max_body_bytes config) len \<and> None \<notin> set chunks \<and>
        fw_body f = arrived chunks \<and> length (fw_body f) \<le> ec_max_body_bytes config \<and>
        fw_content_type f = (case ct of Some t \<Rightarrow> t | None \<Rightarrow> as_bytes ''application/json''))"
  by (cases reply; cases f) (auto simp: result_simps read_capped_Ok)

lemma enclave_send_Err:
  "enclave_send config reply = Err e \<Longrightarrow> e = Api_EnclaveUnavailable \<or> e = Api_UpstreamResponseTooLarge"
  by (cases reply) (auto simp: result_simps read_capped_def dest: read_chunks_Err split: if_splits)

section \<open>Properties\<close>

text \<open>
  An answer of the enclave reaches a client only whole and within the configured size: its
  declared length and all of its chunks together are within the cap, none of its reads failed, and
  it was no server error. Anything else is one of two 424s, so gatekeeper does not send the request
  again.
\<close>

lemma forwarded_answer_is_whole_and_capped:
  "(case enclave_send config reply of
      Inr f \<Rightarrow> length (fw_body f) \<le> ec_max_body_bytes config \<and> \<not> is_server_error (fw_status f) \<and>
        (\<exists>ct len chunks. reply = Responded (fw_status f) ct len chunks \<and> None \<notin> set chunks \<and>
           fw_body f = arrived chunks \<and> within_cap (ec_max_body_bytes config) len)
    | Inl e \<Rightarrow> api_error_status e = 424 \<and> retry_after e = None)"
proof (cases "enclave_send config reply")
  case (Inl e)
  then show ?thesis using enclave_send_Err [OF Inl] by auto
next
  case (Inr f)
  from Inr [unfolded enclave_send_Ok] show ?thesis by (auto simp: Inr)
qed

end
