(* ===== verification/Gateway_Replay.thy ===== *)
theory Gateway_Replay
  imports Gateway_Upstream
begin

text \<open>
  \<open>replay.rs\<close>: the first outcome of each project's ciphertext, so a resent operation gets that
  outcome instead of running twice. What both ledgers promise is the locale \<open>claim_ledger\<close>; the
  ledger of one process is a provider of it, and so is the one shared through Redis, for any
  server that keeps Redis' documented behaviour.
\<close>

section \<open>Keys, claims and outcomes\<close>

definition MAX_KEPT_ANSWER_BYTES :: nat where
  "MAX_KEPT_ANSWER_BYTES = 64 * 1024"

type_synonym Outcome = "ApiError + Forwarded"

type_synonym Key = bytes

definition key_of :: "'x crates_scheme \<Rightarrow> ProjectId \<Rightarrow> bytes \<Rightarrow> Key" where
  "key_of C project ciphertext = sha256_hash C (as_bytes project @ [0] @ ciphertext)"

datatype Claim = NewClaim Key | AnsweredClaim Outcome

datatype Entry = Running | AnsweredEntry Outcome

text \<open>An answer too large to keep.\<close>

definition not_kept :: "Outcome \<Rightarrow> bool" where
  "not_kept outcome =
     (case outcome of Inr answer \<Rightarrow> length (fw_body answer) > MAX_KEPT_ANSWER_BYTES | Inl _ \<Rightarrow> False)"

section \<open>The ledger of one process\<close>

text \<open>The two maps of \<open>maps\<close>; \<open>gn_current\<close> is 0 or 1, so \<open>^= 1\<close> is \<open>1 -\<close>.\<close>

record Generations =
  gn_first :: "(Key \<times> Entry) list"
  gn_second :: "(Key \<times> Entry) list"
  gn_current :: nat
  gn_rotated_at :: instant

record LocalLedger =
  ll_window :: nat
  ll_max_entries :: nat
  ll_state :: Generations

definition current_map :: "Generations \<Rightarrow> (Key \<times> Entry) list" where
  "current_map g = (if gn_current g = 0 then gn_first g else gn_second g)"

definition with_current_map :: "(Key \<times> Entry) list \<Rightarrow> Generations \<Rightarrow> Generations" where
  "with_current_map m g =
     (if gn_current g = 0 then g \<lparr> gn_first := m \<rparr> else g \<lparr> gn_second := m \<rparr>)"

definition rotate_generations :: "instant \<Rightarrow> Generations \<Rightarrow> Generations" where
  "rotate_generations now g =
     (let g = g \<lparr> gn_current := 1 - gn_current g \<rparr>;
          g = with_current_map [] g in
      g \<lparr> gn_rotated_at := now \<rparr>)"

definition generations_get :: "Generations \<Rightarrow> Key \<Rightarrow> Entry option" where
  "generations_get g key =
     (case map_of (gn_first g) key of Some e \<Rightarrow> Some e | None \<Rightarrow> map_of (gn_second g) key)"

text \<open>An assignment through \<open>get_mut\<close>.\<close>

definition generations_assign :: "Generations \<Rightarrow> Key \<Rightarrow> Entry \<Rightarrow> Generations" where
  "generations_assign g key e =
     (if map_of (gn_first g) key \<noteq> None then g \<lparr> gn_first := AList.update key e (gn_first g) \<rparr>
      else if map_of (gn_second g) key \<noteq> None then g \<lparr> gn_second := AList.update key e (gn_second g) \<rparr>
      else g)"

definition local_new :: "nat \<Rightarrow> nat \<Rightarrow> instant \<Rightarrow> LocalLedger" where
  "local_new window max_entries now =
     \<lparr> ll_window = window, ll_max_entries = max_entries,
       ll_state = \<lparr> gn_first = [], gn_second = [], gn_current = 0, gn_rotated_at = now \<rparr> \<rparr>"

definition local_claim :: "LocalLedger \<Rightarrow> Key \<Rightarrow> instant \<Rightarrow> (ApiError + Claim) \<times> LocalLedger" where
  "local_claim l key now =
     (let state = ll_state l;
          expired = (now - gn_rotated_at state \<ge> ll_window l);
          state = (if expired \<or> length (current_map state) \<ge> ll_max_entries l
            then rotate_generations now state else state) in
      case generations_get state key of
        None \<Rightarrow>
          (Ok (NewClaim key),
           l \<lparr> ll_state := with_current_map (AList.update key Running (current_map state)) state \<rparr>)
      | Some Running \<Rightarrow> (Err Api_OperationInProgress, l \<lparr> ll_state := state \<rparr>)
      | Some (AnsweredEntry outcome) \<Rightarrow> (Ok (AnsweredClaim outcome), l \<lparr> ll_state := state \<rparr>))"

definition local_record :: "LocalLedger \<Rightarrow> Key \<Rightarrow> Outcome \<Rightarrow> LocalLedger" where
  "local_record l key outcome =
     l \<lparr> ll_state := generations_assign (ll_state l) key (AnsweredEntry outcome) \<rparr>"

definition local_release :: "LocalLedger \<Rightarrow> Key \<Rightarrow> LocalLedger" where
  "local_release l key =
     (let state = ll_state l in
      l \<lparr> ll_state := state \<lparr> gn_first := AList.delete key (gn_first state),
                          gn_second := AList.delete key (gn_second state) \<rparr> \<rparr>)"

section \<open>The shared ledger\<close>

text \<open>\<open>serde\<close> names the variants \<open>answered\<close> and \<open>failed\<close>.\<close>

datatype Record =
    AnsweredRecord nat string string
  | FailedRecord string

text \<open>\<open>HeaderValue::try_from\<close> and \<open>StatusCode::from_u16\<close>\<close>

definition header_try_from :: "string \<Rightarrow> bytes option" where
  "header_try_from s =
     (let b = as_bytes s in
      if list_all (\<lambda>b. 32 \<le> unat b \<and> unat b \<noteq> 127 \<or> unat b = 9) b then Some b else None)"

definition status_from_u16 :: "nat \<Rightarrow> nat option" where
  "status_from_u16 n = (if 100 \<le> n \<and> n < 1000 then Some n else None)"

definition record_new :: "Outcome \<Rightarrow> Record option" where
  "record_new outcome =
     (case outcome of
        Inr f \<Rightarrow>
          Option.bind (header_to_str (fw_content_type f)) (\<lambda>content_type.
          Option.bind (from_utf8 (fw_body f)) (\<lambda>body.
          Some (AnsweredRecord (fw_status f) content_type body)))
      | Inl error \<Rightarrow> Some (FailedRecord (api_error_code error)))"

fun record_outcome :: "Record \<Rightarrow> Outcome option" where
  "record_outcome (AnsweredRecord status content_type body) =
     Option.bind (status_from_u16 status) (\<lambda>status.
     Option.bind (header_try_from content_type) (\<lambda>content_type.
     Some (Ok \<lparr> fw_status = status, fw_content_type = content_type, fw_body = as_bytes body \<rparr>)))"
| "record_outcome (FailedRecord name) =
     Option.bind (api_error_from_str name) (\<lambda>e. Some (Err e))"

text \<open>
  The commands the ledger sends, and a connection: a command takes the server to its next state
  and gives its reply, or \<open>None\<close> when it fails or does not reply in time. A deletion's reply is
  not looked at. \<open>record_to_string\<close> and \<open>record_from_str\<close> are \<open>serde_json\<close>'s.
\<close>

datatype redis_cmd =
    SetNxGetEx string string nat
  | SetXxEx string string nat
  | Del string

record 'r redis =
  redis_exec :: "'r \<Rightarrow> redis_cmd \<Rightarrow> string option option \<times> 'r"
  record_to_string :: "Record \<Rightarrow> string option"
  record_from_str :: "string \<Rightarrow> Record option"

definition RUNNING :: string where
  "RUNNING = ''running''"

definition redis_key :: "'x crates_scheme \<Rightarrow> Key \<Rightarrow> string" where
  "redis_key C key = ''tvc-gateway:replay:'' @ hex_encode C key"

definition shared_claim ::
    "'x crates_scheme \<Rightarrow> 'r redis \<Rightarrow> nat \<Rightarrow> 'r \<Rightarrow> Key \<Rightarrow> (ApiError + Claim) \<times> 'r" where
  "shared_claim C R window_secs server key =
     (case redis_exec R server (SetNxGetEx (redis_key C key) RUNNING window_secs) of
        (None, server) \<Rightarrow> (Err Api_ReplayGuardUnavailable, server)
      | (Some None, server) \<Rightarrow> (Ok (NewClaim key), server)
      | (Some (Some held), server) \<Rightarrow>
          (if held = RUNNING then Err Api_OperationInProgress
           else
             and_then (ok_or Api_ReplayGuardUnavailable (record_from_str R held)) (\<lambda>record.
             ok_or Api_ReplayGuardUnavailable (map_option AnsweredClaim (record_outcome record))),
           server))"

definition shared_record ::
    "'x crates_scheme \<Rightarrow> 'r redis \<Rightarrow> nat \<Rightarrow> 'r \<Rightarrow> Key \<Rightarrow> Outcome \<Rightarrow> 'r" where
  "shared_record C R window_secs server key outcome =
     (case Option.bind (record_new outcome) (record_to_string R) of
        None \<Rightarrow> server
      | Some record \<Rightarrow> snd (redis_exec R server (SetXxEx (redis_key C key) record window_secs)))"

definition shared_release :: "'x crates_scheme \<Rightarrow> 'r redis \<Rightarrow> 'r \<Rightarrow> Key \<Rightarrow> 'r" where
  "shared_release C R server key = snd (redis_exec R server (Del (redis_key C key)))"

section \<open>The ledger\<close>

datatype 'r ReplayLedger = Local LocalLedger | Shared 'r nat

definition ledger_connect :: "nat \<Rightarrow> nat \<Rightarrow> instant \<Rightarrow> 'r option \<Rightarrow> 'r ReplayLedger" where
  "ledger_connect window_secs max_entries now server =
     (case server of
        None \<Rightarrow> Local (local_new (from_secs window_secs) max_entries now)
      | Some server \<Rightarrow> Shared server (max window_secs 1))"

fun ledger_claim_key ::
    "'x crates_scheme \<Rightarrow> 'r redis \<Rightarrow> 'r ReplayLedger \<Rightarrow> Key \<Rightarrow> instant \<Rightarrow> (ApiError + Claim) \<times> 'r ReplayLedger"
  where
  "ledger_claim_key C R (Local l) key now = map_prod id Local (local_claim l key now)"
| "ledger_claim_key C R (Shared server window_secs) key now =
     map_prod id (\<lambda>s. Shared s window_secs) (shared_claim C R window_secs server key)"

definition ledger_claim ::
    "'x crates_scheme \<Rightarrow> 'r redis \<Rightarrow> 'r ReplayLedger \<Rightarrow> ProjectId \<Rightarrow> bytes \<Rightarrow> instant \<Rightarrow>
     (ApiError + Claim) \<times> 'r ReplayLedger" where
  "ledger_claim C R ledger project ciphertext now =
     ledger_claim_key C R ledger (key_of C project ciphertext) now"

fun ledger_release :: "'x crates_scheme \<Rightarrow> 'r redis \<Rightarrow> 'r ReplayLedger \<Rightarrow> Key \<Rightarrow> 'r ReplayLedger" where
  "ledger_release C R (Local l) key = Local (local_release l key)"
| "ledger_release C R (Shared server window_secs) key = Shared (shared_release C R server key) window_secs"

fun ledger_keep :: "'x crates_scheme \<Rightarrow> 'r redis \<Rightarrow> 'r ReplayLedger \<Rightarrow> Key \<Rightarrow> Outcome \<Rightarrow> 'r ReplayLedger" where
  "ledger_keep C R (Local l) key outcome = Local (local_record l key outcome)"
| "ledger_keep C R (Shared server window_secs) key outcome =
     Shared (shared_record C R window_secs server key outcome) window_secs"

definition ledger_record ::
    "'x crates_scheme \<Rightarrow> 'r redis \<Rightarrow> 'r ReplayLedger \<Rightarrow> Key \<Rightarrow> Outcome \<Rightarrow> 'r ReplayLedger" where
  "ledger_record C R ledger key outcome =
     (if not_kept outcome then ledger_release C R ledger key else ledger_keep C R ledger key outcome)"

section \<open>What a ledger promises\<close>

text \<open>What is done to a ledger, in order.\<close>

datatype ledger_event =
    ClaimEvent Key instant
  | RecordEvent Key Outcome
  | ReleaseEvent Key

text \<open>
  What a ledger shows of a key: nothing, that a request is running, or the outcome recorded. A
  claim answers what is shown, and starts a request where nothing is; no operation shows an outcome
  that was not recorded for that key. Entries may be lost at any time.
\<close>

locale claim_ledger =
  fixes ok :: "'l \<Rightarrow> bool"
    and shown :: "'l \<Rightarrow> Key \<Rightarrow> Entry option"
    and claim :: "'l \<Rightarrow> Key \<Rightarrow> instant \<Rightarrow> (ApiError + Claim) \<times> 'l"
    and keep :: "'l \<Rightarrow> Key \<Rightarrow> Outcome \<Rightarrow> 'l"
    and release :: "'l \<Rightarrow> Key \<Rightarrow> 'l"
  assumes ok_claim: "ok l \<Longrightarrow> claim l k t = (r, l') \<Longrightarrow> ok l'"
    and ok_keep: "ok l \<Longrightarrow> ok (keep l k o')"
    and ok_release: "ok l \<Longrightarrow> ok (release l k)"
    and claim_new: "ok l \<Longrightarrow> claim l k t = (Ok (NewClaim j), l') \<Longrightarrow> j = k \<and> shown l' k = Some Running"
    and claim_busy: "ok l \<Longrightarrow> claim l k t = (Err Api_OperationInProgress, l') \<Longrightarrow> shown l k = Some Running"
    and claim_answer: "ok l \<Longrightarrow> claim l k t = (Ok (AnsweredClaim o'), l') \<Longrightarrow> shown l k = Some (AnsweredEntry o')"
    and claim_shows: "ok l \<Longrightarrow> claim l k t = (r, l') \<Longrightarrow> shown l' x = Some e \<Longrightarrow>
      shown l x = Some e \<or> x = k \<and> e = Running"
    and keep_shows: "ok l \<Longrightarrow> shown (keep l k o') x = Some e \<Longrightarrow>
      shown l x = Some e \<or> x = k \<and> e = AnsweredEntry o'"
    and release_shows: "ok l \<Longrightarrow> shown (release l k) x = Some e \<Longrightarrow> shown l x = Some e"
begin

fun operate :: "'l \<Rightarrow> ledger_event \<Rightarrow> 'l" where
  "operate l (ClaimEvent k t) = snd (claim l k t)"
| "operate l (RecordEvent k o') = keep l k o'"
| "operate l (ReleaseEvent k) = release l k"

lemma ok_operate: "ok l \<Longrightarrow> ok (operate l ev)"
  by (cases ev) (auto intro: ok_keep ok_release ok_claim [OF _ surjective_pairing])

lemma ok_run: "ok l \<Longrightarrow> ok (foldl operate l evs)"
  by (induction evs arbitrary: l) (auto intro: ok_operate)

lemma operate_shows:
  "ok l \<Longrightarrow> shown (operate l ev) x = Some (AnsweredEntry o') \<Longrightarrow>
     shown l x = Some (AnsweredEntry o') \<or> ev = RecordEvent x o'"
  by (cases ev) (auto dest: keep_shows release_shows claim_shows [OF _ surjective_pairing])

lemma run_shows:
  "ok l \<Longrightarrow> shown (foldl operate l evs) x = Some (AnsweredEntry o') \<Longrightarrow>
     shown l x = Some (AnsweredEntry o') \<or> RecordEvent x o' \<in> set evs"
proof (induction evs arbitrary: l)
  case (Cons ev evs)
  then show ?case using ok_operate [of l ev] operate_shows [of l ev x o'] by auto
qed simp

text \<open>Whatever happened before, a claim is only ever answered with what was recorded for it.\<close>

lemma answer_was_recorded:
  assumes "ok l" "shown l k = None" "fst (claim (foldl operate l evs) k t) = Ok (AnsweredClaim o')"
  shows "RecordEvent k o' \<in> set evs"
proof -
  have "shown (foldl operate l evs) k = Some (AnsweredEntry o')"
    using claim_answer [OF ok_run [OF assms(1)], of evs k t] assms(3) by (metis prod.collapse)
  with run_shows [OF assms(1)] assms(2) show ?thesis by fastforce
qed

end

section \<open>The ledger of one process keeps the promise\<close>

text \<open>No key is in both generations.\<close>

definition generations_ok :: "Generations \<Rightarrow> bool" where
  "generations_ok g \<longleftrightarrow>
     (gn_current g = 0 \<or> gn_current g = 1) \<and>
     distinct (map fst (gn_first g)) \<and> distinct (map fst (gn_second g)) \<and>
     fst ` set (gn_first g) \<inter> fst ` set (gn_second g) = {}"

definition other_map :: "Generations \<Rightarrow> (Key \<times> Entry) list" where
  "other_map g = (if gn_current g = 0 then gn_second g else gn_first g)"

lemma generations_ok_maps:
  "generations_ok g \<longleftrightarrow>
     (gn_current g = 0 \<or> gn_current g = 1) \<and>
     distinct (map fst (current_map g)) \<and> distinct (map fst (other_map g)) \<and>
     fst ` set (current_map g) \<inter> fst ` set (other_map g) = {}"
  by (auto simp: generations_ok_def current_map_def other_map_def)

lemma generations_get_maps:
  assumes "generations_ok g"
  shows "generations_get g = (map_of (other_map g) ++ map_of (current_map g))"
proof
  fix k
  have "map_of (gn_first g) k = None \<or> map_of (gn_second g) k = None"
    using assms by (auto simp: generations_ok_def map_of_eq_None_iff)
  then show "generations_get g k = (map_of (other_map g) ++ map_of (current_map g)) k"
    by (auto simp: generations_get_def other_map_def current_map_def map_add_def split: option.splits)
qed

lemma with_current_map_maps [simp]:
  "current_map (with_current_map m g) = m" "other_map (with_current_map m g) = other_map g"
  "gn_current (with_current_map m g) = gn_current g"
  "gn_rotated_at (with_current_map m g) = gn_rotated_at g"
  by (auto simp: with_current_map_def current_map_def other_map_def)

lemma rotate_generations_maps:
  assumes "generations_ok g"
  shows "current_map (rotate_generations now g) = []"
    "other_map (rotate_generations now g) = current_map g"
    "gn_rotated_at (rotate_generations now g) = now"
    "generations_ok (rotate_generations now g)"
  using assms
  by (auto simp: rotate_generations_def with_current_map_def current_map_def other_map_def
      generations_ok_def Let_def)

lemma map_of_update_keys:
  "map_of m k \<noteq> None \<Longrightarrow>
     fst ` set (AList.update k e m) = fst ` set m \<and> length (AList.update k e m) = length m"
  by (induction m) (auto split: if_splits)

lemma generations_assign_maps:
  assumes "generations_ok g"
  shows "generations_ok (generations_assign g k e)"
    "generations_get (generations_assign g k e) =
       (if generations_get g k = None then generations_get g else (generations_get g)(k \<mapsto> e))"
    "fst ` set (current_map (generations_assign g k e)) = fst ` set (current_map g)"
    "fst ` set (other_map (generations_assign g k e)) = fst ` set (other_map g)"
    "length (current_map (generations_assign g k e)) = length (current_map g)"
    "length (other_map (generations_assign g k e)) = length (other_map g)"
    "gn_rotated_at (generations_assign g k e) = gn_rotated_at g"
  using assms map_of_update_keys [of "gn_first g" k e] map_of_update_keys [of "gn_second g" k e]
  by (auto simp: generations_assign_def generations_ok_def generations_get_def current_map_def
      other_map_def update_conv distinct_update fun_eq_iff split: option.splits)

lemma subset_delete: "fst ` set (AList.delete k m) \<subseteq> fst ` set m"
  by (auto simp: AList.delete_eq)

lemma local_release_maps:
  assumes "generations_ok (ll_state l)"
  shows "generations_ok (ll_state (local_release l k))"
    "generations_get (ll_state (local_release l k)) = (generations_get (ll_state l))(k := None)"
    "current_map (ll_state (local_release l k)) = AList.delete k (current_map (ll_state l))"
    "other_map (ll_state (local_release l k)) = AList.delete k (other_map (ll_state l))"
    "gn_rotated_at (ll_state (local_release l k)) = gn_rotated_at (ll_state l)"
  using assms subset_delete [of k "gn_first (ll_state l)"] subset_delete [of k "gn_second (ll_state l)"]
  by (auto simp: local_release_def Let_def generations_ok_def generations_get_def current_map_def
      other_map_def delete_conv distinct_delete fun_eq_iff split: option.splits)

text \<open>The generations a claim looks in, rotated first where that is due.\<close>

definition rolled :: "LocalLedger \<Rightarrow> instant \<Rightarrow> Generations" where
  "rolled l now =
     (if now - gn_rotated_at (ll_state l) \<ge> ll_window l
         \<or> length (current_map (ll_state l)) \<ge> ll_max_entries l
      then rotate_generations now (ll_state l) else ll_state l)"

lemma local_claim_rolled:
  "local_claim l k now =
     (case generations_get (rolled l now) k of
        None \<Rightarrow>
          (Ok (NewClaim k),
           l \<lparr> ll_state := with_current_map (AList.update k Running (current_map (rolled l now))) (rolled l now) \<rparr>)
      | Some Running \<Rightarrow> (Err Api_OperationInProgress, l \<lparr> ll_state := rolled l now \<rparr>)
      | Some (AnsweredEntry o') \<Rightarrow> (Ok (AnsweredClaim o'), l \<lparr> ll_state := rolled l now \<rparr>))"
  unfolding local_claim_def rolled_def Let_def by (rule refl)

lemma rolled_ok: "generations_ok (ll_state l) \<Longrightarrow> generations_ok (rolled l now)"
  by (simp add: rolled_def rotate_generations_maps)

lemma rolled_shows:
  "generations_ok (ll_state l) \<Longrightarrow> generations_get (rolled l now) k = Some e \<Longrightarrow>
     generations_get (ll_state l) k = Some e"
  by (auto simp: rolled_def generations_get_maps rotate_generations_maps map_add_Some_iff split: if_splits)

lemma keys_update: "fst ` set (AList.update k e m) = insert k (fst ` set m)"
  by (induction m) auto

lemma insert_running:
  assumes "generations_ok g" "generations_get g k = None"
  shows "generations_ok (with_current_map (AList.update k Running (current_map g)) g)"
    "generations_get (with_current_map (AList.update k Running (current_map g)) g) =
       (generations_get g)(k \<mapsto> Running)"
proof -
  have fresh: "k \<notin> fst ` set (other_map g)"
    using assms by (auto simp: generations_get_maps map_add_None map_of_eq_None_iff)
  show ok: "generations_ok (with_current_map (AList.update k Running (current_map g)) g)"
    using assms(1) fresh keys_update [of k Running "current_map g"]
    by (auto simp: generations_ok_maps distinct_update)
  show "generations_get (with_current_map (AList.update k Running (current_map g)) g) =
      (generations_get g)(k \<mapsto> Running)"
    using ok assms(1) by (simp add: generations_get_maps update_conv')
qed

lemma local_claim_ok:
  "generations_ok (ll_state l) \<Longrightarrow> local_claim l k now = (r, l') \<Longrightarrow> generations_ok (ll_state l')"
  using rolled_ok [of l now] insert_running(1) [of "rolled l now" k]
  by (auto simp: local_claim_rolled split: option.splits Entry.splits)

abbreviation ledger_ok :: "LocalLedger \<Rightarrow> bool" where
  "ledger_ok l \<equiv> generations_ok (ll_state l)"

abbreviation ledger_shows :: "LocalLedger \<Rightarrow> Key \<Rightarrow> Entry option" where
  "ledger_shows l \<equiv> generations_get (ll_state l)"

lemma local_record_ok: "ledger_ok l \<Longrightarrow> ledger_ok (local_record l k o')"
  by (simp add: local_record_def generations_assign_maps)

interpretation one_process: claim_ledger ledger_ok ledger_shows local_claim local_record local_release
proof unfold_locales
  fix l l' k j t r x e o'
  assume ok: "ledger_ok l"
  note insert = insert_running [OF rolled_ok [OF ok], of t k]
  note shows_before = rolled_shows [OF ok, of t]
  show "ledger_ok l'" if "local_claim l k t = (r, l')" using ok that by (rule local_claim_ok)
  show "ledger_ok (local_record l k o')" using ok by (rule local_record_ok)
  show "ledger_ok (local_release l k)" using ok by (rule local_release_maps)
  show "j = k \<and> ledger_shows l' k = Some Running" if "local_claim l k t = (Ok (NewClaim j), l')"
    using that insert by (auto simp: local_claim_rolled split: option.splits Entry.splits)
  show "ledger_shows l k = Some Running" if "local_claim l k t = (Err Api_OperationInProgress, l')"
    using that shows_before by (auto simp: local_claim_rolled split: option.splits Entry.splits)
  show "ledger_shows l k = Some (AnsweredEntry o')" if "local_claim l k t = (Ok (AnsweredClaim o'), l')"
    using that shows_before by (auto simp: local_claim_rolled split: option.splits Entry.splits)
  show "ledger_shows l x = Some e \<or> x = k \<and> e = Running"
    if "local_claim l k t = (r, l')" "ledger_shows l' x = Some e"
    using that shows_before insert
    by (auto simp: local_claim_rolled split: option.splits Entry.splits if_splits)
  show "ledger_shows l x = Some e \<or> x = k \<and> e = AnsweredEntry o'"
    if "ledger_shows (local_record l k o') x = Some e"
    using that ok by (auto simp: local_record_def generations_assign_maps split: if_splits)
  show "ledger_shows l x = Some e" if "ledger_shows (local_release l k) x = Some e"
    using that ok by (auto simp: local_release_maps split: if_splits)
qed

section \<open>The shared ledger keeps the promise\<close>

text \<open>
  Redis: \<open>SET NX GET\<close> gives the old value and writes only where there is none; \<open>SET XX\<close> writes
  only its key, and \<open>DEL\<close> writes nothing. Values may expire at any time. A command that fails may
  or may not have been carried out. \<open>held\<close> is what a server holds under a key.
\<close>

definition redis_laws :: "'r redis \<Rightarrow> ('r \<Rightarrow> string \<Rightarrow> string option) \<Rightarrow> bool" where
  "redis_laws R held \<longleftrightarrow>
     (\<forall>s k v ex reply s'. redis_exec R s (SetNxGetEx k v ex) = (reply, s') \<longrightarrow>
        (\<forall>y. reply = Some (Some y) \<longrightarrow> held s k = Some y) \<and>
        (reply = Some None \<longrightarrow> held s' k = Some v) \<and>
        (\<forall>x y. held s' x = Some y \<longrightarrow> held s x = Some y \<or> x = k \<and> y = v)) \<and>
     (\<forall>s k v ex x y. held (snd (redis_exec R s (SetXxEx k v ex))) x = Some y \<longrightarrow>
        held s x = Some y \<or> x = k \<and> y = v) \<and>
     (\<forall>s k x y. held (snd (redis_exec R s (Del k))) x = Some y \<longrightarrow> held s x = Some y)"

text \<open>\<open>serde_json\<close> reads back what it wrote, an object.\<close>

definition record_text_laws :: "'r redis \<Rightarrow> bool" where
  "record_text_laws R \<longleftrightarrow>
     (\<forall>r t. record_to_string R r = Some t \<longrightarrow> record_from_str R t = Some r \<and> t \<noteq> RUNNING)"

lemma record_outcome_new: "record_new o' = Some r \<Longrightarrow> record_outcome r = Some p \<Longrightarrow> p = o'"
  by (cases o')
    (auto simp: record_new_def bind_eq_Some_conv header_to_str_def from_utf8_def header_try_from_def
      status_from_u16_def Let_def split: if_splits)

definition shared_shows ::
    "'x crates_scheme \<Rightarrow> 'r redis \<Rightarrow> ('r \<Rightarrow> string \<Rightarrow> string option) \<Rightarrow> 'r \<Rightarrow> Key \<Rightarrow> Entry option" where
  "shared_shows C R held server key =
     (case held server (redis_key C key) of
        None \<Rightarrow> None
      | Some text \<Rightarrow>
          if text = RUNNING then Some Running
          else map_option AnsweredEntry (Option.bind (record_from_str R text) record_outcome))"

lemma redis_key_inject: "hex_laws C \<Longrightarrow> redis_key C a = redis_key C b \<longleftrightarrow> a = b"
  by (auto simp: redis_key_def hex_laws_def) (metis option.inject)

lemma shared_shows_mono:
  "(\<And>y. held s' (redis_key C x) = Some y \<Longrightarrow> held s (redis_key C x) = Some y) \<Longrightarrow>
     shared_shows C R held s' x = Some e \<Longrightarrow> shared_shows C R held s x = Some e"
  by (auto simp: shared_shows_def split: option.splits)

lemma xx_law:
  "redis_laws R held \<Longrightarrow> held (snd (redis_exec R s (SetXxEx k v ex))) x = Some y \<Longrightarrow>
     held s x = Some y \<or> x = k \<and> y = v"
  unfolding redis_laws_def by blast

lemma del_law:
  "redis_laws R held \<Longrightarrow> held (snd (redis_exec R s (Del k))) x = Some y \<Longrightarrow> held s x = Some y"
  unfolding redis_laws_def by blast

lemma shared_is_ledger:
  fixes R :: "'r redis"
  assumes "hex_laws C" "redis_laws R held" "record_text_laws R"
  shows "claim_ledger (\<lambda>_. True) (shared_shows C R held) (\<lambda>s k t. shared_claim C R w s k)
    (shared_record C R w) (shared_release C R)"
proof unfold_locales
  fix l l' :: 'r and k j t r x e o'
  have nx: "(\<forall>y. reply = Some (Some y) \<longrightarrow> held s q = Some y) \<and>
      (reply = Some None \<longrightarrow> held s' q = Some v) \<and>
      (\<forall>x y. held s' x = Some y \<longrightarrow> held s x = Some y \<or> x = q \<and> y = v)"
    if "redis_exec R s (SetNxGetEx q v ex) = (reply, s')" for s q v ex reply s'
    using assms(2) that unfolding redis_laws_def by blast
  obtain reply s' where exec: "redis_exec R l (SetNxGetEx (redis_key C k) RUNNING w) = (reply, s')"
    by fastforce
  note laws = nx [OF exec]
  show "j = k \<and> shared_shows C R held l' k = Some Running"
    if "shared_claim C R w l k = (Ok (NewClaim j), l')"
    using that laws exec
    by (auto simp: shared_claim_def shared_shows_def result_simps split: option.splits if_splits)
  show "shared_shows C R held l k = Some Running"
    if "shared_claim C R w l k = (Err Api_OperationInProgress, l')"
    using that laws exec
    by (auto simp: shared_claim_def shared_shows_def result_simps split: option.splits if_splits)
  show "shared_shows C R held l k = Some (AnsweredEntry o')"
    if "shared_claim C R w l k = (Ok (AnsweredClaim o'), l')"
    using that laws exec
    by (auto simp: shared_claim_def shared_shows_def result_simps split: option.splits if_splits)
  show "shared_shows C R held l x = Some e \<or> x = k \<and> e = Running"
    if "shared_claim C R w l k = (r, l')" "shared_shows C R held l' x = Some e"
  proof -
    note after = that(2)
    have l': "l' = s'" using that(1) exec by (auto simp: shared_claim_def split: option.splits)
    show ?thesis
    proof (cases "held s' (redis_key C x) = held l (redis_key C x)")
      case False
      obtain z where z: "held s' (redis_key C x) = Some z"
        using after by (auto simp: l' shared_shows_def split: option.splits)
      then have "held l (redis_key C x) = Some z \<or> redis_key C x = redis_key C k \<and> z = RUNNING"
        using laws by blast
      with False z have "redis_key C x = redis_key C k" "z = RUNNING" by auto
      then have "x = k" "held s' (redis_key C x) = Some RUNNING"
        using z redis_key_inject [OF assms(1)] by auto
      with after show ?thesis by (simp add: l' shared_shows_def)
    qed (use after in \<open>simp add: l' shared_shows_def\<close>)
  qed
  show "shared_shows C R held l x = Some e"
    if "shared_shows C R held (shared_release C R l k) x = Some e"
    by (rule shared_shows_mono [OF _ that], unfold shared_release_def, erule del_law [OF assms(2)])
  show "shared_shows C R held l x = Some e \<or> x = k \<and> e = AnsweredEntry o'"
    if "shared_shows C R held (shared_record C R w l k o') x = Some e"
  proof (cases "Option.bind (record_new o') (record_to_string R)")
    case None
    with that show ?thesis by (simp add: shared_record_def)
  next
    case (Some v)
    then obtain rec where rec: "record_new o' = Some rec" "record_to_string R rec = Some v"
      by (auto simp: bind_eq_Some_conv)
    then have v: "record_from_str R v = Some rec" "v \<noteq> RUNNING"
      using assms(3) by (auto simp: record_text_laws_def)
    let ?s = "shared_record C R w l k o'"
    note after = that
    have step: "held ?s y = Some z \<Longrightarrow> held l y = Some z \<or> y = redis_key C k \<and> z = v" for y z
      using xx_law [OF assms(2)] Some by (simp add: shared_record_def)
    show ?thesis
    proof (cases "held ?s (redis_key C x) = held l (redis_key C x)")
      case False
      obtain z where z: "held ?s (redis_key C x) = Some z"
        using after by (auto simp: shared_shows_def split: option.splits)
      with False step [OF z] have "redis_key C x = redis_key C k" "z = v" by auto
      then have "x = k" "held ?s (redis_key C x) = Some v"
        using z redis_key_inject [OF assms(1)] by auto
      with after v record_outcome_new [OF rec(1)] show ?thesis
        by (simp add: shared_shows_def) (cases "record_outcome rec"; simp)
    qed (use that in \<open>simp add: shared_shows_def\<close>)
  qed
qed simp_all

section \<open>What one process remembers\<close>

fun local_operate :: "LocalLedger \<Rightarrow> ledger_event \<Rightarrow> LocalLedger" where
  "local_operate l (ClaimEvent k t) = snd (local_claim l k t)"
| "local_operate l (RecordEvent k o') = local_record l k o'"
| "local_operate l (ReleaseEvent k) = local_release l k"

lemma local_operate: "local_operate = one_process.operate"
  by (intro ext) (metis local_operate.simps one_process.operate.simps ledger_event.exhaust)

lemma local_operate_ok: "ledger_ok l \<Longrightarrow> ledger_ok (local_operate l ev)"
  unfolding local_operate by (rule one_process.ok_operate)

text \<open>The outcome recorded last for a key.\<close>

fun note_outcome :: "Key \<Rightarrow> Outcome option \<Rightarrow> ledger_event \<Rightarrow> Outcome option" where
  "note_outcome k seen (RecordEvent j o') = (if j = k then Some o' else seen)"
| "note_outcome k seen _ = seen"

definition last_recorded :: "Key \<Rightarrow> ledger_event list \<Rightarrow> Outcome option" where
  "last_recorded k evs = foldl (note_outcome k) None evs"

definition entry_of :: "Outcome option \<Rightarrow> Entry" where
  "entry_of seen = (case seen of None \<Rightarrow> Running | Some o' \<Rightarrow> AnsweredEntry o')"

text \<open>The claims of a run are made in the window after \<open>t\<close>, and the key is not given up.\<close>

fun in_window :: "Key \<Rightarrow> instant \<Rightarrow> nat \<Rightarrow> ledger_event \<Rightarrow> bool" where
  "in_window k t window (ClaimEvent j s) = (t \<le> s \<and> s < t + window)"
| "in_window k t window (ReleaseEvent j) = (j \<noteq> k)"
| "in_window k t window (RecordEvent j o') = True"

text \<open>The key is in the current generation, or in the one before and that ended after \<open>t\<close>.\<close>

definition remembers :: "LocalLedger \<Rightarrow> Key \<Rightarrow> instant \<Rightarrow> bool" where
  "remembers l k t \<longleftrightarrow>
     k \<in> fst ` set (current_map (ll_state l)) \<or>
     k \<in> fst ` set (other_map (ll_state l)) \<and> t \<le> gn_rotated_at (ll_state l)"

lemma remembers_shown: "ledger_ok l \<Longrightarrow> remembers l k t \<Longrightarrow> ledger_shows l k \<noteq> None"
  by (auto simp: remembers_def generations_get_maps map_add_None map_of_eq_None_iff)

lemma rolled_remembers:
  assumes "ledger_ok l" "remembers l k t" "t \<le> s" "s < t + ll_window l"
    and "length (current_map (ll_state l)) < ll_max_entries l"
  shows "remembers (l \<lparr> ll_state := rolled l s \<rparr>) k t \<and> generations_get (rolled l s) k = ledger_shows l k \<and>
    length (current_map (rolled l s)) \<le> length (current_map (ll_state l))"
proof (cases "s - gn_rotated_at (ll_state l) \<ge> ll_window l")
  case True
  then have k: "k \<in> fst ` set (current_map (ll_state l))"
    using assms(2-4) by (auto simp: remembers_def)
  then have "map_of (current_map (ll_state l)) k \<noteq> None" "map_of (other_map (ll_state l)) k = None"
    using assms(1) by (auto simp: generations_ok_maps map_of_eq_None_iff)
  with True k assms(1,3) show ?thesis
    by (auto simp: rolled_def remembers_def rotate_generations_maps generations_get_maps map_add_def
        split: option.splits)
next
  case False
  with assms show ?thesis by (simp add: rolled_def)
qed

lemma claim_remembers:
  assumes "ledger_ok l" "remembers l k t" "t \<le> s" "s < t + ll_window l"
    and "length (current_map (ll_state l)) < ll_max_entries l" "local_claim l j s = (r, l')"
  shows "remembers l' k t \<and> ledger_shows l' k = ledger_shows l k \<and>
    length (current_map (ll_state l')) \<le> Suc (length (current_map (ll_state l)))"
proof -
  note rolled = rolled_remembers [OF assms(1-5)]
  note ok = rolled_ok [OF assms(1), of s]
  show ?thesis
  proof (cases "generations_get (rolled l s) j")
    case None
    then have "j \<noteq> k" using rolled remembers_shown [OF assms(1,2)] by auto
    moreover have l': "l' = l \<lparr> ll_state := with_current_map (AList.update j Running (current_map (rolled l s)))
        (rolled l s) \<rparr>"
      using assms(6) None by (simp add: local_claim_rolled)
    ultimately show ?thesis
      using rolled insert_running [OF ok None] length_update [of j Running "current_map (rolled l s)"]
      by (auto simp: remembers_def keys_update)
  next
    case (Some e)
    then have "l' = l \<lparr> ll_state := rolled l s \<rparr>"
      using assms(6) by (auto simp: local_claim_rolled split: Entry.splits)
    then show ?thesis using rolled by simp
  qed
qed

lemma local_params:
  "ll_window (local_operate l ev) = ll_window l" "ll_max_entries (local_operate l ev) = ll_max_entries l"
  by (cases ev; auto simp: local_claim_rolled local_record_def local_release_def Let_def
      split: option.splits Entry.splits)+

lemma operate_remembers:
  assumes "ledger_ok l" "remembers l k t" "in_window k t (ll_window l) ev"
    and "length (current_map (ll_state l)) < ll_max_entries l"
    and "ledger_shows l k = Some (entry_of seen)"
  shows "remembers (local_operate l ev) k t \<and>
    ledger_shows (local_operate l ev) k = Some (entry_of (note_outcome k seen ev)) \<and>
    length (current_map (ll_state (local_operate l ev))) \<le> Suc (length (current_map (ll_state l)))"
proof (cases ev)
  case (ClaimEvent j s)
  with claim_remembers [OF assms(1,2) _ _ assms(4) surjective_pairing, of s j] assms(3,5)
  show ?thesis by simp
next
  case (RecordEvent j o')
  with assms(1,2,5) show ?thesis
    by (auto simp: local_record_def remembers_def generations_assign_maps entry_of_def)
next
  case (ReleaseEvent j)
  have "fst ` set (AList.delete j m) = fst ` set m - {j}" "length (AList.delete j m) \<le> length m"
    for m :: "(Key \<times> Entry) list"
    by (auto simp: AList.delete_eq image_iff intro: le_trans [OF length_filter_le])
  with ReleaseEvent assms(1-3,5) show ?thesis
    by (auto simp: remembers_def local_release_maps intro: le_SucI)
qed

lemma run_remembers:
  assumes "ledger_ok l" "remembers l k t" "list_all (in_window k t (ll_window l)) evs"
    and "length (current_map (ll_state l)) + length evs \<le> ll_max_entries l"
    and "ledger_shows l k = Some (entry_of seen)"
  shows "ledger_ok (foldl local_operate l evs) \<and> remembers (foldl local_operate l evs) k t \<and>
    ledger_shows (foldl local_operate l evs) k = Some (entry_of (foldl (note_outcome k) seen evs)) \<and>
    length (current_map (ll_state (foldl local_operate l evs))) \<le>
      length (current_map (ll_state l)) + length evs \<and>
    ll_window (foldl local_operate l evs) = ll_window l \<and>
    ll_max_entries (foldl local_operate l evs) = ll_max_entries l"
  using assms
proof (induction evs arbitrary: l seen)
  case (Cons ev evs)
  from Cons.prems operate_remembers [of l k t ev seen]
  have "remembers (local_operate l ev) k t"
    "ledger_shows (local_operate l ev) k = Some (entry_of (note_outcome k seen ev))"
    "length (current_map (ll_state (local_operate l ev))) \<le> Suc (length (current_map (ll_state l)))"
    by auto
  with Cons.IH [of "local_operate l ev" "note_outcome k seen ev"] Cons.prems local_operate_ok
  show ?case by (auto simp: local_params)
qed simp

lemma new_claim_remembers:
  assumes "ledger_ok l" "local_claim l k t = (Ok (NewClaim k), l')"
  shows "ledger_ok l'" "remembers l' k t" "ledger_shows l' k = Some (entry_of None)"
    "ll_window l' = ll_window l" "ll_max_entries l' = ll_max_entries l"
proof -
  have none: "generations_get (rolled l t) k = None"
    using assms(2) by (auto simp: local_claim_rolled split: option.splits Entry.splits)
  then have l': "l' = l \<lparr> ll_state := with_current_map (AList.update k Running (current_map (rolled l t)))
      (rolled l t) \<rparr>"
    using assms(2) by (simp add: local_claim_rolled)
  note inserted = insert_running [OF rolled_ok [OF assms(1)] none]
  show "ledger_ok l'" "remembers l' k t" "ledger_shows l' k = Some (entry_of None)"
    "ll_window l' = ll_window l" "ll_max_entries l' = ll_max_entries l"
    using inserted by (auto simp: l' remembers_def keys_update entry_of_def)
qed

lemma operate_bounded:
  assumes "ledger_ok l" "0 < ll_max_entries l"
    and "length (current_map (ll_state l)) \<le> ll_max_entries l \<and>
      length (other_map (ll_state l)) \<le> ll_max_entries l"
  shows "length (current_map (ll_state (local_operate l ev))) \<le> ll_max_entries l \<and>
    length (other_map (ll_state (local_operate l ev))) \<le> ll_max_entries l"
proof (cases ev)
  case (ClaimEvent j s)
  have "length (current_map (rolled l s)) < ll_max_entries l \<and> length (other_map (rolled l s)) \<le> ll_max_entries l"
    using assms by (auto simp: rolled_def rotate_generations_maps)
  then show ?thesis
    using ClaimEvent length_update [of j Running "current_map (rolled l s)"]
    by (auto simp: local_claim_rolled split: option.splits Entry.splits)
next
  case (RecordEvent j o')
  with assms show ?thesis by (simp add: local_record_def generations_assign_maps)
next
  case (ReleaseEvent j)
  with assms show ?thesis
    by (auto simp: local_release_maps AList.delete_eq intro: le_trans [OF length_filter_le])
qed

lemma run_bounded:
  assumes "ledger_ok l" "0 < ll_max_entries l"
    and "length (current_map (ll_state l)) \<le> ll_max_entries l \<and>
      length (other_map (ll_state l)) \<le> ll_max_entries l"
  shows "ledger_ok (foldl local_operate l evs) \<and>
    length (current_map (ll_state (foldl local_operate l evs))) \<le> ll_max_entries l \<and>
    length (other_map (ll_state (foldl local_operate l evs))) \<le> ll_max_entries l"
  using assms
proof (induction evs arbitrary: l)
  case (Cons ev evs)
  then show ?case
    using Cons.IH [of "local_operate l ev"] operate_bounded [of l ev] local_operate_ok [of l ev]
    by (simp add: local_params)
qed simp

text \<open>A key a full ledger rotated away twice is forgotten within its window.\<close>

lemma early_rotation_forgets:
  assumes "0 < window"
  shows "fst (local_claim (foldl local_operate (local_new window 1 0)
      [ClaimEvent [1] 0, ClaimEvent [2] 0, ClaimEvent [3] 0]) [1] 0) = Ok (NewClaim [1])"
  using assms
  by (simp add: local_claim_def local_new_def Let_def current_map_def generations_get_def
      with_current_map_def rotate_generations_def)

section \<open>Either ledger\<close>

fun replay_ok :: "'r ReplayLedger \<Rightarrow> bool" where
  "replay_ok (Local l) = ledger_ok l"
| "replay_ok (Shared server window_secs) = True"

fun replay_shows ::
    "'x crates_scheme \<Rightarrow> 'r redis \<Rightarrow> ('r \<Rightarrow> string \<Rightarrow> string option) \<Rightarrow> 'r ReplayLedger \<Rightarrow> Key \<Rightarrow> Entry option"
  where
  "replay_shows C R held (Local l) = ledger_shows l"
| "replay_shows C R held (Shared server window_secs) = shared_shows C R held server"

fun replay_operate :: "'x crates_scheme \<Rightarrow> 'r redis \<Rightarrow> 'r ReplayLedger \<Rightarrow> ledger_event \<Rightarrow> 'r ReplayLedger" where
  "replay_operate C R l (ClaimEvent k t) = snd (ledger_claim_key C R l k t)"
| "replay_operate C R l (RecordEvent k o') = ledger_record C R l k o'"
| "replay_operate C R l (ReleaseEvent k) = ledger_release C R l k"

lemma map_prod_id_eq: "map_prod id f p = (r, y) \<longleftrightarrow> (\<exists>x. p = (r, x) \<and> y = f x)"
  by (cases p) auto

lemma replay_is_ledger:
  fixes R :: "'r redis"
  assumes "hex_laws C" "redis_laws R held" "record_text_laws R"
  shows "claim_ledger replay_ok (replay_shows C R held) (ledger_claim_key C R)
    (ledger_record C R) (ledger_release C R)"
proof unfold_locales
  fix l l' :: "'r ReplayLedger" and k j t r x e o'
  assume ok: "replay_ok l"
  note shared = shared_is_ledger [OF assms]
  show "replay_ok l'" if "ledger_claim_key C R l k t = (r, l')"
    using ok that by (cases l) (auto simp: map_prod_id_eq dest: local_claim_ok)
  show rel_ok: "replay_ok (ledger_release C R l k)"
    using ok by (cases l) (auto simp: local_release_maps)
  show "replay_ok (ledger_record C R l k o')"
    using ok rel_ok by (cases l) (auto simp: ledger_record_def local_record_ok)
  show "j = k \<and> replay_shows C R held l' k = Some Running"
    if "ledger_claim_key C R l k t = (Ok (NewClaim j), l')"
    using ok that
    by (cases l) (auto simp: map_prod_id_eq dest: one_process.claim_new claim_ledger.claim_new [OF shared TrueI])
  show "replay_shows C R held l k = Some Running"
    if "ledger_claim_key C R l k t = (Err Api_OperationInProgress, l')"
    using ok that
    by (cases l) (auto simp: map_prod_id_eq dest: one_process.claim_busy claim_ledger.claim_busy [OF shared TrueI])
  show "replay_shows C R held l k = Some (AnsweredEntry o')"
    if "ledger_claim_key C R l k t = (Ok (AnsweredClaim o'), l')"
    using ok that
    by (cases l) (auto simp: map_prod_id_eq dest: one_process.claim_answer claim_ledger.claim_answer [OF shared TrueI])
  show "replay_shows C R held l x = Some e \<or> x = k \<and> e = Running"
    if "ledger_claim_key C R l k t = (r, l')" "replay_shows C R held l' x = Some e"
    using ok that
    by (cases l) (auto simp: map_prod_id_eq dest: one_process.claim_shows claim_ledger.claim_shows [OF shared TrueI])
  show rel: "replay_shows C R held l x = Some e" if "replay_shows C R held (ledger_release C R l k) x = Some e"
    using ok that
    by (cases l) (auto dest: one_process.release_shows claim_ledger.release_shows [OF shared TrueI])
  show "replay_shows C R held l x = Some e \<or> x = k \<and> e = AnsweredEntry o'"
    if "replay_shows C R held (ledger_record C R l k o') x = Some e"
  proof (cases "not_kept o'")
    case True
    then show ?thesis using rel that by (simp add: ledger_record_def)
  next
    case False
    with ok that show ?thesis
      by (cases l) (auto simp: ledger_record_def dest: one_process.keep_shows
          claim_ledger.keep_shows [OF shared TrueI])
  qed
qed

lemma replay_operate: 
  assumes "hex_laws C" "redis_laws R held" "record_text_laws R"
  shows "replay_operate C R = claim_ledger.operate (ledger_claim_key C R) (ledger_record C R) (ledger_release C R)"
proof (intro ext)
  fix l ev
  show "replay_operate C R l ev =
      claim_ledger.operate (ledger_claim_key C R) (ledger_record C R) (ledger_release C R) l ev"
    by (cases ev) (simp_all add: claim_ledger.operate.simps [OF replay_is_ledger [OF assms]])
qed

lemma key_of_binds:
  assumes "project_id p" "project_id q" "key_of C p c = key_of C q d"
  shows "p = q \<and> c = d \<or> sha256_collision C (as_bytes p @ [0] @ c) (as_bytes q @ [0] @ d)"
  using assms project_id_no_nul zero_split_inject [of "as_bytes p" "as_bytes q" c d]
  by (auto simp: key_of_def sha256_collision_def)

section \<open>Properties\<close>

text \<open>
  C22. In the local ledger a ciphertext runs at most once while its window lasts, as long as its key
  is not given up and the claims since do not fill a generation: after a claim was new, every later
  claim of the key in the window gets the outcome recorded last, or is refused while there is none,
  whatever else is claimed, recorded or given up in between.
\<close>

theorem local_ledger_runs_once:
  assumes "ledger_ok l" "local_claim l k t = (Ok (NewClaim k), l')"
    and "list_all (in_window k t (ll_window l)) evs" "t \<le> s" "s < t + ll_window l"
    and "length (current_map (ll_state l')) + length evs < ll_max_entries l"
  shows "fst (local_claim (foldl local_operate l' evs) k s) =
    (case last_recorded k evs of None \<Rightarrow> Err Api_OperationInProgress | Some o' \<Rightarrow> Ok (AnsweredClaim o'))"
proof -
  note start = new_claim_remembers [OF assms(1,2)]
  from run_remembers [OF start(1,2) _ _ start(3), of evs] assms(3,6)
  have after: "ledger_ok (foldl local_operate l' evs)" "remembers (foldl local_operate l' evs) k t"
    "ledger_shows (foldl local_operate l' evs) k = Some (entry_of (last_recorded k evs))"
    "length (current_map (ll_state (foldl local_operate l' evs))) < ll_max_entries (foldl local_operate l' evs)"
    "s < t + ll_window (foldl local_operate l' evs)"
    using start(4,5) assms(5) by (auto simp: last_recorded_def)
  from rolled_remembers [OF after(1,2) assms(4) after(5,4)] after(3) show ?thesis
    by (auto simp: local_claim_rolled entry_of_def split: option.splits)
qed

theorem local_ledger_runs_once_witness:
  "fst (local_claim (foldl local_operate (snd (local_claim (local_new 60 16 0) [1] 5))
      [ClaimEvent [2] 30, RecordEvent [1] (Err Api_EnclaveUnavailable)]) [1] 64) =
     Ok (AnsweredClaim (Err Api_EnclaveUnavailable))"
proof -
  have new: "local_claim (local_new 60 16 0) [1] 5 = (Ok (NewClaim [1]), snd (local_claim (local_new 60 16 0) [1] 5))"
    and small: "length (current_map (ll_state (snd (local_claim (local_new 60 16 0) [1] 5)))) = 1"
    by (simp_all add: local_claim_def local_new_def Let_def current_map_def generations_get_def
        with_current_map_def)
  have ok: "ledger_ok (local_new 60 16 0)" by (simp add: local_new_def generations_ok_def)
  from local_ledger_runs_once [OF ok new, of "[ClaimEvent [2] 30, RecordEvent [1] (Err Api_EnclaveUnavailable)]" 64]
  show ?thesis using small by (simp add: local_new_def last_recorded_def)
qed

text \<open>
  C23. A resend is never answered with an outcome that was not recorded for its project and
  ciphertext (or for a pair with the same SHA-256): with either ledger, after any sequence of claims,
  records and releases, and when Redis loses entries or fails at any command.
\<close>

theorem resend_gets_its_own_outcome:
  assumes "hex_laws C" "redis_laws R held" "record_text_laws R"
    and "replay_ok l" "replay_shows C R held l (key_of C p c) = None" "project_id p"
    and "fst (ledger_claim C R (foldl (replay_operate C R) l evs) p c now) = Ok (AnsweredClaim o')"
  shows "RecordEvent (key_of C p c) o' \<in> set evs \<and>
    (\<forall>q d. project_id q \<longrightarrow> key_of C q d = key_of C p c \<longrightarrow>
       q = p \<and> d = c \<or> sha256_collision C (as_bytes q @ [0] @ d) (as_bytes p @ [0] @ c))"
  using claim_ledger.answer_was_recorded [OF replay_is_ledger [OF assms(1-3)] assms(4,5)] assms(7)
    key_of_binds [OF _ assms(6)]
  unfolding ledger_claim_def replay_operate [OF assms(1-3)] by blast

text \<open>A server that never loses anything, and the text of failed records only.\<close>

fun demo_exec :: "(string \<times> string) list \<Rightarrow> redis_cmd \<Rightarrow> string option option \<times> (string \<times> string) list" where
  "demo_exec s (SetNxGetEx k v ex) =
     (case map_of s k of Some old \<Rightarrow> (Some (Some old), s) | None \<Rightarrow> (Some None, (k, v) # s))"
| "demo_exec s (SetXxEx k v ex) = (Some None, if map_of s k = None then s else AList.update k v s)"
| "demo_exec s (Del k) = (Some None, AList.delete k s)"

definition demo_redis :: "(string \<times> string) list redis" where
  "demo_redis =
     \<lparr> redis_exec = demo_exec,
       record_to_string = (\<lambda>r. case r of FailedRecord c \<Rightarrow> Some (CHR ''{'' # c) | _ \<Rightarrow> None),
       record_from_str = (\<lambda>s. Some (FailedRecord (tl s))) \<rparr>"

lemma demo_redis_laws: "redis_laws demo_redis map_of"
  unfolding redis_laws_def
  by (auto simp: demo_redis_def update_conv delete_conv split: option.splits if_splits)

lemma demo_record_text_laws: "record_text_laws demo_redis"
  by (auto simp: record_text_laws_def demo_redis_def RUNNING_def split: Record.splits)

theorem resend_gets_its_own_outcome_witness:
  "fst (ledger_claim demo_crates demo_redis
      (foldl (replay_operate demo_crates demo_redis) (Shared [] 60)
        [ClaimEvent (key_of demo_crates ''a'' [7]) 0,
         RecordEvent (key_of demo_crates ''a'' [7]) (Err Api_EnclaveUnavailable)]) ''a'' [7] 1) =
     Ok (AnsweredClaim (Err Api_EnclaveUnavailable)) \<and>
   RecordEvent (key_of demo_crates ''a'' [7]) (Err Api_EnclaveUnavailable) \<in>
     set [ClaimEvent (key_of demo_crates ''a'' [7]) 0,
          RecordEvent (key_of demo_crates ''a'' [7]) (Err Api_EnclaveUnavailable)]"
proof -
  have read: "api_error_from_str (api_error_code Api_EnclaveUnavailable) = Some Api_EnclaveUnavailable"
    by (rule api_error_from_code)
  have "fst (ledger_claim demo_crates demo_redis
      (foldl (replay_operate demo_crates demo_redis) (Shared [] 60)
        [ClaimEvent (key_of demo_crates ''a'' [7]) 0,
         RecordEvent (key_of demo_crates ''a'' [7]) (Err Api_EnclaveUnavailable)]) ''a'' [7] 1) =
     Ok (AnsweredClaim (Err Api_EnclaveUnavailable))"
    using read
    by (simp add: ledger_claim_def ledger_record_def not_kept_def shared_claim_def shared_record_def
        demo_redis_def record_new_def RUNNING_def)
  moreover have "project_id ''a''"
    by (simp add: project_id_def project_id_parse_def MAX_PROJECT_ID_LEN_def is_ascii_alphanumeric_def
        ascii_def)
  ultimately show ?thesis
    using resend_gets_its_own_outcome [OF demo_hex_laws demo_redis_laws demo_record_text_laws,
        of "Shared [] 60" "''a''" "[7]"
          "[ClaimEvent (key_of demo_crates ''a'' [7]) 0,
            RecordEvent (key_of demo_crates ''a'' [7]) (Err Api_EnclaveUnavailable)]" 1]
    by (simp add: shared_shows_def)
qed

definition recordable :: "Outcome \<Rightarrow> bool" where
  "recordable outcome =
     (case outcome of
        Inr f \<Rightarrow> 100 \<le> fw_status f \<and> fw_status f < 1000 \<and>
          list_all (\<lambda>b. 32 \<le> unat b \<and> unat b < 127 \<or> unat b = 9) (fw_content_type f) \<and>
          utf8_valid (map unat (fw_body f))
      | Inl _ \<Rightarrow> True)"

text \<open>
  What the shared ledger stores of an outcome gives exactly that outcome back: the status, the
  content type and the body of an answer, or the very error. An outcome that would come back changed,
  or not at all, is not stored.
\<close>

lemma outcome_record_roundtrip:
  "Option.bind (record_new outcome) record_outcome = (if recordable outcome then Some outcome else None)"
proof (cases outcome)
  case (Inl e)
  then show ?thesis by (simp add: record_new_def recordable_def)
next
  case (Inr f)
  have "list_all (\<lambda>b. 32 \<le> unat b \<and> unat b \<noteq> 127 \<or> unat b = 9) b"
    if "list_all (\<lambda>b. 32 \<le> unat b \<and> unat b < 127 \<or> unat b = 9) b" for b :: bytes
    using that by (auto simp: list_all_iff)
  with Inr show ?thesis
    by (cases f) (auto simp: record_new_def recordable_def header_to_str_def from_utf8_def
        header_try_from_def status_from_u16_def Let_def)
qed

text \<open>
  C40. Whatever is done to it, the ledger of one process holds at most twice the configured number of
  entries, and no key in both of its generations.
\<close>

theorem local_ledger_bounded:
  assumes "0 < max_entries"
  shows "let g = ll_state (foldl local_operate (local_new window max_entries t) evs) in
    generations_ok g \<and> length (gn_first g) + length (gn_second g) \<le> 2 * max_entries"
proof -
  let ?g = "ll_state (foldl local_operate (local_new window max_entries t) evs)"
  have "length (gn_first ?g) + length (gn_second ?g) = length (current_map ?g) + length (other_map ?g)"
    by (simp add: current_map_def other_map_def)
  with run_bounded [of "local_new window max_entries t" evs] assms show ?thesis
    by (simp add: Let_def) (simp add: local_new_def generations_ok_def current_map_def other_map_def)
qed

theorem local_ledger_bounded_witness:
  "let g = ll_state (foldl local_operate (local_new 60 1 0) [ClaimEvent [1] 0, ClaimEvent [2] 0, ClaimEvent [3] 0]) in
    generations_ok g \<and> length (gn_first g) + length (gn_second g) \<le> 2 * 1"
  by (rule local_ledger_bounded) simp

end
