(* ===== verification/Gateway_App.thy ===== *)
theory Gateway_App
  imports Gateway_Flights Gateway_Provisioning Gateway_Replay Gateway_Upstream
begin

text \<open>
  \<open>app.rs\<close>: the state of a gateway, its routes and its handlers, which compose the other theories.
  Every handler takes the state and returns it updated; a slot in flight is dropped where the handler
  ends, whichever way it ends; the part of a handler before its slot is \<open>_checked\<close>, the part under it \<open>_work\<close>. What a request meets outside the gateway is an argument, \<open>outside\<close>.
  A Boot Proof is looked up with \<open>boot_proof\<close>, the function for a caller no other meets.
\<close>

section \<open>State\<close>

text \<open>\<open>gs_sent\<close>: the operations sent to the enclave, the latest first, which no handler reads.\<close>

record 'r GatewayState =
  gs_origin_auth_header :: string
  gs_api_keys :: ApiKeys
  gs_enclave :: EnclaveConfig
  gs_turnkey :: Turnkey
  gs_provisioner :: Provisioner
  gs_enrollment :: Enrollment
  gs_wallet_grants :: WalletGrants
  gs_limiter :: InFlightLimiter
  gs_replay :: "'r ReplayLedger"
  gs_sent :: "EncryptedRequest list"

text \<open>
  What a start meets: the clock, the release file, the key pairs Turnkey's package accepts and the
  Redis servers that answer. The HTTP clients build.
\<close>

record 'r start_env =
  se_pair_ok :: "string \<Rightarrow> string \<Rightarrow> bool"
  se_clock :: "nat option"
  se_release :: "ReleaseFile option option"
  se_redis :: "string \<Rightarrow> 'r option"
  se_now :: instant

definition gateway_new :: "'x crates_scheme \<Rightarrow> 'r start_env \<Rightarrow> Config \<Rightarrow> StartupError + 'r GatewayState" where
  "gateway_new C env config =
     and_then (turnkey_new (se_pair_ok env) (cfg_turnkey config)) (\<lambda>turnkey.
     and_then (provisioner_new C (cfg_provisioning config) (cfg_network config) (se_clock env) (se_release env))
       (\<lambda>provisioner.
     and_then (wallet_grants_new C (cfg_wallet_grant config)) (\<lambda>wallet_grants.
     and_then (case ec_replay_redis_url (cfg_enclave config) of
         None \<Rightarrow> Ok None
       | Some url \<Rightarrow> ok_or ReplayServerUnavailable (map_option Some (se_redis env url))) (\<lambda>server.
     Ok \<lparr> gs_origin_auth_header = cfg_origin_auth_header config,
          gs_api_keys = api_keys_new (unat (dac_project_cache_secs (cfg_dev_api config))),
          gs_enclave = cfg_enclave config, gs_turnkey = turnkey, gs_provisioner = provisioner,
          gs_enrollment = \<lparr> en_network = cfg_network config, en_domains = enc_domains (cfg_enrollment config) \<rparr>,
          gs_wallet_grants = wallet_grants,
          gs_limiter = limiter_new (unat (ec_max_in_flight_per_project (cfg_enclave config))),
          gs_replay = ledger_connect (unat (ec_replay_window_secs (cfg_enclave config)))
            (ec_replay_max_entries (cfg_enclave config)) (se_now env) server,
          gs_sent = [] \<rparr>))))"

text \<open>\<open>config::load\<close> once Figment has read the files, then \<open>AppState::new\<close>.\<close>

definition gateway_start :: "'x crates_scheme \<Rightarrow> 'r start_env \<Rightarrow> Config \<Rightarrow> StartupError + 'r GatewayState" where
  "gateway_start C env config = and_then (config_validate config) (\<lambda>_. gateway_new C env config)"

text \<open>
  \<open>main\<close> up to the listener: the arguments after the program's name, the configuration they name, the
  metrics and the state. Tracing and the choice of a TLS provider change nothing here.
\<close>

definition config_path :: "string list \<Rightarrow> StartupError + string" where
  "config_path args =
     (case args of
        [flag, path] \<Rightarrow> if flag = ''--config'' then Ok path else Err ConfigUsage
      | _ \<Rightarrow> Err ConfigUsage)"

text \<open>
  \<open>metrics::init\<close>: whether the socket was bound and made nonblocking, and the endpoints a sink connects to.
  The client is the process's global one from then on; it has counted \<open>boot\<close> once.
\<close>

record metrics_env =
  mx_bound :: bool
  mx_nonblocking :: bool
  mx_sink :: "string \<Rightarrow> bool"

record StatsdClient =
  sd_endpoint :: string
  sd_prefix :: string
  sd_counted :: "(string \<times> nat) list"

definition metrics_init :: "metrics_env \<Rightarrow> MetricsConfig \<Rightarrow> StartupError + StatsdClient" where
  "metrics_init env config =
     and_then (ensure (mx_bound env) (MetricsUnavailable ''binding statsd socket'')) (\<lambda>_.
     and_then (ensure (mx_nonblocking env) (MetricsUnavailable ''setting statsd socket nonblocking'')) (\<lambda>_.
     and_then (ensure (mx_sink env (mc_statsd_endpoint config)) (MetricsUnavailable ''connecting statsd sink'')) (\<lambda>_.
     Ok \<lparr> sd_endpoint = mc_statsd_endpoint config, sd_prefix = mc_prefix config, sd_counted = [(''boot'', 1)] \<rparr>)))"

definition gateway_main ::
    "'x crates_scheme \<Rightarrow> 'r start_env \<Rightarrow> (string \<Rightarrow> Config option) \<Rightarrow> metrics_env \<Rightarrow> string list \<Rightarrow>
     StartupError + Config \<times> StatsdClient \<times> 'r GatewayState" where
  "gateway_main C env extract metrics args =
     and_then (config_path args) (\<lambda>path.
     and_then (config_load extract path) (\<lambda>config.
     and_then (metrics_init metrics (cfg_metrics config)) (\<lambda>client.
     and_then (gateway_new C env config) (\<lambda>state. Ok (config, client, state)))))"

text \<open>A process that starts has the state and the metrics client that the loaded configuration gives.\<close>

lemma gateway_main_starts:
  "gateway_main C env extract metrics args = Ok (config, client, st) \<Longrightarrow>
     gateway_start C env config = Ok st \<and> metrics_init metrics (cfg_metrics config) = Ok client \<and>
     (\<exists>path name. args = [''--config'', path] \<and> path_file_name path = Some name \<and> name \<noteq> BASE_FILE \<and>
        extract path = Some config)"
  by (auto simp: gateway_main_def config_path_def config_load_def gateway_start_def result_simps
      split: list.splits if_splits option.splits)

section \<open>What a request meets\<close>

text \<open>
  The system time at its first and at a second reading, the monotonic time at each of its readings, the
  network to the enclave, the answers of Turnkey, of dev-api and of Redis, and which of a session's two
  requests fails first. \<open>op_\<close>: the body of an operation.
\<close>

datatype moment = KeyLookedUp | KeyStored | Claimed | NameLookedUp | NameStored

record GatewayOperation =
  op_descriptor :: WalletDescriptor
  op_request :: EncryptedRequest

record 'r outside =
  od_clock :: "nat option"
  od_clock_again :: "nat option"
  od_at :: "moment \<Rightarrow> instant"
  od_network :: network
  od_turnkey :: turnkey_replies
  od_boot_proofs :: "string \<Rightarrow> string \<Rightarrow> boot_proof_reply"
  od_dev_api :: dev_api_reply
  od_redis :: "'r redis"
  od_ping_fails_first :: bool

text \<open>
  \<open>serde_json\<close>'s readers at the endpoints' types, of the public key in an answer's app proof, and of a
  JSON value kept as its text.
\<close>

record readers =
  rd_ping :: "bytes \<Rightarrow> QosPingRequest option"
  rd_enrollment :: "bytes \<Rightarrow> EnrollmentRequest option"
  rd_operation :: "bytes \<Rightarrow> GatewayOperation option"
  rd_app_proof :: "bytes \<Rightarrow> string option"
  rd_raw_value :: "bytes \<Rightarrow> bytes option"

section \<open>Handlers\<close>

type_synonym 'r handled = "(ApiError + gateway_response) \<times> 'r GatewayState"

text \<open>A slot of the project's from here to the end of the handler.\<close>

definition with_permit ::
    "ProjectId \<Rightarrow> ('r GatewayState \<Rightarrow> 'r handled) \<Rightarrow> 'r GatewayState \<Rightarrow> 'r handled" where
  "with_permit project work st =
     (case limiter_try_acquire (gs_limiter st) project of
        (Inl e, l) \<Rightarrow> (Err e, st \<lparr> gs_limiter := l \<rparr>)
      | (Inr permit, l) \<Rightarrow>
          (case work (st \<lparr> gs_limiter := l \<rparr>) of
             (r, st) \<Rightarrow> (r, st \<lparr> gs_limiter := drop_permit (gs_limiter st) permit \<rparr>)))"

definition app_proof_key :: "readers \<Rightarrow> bytes \<Rightarrow> ApiError + string" where
  "app_proof_key J body = ok_or Api_InvalidEnclaveAnswer (rd_app_proof J body)"

definition gateway_raw_json :: "readers \<Rightarrow> bytes \<Rightarrow> ApiError + bytes" where
  "gateway_raw_json J body = ok_or Api_InvalidEnclaveAnswer (rd_raw_value J body)"

definition state_boot_proof ::
    "'r outside \<Rightarrow> CallShare \<Rightarrow> string \<Rightarrow> 'r GatewayState \<Rightarrow> proof_answer \<times> 'r GatewayState" where
  "state_boot_proof out share key st =
     map_prod id (\<lambda>tk. st \<lparr> gs_turnkey := tk \<rparr>) (boot_proof (gs_turnkey st) (od_boot_proofs out) share key)"

text \<open>\<open>tokio::try_join!\<close> ends with the first error in time.\<close>

fun try_join :: "bool \<Rightarrow> 'e + 'a \<Rightarrow> 'e + 'b \<Rightarrow> 'e + 'a \<times> 'b" where
  "try_join second_first (Inl e) (Inl e') = Err (if second_first then e' else e)"
| "try_join second_first (Inl e) (Inr b) = Err e"
| "try_join second_first (Inr a) (Inl e') = Err e'"
| "try_join second_first (Inr a) (Inr b) = Ok (a, b)"

definition session_work ::
    "'x gateway_crates_scheme \<Rightarrow> readers \<Rightarrow> 'r outside \<Rightarrow> ProjectId \<Rightarrow> QosPingRequest \<Rightarrow> 'r GatewayState \<Rightarrow>
     'r handled" where
  "session_work C J out project ping st =
     (case try_join (od_ping_fails_first out) (enclave_info (gs_enclave st) (od_network out))
         (enclave_ping C (gs_enclave st) (od_network out) ping) of
        Inl e \<Rightarrow> (Err e, st)
      | Inr (info, ping) \<Rightarrow>
          if \<not> forwarded_is_success info then (Ok (forwarded_response info), st)
          else if \<not> forwarded_is_success ping then (Ok (forwarded_response ping), st)
          else
            (case app_proof_key J (fw_body ping) of
               Inl e \<Rightarrow> (Err e, st)
             | Inr key \<Rightarrow>
                 (case state_boot_proof out (ProjectShare project) key st of
                    (Inl e, st) \<Rightarrow> (Err e, st)
                  | (Inr proof_json, st) \<Rightarrow>
                      (and_then (gateway_raw_json J (fw_body info)) (\<lambda>info.
                       and_then (gateway_raw_json J (fw_body ping)) (\<lambda>ping.
                       and_then (gateway_raw_json J proof_json) (\<lambda>proof_json.
                       Ok (json_response (SessionBody info ping proof_json))))), st))))"

definition session ::
    "'x gateway_crates_scheme \<Rightarrow> readers \<Rightarrow> 'r outside \<Rightarrow> ProjectId \<Rightarrow> QosPingRequest \<Rightarrow> 'r GatewayState \<Rightarrow>
     'r handled" where
  "session C J out project ping st = with_permit project (session_work C J out project ping) st"

definition enroll_checked ::
    "'x gateway_crates_scheme \<Rightarrow> 'r outside \<Rightarrow> EnrollmentRequest \<Rightarrow> 'r GatewayState \<Rightarrow> ApiError + EnrollmentInput"
  where
  "enroll_checked C out request st =
     and_then (clock_ms (od_clock out)) (\<lambda>now.
     and_then (provisioner_check_current (gs_provisioner st) now) (\<lambda>_.
     and_then (enrollment_verify C (gs_enrollment st) request now) (\<lambda>input.
     and_then (check_client_key C (gs_wallet_grants st) (eni_client_public_key input)) (\<lambda>_. Ok input))))"

definition enroll_work ::
    "'x gateway_crates_scheme \<Rightarrow> 'r outside \<Rightarrow> ProjectId \<Rightarrow> EnrollmentInput \<Rightarrow> 'r GatewayState \<Rightarrow> 'r handled"
  where
  "enroll_work C out project input st =
     (let wallet = \<lparr> cw_organization_id = eni_organization_id input,
        cw_wallet_id = eni_turnkey_wallet_id input, cw_address = eni_solana_address input \<rparr> in
      case verify_ownership (gs_turnkey st) (od_turnkey out) (od_at out NameLookedUp) (od_at out NameStored)
          project wallet of
        (Inl e, tk) \<Rightarrow> (Err e, st \<lparr> gs_turnkey := tk \<rparr>)
      | (Inr _, tk) \<Rightarrow>
          (and_then (provisioner_sign C (gs_provisioner st) input) (\<lambda>descriptor.
           Ok (json_response (EnrolledBody descriptor))), st \<lparr> gs_turnkey := tk \<rparr>))"

definition enroll ::
    "'x gateway_crates_scheme \<Rightarrow> 'r outside \<Rightarrow> ProjectId \<Rightarrow> EnrollmentRequest \<Rightarrow> 'r GatewayState \<Rightarrow> 'r handled"
  where
  "enroll C out project request st =
     (case enroll_checked C out request st of
        Inl e \<Rightarrow> (Err e, st)
      | Inr input \<Rightarrow> with_permit project (enroll_work C out project input) st)"

text \<open>The client's answer to an enclave outcome.\<close>

definition answer ::
    "readers \<Rightarrow> 'r outside \<Rightarrow> Outcome \<Rightarrow> 'r GatewayState \<Rightarrow> gateway_response \<times> 'r GatewayState" where
  "answer J out outcome st =
     (case (case outcome of
          Inl e \<Rightarrow> (Err e, st)
        | Inr forwarded \<Rightarrow>
            if \<not> forwarded_is_success forwarded then (Ok (forwarded_response forwarded), st)
            else
              (case app_proof_key J (fw_body forwarded) of
                 Inl e \<Rightarrow> (Err e, st)
               | Inr key \<Rightarrow>
                   (case state_boot_proof out SharedShare key st of
                      (Inl e, st) \<Rightarrow> (Err e, st)
                    | (Inr proof_json, st) \<Rightarrow>
                        (and_then (gateway_raw_json J (fw_body forwarded)) (\<lambda>response.
                         and_then (gateway_raw_json J proof_json) (\<lambda>proof_json.
                         Ok (json_response (OperatedBody response proof_json)))), st)))) of
        (Inl e, st) \<Rightarrow> (api_error_response e, st)
      | (Inr response, st) \<Rightarrow> (response, st))"

text \<open>The grant of a new operation: the sub-organization is checked, then the clock is read again.\<close>

definition granted ::
    "'x gateway_crates_scheme \<Rightarrow> 'r outside \<Rightarrow> ProjectId \<Rightarrow> WalletDescriptor \<Rightarrow> 'r GatewayState \<Rightarrow>
     (ApiError + WalletGrant) \<times> 'r GatewayState" where
  "granted C out project descriptor st =
     (case verify_sub_org_project (gs_turnkey st) (od_turnkey out) (od_at out NameLookedUp)
         (od_at out NameStored) project (wd_turnkey_organization_id descriptor) of
        (Inl e, tk) \<Rightarrow> (Err e, st \<lparr> gs_turnkey := tk \<rparr>)
      | (Inr _, tk) \<Rightarrow>
          (and_then (clock_ms (od_clock_again out)) (\<lambda>now.
           issue_grant C (gs_wallet_grants st) project descriptor now), st \<lparr> gs_turnkey := tk \<rparr>))"

definition send_operation ::
    "'x gateway_crates_scheme \<Rightarrow> 'r outside \<Rightarrow> EncryptedRequest \<Rightarrow> 'r GatewayState \<Rightarrow> Outcome \<times> 'r GatewayState"
  where
  "send_operation C out request st =
     (enclave_operations C (gs_enclave st) (od_network out) request, st \<lparr> gs_sent := request # gs_sent st \<rparr>)"

definition gateway_run_operation ::
    "'x gateway_crates_scheme \<Rightarrow> readers \<Rightarrow> 'r outside \<Rightarrow> ProjectId \<Rightarrow> GatewayOperation \<Rightarrow> 'r GatewayState \<Rightarrow> 'r handled"
  where
  "gateway_run_operation C J out project operation st =
     (let request = op_request operation in
      case ledger_claim C (od_redis out) (gs_replay st) project (er_ciphertext request) (od_at out Claimed) of
        (Inl e, replay) \<Rightarrow> (Err e, st \<lparr> gs_replay := replay \<rparr>)
      | (Inr (AnsweredClaim outcome), replay) \<Rightarrow>
          (case answer J out outcome (st \<lparr> gs_replay := replay \<rparr>) of
             (response, st) \<Rightarrow> (Ok (response \<lparr> gr_idempotent_replayed := True \<rparr>), st))
      | (Inr (NewClaim key), replay) \<Rightarrow>
          (case granted C out project (op_descriptor operation) (st \<lparr> gs_replay := replay \<rparr>) of
             (Inl e, st) \<Rightarrow> (Err e, st \<lparr> gs_replay := ledger_release C (od_redis out) (gs_replay st) key \<rparr>)
           | (Inr grant, st) \<Rightarrow>
               (case send_operation C out (request \<lparr> er_wallet_grant := Some grant \<rparr>) st of
                  (outcome, st) \<Rightarrow>
                    map_prod Ok id (answer J out outcome
                      (st \<lparr> gs_replay := ledger_record C (od_redis out) (gs_replay st) key outcome \<rparr>)))))"

definition operation_checked ::
    "'x gateway_crates_scheme \<Rightarrow> 'r outside \<Rightarrow> WalletDescriptor \<Rightarrow> 'r GatewayState \<Rightarrow> ApiError + unit" where
  "operation_checked C out descriptor st =
     and_then (clock_ms (od_clock out)) (\<lambda>now.
     and_then (provisioner_verify C (gs_provisioner st) descriptor now) (\<lambda>_.
     case wd_allowed_clients descriptor of
       [client] \<Rightarrow> check_client_key C (gs_wallet_grants st) (cg_client_public_key client)
     | _ \<Rightarrow> Err Api_InvalidDescriptor))"

definition operations ::
    "'x gateway_crates_scheme \<Rightarrow> readers \<Rightarrow> 'r outside \<Rightarrow> ProjectId \<Rightarrow> GatewayOperation \<Rightarrow> 'r GatewayState \<Rightarrow> 'r handled"
  where
  "operations C J out project operation st =
     (case operation_checked C out (op_descriptor operation) st of
        Inl e \<Rightarrow> (Err e, st)
      | Inr _ \<Rightarrow> with_permit project (gateway_run_operation C J out project operation) st)"

section \<open>Routes\<close>

definition ROUTE_PREFIX :: string where
  "ROUTE_PREFIX = ''/v1/private-wallet''"

datatype endpoint = Health | SessionRoute | EnrollRoute | OperationsRoute | NoRoute

definition endpoint_at :: "string \<Rightarrow> endpoint" where
  "endpoint_at path =
     (if path = ''/health'' then Health
      else if path = ROUTE_PREFIX @ ''/session'' then SessionRoute
      else if path = ROUTE_PREFIX @ ''/enroll'' then EnrollRoute
      else if path = ROUTE_PREFIX @ ''/operations'' then OperationsRoute
      else NoRoute)"

definition route_name :: "string \<Rightarrow> string" where
  "route_name matched =
     (case strip_prefix ROUTE_PREFIX matched of
        Some rest \<Rightarrow>
          if rest = ''/session'' then ''session''
          else if rest = ''/enroll'' then ''enroll''
          else if rest = ''/operations'' then ''operations''
          else ''other''
      | None \<Rightarrow> ''other'')"

text \<open>
  A request as the router gets it: \<open>rq_received\<close> is its body, or the status of a body that could not be
  read or exceeds the limit. The two extractors of a handler run before it, the caller first.
\<close>

record gateway_request =
  rq_method :: string
  rq_path :: string
  rq_parts :: Parts
  rq_received :: "nat + bytes"

definition gateway_respond :: "'r handled \<Rightarrow> gateway_response \<times> 'r GatewayState" where
  "gateway_respond handled =
     (case fst handled of Inl e \<Rightarrow> api_error_response e | Inr response \<Rightarrow> response, snd handled)"

definition extracted ::
    "'x gateway_crates_scheme \<Rightarrow> 'r outside \<Rightarrow> (bytes \<Rightarrow> 'b option) \<Rightarrow> gateway_request \<Rightarrow>
     (ProjectId \<Rightarrow> 'b \<Rightarrow> 'r GatewayState \<Rightarrow> 'r handled) \<Rightarrow> 'r GatewayState \<Rightarrow> 'r handled" where
  "extracted C out parse request handler st =
     (case caller C (gs_origin_auth_header st) (od_dev_api out) (od_at out KeyLookedUp) (od_at out KeyStored)
         (gs_api_keys st) (rq_parts request) of
        (Inl e, keys) \<Rightarrow> (Err e, st \<lparr> gs_api_keys := keys \<rparr>)
      | (Inr project, keys) \<Rightarrow>
          (case api_json parse (rq_received request) of
             Inl e \<Rightarrow> (Err e, st \<lparr> gs_api_keys := keys \<rparr>)
           | Inr body \<Rightarrow> handler project body (st \<lparr> gs_api_keys := keys \<rparr>)))"

text \<open>axum refuses another method with 405 and no body, and sends \<open>HEAD\<close> the headers of \<open>GET\<close>.\<close>

definition not_allowed :: gateway_response where
  "not_allowed =
     \<lparr> gr_status = 405, gr_content_type = [], gr_retry_after = None, gr_idempotent_replayed = False,
       gr_body = EmptyBody \<rparr>"

definition router ::
    "'x gateway_crates_scheme \<Rightarrow> readers \<Rightarrow> 'r outside \<Rightarrow> gateway_request \<Rightarrow> 'r GatewayState \<Rightarrow>
     gateway_response \<times> 'r GatewayState" where
  "router C J out request st =
     (let post = (\<lambda>handle. if rq_method request = ''POST'' then gateway_respond (handle st) else (not_allowed, st)) in
      case endpoint_at (rq_path request) of
        Health \<Rightarrow>
          (if rq_method request = ''GET'' then json_response HealthBody
           else if rq_method request = ''HEAD'' then json_response EmptyBody
           else not_allowed, st)
      | SessionRoute \<Rightarrow> post (extracted C out (rd_ping J) request (session C J out))
      | EnrollRoute \<Rightarrow> post (extracted C out (rd_enrollment J) request (enroll C out))
      | OperationsRoute \<Rightarrow> post (extracted C out (rd_operation J) request (operations C J out))
      | NoRoute \<Rightarrow> (api_error_response Api_NotFound, st))"

section \<open>The layers around the routes\<close>

text \<open>
  \<open>track\<close> times each request under two labels, the route that matched and the status of the answer, and every
  answer leaves with one \<open>Cache-Control\<close> header. The time itself is the clock's.
\<close>

record served =
  sv_response :: gateway_response
  sv_cache_control :: string
  sv_timed :: "string \<times> (string \<times> string) list"

definition matched_path :: "string \<Rightarrow> string option" where
  "matched_path path = (if endpoint_at path = NoRoute then None else Some path)"

definition track :: "gateway_request \<Rightarrow> gateway_response \<Rightarrow> string \<times> (string \<times> string) list" where
  "track request response =
     (let route = (case matched_path (rq_path request) of None \<Rightarrow> ''unmatched'' | Some path \<Rightarrow> route_name path) in
      (''request.latency'', [(''route'', route), (''status'', decimal (gr_status response))]))"

definition gateway_serve ::
    "'x gateway_crates_scheme \<Rightarrow> readers \<Rightarrow> 'r outside \<Rightarrow> gateway_request \<Rightarrow> 'r GatewayState \<Rightarrow>
     served \<times> 'r GatewayState" where
  "gateway_serve C J out request st =
     (case router C J out request st of
        (response, st) \<Rightarrow>
          (\<lparr> sv_response = response, sv_cache_control = ''no-store'', sv_timed = track request response \<rparr>, st))"

text \<open>A metric has one of five routes, whatever paths are asked for.\<close>

lemma tracked_route:
  "track request response =
     (''request.latency'',
      [(''route'', case endpoint_at (rq_path request) of Health \<Rightarrow> ''other'' | SessionRoute \<Rightarrow> ''session''
          | EnrollRoute \<Rightarrow> ''enroll'' | OperationsRoute \<Rightarrow> ''operations'' | NoRoute \<Rightarrow> ''unmatched''),
       (''status'', decimal (gr_status response))])"
proof -
  consider "rq_path request = ''/health''" | "rq_path request = ROUTE_PREFIX @ ''/session''"
    | "rq_path request = ROUTE_PREFIX @ ''/enroll''" | "rq_path request = ROUTE_PREFIX @ ''/operations''"
    | "endpoint_at (rq_path request) = NoRoute"
    unfolding endpoint_at_def by metis
  then show ?thesis
    by cases (simp_all add: track_def matched_path_def endpoint_at_def route_name_def ROUTE_PREFIX_def)
qed

end
