(* ===== verification/Gateway_Handlers.thy ===== *)
theory Gateway_Handlers
  imports Gateway_App
begin

text \<open>
  Facts on the handlers of \<open>app.rs\<close>: how each of them ends, that its slots come back, over every route
  and every run of requests, what the enclave is sent and what the client is answered.
\<close>

section \<open>How the handlers end\<close>

definition only_turnkey :: "'r GatewayState \<Rightarrow> 'r GatewayState \<Rightarrow> bool" where
  "only_turnkey st st' \<longleftrightarrow>
     st' = st \<lparr> gs_turnkey := gs_turnkey st' \<rparr> \<and>
     (names_valid (tk_project_calls (gs_turnkey st)) \<longrightarrow> slots_kept (gs_turnkey st) (gs_turnkey st'))"

lemma only_turnkeyD:
  assumes "only_turnkey st st'"
  shows "gs_sent st' = gs_sent st" "gs_replay st' = gs_replay st" "gs_limiter st' = gs_limiter st"
    "gs_enclave st' = gs_enclave st" "gs_provisioner st' = gs_provisioner st"
    "gs_wallet_grants st' = gs_wallet_grants st"
  using arg_cong [OF conjunct1 [OF assms [unfolded only_turnkey_def]], of gs_sent]
    arg_cong [OF conjunct1 [OF assms [unfolded only_turnkey_def]], of gs_replay]
    arg_cong [OF conjunct1 [OF assms [unfolded only_turnkey_def]], of gs_limiter]
    arg_cong [OF conjunct1 [OF assms [unfolded only_turnkey_def]], of gs_enclave]
    arg_cong [OF conjunct1 [OF assms [unfolded only_turnkey_def]], of gs_provisioner]
    arg_cong [OF conjunct1 [OF assms [unfolded only_turnkey_def]], of gs_wallet_grants]
  by simp_all

lemma only_turnkey_refl [simp]: "only_turnkey st st"
  by (simp add: only_turnkey_def slots_kept_refl)

lemma only_turnkey_set:
  "only_turnkey st (st \<lparr> gs_turnkey := tk \<rparr>) \<longleftrightarrow>
     (names_valid (tk_project_calls (gs_turnkey st)) \<longrightarrow> slots_kept (gs_turnkey st) tk)"
  by (simp add: only_turnkey_def)

lemma boot_proof_slots:
  assumes "names_valid (tk_project_calls tk)" "boot_proof tk replies share k = (r, tk')"
  shows "slots_kept tk tk'"
proof (cases "is_lower_hex k EPHEMERAL_KEY_HEX_LEN \<and> cached_boot_proof (tk_boot_proof_cache tk) k = None")
  case True
  obtain c tk1 where call: "call_permit tk share = (c, tk1)" by fastforce
  have drop: "slots_kept tk (drop_call (tk1 \<lparr> tk_boot_proof_cache := b \<rparr>) own) = slots_kept tk (drop_call tk1 own)"
    for b own by (simp add: slots_kept_def drop_call_def Let_def split: option.splits)
  show ?thesis
    using assms(2) call_slots [OF assms(1) call] True drop
    by (auto simp: boot_proof_def call Let_def split: sum.splits)
next
  case False
  then have "tk' = tk" using assms(2) by (auto simp: boot_proof_def split: option.splits if_splits)
  then show ?thesis by (simp add: slots_kept_refl assms(1))
qed

lemma state_boot_proof_only: "state_boot_proof out share key st = (r, st') \<Longrightarrow> only_turnkey st st'"
  by (auto simp: state_boot_proof_def map_prod_def only_turnkey_set boot_proof_slots split: prod.splits)

lemma answer_only: "answer J out outcome st = (r, st') \<Longrightarrow> only_turnkey st st'"
  by (auto simp: answer_def dest: state_boot_proof_only split: prod.splits sum.splits if_splits)

lemma granted_only: "granted C out p d st = (r, st') \<Longrightarrow> only_turnkey st st'"
  by (auto simp: granted_def only_turnkey_set verify_sub_org_slots split: prod.splits sum.splits)

lemma with_permit_cases:
  assumes "with_permit project work st = (r, st')"
  obtains (refused) e l where "limiter_try_acquire (gs_limiter st) project = (Inl e, l)" "r = Err e"
      "st' = st \<lparr> gs_limiter := l \<rparr>"
    | (held) permit l st1 where "limiter_try_acquire (gs_limiter st) project = (Inr permit, l)"
      "work (st \<lparr> gs_limiter := l \<rparr>) = (r, st1)"
      "st' = st1 \<lparr> gs_limiter := drop_permit (gs_limiter st1) permit \<rparr>"
  using assms by (auto simp: with_permit_def split: prod.splits sum.splits)

section \<open>Slots\<close>

definition gs_ok :: "'r GatewayState \<Rightarrow> bool" where
  "gs_ok st \<longleftrightarrow> names_valid (gs_limiter st) \<and> names_valid (tk_project_calls (gs_turnkey st)) \<and>
     replay_ok (gs_replay st)"

definition gs_kept :: "'r GatewayState \<Rightarrow> 'r GatewayState \<Rightarrow> bool" where
  "gs_kept st st' \<longleftrightarrow> permits_kept (gs_limiter st) (gs_limiter st') \<and>
     slots_kept (gs_turnkey st) (gs_turnkey st') \<and> replay_ok (gs_replay st')"

lemma gs_kept_ok: "gs_kept st st' \<Longrightarrow> gs_ok st'"
  by (auto simp: gs_kept_def gs_ok_def dest: permits_kept_valid slots_kept_valid)

lemma gs_kept_refl: "gs_ok st \<Longrightarrow> gs_kept st st"
  by (simp add: gs_kept_def gs_ok_def permits_kept_refl slots_kept_refl)

lemma gs_kept_trans: "gs_kept a b \<Longrightarrow> gs_kept b c \<Longrightarrow> gs_kept a c"
  by (auto simp: gs_kept_def intro: permits_kept_trans slots_kept_trans)

lemma gs_kept_keys: "gs_kept st (st' \<lparr> gs_api_keys := k \<rparr>) = gs_kept st st'" "gs_ok (st \<lparr> gs_api_keys := k \<rparr>) = gs_ok st"
  "gs_kept (st \<lparr> gs_api_keys := k \<rparr>) st' = gs_kept st st'"
  by (simp_all add: gs_kept_def gs_ok_def)

text \<open>Work that leaves the limiter alone keeps its slots when it holds one itself.\<close>

lemma with_permit_kept:
  assumes "gs_ok st" "with_permit p work st = (r, st')"
    and "\<And>l r st1. names_valid l \<Longrightarrow> work (st \<lparr> gs_limiter := l \<rparr>) = (r, st1) \<Longrightarrow>
      gs_limiter st1 = l \<and> slots_kept (gs_turnkey st) (gs_turnkey st1) \<and> replay_ok (gs_replay st1)"
  shows "gs_kept st st'"
proof -
  have valid: "names_valid (gs_limiter st)" using assms(1) by (simp add: gs_ok_def)
  from assms(2) show ?thesis
  proof (cases rule: with_permit_cases)
    case (refused e l)
    then show ?thesis
      using acquire_permits [OF valid refused(1)] assms(1) by (simp add: gs_kept_def gs_ok_def slots_kept_refl)
  next
    case (held permit l st1)
    have kept: "permits_kept (gs_limiter st) (drop_permit l permit)"
      using acquire_permits [OF valid held(1)] by simp
    then have "names_valid l"
      using permits_kept_valid [OF kept] by (simp add: names_valid_def drop_permit_def)
    from assms(3) [OF this held(2)] kept show ?thesis by (simp add: held(3) gs_kept_def)
  qed
qed

lemma session_work_only: "session_work C J out p ping st = (r, st') \<Longrightarrow> only_turnkey st st'"
  by (auto simp: session_work_def dest: state_boot_proof_only split: sum.splits prod.splits if_splits)

lemma enroll_work_only: "enroll_work C out p input st = (r, st') \<Longrightarrow> only_turnkey st st'"
  by (auto simp: enroll_work_def only_turnkey_set verify_ownership_slots Let_def split: sum.splits prod.splits)

lemma ledger_ok_claim:
  "replay_ok l \<Longrightarrow> ledger_claim C R l p c now = (r, l') \<Longrightarrow> replay_ok l'"
  by (cases l) (auto simp: ledger_claim_def map_prod_id_eq dest: local_claim_ok)

lemma ledger_ok_release: "replay_ok l \<Longrightarrow> replay_ok (ledger_release C R l k)"
  by (cases l) (auto simp: local_release_maps)

lemma ledger_ok_record: "replay_ok l \<Longrightarrow> replay_ok (ledger_record C R l k o')"
  by (cases l) (auto simp: ledger_record_def local_record_ok local_release_maps)

lemma gateway_run_operation_cases:
  assumes "gateway_run_operation C J out p op st = (r, st')"
  obtains (refused) e l where "ledger_claim C (od_redis out) (gs_replay st) p (er_ciphertext (op_request op))
        (od_at out Claimed) = (Err e, l)"
      "r = Err e" "st' = st \<lparr> gs_replay := l \<rparr>"
    | (replayed) outcome l response where
      "ledger_claim C (od_redis out) (gs_replay st) p (er_ciphertext (op_request op))
        (od_at out Claimed) = (Ok (AnsweredClaim outcome), l)"
      "answer J out outcome (st \<lparr> gs_replay := l \<rparr>) = (response, st')"
      "r = Ok (response \<lparr> gr_idempotent_replayed := True \<rparr>)"
    | (ungranted) key l e st1 where
      "ledger_claim C (od_redis out) (gs_replay st) p (er_ciphertext (op_request op))
        (od_at out Claimed) = (Ok (NewClaim key), l)"
      "granted C out p (op_descriptor op) (st \<lparr> gs_replay := l \<rparr>) = (Err e, st1)"
      "r = Err e" "st' = st1 \<lparr> gs_replay := ledger_release C (od_redis out) (gs_replay st1) key \<rparr>"
    | (ran) key l grant st1 sent outcome response where
      "ledger_claim C (od_redis out) (gs_replay st) p (er_ciphertext (op_request op))
        (od_at out Claimed) = (Ok (NewClaim key), l)"
      "granted C out p (op_descriptor op) (st \<lparr> gs_replay := l \<rparr>) = (Ok grant, st1)"
      "sent = (op_request op) \<lparr> er_wallet_grant := Some grant \<rparr>"
      "outcome = enclave_operations C (gs_enclave st) (od_network out) sent"
      "answer J out outcome (st1 \<lparr> gs_sent := sent # gs_sent st,
        gs_replay := ledger_record C (od_redis out) (gs_replay st1) key outcome \<rparr>) = (response, st')"
      "r = Ok response"
proof -
  obtain c l where claim: "ledger_claim C (od_redis out) (gs_replay st) p (er_ciphertext (op_request op))
      (od_at out Claimed) = (c, l)" by fastforce
  show thesis
  proof (cases c)
    case (Inl e)
    then show thesis using assms claim refused by (simp add: gateway_run_operation_def Let_def)
  next
    case (Inr c1)
    show thesis
    proof (cases c1)
      case (AnsweredClaim outcome)
      then show thesis
        using assms claim Inr replayed by (auto simp: gateway_run_operation_def Let_def split: prod.splits)
    next
      case (NewClaim key)
      obtain g st1 where g: "granted C out p (op_descriptor op) (st \<lparr> gs_replay := l \<rparr>) = (g, st1)" by fastforce
      note same = only_turnkeyD [OF granted_only [OF g]]
      show thesis
      proof (cases g)
        case (Inl e)
        then show thesis using assms claim Inr NewClaim g ungranted by (simp add: gateway_run_operation_def Let_def)
      next
        case (Inr grant)
        then show thesis
          using assms claim \<open>c = Inr c1\<close> NewClaim g same ran
          by (auto simp: gateway_run_operation_def Let_def send_operation_def map_prod_def split: prod.splits)
      qed
    qed
  qed
qed

lemma gateway_run_operation_new:
  assumes "ledger_claim C (od_redis out) (gs_replay st) p (er_ciphertext (op_request op)) (od_at out Claimed) =
      (Ok (NewClaim key), l)"
    and "granted C out p (op_descriptor op) (st \<lparr> gs_replay := l \<rparr>) = (Ok grant, st1)"
    and "sent = (op_request op) \<lparr> er_wallet_grant := Some grant \<rparr>"
    and "enclave_operations C (gs_enclave st1) (od_network out) sent = outcome"
  shows "gateway_run_operation C J out p op st = map_prod Ok id (answer J out outcome
    (st1 \<lparr> gs_sent := sent # gs_sent st1, gs_replay := ledger_record C (od_redis out) (gs_replay st1) key outcome \<rparr>))"
  using assms by (simp add: gateway_run_operation_def Let_def send_operation_def)

text \<open>What a handler under a slot keeps.\<close>

definition work_kept :: "'r GatewayState \<Rightarrow> 'r GatewayState \<Rightarrow> bool" where
  "work_kept st st' \<longleftrightarrow>
     gs_limiter st' = gs_limiter st \<and> slots_kept (gs_turnkey st) (gs_turnkey st') \<and> replay_ok (gs_replay st')"

lemma only_turnkey_work:
  "gs_ok st \<Longrightarrow> only_turnkey st st' \<Longrightarrow> work_kept st st'"
  by (simp add: work_kept_def gs_ok_def only_turnkeyD) (simp add: only_turnkey_def)

lemma gateway_run_operation_kept:
  assumes "gs_ok st" "gateway_run_operation C J out p op st = (r, st')"
  shows "work_kept st st'"
proof -
  have ok: "names_valid (tk_project_calls (gs_turnkey st))" "replay_ok (gs_replay st)"
    using assms(1) by (simp_all add: gs_ok_def)
  from assms(2) show ?thesis
  proof (cases rule: gateway_run_operation_cases)
    case (refused e l)
    then show ?thesis using ok by (simp add: work_kept_def slots_kept_refl ledger_ok_claim [OF ok(2)])
  next
    case (replayed outcome l response)
    note a = answer_only [OF replayed(2)]
    from a ok show ?thesis
      by (simp add: work_kept_def only_turnkeyD [OF a] ledger_ok_claim [OF ok(2) replayed(1)]) (simp add: only_turnkey_def)
  next
    case (ungranted key l e st1)
    note g = granted_only [OF ungranted(2)]
    from g ok show ?thesis
      by (simp add: work_kept_def ungranted(4) only_turnkeyD [OF g] ledger_ok_release
          ledger_ok_claim [OF ok(2) ungranted(1)]) (simp add: only_turnkey_def)
  next
    case (ran key l grant st1 sent outcome response)
    note g = granted_only [OF ran(2)] and a = answer_only [OF ran(5)]
    have "slots_kept (gs_turnkey st) (gs_turnkey st1)" using g ok by (simp add: only_turnkey_def)
    moreover from this have "slots_kept (gs_turnkey st1) (gs_turnkey st')"
      using a slots_kept_valid by (auto simp: only_turnkey_def)
    ultimately show ?thesis
      by (simp add: work_kept_def only_turnkeyD [OF a] only_turnkeyD [OF g] ledger_ok_record
          ledger_ok_claim [OF ok(2) ran(1)] slots_kept_trans)
  qed
qed

lemma with_permit_work_kept:
  assumes "gs_ok st" "with_permit p work st = (r, st')"
    and "\<And>st r st1. gs_ok st \<Longrightarrow> work st = (r, st1) \<Longrightarrow> work_kept st st1"
  shows "gs_kept st st'"
proof (rule with_permit_kept [OF assms(1,2)])
  fix l r st1
  assume "names_valid l" and work: "work (st \<lparr> gs_limiter := l \<rparr>) = (r, st1)"
  then have "gs_ok (st \<lparr> gs_limiter := l \<rparr>)" using assms(1) by (simp add: gs_ok_def)
  from assms(3) [OF this work]
  show "gs_limiter st1 = l \<and> slots_kept (gs_turnkey st) (gs_turnkey st1) \<and> replay_ok (gs_replay st1)"
    by (simp add: work_kept_def)
qed

lemma session_kept: "gs_ok st \<Longrightarrow> session C J out p ping st = (r, st') \<Longrightarrow> gs_kept st st'"
  unfolding session_def by (erule (1) with_permit_work_kept) (blast intro: only_turnkey_work session_work_only)

lemma enroll_kept: "gs_ok st \<Longrightarrow> enroll C out p request st = (r, st') \<Longrightarrow> gs_kept st st'"
  by (auto simp: enroll_def gs_kept_refl split: sum.splits
      intro: with_permit_work_kept only_turnkey_work enroll_work_only)

lemma operations_kept: "gs_ok st \<Longrightarrow> operations C J out p op st = (r, st') \<Longrightarrow> gs_kept st st'"
  by (auto simp: operations_def gs_kept_refl split: sum.splits intro: with_permit_work_kept gateway_run_operation_kept)

lemma extracted_kept:
  assumes "gs_ok st" "extracted C out parse request handler st = (r, st')"
    and "\<And>p b st r st'. gs_ok st \<Longrightarrow> handler p b st = (r, st') \<Longrightarrow> gs_kept st st'"
  shows "gs_kept st st'"
proof -
  have keys: "gs_kept st (st \<lparr> gs_api_keys := k \<rparr>)" "gs_ok (st \<lparr> gs_api_keys := k \<rparr>)" for k
    using assms(1) gs_kept_refl by (simp_all add: gs_kept_keys)
  from assms(2) show ?thesis
    using keys assms(3) [OF keys(2)]
    by (auto simp: extracted_def gs_kept_keys split: prod.splits sum.splits)
qed

lemma router_kept:
  assumes "gs_ok st" "router C J out request st = (response, st')"
  shows "gs_kept st st'"
proof -
  have post: "gs_kept st st1" if "gateway_respond (extracted C out parse request handler st) = (response, st1)"
    and "\<And>p b st r st'. gs_ok st \<Longrightarrow> handler p b st = (r, st') \<Longrightarrow> gs_kept st st'" for parse handler st1
    using extracted_kept [OF assms(1) surjective_pairing that(2)] that(1) by (auto simp: gateway_respond_def)
  show ?thesis
    using assms(2) gs_kept_refl [OF assms(1)] post [OF _ session_kept] post [OF _ enroll_kept]
      post [OF _ operations_kept]
    by (auto simp: router_def Let_def split: endpoint.splits if_splits)
qed

text \<open>A run of requests, each with what it meets.\<close>

definition serve_all ::
    "'x gateway_crates_scheme \<Rightarrow> readers \<Rightarrow> ('r outside \<times> gateway_request) list \<Rightarrow> 'r GatewayState \<Rightarrow> 'r GatewayState"
  where
  "serve_all C J requests st = foldl (\<lambda>st (out, request). snd (router C J out request st)) st requests"

lemma serve_all_kept: "gs_ok st \<Longrightarrow> gs_kept st (serve_all C J requests st)"
proof (induction requests arbitrary: st)
  case Nil
  then show ?case by (simp add: serve_all_def gs_kept_refl)
next
  case (Cons a requests)
  obtain out request where a: "a = (out, request)" by fastforce
  have kept: "gs_kept st (snd (router C J out request st))"
    using router_kept [OF Cons.prems surjective_pairing] .
  with Cons.IH [OF gs_kept_ok [OF kept]] show ?case
    by (auto simp: serve_all_def a intro: gs_kept_trans)
qed

lemma gateway_start_ok:
  assumes "gateway_start C env config = Ok st"
  shows "gs_ok st \<and> gs_limiter st = limiter_new (unat (ec_max_in_flight_per_project (cfg_enclave config))) \<and>
    tk_calls (gs_turnkey st) = MAX_CONCURRENT_TURNKEY_CALLS \<and>
    tk_project_calls (gs_turnkey st) = limiter_new MAX_CONCURRENT_TURNKEY_CALLS_PER_PROJECT \<and>
    gs_sent st = [] \<and> tk_sub_org_projects (gs_turnkey st) = [] \<and> gs_enclave st = cfg_enclave config"
proof -
  obtain tk pv wg server where tk: "turnkey_new (se_pair_ok env) (cfg_turnkey config) = Ok tk"
    and st: "gs_limiter st = limiter_new (unat (ec_max_in_flight_per_project (cfg_enclave config)))"
      "gs_turnkey st = tk" "gs_sent st = []" "gs_enclave st = cfg_enclave config"
      "gs_replay st = ledger_connect (unat (ec_replay_window_secs (cfg_enclave config)))
        (ec_replay_max_entries (cfg_enclave config)) (se_now env) server"
    using assms unfolding gateway_start_def gateway_new_def and_then_Ok by force
  have "replay_ok (gs_replay st)"
    by (cases server) (simp_all add: st ledger_connect_def local_new_def generations_ok_def)
  moreover have "tk_calls tk = MAX_CONCURRENT_TURNKEY_CALLS" "tk_sub_org_projects tk = []"
    "tk_project_calls tk = limiter_new MAX_CONCURRENT_TURNKEY_CALLS_PER_PROJECT"
    using tk by (auto simp: turnkey_new_def result_simps)
  ultimately show ?thesis by (simp add: gs_ok_def st(1-4) names_valid_def limiter_new_def)
qed

lemma operations_cases:
  assumes "operations C J out p op st = (r, st')"
  obtains (refused) e where "r = Err e" "gs_sent st' = gs_sent st" "gs_replay st' = gs_replay st"
    | (worked) permit l st1 where "operation_checked C out (op_descriptor op) st = Ok ()"
      "limiter_try_acquire (gs_limiter st) p = (Inr permit, l)"
      "gateway_run_operation C J out p op (st \<lparr> gs_limiter := l \<rparr>) = (r, st1)"
      "st' = st1 \<lparr> gs_limiter := drop_permit (gs_limiter st1) permit \<rparr>"
proof (cases "operation_checked C out (op_descriptor op) st")
  case (Inl e)
  then show thesis using assms refused [of e] by (auto simp: operations_def)
next
  case (Inr u)
  then have "with_permit p (gateway_run_operation C J out p op) st = (r, st')"
    using assms by (simp add: operations_def)
  then show thesis by (cases rule: with_permit_cases) (use Inr worked refused in auto)
qed

section \<open>What the enclave is sent\<close>

definition authorized_send ::
    "'x gateway_crates_scheme \<Rightarrow> 'r outside \<Rightarrow> ProjectId \<Rightarrow> WalletDescriptor \<Rightarrow> 'r GatewayState \<Rightarrow> bytes \<Rightarrow>
     (string \<times> string \<times> instant) list \<Rightarrow> WalletGrant \<Rightarrow> bool" where
  "authorized_send C out p d st grant_public fetched grant \<longleftrightarrow>
     (\<exists>now issued client.
        clock_ms (od_clock out) = Ok now \<and> clock_ms (od_clock_again out) = Ok issued \<and>
        provisioner_verify C (gs_provisioner st) d now = Ok () \<and> wd_allowed_clients d = [client] \<and>
        client_key_id C (cg_client_public_key client) \<notin> set (wgs_revoked_client_key_ids (gs_wallet_grants st)) \<and>
        (tr_whoami (od_turnkey out) (wd_turnkey_organization_id d) = Ok p \<or>
         (\<exists>t. (wd_turnkey_organization_id d, p, t) \<in> set fetched \<and>
            od_at out NameLookedUp - t < tk_ownership_ttl (gs_turnkey st))) \<and>
        wg_project_id grant = p \<and>
        (\<forall>later. unat issued \<le> unat later + 60000 \<longrightarrow>
           unat later \<le> unat issued + unat (wgs_lifetime_ms (gs_wallet_grants st)) + 60000 \<longrightarrow>
           verify_wallet_grant C grant grant_public d
             (client_key_id C (cg_client_public_key client)) later = Ok ()))"

lemma authorized_send_cong [simp]:
  "authorized_send C out p d (st \<lparr> gs_limiter := l \<rparr>) = authorized_send C out p d st"
  "authorized_send C out p d (st \<lparr> gs_replay := rl \<rparr>) = authorized_send C out p d st"
  by (intro ext, simp add: authorized_send_def)+

lemma operation_checked_Ok:
  "operation_checked C out d st = Ok () \<longleftrightarrow>
     (\<exists>now client. clock_ms (od_clock out) = Ok now \<and> provisioner_verify C (gs_provisioner st) d now = Ok () \<and>
        wd_allowed_clients d = [client] \<and>
        client_key_id C (cg_client_public_key client) \<notin> set (wgs_revoked_client_key_ids (gs_wallet_grants st)))"
  by (auto simp: operation_checked_def result_simps check_client_key_def unrevoked_def
      split: list.splits if_splits)

lemma granted_Ok:
  assumes "granted C out p d st = (Ok grant, st')"
  shows "\<exists>issued tk. verify_sub_org_project (gs_turnkey st) (od_turnkey out) (od_at out NameLookedUp)
      (od_at out NameStored) p (wd_turnkey_organization_id d) = (Ok (), tk) \<and>
    clock_ms (od_clock_again out) = Ok issued \<and> issue_grant C (gs_wallet_grants st) p d issued = Ok grant"
  using assms by (auto simp: granted_def result_simps split: prod.splits sum.splits)

lemma operation_checked_cong [simp]:
  "operation_checked C out d (st \<lparr> gs_limiter := l \<rparr>) = operation_checked C out d st"
  "operation_checked C out d (st \<lparr> gs_replay := rl \<rparr>) = operation_checked C out d st"
  by (simp_all add: operation_checked_def cong: list.case_cong)

lemma sent_is_authorized:
  assumes "p256_laws C" "ecdsa_laws C" "key_pair C (wgs_secret (gs_wallet_grants st)) grant_public"
    and "unat (wgs_lifetime_ms (gs_wallet_grants st)) \<le> 3600000"
    and "tk_sub_org_projects (gs_turnkey st) = names_after fetched"
    and "operation_checked C out d st = Ok ()" "granted C out p d st = (Ok grant, st')"
  shows "authorized_send C out p d st grant_public fetched grant"
proof -
  obtain now client where check: "clock_ms (od_clock out) = Ok now"
    "provisioner_verify C (gs_provisioner st) d now = Ok ()" "wd_allowed_clients d = [client]"
    "client_key_id C (cg_client_public_key client) \<notin> set (wgs_revoked_client_key_ids (gs_wallet_grants st))"
    using assms(6) by (auto simp: operation_checked_Ok)
  obtain issued tk where grant: "verify_sub_org_project (gs_turnkey st) (od_turnkey out)
      (od_at out NameLookedUp) (od_at out NameStored) p (wd_turnkey_organization_id d) = (Ok (), tk)"
    "clock_ms (od_clock_again out) = Ok issued" "issue_grant C (gs_wallet_grants st) p d issued = Ok grant"
    using granted_Ok [OF assms(7)] by blast
  have "wg_project_id grant = p" using issue_grant_Ok [OF assms(1-3) grant(3)] by simp
  with check grant(2) verify_sub_org_Ok [OF assms(5) grant(1)]
    issued_grant_verifies [OF assms(1-4) grant(3) check(3)]
  show ?thesis unfolding authorized_send_def by blast
qed

section \<open>What the client is answered\<close>

lemma turnkey_failure_424: "api_error_status (turnkey_failure error Api_BootProofUnavailable) = 424"
  using turnkey_status_kind [of _ Api_BootProofUnavailable]
  by (cases error) (auto simp: turnkey_failure_def turnkey_status_def)

lemma boot_proof_status:
  assumes "boot_proof tk replies share k = (Err e, tk')"
  shows "api_error_status e \<in> {424, 429}"
proof -
  obtain c tk1 where call: "call_permit tk share = (c, tk1)" by fastforce
  have "api_error_status e' = 424" if "fetch_boot_proof reply = Err e'" for reply e'
    using that turnkey_failure_424 by (cases reply) auto
  then show ?thesis
    using assms call_permit_kept [OF call]
    by (auto simp: boot_proof_def call Let_def split: if_splits option.splits sum.splits)
qed

definition enclave_failure :: "Outcome \<Rightarrow> bool" where
  "enclave_failure outcome \<longleftrightarrow>
     outcome = Err Api_EnclaveUnavailable \<or> outcome = Err Api_UpstreamResponseTooLarge"

lemma answer_status:
  assumes "answer J out outcome st = (response, st')" "is_ok outcome \<or> enclave_failure outcome"
  shows "gr_status response \<in> {200, 424, 429} \<or>
    (\<exists>f. outcome = Ok f \<and> \<not> forwarded_is_success f \<and> response = forwarded_response f)"
proof (cases outcome)
  case (Inl e)
  then show ?thesis using assms by (auto simp: answer_def enclave_failure_def api_error_response_def)
next
  case (Inr f)
  have failed: "gr_status (api_error_response e) \<in> {424, 429}" if "boot_proof tk replies share k = (Err e, tk')"
    for tk replies share k e tk' using boot_proof_status [OF that] by (simp add: api_error_response_def)
  have "gr_status (api_error_response e) = 424"
    if "and_then (gateway_raw_json J a) (\<lambda>x. and_then (gateway_raw_json J b) (\<lambda>y. Ok (g x y))) = Err e" for a b g e
    using that by (auto simp: result_simps gateway_raw_json_def api_error_response_def)
  moreover have "gr_status r = 200"
    if "and_then (gateway_raw_json J a) (\<lambda>x. and_then (gateway_raw_json J b) (\<lambda>y. Ok (json_response (g x y)))) = Ok r" for a b g r
    using that by (auto simp: result_simps json_response_def)
  moreover have "gr_status (api_error_response e) = 424" if "app_proof_key J body = Err e" for body e
    using that by (auto simp: app_proof_key_def result_simps api_error_response_def)
  ultimately show ?thesis
    using assms(1) Inr
    by (auto simp: answer_def state_boot_proof_def map_prod_def dest: failed split: if_splits sum.splits prod.splits)
qed

lemma enclave_operations_failure:
  "is_ok (enclave_operations C config net request) \<or> enclave_failure (enclave_operations C config net request)"
  by (cases "enclave_operations C config net request")
    (auto simp: enclave_operations_def is_ok_iff enclave_failure_def dest: enclave_send_Err)

text \<open>A new operation that meets no obstacle: sent with its grant, kept in the ledger, answered with its evidence.\<close>

lemma operation_succeeds:
  assumes "operation_checked C out (op_descriptor op) st = Ok ()"
    and "limiter_try_acquire (gs_limiter st) p = (Inr permit, lm)"
    and "ledger_claim C (od_redis out) (gs_replay st) p (er_ciphertext (op_request op)) (od_at out Claimed) =
      (Ok (NewClaim key), l)"
    and "granted C out p (op_descriptor op) (st \<lparr> gs_limiter := lm, gs_replay := l \<rparr>) = (Ok g, st1)"
    and "enclave_operations C (gs_enclave st) (od_network out) ((op_request op) \<lparr> er_wallet_grant := Some g \<rparr>) = Ok f"
    and "forwarded_is_success f" "app_proof_key J (fw_body f) = Ok k" "rd_raw_value J (fw_body f) = Some raw"
    and "boot_proof (gs_turnkey st1) (od_boot_proofs out) SharedShare k = (Ok proof_json, tk)"
    and "rd_raw_value J proof_json = Some evidence"
  shows "\<exists>st'. operations C J out p op st = (Ok (json_response (OperatedBody raw evidence)), st') \<and>
    gs_sent st' = (op_request op) \<lparr> er_wallet_grant := Some g \<rparr> # gs_sent st \<and>
    gs_replay st' = ledger_record C (od_redis out) l key (Ok f)"
proof -
  let ?st = "st \<lparr> gs_limiter := lm \<rparr>" and ?sent = "(op_request op) \<lparr> er_wallet_grant := Some g \<rparr>"
  note same = only_turnkeyD [OF granted_only [OF assms(4)]]
  let ?after = "st1 \<lparr> gs_sent := ?sent # gs_sent st1, gs_replay := ledger_record C (od_redis out) (gs_replay st1) key (Ok f) \<rparr>"
  have answer: "answer J out (Ok f) ?after = (json_response (OperatedBody raw evidence), ?after \<lparr> gs_turnkey := tk \<rparr>)"
    using assms(6-10) by (simp add: answer_def state_boot_proof_def gateway_raw_json_def)
  have "gateway_run_operation C J out p op ?st = map_prod Ok id (answer J out (Ok f) ?after)"
    by (rule gateway_run_operation_new [where l = l]) (use assms(3-5) same in simp_all)
  then have "gateway_run_operation C J out p op ?st =
      (Ok (json_response (OperatedBody raw evidence)), ?after \<lparr> gs_turnkey := tk \<rparr>)"
    unfolding answer by simp
  then show ?thesis
    using assms(1,2) same by (simp add: operations_def with_permit_def)
qed


text \<open>Turnkey was asked, and then the clock fails: a 503.\<close>

lemma clock_failure_after_turnkey:
  assumes "verify_sub_org_project (gs_turnkey st) (od_turnkey out) (od_at out NameLookedUp)
      (od_at out NameStored) p (wd_turnkey_organization_id d) = (Ok (), tk)" "od_clock_again out = None"
  shows "granted C out p d st = (Err Api_ClockUnavailable, st \<lparr> gs_turnkey := tk \<rparr>) \<and>
    api_error_status Api_ClockUnavailable = 503"
  using assms by (simp add: granted_def clock_ms_def clock_reading_def)

end
