(* ===== verification/Gateway_Answers.thy ===== *)
theory Gateway_Answers
  imports Gateway_Handlers
begin

text \<open>
  The shape of every answer of the gateway, as \<open>openapi.rs\<close> and the attributes of the handlers in \<open>app.rs\<close>
  publish it: each endpoint's own body with 200, or a problem whose fields are all of one error; and, which
  the document does not say, what the enclave itself refused, passed on as it came. Only the operations
  endpoint says that an answer is a replay.
\<close>

section \<open>The published shapes\<close>

fun endpoint_body :: "endpoint \<Rightarrow> gateway_body \<Rightarrow> bool" where
  "endpoint_body Health HealthBody = True"
| "endpoint_body Health EmptyBody = True"
| "endpoint_body SessionRoute (SessionBody _ _ _) = True"
| "endpoint_body EnrollRoute (EnrolledBody _) = True"
| "endpoint_body OperationsRoute (OperatedBody _ _) = True"
| "endpoint_body _ _ = False"

definition fits_success :: "endpoint \<Rightarrow> gateway_response \<Rightarrow> bool" where
  "fits_success ep r \<longleftrightarrow> gr_status r = 200 \<and> gr_content_type r = as_bytes ''application/json'' \<and>
     gr_retry_after r = None \<and> endpoint_body ep (gr_body r)"

definition fits_problem :: "gateway_response \<Rightarrow> bool" where
  "fits_problem r \<longleftrightarrow>
     list_ex (\<lambda>e. gr_body r = ProblemBody (problem_of e) \<and> gr_status r = api_error_status e \<and>
       gr_content_type r = as_bytes ''application/problem+json'' \<and> gr_retry_after r = retry_after e) api_errors"

fun fits_passed_on :: "gateway_body \<Rightarrow> bool" where
  "fits_passed_on (ForwardedBody _) = True"
| "fits_passed_on _ = False"

definition answer_fits :: "endpoint \<Rightarrow> gateway_response \<Rightarrow> bool" where
  "answer_fits ep r \<longleftrightarrow>
     (fits_success ep r \<or> fits_problem r \<or>
      fits_passed_on (gr_body r) \<and> \<not> is_success (gr_status r) \<and> (ep = SessionRoute \<or> ep = OperationsRoute)) \<and>
     (ep = OperationsRoute \<or> \<not> gr_idempotent_replayed r)"

section \<open>Facts\<close>

lemma json_fits: "endpoint_body ep body \<Longrightarrow> answer_fits ep (json_response body)"
  by (simp add: answer_fits_def fits_success_def json_response_def)

lemma problem_fits: "answer_fits ep (api_error_response e)"
  using api_errors_complete [of e]
  by (auto simp: answer_fits_def fits_problem_def api_error_response_def list_ex_iff)

lemma passed_on_fits:
  "\<not> forwarded_is_success f \<Longrightarrow> ep = SessionRoute \<or> ep = OperationsRoute \<Longrightarrow>
     answer_fits ep (forwarded_response f)"
  by (auto simp: answer_fits_def forwarded_response_def forwarded_is_success_def)

lemma replayed_fits:
  "answer_fits OperationsRoute r \<Longrightarrow> answer_fits OperationsRoute (r \<lparr> gr_idempotent_replayed := True \<rparr>)"
  by (auto simp: answer_fits_def fits_success_def fits_problem_def list_ex_iff)

definition handled_fits :: "endpoint \<Rightarrow> 'r handled \<Rightarrow> bool" where
  "handled_fits ep h \<longleftrightarrow> (case fst h of Inl e \<Rightarrow> True | Inr r \<Rightarrow> answer_fits ep r)"

lemma handled_fits_simps [simp]:
  "handled_fits ep (Inl e, st)" "handled_fits ep (Inr r, st) \<longleftrightarrow> answer_fits ep r"
  by (simp_all add: handled_fits_def)

lemma respond_fits: "handled_fits ep h \<Longrightarrow> answer_fits ep (fst (gateway_respond h))"
  by (cases h) (auto simp: gateway_respond_def handled_fits_def problem_fits split: sum.splits)

lemma with_permit_fits:
  "(\<And>st. handled_fits ep (work st)) \<Longrightarrow> handled_fits ep (with_permit project work st)"
  by (auto simp: with_permit_def handled_fits_def split: prod.splits sum.splits) (metis fst_conv sum.case(2))

lemma extracted_fits:
  "(\<And>p b st. handled_fits ep (handler p b st)) \<Longrightarrow>
     handled_fits ep (extracted C out parse request handler st)"
  by (simp add: extracted_def split: prod.splits sum.splits)

lemma session_fits: "handled_fits SessionRoute (session C J out project ping st)"
  unfolding session_def
  by (rule with_permit_fits)
    (auto simp: session_work_def result_simps handled_fits_def intro: json_fits passed_on_fits
      split: sum.splits prod.splits)

lemma enroll_work_fits: "handled_fits EnrollRoute (enroll_work C out project input st)"
  by (auto simp: enroll_work_def Let_def result_simps handled_fits_def intro: json_fits
      split: sum.splits prod.splits)

lemma enroll_fits: "handled_fits EnrollRoute (enroll C out project request st)"
  using with_permit_fits [OF enroll_work_fits] by (auto simp: enroll_def split: sum.splits)

text \<open>What \<open>answer\<close> gives: an error, what the enclave refused, or its answer with a Boot Proof.\<close>

lemma answer_forms:
  assumes "answer J out outcome st = (r, st')"
  shows "(\<exists>e. r = api_error_response e) \<or>
    (\<exists>f. \<not> forwarded_is_success f \<and> r = forwarded_response f) \<or>
    (\<exists>response proof_json. r = json_response (OperatedBody response proof_json))"
  using assms
  by (auto simp: answer_def result_simps split: sum.splits prod.splits if_splits)

lemma answer_operates:
  assumes "answer J out outcome st = (r, st')"
  shows "answer_fits OperationsRoute r"
    "answer_fits OperationsRoute (r \<lparr> gr_idempotent_replayed := True \<rparr>)"
proof -
  show "answer_fits OperationsRoute r"
    using answer_forms [OF assms] by (auto intro: problem_fits passed_on_fits json_fits)
  then show "answer_fits OperationsRoute (r \<lparr> gr_idempotent_replayed := True \<rparr>)" by (rule replayed_fits)
qed

lemma operation_run_fits: "handled_fits OperationsRoute (gateway_run_operation C J out project op st)"
proof (cases "gateway_run_operation C J out project op st")
  case (Pair r st')
  then show ?thesis
    by (cases rule: gateway_run_operation_cases) (use Pair in \<open>auto dest: answer_operates\<close>)
qed

lemma operations_fits: "handled_fits OperationsRoute (operations C J out project op st)"
  using with_permit_fits [OF operation_run_fits] by (auto simp: operations_def split: sum.splits)

lemma routes_fit:
  "handled_fits SessionRoute (extracted C out parse request (session C J out) st)"
  "handled_fits EnrollRoute (extracted C out parse' request (enroll C out) st)"
  "handled_fits OperationsRoute (extracted C out parse'' request (operations C J out) st)"
  by (rule extracted_fits, rule session_fits enroll_fits operations_fits)+

text \<open>Every answer has a published shape, or is the empty 405 of a method that the endpoint does not take.\<close>

lemma every_answer_fits_its_endpoint:
  "answer_fits (endpoint_at (rq_path request)) (fst (router C J out request st)) \<or>
     fst (router C J out request st) = not_allowed"
  by (cases "endpoint_at (rq_path request)")
    (auto simp: router_def intro: respond_fits routes_fit json_fits problem_fits)

lemma posted_answer_fits:
  assumes "rq_method request = ''POST''" "endpoint_at (rq_path request) \<noteq> Health"
  shows "answer_fits (endpoint_at (rq_path request)) (fst (router C J out request st))"
  using assms by (cases "endpoint_at (rq_path request)")
    (auto simp: router_def intro: respond_fits routes_fit problem_fits)

end
