(* ===== verification/Gateway_Demo.thy ===== *)
theory Gateway_Demo
  imports Gateway_Handlers
begin

text \<open>
  A gateway that starts, in front of the enclave of \<open>demo_state\<close>, with the toy packages: the concrete
  inputs at which the properties of requests are applied.
\<close>

definition demo_config :: Config where
  "demo_config =
     \<lparr> cfg_network = Devnet, cfg_stage = Dev, cfg_listen = ''0.0.0.0:8080'',
       cfg_metrics = \<lparr> mc_statsd_endpoint = ''127.0.0.1:8125'', mc_prefix = ''tvc'' \<rparr>,
       cfg_origin_auth_header = replicate 32 (CHR ''s''),
       cfg_dev_api = \<lparr> dac_base_url = ''http://dev-api'', dac_project_cache_secs = 60 \<rparr>,
       cfg_enclave = \<lparr> ec_base_url = ''http://enclave'', ec_request_timeout_ms = 30000, ec_max_body_bytes = 4096,
         ec_max_in_flight_per_project = 4, ec_replay_window_secs = 360, ec_replay_max_entries = 1000,
         ec_replay_redis_url = None \<rparr>,
       cfg_turnkey = \<lparr> tkc_api_base_url = ''http://turnkey'',
         tkc_tvc_organization_id = ''1f0e6b1e-2a4c-4f7e-8d2b-3c4d5e6f7a8b'',
         tkc_boot_proof_api_key = \<lparr> tak_public_key = replicate 66 (CHR ''2''), tak_private_key = replicate 64 (CHR ''8'') \<rparr>,
         tkc_waas_api_key = \<lparr> tak_public_key = replicate 66 (CHR ''2''), tak_private_key = replicate 64 (CHR ''8'') \<rparr>,
         tkc_ownership_cache_secs = 600 \<rparr>,
       cfg_provisioning = demo_provisioning, cfg_wallet_grant = demo_grant_config,
       cfg_enrollment = \<lparr> enc_domains = [''devnet.helius-rpc.com''] \<rparr> \<rparr>"

definition demo_start_env :: "ReleaseFile option option \<Rightarrow> (string \<times> string) list start_env" where
  "demo_start_env release =
     \<lparr> se_pair_ok = (\<lambda>_ _. True), se_clock = Some 50, se_release = release, se_redis = (\<lambda>_. None), se_now = 0 \<rparr>"

definition demo_gateway_state :: "(string \<times> string) list GatewayState" where
  "demo_gateway_state =
     \<lparr> gs_origin_auth_header = replicate 32 (CHR ''s''), gs_api_keys = api_keys_new 60,
       gs_enclave = cfg_enclave demo_config,
       gs_turnkey = \<lparr> tk_tvc_organization_id = ''1f0e6b1e-2a4c-4f7e-8d2b-3c4d5e6f7a8b'',
         tk_ownership_ttl = from_secs 600, tk_boot_proof_cache = [], tk_sub_org_projects = [],
         tk_calls = 32, tk_project_calls = limiter_new 8 \<rparr>,
       gs_provisioner = demo_provisioner, gs_enrollment = demo_enrollment, gs_wallet_grants = demo_grants,
       gs_limiter = limiter_new 4, gs_replay = Local (local_new (from_secs 360) 1000 0), gs_sent = [] \<rparr>"

lemma list_all_replicate: "list_all P (replicate n x) \<longleftrightarrow> n = 0 \<or> P x"
  by (induction n) auto

lemma demo_config_valid: "config_validate demo_config = Ok ()"
proof -
  have "domain_ok ''devnet.helius-rpc.com''"
    by (simp add: domain_ok_def white_space_def string_of_bytes_def char_of_def bit_0 starts_with_def)
  then show ?thesis
    unfolding config_validate_Ok
    by (simp add: demo_config_def MIN_SECRET_LEN_def demo_uuid_texts starts_with_def ends_with_def
        demo_provisioning_def)
qed

lemma demo_starts: "\<exists>f. gateway_start demo_gateway (demo_start_env f) demo_config = Ok demo_gateway_state"
proof -
  obtain f where pv: "provisioner_new demo_gateway demo_provisioning Devnet (Some 50) f = Ok demo_provisioner"
    using demo_provisioner_starts by blast
  have tk: "turnkey_new (\<lambda>_ _. True) (cfg_turnkey demo_config) = Ok (gs_turnkey demo_gateway_state)"
    by (simp add: turnkey_new_def turnkey_client_def demo_config_def demo_gateway_state_def ensure_def
        is_lower_or_upper_hex_def list_all_replicate is_ascii_hexdigit_def is_ascii_digit_def ascii_def
        TURNKEY_PRIVATE_KEY_HEX_LEN_def TURNKEY_PUBLIC_KEY_HEX_LEN_def
        MAX_CONCURRENT_TURNKEY_CALLS_def MAX_CONCURRENT_TURNKEY_CALLS_PER_PROJECT_def)
  have "gateway_new demo_gateway (demo_start_env f) demo_config = Ok demo_gateway_state"
    using tk pv demo_grants_start
    by (simp add: gateway_new_def demo_start_env_def demo_config_def demo_gateway_state_def
        ledger_connect_def demo_enrollment_def)
  then show ?thesis by (intro exI [of _ f]) (simp add: gateway_start_def demo_config_valid)
qed

text \<open>The enclave answers, Turnkey names the sub-organization after the project and knows its wallet.\<close>

definition demo_outside :: "(string \<times> string) list outside" where
  "demo_outside =
     \<lparr> od_clock = Some 1800000001000, od_clock_again = Some 1800000002000, od_at = (\<lambda>_. 5),
       od_network = (\<lambda>_ _. Responded 200 None None [Some [1]]),
       od_turnkey = \<lparr> tr_whoami = (\<lambda>_. Ok ''project-a''),
         tr_accounts = (\<lambda>_ w. Ok [(w, demo_hex_encode demo_owner)]) \<rparr>,
       od_boot_proofs = (\<lambda>_ _. BootProofBody [2]), od_dev_api = NoReply, od_redis = demo_redis,
       od_ping_fails_first = False \<rparr>"

definition demo_readers :: readers where
  "demo_readers =
     \<lparr> rd_ping = (\<lambda>_. None), rd_enrollment = (\<lambda>_. None), rd_operation = (\<lambda>_. None),
       rd_app_proof = (\<lambda>_. Some demo_ephemeral_key), rd_raw_value = Some \<rparr>"

definition demo_operation :: "WalletDescriptor \<Rightarrow> GatewayOperation" where
  "demo_operation d =
     \<lparr> op_descriptor = d,
       op_request = \<lparr> er_version = 1, er_quorum_key_id = ''q'', er_quorum_key_epoch = 1, er_ciphertext = [9],
         er_wallet_grant = None \<rparr> \<rparr>"

lemma demo_checked:
  assumes "provisioner_sign demo_gateway demo_provisioner demo_enrollment_input = Ok d"
  shows "operation_checked demo_gateway demo_outside d demo_gateway_state = Ok ()"
proof -
  have "key_pair demo_gateway (pv_secret demo_provisioner) (pv_public_key demo_provisioner)"
    using load_signing_key_pair [OF demo_load_key] by (simp add: demo_provisioner_def)
  from provisioner_sign_Ok [OF demo_gateway_laws(3,4) this assms] obtain h where
    d: "enrolled_descriptor demo_provisioner demo_enrollment_input d"
      "descriptor_digest demo_gateway d = Ok h"
      "verify_p256_prehash demo_gateway (pv_public_key demo_provisioner) h (wd_provisioning_signature d) = Ok ()"
    by blast
  have "descriptor_current d 1800000001000"
    using d(1) by (simp add: descriptor_current_def enrolled_descriptor_def unat_saturating_add
        demo_enrollment_input_def demo_provisioner_def)
  then have "provisioner_verify demo_gateway demo_provisioner d 1800000001000 = Ok ()"
    using d by (simp add: provisioner_verify_Ok enrolled_descriptor_def)
  then show ?thesis
    using d(1) by (auto simp: operation_checked_Ok demo_outside_def demo_gateway_state_def clock_ms_def
        clock_reading_def u64_try_from_def enrolled_descriptor_def demo_grants_def)
qed

lemma demo_grant:
  assumes "provisioner_sign demo_gateway demo_provisioner demo_enrollment_input = Ok d"
  shows "\<exists>g. issue_grant demo_gateway demo_grants ''project-a'' d 1800000002000 = Ok g"
proof -
  have clients: "wd_allowed_clients d = [\<lparr> cg_client_public_key = 4 # replicate 64 1, cg_allowed_operations = OPERATIONS \<rparr>]"
    using assms by (auto simp: provisioner_sign_def result_simps Let_def demo_provisioner_def
        demo_enrollment_input_def demo_served_policy_def)
  obtain s where "sign_p256_prehash demo_gateway (replicate 32 1) h = Ok (s h)" for h
    using demo_sign_exists by metis
  then show ?thesis
    by (simp add: issue_grant_def clients unrevoked_def demo_grants_def descriptor_digest_exists
        sign_wallet_grant_def wallet_grant_digest_exists Let_def)
qed

lemma demo_boot_proof:
  assumes "tk_calls tk \<noteq> 0" "tk_boot_proof_cache tk = []"
  shows "boot_proof tk (\<lambda>_ _. BootProofBody [2]) SharedShare demo_ephemeral_key =
    (Ok [2], tk \<lparr> tk_boot_proof_cache := [(demo_ephemeral_key, [2])] \<rparr>)"
  using assms demo_ephemeral_key_hex
  by (simp add: boot_proof_def cached_boot_proof_def call_permit_def drop_call_def cache_boot_proof_def
      capped_insert_def BOOT_PROOF_CACHE_CAPACITY_def Let_def)

text \<open>An operation the enclave is sent, and what it leaves behind.\<close>

definition demo_answer :: gateway_response where
  "demo_answer = json_response (OperatedBody [1] [2])"

lemma demo_operates:
  "\<exists>d grant st. provisioner_sign demo_gateway demo_provisioner demo_enrollment_input = Ok d \<and>
     operations demo_gateway demo_readers demo_outside ''project-a'' (demo_operation d) demo_gateway_state =
       (Ok demo_answer, st) \<and>
     gs_sent st = [(op_request (demo_operation d)) \<lparr> er_wallet_grant := Some grant \<rparr>] \<and>
     (\<exists>l. gs_replay st = Local l \<and> length (current_map (ll_state l)) = 1 \<and> ll_max_entries l = 1000)"
proof -
  obtain d where d: "provisioner_sign demo_gateway demo_provisioner demo_enrollment_input = Ok d"
    using demo_sign by blast
  obtain g where g: "issue_grant demo_gateway demo_grants ''project-a'' d 1800000002000 = Ok g"
    using demo_grant [OF d] by blast
  obtain permit lm where permit: "limiter_try_acquire (gs_limiter demo_gateway_state) ''project-a'' = (Inr permit, lm)"
    by (simp add: turnkey_defs demo_gateway_state_def)
  let ?st = "demo_gateway_state \<lparr> gs_limiter := lm \<rparr>"
  let ?k = "key_of demo_gateway ''project-a'' [9]"
  obtain l where claim: "local_claim (local_new (from_secs 360) 1000 0) ?k 5 = (Ok (NewClaim ?k), l)"
    and l: "current_map (ll_state l) = [(?k, Running)]" "gn_current (ll_state l) = 0" "ll_max_entries l = 1000"
      "gn_first (ll_state l) = [(?k, Running)]"
    by (simp add: local_claim_def local_new_def Let_def current_map_def generations_get_def
        with_current_map_def from_secs_def)
  obtain tk where tk: "verify_sub_org_project (gs_turnkey demo_gateway_state) (od_turnkey demo_outside) 5 5
      ''project-a'' (wd_turnkey_organization_id d) = (Ok (), tk)" "tk_calls tk = 32" "tk_boot_proof_cache tk = []"
    by (simp add: turnkey_defs demo_gateway_state_def demo_outside_def Let_def)
  have op: "op_descriptor (demo_operation d) = d" by (simp add: demo_operation_def)
  have checked: "operation_checked demo_gateway demo_outside (op_descriptor (demo_operation d)) demo_gateway_state = Ok ()"
    unfolding op by (rule demo_checked [OF d])
  have granted: "granted demo_gateway demo_outside ''project-a'' (op_descriptor (demo_operation d))
      (?st \<lparr> gs_replay := Local l \<rparr>) = (Ok g, ?st \<lparr> gs_replay := Local l, gs_turnkey := tk \<rparr>)"
    unfolding op using tk(1) g
    by (simp add: granted_def demo_outside_def demo_gateway_state_def clock_ms_def clock_reading_def
        u64_try_from_def)
  let ?sent = "(op_request (demo_operation d)) \<lparr> er_wallet_grant := Some g \<rparr>"
  let ?f = "\<lparr> fw_status = 200, fw_content_type = as_bytes ''application/json'', fw_body = [1] \<rparr>"
  have sent: "enclave_operations demo_gateway (gs_enclave demo_gateway_state) (od_network demo_outside) ?sent = Ok ?f"
    by (simp add: enclave_operations_def demo_outside_def demo_gateway_state_def demo_config_def
        is_server_error_def read_capped_def)
  have readers: "app_proof_key demo_readers b = Ok demo_ephemeral_key" "rd_raw_value demo_readers b = Some b" for b
    by (simp_all add: demo_readers_def app_proof_key_def)
  have success: "forwarded_is_success ?f" by (simp add: forwarded_is_success_def is_success_def)
  have located: "boot_proof (gs_turnkey (?st \<lparr> gs_replay := Local l, gs_turnkey := tk \<rparr>)) (od_boot_proofs demo_outside)
      SharedShare demo_ephemeral_key = (Ok [2], tk \<lparr> tk_boot_proof_cache := [(demo_ephemeral_key, [2])] \<rparr>)"
    using demo_boot_proof [of tk] tk by (simp add: demo_outside_def)
  have claimed: "ledger_claim demo_gateway (od_redis demo_outside) (gs_replay demo_gateway_state) ''project-a''
      (er_ciphertext (op_request (demo_operation d))) (od_at demo_outside Claimed) = (Ok (NewClaim ?k), Local l)"
    by (simp add: ledger_claim_def demo_gateway_state_def demo_operation_def demo_outside_def claim)
  have raw: "rd_raw_value demo_readers (fw_body ?f) = Some [1]" by (simp add: readers)
  obtain st where st: "operations demo_gateway demo_readers demo_outside ''project-a'' (demo_operation d) demo_gateway_state =
      (Ok (json_response (OperatedBody [1] [2])), st)" "gs_sent st = ?sent # gs_sent demo_gateway_state"
    "gs_replay st = ledger_record demo_gateway (od_redis demo_outside) (Local l) ?k (Ok ?f)"
    using operation_succeeds [OF checked permit claimed granted sent success
        readers(1) raw located readers(2)] by blast
  let ?l2 = "local_record l ?k (Ok ?f)"
  have "gs_replay st = Local ?l2"
    using st(3) by (simp add: ledger_record_def not_kept_def MAX_KEPT_ANSWER_BYTES_def)
  moreover have "length (current_map (ll_state ?l2)) = 1" "ll_max_entries ?l2 = 1000"
    using l by (simp_all add: local_record_def generations_assign_def current_map_def)
  moreover have "gs_sent demo_gateway_state = []" by (simp add: demo_gateway_state_def)
  ultimately show ?thesis using d st(1,2) unfolding demo_answer_def by auto
qed

text \<open>An enrollment that is answered with a descriptor.\<close>

lemma demo_enrolls:
  "\<exists>d st. enroll demo_gateway demo_outside ''project-a'' demo_enrollment_request demo_gateway_state =
     (Ok (json_response (EnrolledBody d)), st)"
proof -
  obtain d where d: "provisioner_sign demo_gateway demo_provisioner demo_enrollment_input = Ok d"
    using demo_sign by blast
  obtain permit lm where permit: "limiter_try_acquire (gs_limiter demo_gateway_state) ''project-a'' = (Inr permit, lm)"
    by (simp add: turnkey_defs demo_gateway_state_def)
  have "enrollment_verify demo_gateway demo_enrollment demo_enrollment_request 1800000001000 = Ok demo_enrollment_input"
    unfolding enrollment_verify_Ok using demo_valid_enrollment demo_owner_signed
    by (simp add: enrollment_fresh_def demo_enrollment_request_def demo_unsigned_enrollment_def)
  then have "enroll_checked demo_gateway demo_outside demo_enrollment_request demo_gateway_state = Ok demo_enrollment_input"
    by (simp add: enroll_checked_def demo_outside_def demo_gateway_state_def clock_ms_def clock_reading_def
        u64_try_from_def provisioner_check_current_def demo_provisioner_def demo_served_policy_def
        demo_policy_def check_client_key_def unrevoked_def demo_grants_def)
  moreover obtain tk where owned: "verify_ownership (gs_turnkey demo_gateway_state) (od_turnkey demo_outside) 5 5 ''project-a''
      \<lparr> cw_organization_id = eni_organization_id demo_enrollment_input,
        cw_wallet_id = eni_turnkey_wallet_id demo_enrollment_input,
        cw_address = eni_solana_address demo_enrollment_input \<rparr> = (Ok (), tk)"
    by (simp add: turnkey_defs demo_gateway_state_def demo_outside_def demo_enrollment_input_def Let_def
        del: demo_hex_encode.simps)
  moreover have "od_at demo_outside m = 5" "gs_provisioner demo_gateway_state = demo_provisioner" for m
    by (simp_all add: demo_outside_def demo_gateway_state_def)
  then have "enroll_work demo_gateway demo_outside ''project-a'' demo_enrollment_input
      (demo_gateway_state \<lparr> gs_limiter := lm \<rparr>) =
      (Ok (json_response (EnrolledBody d)), demo_gateway_state \<lparr> gs_limiter := lm, gs_turnkey := tk \<rparr>)"
    using owned d by (simp add: enroll_work_def Let_def)
  ultimately show ?thesis using permit by (simp add: enroll_def with_permit_def) blast
qed

end
