(* ===== verification/Gateway_Document.thy ===== *)
theory Gateway_Document
  imports Gateway_Answers Gateway_Demo
begin

text \<open>
  \<open>openapi.rs\<close>: the document of the public API, with the attributes of the handlers of \<open>app.rs\<close> that it is
  made of. What \<open>utoipa\<close> derives for the types is an argument, the schemas by their names; titles,
  statuses, content types and the names of bodies are kept, the sentences that describe them are not. The
  property compares the document with what the router answers.
\<close>

section \<open>A document\<close>

text \<open>A \<open>BTreeMap\<close> is an association list. An object schema has its properties and the values it admits.\<close>

datatype schema =
    RefTo string
  | ObjectSchema (schema_properties: "(string \<times> schema) list") (enum_values: "string list option")
  | OtherSchema

datatype SecurityScheme = ApiKeyInQuery string

record Components =
  cm_schemas :: "(string \<times> schema) list"
  cm_security_schemes :: "(string \<times> SecurityScheme) list"

record documented_response =
  dr_status :: string
  dr_content_type :: string
  dr_body :: string
  dr_headers :: "string list"

record documented_path =
  dp_path :: string
  dp_request_body :: string
  dp_responses :: "documented_response list"

record OpenApi =
  oa_title :: string
  oa_version :: string
  oa_servers :: "string list"
  oa_paths :: "documented_path list"
  oa_components :: "Components option"
  oa_security :: "string list"

section \<open>The attributes of the handlers\<close>

definition refused_response :: documented_response where
  "refused_response =
     \<lparr> dr_status = ''4XX'', dr_content_type = ''application/problem+json'', dr_body = ''Problem'', dr_headers = [] \<rparr>"

definition session_document :: documented_path where
  "session_document =
     \<lparr> dp_path = ''/v1/private-wallet/session'', dp_request_body = ''PingRequest'',
       dp_responses =
         [\<lparr> dr_status = ''200'', dr_content_type = ''application/json'', dr_body = ''Session'', dr_headers = [] \<rparr>,
          refused_response] \<rparr>"

definition enroll_document :: documented_path where
  "enroll_document =
     \<lparr> dp_path = ''/v1/private-wallet/enroll'', dp_request_body = ''EnrollmentRequest'',
       dp_responses =
         [\<lparr> dr_status = ''200'', dr_content_type = ''application/json'', dr_body = ''Enrolled'', dr_headers = [] \<rparr>,
          refused_response] \<rparr>"

definition operations_document :: documented_path where
  "operations_document =
     \<lparr> dp_path = ''/v1/private-wallet/operations'', dp_request_body = ''Operation'',
       dp_responses =
         [\<lparr> dr_status = ''200'', dr_content_type = ''application/json'', dr_body = ''Operated'',
            dr_headers = [''Idempotent-Replayed''] \<rparr>,
          refused_response] \<rparr>"

section \<open>The modifiers\<close>

definition helius_api_key_modify :: "OpenApi \<Rightarrow> OpenApi" where
  "helius_api_key_modify doc =
     (let components = (case oa_components doc of Some c \<Rightarrow> c | None \<Rightarrow> \<lparr> cm_schemas = [], cm_security_schemes = [] \<rparr>)
      in doc \<lparr> oa_components := Some (components \<lparr> cm_security_schemes :=
           AList.update ''api-key'' (ApiKeyInQuery ''api-key'') (cm_security_schemes components) \<rparr>) \<rparr>)"

definition error_codes_modify :: "OpenApi \<Rightarrow> OpenApi" where
  "error_codes_modify doc =
     (case oa_components doc of None \<Rightarrow> doc | Some components \<Rightarrow>
     (case map_of (cm_schemas components) ''Problem'' of
        Some (ObjectSchema properties values) \<Rightarrow>
          (case map_of properties ''code'' of
             Some (ObjectSchema members _) \<Rightarrow>
               let code = ObjectSchema members (Some (map api_error_code api_errors));
                   problem = ObjectSchema (AList.update ''code'' code properties) values
               in doc \<lparr> oa_components := Some (components \<lparr> cm_schemas :=
                    AList.update ''Problem'' problem (cm_schemas components) \<rparr>) \<rparr>
           | _ \<Rightarrow> doc)
      | _ \<Rightarrow> doc))"

definition api_doc :: "(string \<times> schema) list \<Rightarrow> OpenApi" where
  "api_doc derived =
     error_codes_modify (helius_api_key_modify
       \<lparr> oa_title = ''Helius Private Wallet API'', oa_version = ''1'',
         oa_servers = [''https://devnet.helius-rpc.com'', ''https://mainnet.helius-rpc.com''],
         oa_paths = [session_document, enroll_document, operations_document],
         oa_components = Some \<lparr> cm_schemas = derived, cm_security_schemes = [] \<rparr>,
         oa_security = [''api-key''] \<rparr>)"

section \<open>Reading the document\<close>

text \<open>A key of \<open>responses\<close> is a status or, as \<open>4XX\<close>, all the statuses of a hundred.\<close>

definition covers :: "string \<Rightarrow> nat \<Rightarrow> bool" where
  "covers key status \<longleftrightarrow> key = decimal status \<or> key = decimal (status div 100) @ ''XX''"

fun body_schema :: "gateway_body \<Rightarrow> string option" where
  "body_schema (ProblemBody _) = Some ''Problem''"
| "body_schema (SessionBody _ _ _) = Some ''Session''"
| "body_schema (EnrolledBody _) = Some ''Enrolled''"
| "body_schema (OperatedBody _ _) = Some ''Operated''"
| "body_schema _ = None"

definition documents :: "documented_path \<Rightarrow> gateway_response \<Rightarrow> bool" where
  "documents p r \<longleftrightarrow>
     list_ex (\<lambda>d. covers (dr_status d) (gr_status r) \<and> gr_content_type r = as_bytes (dr_content_type d) \<and>
       body_schema (gr_body r) = Some (dr_body d) \<and>
       (gr_idempotent_replayed r \<longrightarrow> ''Idempotent-Replayed'' \<in> set (dr_headers d))) (dp_responses p)"

definition documented :: "OpenApi \<Rightarrow> string \<Rightarrow> documented_path option" where
  "documented doc path = find (\<lambda>p. dp_path p = path) (oa_paths doc)"

definition listed_codes :: "OpenApi \<Rightarrow> string list option" where
  "listed_codes doc =
     Option.bind (oa_components doc) (\<lambda>components.
     case map_of (cm_schemas components) ''Problem'' of
       Some (ObjectSchema properties _) \<Rightarrow>
         (case map_of properties ''code'' of Some (ObjectSchema _ values) \<Rightarrow> values | _ \<Rightarrow> None)
     | _ \<Rightarrow> None)"

text \<open>\<open>derive(ToSchema)\<close> on \<open>Problem\<close>: an object with a property of the type \<open>String\<close> for its code.\<close>

definition problem_derived :: "(string \<times> schema) list \<Rightarrow> bool" where
  "problem_derived derived \<longleftrightarrow>
     (case map_of derived ''Problem'' of
        Some (ObjectSchema properties _) \<Rightarrow>
          (case map_of properties ''code'' of Some (ObjectSchema _ _) \<Rightarrow> True | _ \<Rightarrow> False)
      | _ \<Rightarrow> False)"

section \<open>Facts\<close>

lemma api_doc_paths: "oa_paths (api_doc derived) = [session_document, enroll_document, operations_document]"
  by (simp add: api_doc_def error_codes_modify_def helius_api_key_modify_def Let_def
      split: option.splits schema.splits)

lemma codes_are_listed:
  assumes "problem_derived derived"
  shows "listed_codes (api_doc derived) = Some (map api_error_code api_errors)"
proof -
  obtain properties admitted members others where problem:
    "map_of derived ''Problem'' = Some (ObjectSchema properties admitted)"
    "map_of properties ''code'' = Some (ObjectSchema members others)"
    using assms by (auto simp: problem_derived_def split: option.splits schema.splits)
  obtain codes where codes: "codes = map api_error_code api_errors" by blast
  show ?thesis
    unfolding listed_codes_def api_doc_def error_codes_modify_def helius_api_key_modify_def codes [symmetric]
    by (simp add: problem Let_def update_conv')
qed

lemmas documented_paths = session_document_def enroll_document_def operations_document_def

text \<open>The document names the paths of the endpoints, and no other.\<close>

lemma endpoint_paths:
  "dp_path session_document = ROUTE_PREFIX @ ''/session''" "dp_path enroll_document = ROUTE_PREFIX @ ''/enroll''"
  "dp_path operations_document = ROUTE_PREFIX @ ''/operations''"
  by (simp_all add: documented_paths ROUTE_PREFIX_def)

lemma documented_Some:
  "documented (api_doc derived) path = Some p \<longleftrightarrow>
     endpoint_at path = SessionRoute \<and> p = session_document \<or>
     endpoint_at path = EnrollRoute \<and> p = enroll_document \<or>
     endpoint_at path = OperationsRoute \<and> p = operations_document"
proof -
  have "documented (api_doc derived) path =
      (case endpoint_at path of SessionRoute \<Rightarrow> Some session_document | EnrollRoute \<Rightarrow> Some enroll_document
       | OperationsRoute \<Rightarrow> Some operations_document | _ \<Rightarrow> None)"
  proof (cases "path = ''/health''")
    case True
    then show ?thesis by (simp add: documented_def api_doc_paths endpoint_paths endpoint_at_def ROUTE_PREFIX_def)
  next
    case False
    then show ?thesis
      using endpoint_paths by (auto simp: documented_def api_doc_paths endpoint_at_def)
  qed
  then show ?thesis by (cases "endpoint_at path") auto
qed

lemma refusals_covered:
  "covers ''4XX'' (api_error_status e) \<longleftrightarrow> e \<noteq> Api_ClockUnavailable \<and> e \<noteq> Api_ReleaseExpired"
  "\<not> covers ''200'' (api_error_status e)"
  by (cases e; simp add: covers_def decimal.simps digit_def char_of_def bit_0)+

lemma success_covered: "covers ''200'' 200" "\<not> covers ''4XX'' 200"
  by (simp_all add: covers_def decimal.simps digit_def char_of_def bit_0)

text \<open>
  What the document says nothing of: a refusal of the enclave, passed on as it came; a gateway without a
  clock or with an expired release, which answers 503; and the mark of a replay on anything but a 200.
\<close>

definition undocumented :: "gateway_response \<Rightarrow> bool" where
  "undocumented r \<longleftrightarrow>
     fits_passed_on (gr_body r) \<or>
     gr_status r = 503 \<and> (\<exists>e. (e = Api_ClockUnavailable \<or> e = Api_ReleaseExpired) \<and> gr_body r = ProblemBody (problem_of e)) \<or>
     gr_idempotent_replayed r \<and> gr_status r \<noteq> 200"

text \<open>The endpoint of a documented path.\<close>

definition document_of :: "documented_path \<Rightarrow> endpoint \<Rightarrow> bool" where
  "document_of p ep \<longleftrightarrow> (ep, p) \<in> {(SessionRoute, session_document), (EnrollRoute, enroll_document),
     (OperationsRoute, operations_document)}"

lemma document_of_cases:
  assumes "document_of p ep"
  obtains body headers where
    "dp_responses p = [\<lparr> dr_status = ''200'', dr_content_type = ''application/json'', dr_body = body,
       dr_headers = headers \<rparr>, refused_response]"
    "ep = OperationsRoute \<Longrightarrow> headers = [''Idempotent-Replayed'']"
    "\<And>said. endpoint_body ep said \<Longrightarrow> body_schema said = Some body"
proof -
  have said: "endpoint_body SessionRoute b \<Longrightarrow> body_schema b = Some ''Session''"
    "endpoint_body EnrollRoute b \<Longrightarrow> body_schema b = Some ''Enrolled''"
    "endpoint_body OperationsRoute b \<Longrightarrow> body_schema b = Some ''Operated''" for b
    by (cases b; simp)+
  show thesis
    using assms unfolding document_of_def
    by (auto intro!: that simp: documented_paths said)
qed

lemma problem_is_documented:
  assumes "document_of p ep" "fits_problem r"
  shows "documents p r \<longleftrightarrow> \<not> undocumented r"
proof -
  obtain e where e: "gr_body r = ProblemBody (problem_of e)" "gr_status r = api_error_status e"
    "gr_content_type r = as_bytes ''application/problem+json''"
    using assms(2) by (auto simp: fits_problem_def list_ex_iff)
  obtain body headers where p: "dp_responses p = [\<lparr> dr_status = ''200'', dr_content_type = ''application/json'',
      dr_body = body, dr_headers = headers \<rparr>, refused_response]"
    using document_of_cases [OF assms(1)] by metis
  have "documents p r \<longleftrightarrow> (e \<noteq> Api_ClockUnavailable \<and> e \<noteq> Api_ReleaseExpired) \<and> \<not> gr_idempotent_replayed r"
    by (simp add: documents_def p e refusals_covered refused_response_def)
  moreover have "gr_status r = 503 \<longleftrightarrow> e = Api_ClockUnavailable \<or> e = Api_ReleaseExpired" "gr_status r \<noteq> 200"
    unfolding e(2) by (cases e; simp)+
  ultimately show ?thesis using e(1) by (auto simp: undocumented_def problem_of_def)
qed

lemma success_is_documented:
  assumes "document_of p ep" "fits_success ep r" "ep = OperationsRoute \<or> \<not> gr_idempotent_replayed r"
  shows "documents p r \<and> \<not> undocumented r"
proof -
  obtain body headers where p: "dp_responses p = [\<lparr> dr_status = ''200'', dr_content_type = ''application/json'',
      dr_body = body, dr_headers = headers \<rparr>, refused_response]"
    "ep = OperationsRoute \<Longrightarrow> headers = [''Idempotent-Replayed'']"
    "\<And>said. endpoint_body ep said \<Longrightarrow> body_schema said = Some body"
    using document_of_cases [OF assms(1)] by metis
  have "\<not> fits_passed_on (gr_body r)"
    using assms(1,2) by (cases "gr_body r"; cases ep) (auto simp: fits_success_def document_of_def)
  with assms(2,3) p show ?thesis
    by (auto simp: fits_success_def documents_def undocumented_def success_covered)
qed

lemma passed_on_is_undocumented: "fits_passed_on (gr_body r) \<Longrightarrow> \<not> documents p r \<and> undocumented r"
  by (cases "gr_body r") (auto simp: documents_def undocumented_def list_ex_iff)

lemma problem_codes: "fits_problem r \<Longrightarrow> gr_body r = ProblemBody x \<Longrightarrow> pb_code x \<in> set (map api_error_code api_errors)"
  by (auto simp: fits_problem_def list_ex_iff problem_of_def)

section \<open>Properties\<close>

text \<open>
  C25. The published document is true: an answer to a posted request at a path that it names has a status,
  a content type and a body that it describes for that path, and a code that it lists, unless the answer is
  one of three kinds that it leaves out: the enclave's own refusal passed on, the 503 of a gateway without a
  clock or with an expired release, and the mark of a replay on another answer than a 200.
\<close>

theorem document_describes_the_answers:
  assumes "problem_derived derived" "rq_method request = ''POST''"
    and "documented (api_doc derived) (rq_path request) = Some p" "router C J out request st = (r, st')"
  shows "(documents p r \<longleftrightarrow> \<not> undocumented r) \<and>
    (\<forall>x. gr_body r = ProblemBody x \<longrightarrow>
       (\<exists>codes. listed_codes (api_doc derived) = Some codes \<and> pb_code x \<in> set codes))"
proof -
  have at: "document_of p (endpoint_at (rq_path request))" "endpoint_at (rq_path request) \<noteq> Health"
    using assms(3) by (auto simp: documented_Some document_of_def)
  have "answer_fits (endpoint_at (rq_path request)) r"
    using posted_answer_fits [OF assms(2) at(2), of C J out st] assms(4) by simp
  then have "(documents p r \<longleftrightarrow> \<not> undocumented r) \<and>
      (\<forall>x. gr_body r = ProblemBody x \<longrightarrow> pb_code x \<in> set (map api_error_code api_errors))"
    unfolding answer_fits_def
    using problem_is_documented [OF at(1)] success_is_documented [OF at(1)] passed_on_is_undocumented [of r p]
      problem_codes [of r]
    by (auto simp: fits_success_def elim!: endpoint_body.elims)
  then show ?thesis using codes_are_listed [OF assms(1)] by auto
qed

text \<open>The schemas of \<open>openapi.json\<close> as far as the modifiers read them, and a request with no credentials.\<close>

definition demo_schemas :: "(string \<times> schema) list" where
  "demo_schemas =
     [(''Enrolled'', OtherSchema),
      (''Problem'', ObjectSchema [(''title'', ObjectSchema [] None), (''status'', ObjectSchema [] None),
         (''detail'', ObjectSchema [] None), (''code'', ObjectSchema [] None)] None)]"

definition demo_bare_request :: gateway_request where
  "demo_bare_request =
     \<lparr> rq_method = ''POST'', rq_path = ''/v1/private-wallet/operations'',
       rq_parts = \<lparr> pt_headers = [], pt_query = None \<rparr>, rq_received = Inr [] \<rparr>"

theorem document_describes_the_answers_witness:
  "documents operations_document (fst (router demo_gateway demo_readers demo_outside demo_bare_request demo_gateway_state)) \<and>
   (\<exists>codes. listed_codes (api_doc demo_schemas) = Some codes \<and> ''ApiKeyRequired'' \<in> set codes)"
proof -
  have derived: "problem_derived demo_schemas" by (simp add: problem_derived_def demo_schemas_def)
  have post: "rq_method demo_bare_request = ''POST''" by (simp add: demo_bare_request_def)
  have at: "endpoint_at (rq_path demo_bare_request) = OperationsRoute"
    by (simp add: demo_bare_request_def endpoint_at_def ROUTE_PREFIX_def)
  then have named: "documented (api_doc demo_schemas) (rq_path demo_bare_request) = Some operations_document"
    by (simp add: documented_Some)
  have bare: "caller C h reply now later s (rq_parts demo_bare_request) = (Err Api_ApiKeyRequired, s)" for C :: gateway_crates
    and h reply now later s
    by (simp add: caller_def api_key_def demo_bare_request_def)
  obtain st where ran: "router demo_gateway demo_readers demo_outside demo_bare_request demo_gateway_state =
      (api_error_response Api_ApiKeyRequired, st)"
    by (simp add: router_def at post extracted_def gateway_respond_def bare)
  have said: "gr_body (api_error_response Api_ApiKeyRequired) = ProblemBody (problem_of Api_ApiKeyRequired)"
    "\<not> undocumented (api_error_response Api_ApiKeyRequired)" "pb_code (problem_of Api_ApiKeyRequired) = ''ApiKeyRequired''"
    by (simp_all add: undocumented_def api_error_response_def problem_of_def)
  from document_describes_the_answers [OF derived post named ran] said ran show ?thesis by force
qed

text \<open>\<open>enroll\<close> without a clock gives an answer that its document has no entry for.\<close>

lemma clock_failure_is_undocumented:
  assumes "od_clock out = None"
  shows "fst (gateway_respond (enroll C out project request st)) = api_error_response Api_ClockUnavailable"
    "\<not> documents enroll_document (api_error_response Api_ClockUnavailable)"
proof -
  have "clock_ms (od_clock out) = Err Api_ClockUnavailable"
    using assms by (simp add: clock_ms_def clock_reading_def)
  then show "fst (gateway_respond (enroll C out project request st)) = api_error_response Api_ClockUnavailable"
    by (simp add: gateway_respond_def enroll_def enroll_checked_def)
  have "document_of enroll_document EnrollRoute" by (simp add: document_of_def)
  moreover have "fits_problem (api_error_response Api_ClockUnavailable)"
    using api_errors_complete by (auto simp: fits_problem_def list_ex_iff api_error_response_def)
  ultimately have "documents enroll_document (api_error_response Api_ClockUnavailable) \<longleftrightarrow>
      \<not> undocumented (api_error_response Api_ClockUnavailable)"
    by (rule problem_is_documented)
  then show "\<not> documents enroll_document (api_error_response Api_ClockUnavailable)"
    by (auto simp: undocumented_def api_error_response_def)
qed

end
