(* ===== verification/Gateway_Requests.thy ===== *)
theory Gateway_Requests
  imports Gateway_Demo
begin

text \<open>
  What holds of whole requests: slots come back in every run of a gateway that started, the enclave is
  sent only what is authorized, no client is answered with a server error after that, and what an
  enrollment rests on.
\<close>

section \<open>Properties\<close>

definition all_free :: "InFlightLimiter \<Rightarrow> nat \<Rightarrow> bool" where
  "all_free l n \<longleftrightarrow> lm_max_per_project l = n \<and> (\<forall>free \<in> set (lm_semaphores l). free = n)"

lemma permits_kept_free: "permits_kept (limiter_new n) l \<Longrightarrow> all_free l n"
  by (auto simp: permits_kept_def all_free_def limiter_new_def in_set_conv_nth)

text \<open>
  C13. Between the requests of any run of a gateway that started, every slot is free again: each
  project's slots in flight, its Turnkey slots and the 32 shared ones, whatever the requests were,
  whatever they met, and however each of them ended.
\<close>

theorem idle_gateway_has_every_slot:
  assumes "gateway_start C env config = Ok st"
  shows "let st' = serve_all C J requests st in
    all_free (gs_limiter st') (unat (ec_max_in_flight_per_project (cfg_enclave config))) \<and>
    all_free (tk_project_calls (gs_turnkey st')) MAX_CONCURRENT_TURNKEY_CALLS_PER_PROJECT \<and>
    tk_calls (gs_turnkey st') = MAX_CONCURRENT_TURNKEY_CALLS"
  using gateway_start_ok [OF assms] serve_all_kept [of st C J requests]
  by (simp add: Let_def gs_kept_def slots_kept_def permits_kept_free)

theorem idle_gateway_has_every_slot_witness:
  "\<exists>st. let st' = serve_all demo_gateway demo_readers
        [(demo_outside, \<lparr> rq_method = ''POST'', rq_path = ''/v1/private-wallet/operations'',
           rq_parts = demo_key_parts, rq_received = Inr [1] \<rparr>)] st in
     all_free (gs_limiter st') 4 \<and> tk_calls (gs_turnkey st') = 32"
proof -
  obtain f where f: "gateway_start demo_gateway (demo_start_env f) demo_config = Ok demo_gateway_state"
    using demo_starts by blast
  show ?thesis
    using idle_gateway_has_every_slot [OF f, of demo_readers]
    by (intro exI [of _ demo_gateway_state])
      (simp add: Let_def demo_config_def MAX_CONCURRENT_TURNKEY_CALLS_def)
qed

text \<open>
  C3. The enclave is sent an operation only with a grant the gateway issued there and then, in place of
  whatever grant the client sent: for a descriptor of this gateway that is current, with one client
  key that is not revoked, whose sub-organization Turnkey names after the very project that called;
  the grant names that project, and the enclave accepts it for that descriptor and client key as long
  as it lives. And one request sends at most one.
\<close>

theorem enclave_is_sent_only_the_authorized:
  assumes "p256_laws C" "ecdsa_laws C" "wallet_grants_new C grant_config = Ok (gs_wallet_grants st)"
    and "key_pair C (wgs_secret (gs_wallet_grants st)) grant_public"
    and "tk_sub_org_projects (gs_turnkey st) = names_after fetched"
    and "operations C J out p op st = (r, st')" "gs_sent st' \<noteq> gs_sent st"
  shows "\<exists>grant. gs_sent st' = (op_request op) \<lparr> er_wallet_grant := Some grant \<rparr> # gs_sent st \<and>
    authorized_send C out p (op_descriptor op) st grant_public fetched grant"
  using assms(6)
proof (cases rule: operations_cases)
  case (refused e)
  with assms(7) show ?thesis by simp
next
  case (worked permit l st1)
  from worked(3) show ?thesis
  proof (cases rule: gateway_run_operation_cases)
    case (ran key l1 grant st2 sent outcome response)
    have "authorized_send C out p (op_descriptor op) (st \<lparr> gs_limiter := l, gs_replay := l1 \<rparr>) grant_public
        fetched grant"
      by (rule sent_is_authorized [OF assms(1,2) _ _ _ _ ran(2)])
        (use assms(4,5) worked(1) wallet_grants_new_Ok [OF assms(3)] in simp_all)
    then show ?thesis
      using ran(3) worked(4) only_turnkeyD [OF answer_only [OF ran(5)]] by auto
  qed (use worked(4) assms(7) in \<open>auto dest!: answer_only granted_only dest: only_turnkeyD\<close>)
qed

theorem enclave_is_sent_only_the_authorized_witness:
  "\<exists>d grant st. operations demo_gateway demo_readers demo_outside ''project-a'' (demo_operation d)
       demo_gateway_state = (Ok demo_answer, st) \<and>
     gs_sent st = [(op_request (demo_operation d)) \<lparr> er_wallet_grant := Some grant \<rparr>] \<and>
     authorized_send demo_gateway demo_outside ''project-a'' d demo_gateway_state demo_key [] grant"
proof -
  obtain d grant st where ran: "operations demo_gateway demo_readers demo_outside ''project-a'' (demo_operation d)
      demo_gateway_state = (Ok demo_answer, st)"
    "gs_sent st = [(op_request (demo_operation d)) \<lparr> er_wallet_grant := Some grant \<rparr>]"
    using demo_operates by blast
  have grants: "wallet_grants_new demo_gateway demo_grant_config = Ok (gs_wallet_grants demo_gateway_state)"
    using demo_grants_start by (simp add: demo_gateway_state_def)
  have pair: "key_pair demo_gateway (wgs_secret (gs_wallet_grants demo_gateway_state)) demo_key"
    using load_signing_key_pair [OF demo_load_key] by (simp add: demo_gateway_state_def demo_grants_def)
  have names: "tk_sub_org_projects (gs_turnkey demo_gateway_state) = names_after []"
    by (simp add: demo_gateway_state_def names_after_def)
  have sent: "gs_sent st \<noteq> gs_sent demo_gateway_state" using ran(2) by (simp add: demo_gateway_state_def)
  from enclave_is_sent_only_the_authorized [OF demo_gateway_laws(3,4) grants pair names ran(1) sent]
  show ?thesis using ran by (auto simp: demo_operation_def)
qed

text \<open>
  C24. Once an operation reached the enclave, the client never gets a server error, upon which gatekeeper
  would send it again: it gets the answer with its evidence, the enclave's own refusal as it is, a
  424, or a 429 when no shared Turnkey slot is free.
\<close>

theorem no_server_error_after_the_enclave:
  assumes "operations C J out p op st = (r, st')" "gs_sent st' \<noteq> gs_sent st"
  shows "\<exists>response. r = Ok response \<and> \<not> is_server_error (gr_status response) \<and>
    (gr_status response \<in> {200, 424, 429} \<or>
     (\<exists>f. enclave_operations C (gs_enclave st) (od_network out) (hd (gs_sent st')) = Ok f \<and>
        \<not> forwarded_is_success f \<and> response = forwarded_response f))"
  using assms(1)
proof (cases rule: operations_cases)
  case (refused e)
  with assms(2) show ?thesis by simp
next
  case (worked permit l st1)
  from worked(3) show ?thesis
  proof (cases rule: gateway_run_operation_cases)
    case (ran key l1 grant st2 sent outcome response)
    have sent: "hd (gs_sent st') = sent"
      using worked(4) only_turnkeyD [OF answer_only [OF ran(5)]] by simp
    have "is_ok outcome \<or> enclave_failure outcome" unfolding ran(4) by (rule enclave_operations_failure)
    from answer_status [OF ran(5) this] show ?thesis
    proof
      assume "gr_status response \<in> {200, 424, 429}"
      then show ?thesis using ran(6) by (auto simp: is_server_error_def)
    next
      assume "\<exists>f. outcome = Ok f \<and> \<not> forwarded_is_success f \<and> response = forwarded_response f"
      then obtain f where f: "outcome = Ok f" "\<not> forwarded_is_success f" "response = forwarded_response f" by blast
      then have "\<not> is_server_error (fw_status f)"
        using ran(4) by (auto simp: enclave_operations_def enclave_send_Ok dest: sym)
      then show ?thesis using f ran(4,6) sent by (auto simp: forwarded_response_def)
    qed
  qed (use worked(4) assms(2) in \<open>auto dest!: answer_only granted_only dest: only_turnkeyD\<close>)
qed

theorem no_server_error_after_the_enclave_witness:
  "\<exists>d st. operations demo_gateway demo_readers demo_outside ''project-a'' (demo_operation d)
       demo_gateway_state = (Ok demo_answer, st) \<and> gs_sent st \<noteq> [] \<and> \<not> is_server_error (gr_status demo_answer)"
proof -
  obtain d grant st where ran: "operations demo_gateway demo_readers demo_outside ''project-a'' (demo_operation d)
      demo_gateway_state = (Ok demo_answer, st)"
    "gs_sent st = [(op_request (demo_operation d)) \<lparr> er_wallet_grant := Some grant \<rparr>]"
    using demo_operates by blast
  then have "gs_sent st \<noteq> gs_sent demo_gateway_state" by (simp add: demo_gateway_state_def)
  from no_server_error_after_the_enclave [OF ran(1) this]
  have "\<not> is_server_error (gr_status demo_answer)" by auto
  moreover have "gs_sent st \<noteq> []" using ran(2) by simp
  ultimately show ?thesis using ran(1) by blast
qed

definition enrolled_for ::
    "'x gateway_crates_scheme \<Rightarrow> 'r outside \<Rightarrow> ProjectId \<Rightarrow> EnrollmentRequest \<Rightarrow> 'r GatewayState \<Rightarrow>
     (string \<times> string \<times> instant) list \<Rightarrow> EnrollmentInput \<Rightarrow> WalletDescriptor \<Rightarrow> bool" where
  "enrolled_for C out p request st fetched i d \<longleftrightarrow>
     (\<exists>now. clock_ms (od_clock out) = Ok now \<and> enrollment_fresh request (unat now) \<and>
        now \<le> rp_expires_at_ms (pv_policy (gs_provisioner st))) \<and>
     valid_enrollment C request i \<and> owner_signed C (gs_enrollment st) request i \<and>
     client_key_id C (eni_client_public_key i) \<notin> set (wgs_revoked_client_key_ids (gs_wallet_grants st)) \<and>
     (tr_whoami (od_turnkey out) (eni_organization_id i) = Ok p \<or>
      (\<exists>t. (eni_organization_id i, p, t) \<in> set fetched \<and>
         od_at out NameLookedUp - t < tk_ownership_ttl (gs_turnkey st))) \<and>
     (\<exists>accounts. tr_accounts (od_turnkey out) (eni_organization_id i) (eni_turnkey_wallet_id i) = Ok accounts \<and>
        (eni_turnkey_wallet_id i, eni_solana_address i) \<in> set accounts) \<and>
     enrolled_descriptor (gs_provisioner st) i d"

text \<open>
  C9. A descriptor leaves the gateway only for the client key, wallet and organization that the wallet's
  owner signed for a host of this gateway within the last five minutes, while the release is current:
  the client key is not revoked, and Turnkey says that the organization is named after the calling
  project and that this very wallet of it holds the owner's address.
\<close>

theorem enrollment_is_checked_end_to_end:
  assumes "p256_laws C" "ecdsa_laws C"
    and "key_pair C (pv_secret (gs_provisioner st)) (pv_public_key (gs_provisioner st))"
    and "tk_sub_org_projects (gs_turnkey st) = names_after fetched"
    and "enroll C out p request st = (Ok response, st')"
  shows "\<exists>i d. response = json_response (EnrolledBody d) \<and> enrolled_for C out p request st fetched i d"
proof -
  obtain i where i: "enroll_checked C out request st = Ok i"
    "with_permit p (enroll_work C out p i) st = (Ok response, st')"
    using assms(5) by (auto simp: enroll_def split: sum.splits)
  then obtain permit l st1 where work: "enroll_work C out p i (st \<lparr> gs_limiter := l \<rparr>) = (Ok response, st1)"
    by (auto elim: with_permit_cases)
  let ?w = "\<lparr> cw_organization_id = eni_organization_id i, cw_wallet_id = eni_turnkey_wallet_id i,
    cw_address = eni_solana_address i \<rparr>"
  obtain tk d where tk: "verify_ownership (gs_turnkey st) (od_turnkey out) (od_at out NameLookedUp)
      (od_at out NameStored) p ?w = (Ok (), tk)"
    and d: "provisioner_sign C (gs_provisioner st) i = Ok d" "response = json_response (EnrolledBody d)"
    using work by (auto simp: enroll_work_def Let_def result_simps split: prod.splits sum.splits)
  note owned = verify_ownership_Ok [OF assms(4) tk]
  obtain now where now: "clock_ms (od_clock out) = Ok now"
    "provisioner_check_current (gs_provisioner st) now = Ok ()"
    "enrollment_verify C (gs_enrollment st) request now = Ok i"
    "check_client_key C (gs_wallet_grants st) (eni_client_public_key i) = Ok ()"
    using i(1) by (auto simp: enroll_checked_def result_simps)
  have "now \<le> rp_expires_at_ms (pv_policy (gs_provisioner st))"
    using now(2) by (auto simp: provisioner_check_current_def split: if_splits)
  moreover have "client_key_id C (eni_client_public_key i) \<notin> set (wgs_revoked_client_key_ids (gs_wallet_grants st))"
    using now(4) by (auto simp: check_client_key_def unrevoked_def result_simps split: if_splits)
  moreover have "enrolled_descriptor (gs_provisioner st) i d"
    using provisioner_sign_Ok [OF assms(1-3) d(1)] by simp
  ultimately show ?thesis
    using now(1) now(3) [unfolded enrollment_verify_Ok] owned d(2) unfolding enrolled_for_def by auto
qed

theorem enrollment_is_checked_end_to_end_witness:
  "\<exists>d st. enroll demo_gateway demo_outside ''project-a'' demo_enrollment_request demo_gateway_state =
       (Ok (json_response (EnrolledBody d)), st) \<and>
     enrolled_for demo_gateway demo_outside ''project-a'' demo_enrollment_request demo_gateway_state []
       demo_enrollment_input d"
proof -
  obtain st d where ran: "enroll demo_gateway demo_outside ''project-a'' demo_enrollment_request demo_gateway_state =
      (Ok (json_response (EnrolledBody d)), st)"
    using demo_enrolls by blast
  have pair: "key_pair demo_gateway (pv_secret (gs_provisioner demo_gateway_state))
      (pv_public_key (gs_provisioner demo_gateway_state))"
    using load_signing_key_pair [OF demo_load_key] by (simp add: demo_gateway_state_def demo_provisioner_def)
  have names: "tk_sub_org_projects (gs_turnkey demo_gateway_state) = names_after []"
    by (simp add: demo_gateway_state_def names_after_def)
  obtain i e where i: "json_response (EnrolledBody d) = json_response (EnrolledBody e)"
    "enrolled_for demo_gateway demo_outside ''project-a'' demo_enrollment_request demo_gateway_state [] i e"
    using enrollment_is_checked_end_to_end [OF demo_gateway_laws(3,4) pair names ran] by blast
  have "valid_enrollment demo_gateway demo_enrollment_request i" using i(2) by (simp add: enrolled_for_def)
  then have "i = demo_enrollment_input"
    using demo_valid_enrollment unfolding validate_enrollment_Ok [symmetric] by simp
  then show ?thesis using ran i by (auto simp: json_response_def)
qed

end
