(* ===== verification/Gateway_Resend.thy ===== *)
theory Gateway_Resend
  imports Gateway_Requests
begin

text \<open>
  What a client that sends an operation again gets, with the ledger of one process: while the window
  lasts, over any requests in between, the enclave does not see it again, and the answer is that of the
  first.
\<close>

section \<open>An outcome the ledger holds\<close>

definition holds :: "LocalLedger \<Rightarrow> Key \<Rightarrow> instant \<Rightarrow> Outcome \<Rightarrow> bool" where
  "holds l k t outcome \<longleftrightarrow> ledger_ok l \<and> remembers l k t \<and> ledger_shows l k = Some (AnsweredEntry outcome)"

abbreviation entries :: "LocalLedger \<Rightarrow> nat" where
  "entries l \<equiv> length (current_map (ll_state l))"

text \<open>What a request may do to the ledger without disturbing an outcome it holds.\<close>

definition undisturbed :: "LocalLedger \<Rightarrow> LocalLedger \<Rightarrow> bool" where
  "undisturbed l l' \<longleftrightarrow> entries l' \<le> Suc (entries l) \<and> ll_window l' = ll_window l \<and>
     ll_max_entries l' = ll_max_entries l"

lemma claim_holds:
  assumes "holds l k t outcome" "t \<le> s" "s < t + ll_window l" "entries l < ll_max_entries l"
    and "local_claim l j s = (r, l')"
  shows "holds l' k t outcome \<and> undisturbed l l' \<and> (r = Ok (NewClaim i) \<longrightarrow> i \<noteq> k) \<and>
    (j = k \<longrightarrow> r = Ok (AnsweredClaim outcome))"
proof -
  have l: "ledger_ok l" "remembers l k t" "ledger_shows l k = Some (AnsweredEntry outcome)"
    using assms(1) by (simp_all add: holds_def)
  note claim = claim_remembers [OF l(1,2) assms(2-5)]
  have "ledger_ok l'" using l(1) assms(5) by (rule local_claim_ok)
  moreover have "i = j \<and> ledger_shows l' j = Some Running" if "r = Ok (NewClaim i)"
    using one_process.claim_new [OF l(1)] assms(5) that by blast
  moreover have "r = Ok (AnsweredClaim outcome)" if "j = k"
    using rolled_remembers [OF l(1,2) assms(2-4)] l(3) assms(5) that by (simp add: local_claim_rolled)
  moreover have "ll_window l' = ll_window l \<and> ll_max_entries l' = ll_max_entries l"
    using local_params [of l "ClaimEvent j s"] assms(5) by simp
  ultimately show ?thesis using claim l(3) by (auto simp: holds_def undisturbed_def)
qed

lemma release_holds:
  assumes "holds l k t outcome" "j \<noteq> k"
  shows "holds (local_release l j) k t outcome \<and> entries (local_release l j) \<le> entries l \<and>
    ll_window (local_release l j) = ll_window l \<and> ll_max_entries (local_release l j) = ll_max_entries l"
proof -
  have l: "ledger_ok l" using assms(1) by (simp add: holds_def)
  have "fst ` set (AList.delete j m) = fst ` set m - {j}" "length (AList.delete j m) \<le> length m"
    for m :: "(Key \<times> Entry) list"
    by (auto simp: AList.delete_eq image_iff intro: le_trans [OF length_filter_le])
  then show ?thesis
    using assms local_release_maps [OF l, of j] local_params [of l "ReleaseEvent j"]
    by (auto simp: holds_def remembers_def)
qed

lemma record_holds:
  assumes "holds l k t outcome" "j \<noteq> k"
  shows "holds (local_record l j o') k t outcome \<and> entries (local_record l j o') \<le> entries l \<and>
    ll_window (local_record l j o') = ll_window l \<and> ll_max_entries (local_record l j o') = ll_max_entries l"
  using assms generations_assign_maps [of "ll_state l" j "AnsweredEntry o'"]
  by (auto simp: holds_def local_record_def remembers_def)

text \<open>An operation: its own claim, and the end of a claim of its own.\<close>

definition settled :: "'r ReplayLedger \<Rightarrow> LocalLedger \<Rightarrow> Key \<Rightarrow> instant \<Rightarrow> Outcome \<Rightarrow> bool" where
  "settled replay l k t outcome \<longleftrightarrow> (\<exists>l'. replay = Local l' \<and> holds l' k t outcome \<and> undisturbed l l')"

lemma settled_release:
  "settled replay l k t outcome \<Longrightarrow> j \<noteq> k \<Longrightarrow> settled (ledger_release C R replay j) l k t outcome"
  unfolding settled_def undisturbed_def using release_holds by (fastforce intro: le_trans)

lemma settled_record:
  "settled replay l k t outcome \<Longrightarrow> j \<noteq> k \<Longrightarrow> settled (ledger_record C R replay j o') l k t outcome"
  unfolding settled_def undisturbed_def ledger_record_def
  using release_holds record_holds by (fastforce intro: le_trans)

lemma settled_claim:
  assumes "holds l k t outcome" "t \<le> s" "s < t + ll_window l" "entries l < ll_max_entries l"
    and "ledger_claim C R (Local l) p c s = (r, replay)"
  shows "settled replay l k t outcome \<and> (r = Ok (NewClaim i) \<longrightarrow> i \<noteq> k) \<and>
    (key_of C p c = k \<longrightarrow> r = Ok (AnsweredClaim outcome))"
proof -
  obtain l' where l': "local_claim l (key_of C p c) s = (r, l')" "replay = Local l'"
    using assms(5) by (auto simp: ledger_claim_def map_prod_id_eq)
  with claim_holds [OF assms(1-4) l'(1)] show ?thesis by (auto simp: settled_def)
qed

lemma gateway_run_operation_settled:
  assumes "gs_replay st = Local l" "holds l k t outcome" "entries l < ll_max_entries l"
    and "t \<le> od_at out Claimed" "od_at out Claimed < t + ll_window l"
    and "gateway_run_operation C J out p op st = (r, st')"
  shows "settled (gs_replay st') l k t outcome"
  using assms(6)
proof (cases rule: gateway_run_operation_cases)
  case (refused e l1)
  then show ?thesis using settled_claim [OF assms(2,4,5,3) refused(1) [unfolded assms(1)]] by simp
next
  case (replayed o1 l1 response)
  then show ?thesis
    using settled_claim [OF assms(2,4,5,3) replayed(1) [unfolded assms(1)]]
    by (simp add: only_turnkeyD [OF answer_only [OF replayed(2)]])
next
  case (ungranted key l1 e st1)
  note claim = settled_claim [OF assms(2,4,5,3) ungranted(1) [unfolded assms(1)], of key]
  then show ?thesis
    by (simp add: ungranted(4) only_turnkeyD [OF granted_only [OF ungranted(2)]] settled_release)
next
  case (ran key l1 grant st1 sent o1 response)
  note claim = settled_claim [OF assms(2,4,5,3) ran(1) [unfolded assms(1)], of key]
  then show ?thesis
    by (simp add: only_turnkeyD [OF answer_only [OF ran(5)]] only_turnkeyD [OF granted_only [OF ran(2)]]
        settled_record)
qed

lemma operations_settled:
  assumes "gs_replay st = Local l" "holds l k t outcome" "entries l < ll_max_entries l"
    and "t \<le> od_at out Claimed" "od_at out Claimed < t + ll_window l"
    and "operations C J out p op st = (r, st')"
  shows "settled (gs_replay st') l k t outcome"
  using assms(6)
proof (cases rule: operations_cases)
  case (refused e)
  with assms(1,2) show ?thesis by (auto simp: settled_def undisturbed_def)
next
  case (worked permit l1 st1)
  with gateway_run_operation_settled [OF _ assms(2-5) worked(3)] assms(1) show ?thesis by simp
qed

lemma enroll_replay: "enroll C out p request st = (r, st') \<Longrightarrow> gs_replay st' = gs_replay st"
  by (auto simp: enroll_def split: sum.splits elim!: with_permit_cases
      dest!: enroll_work_only dest: only_turnkeyD)

lemma session_replay: "session C J out p ping st = (r, st') \<Longrightarrow> gs_replay st' = gs_replay st"
  by (auto simp: session_def elim!: with_permit_cases dest!: session_work_only dest: only_turnkeyD)

lemma extracted_cases:
  assumes "extracted C out parse request handler st = (r, st')"
  obtains (refused) keys where "st' = st \<lparr> gs_api_keys := keys \<rparr>"
    | (handled) p b keys where "handler p b (st \<lparr> gs_api_keys := keys \<rparr>) = (r, st')"
  using assms by (auto simp: extracted_def split: prod.splits sum.splits)

lemma router_settled:
  assumes "gs_replay st = Local l" "holds l k t outcome" "entries l < ll_max_entries l"
    and "t \<le> od_at out Claimed" "od_at out Claimed < t + ll_window l"
    and "router C J out request st = (response, st')"
  shows "settled (gs_replay st') l k t outcome"
proof -
  have same: "settled (Local l) l k t outcome" using assms(2) by (simp add: settled_def undisturbed_def)
  have kept: "gs_replay (snd (extracted C out parse request handler st)) = Local l"
    if "\<And>p b st r st'. handler p b st = (r, st') \<Longrightarrow> gs_replay st' = gs_replay st" for parse handler
    by (rule extracted_cases [OF surjective_pairing [of "extracted C out parse request handler st"]])
      (use assms(1) that in \<open>fastforce+\<close>)
  have run: "settled (gs_replay (snd (extracted C out parse request (operations C J out) st))) l k t outcome"
    for parse
  proof (rule extracted_cases [OF surjective_pairing [of "extracted C out parse request (operations C J out) st"]])
    fix keys
    assume "snd (extracted C out parse request (operations C J out) st) = st \<lparr> gs_api_keys := keys \<rparr>"
    then show ?thesis using assms(1) same by simp
  next
    fix p b keys
    assume "operations C J out p b (st \<lparr> gs_api_keys := keys \<rparr>) =
      (fst (extracted C out parse request (operations C J out) st),
       snd (extracted C out parse request (operations C J out) st))"
    from operations_settled [OF _ assms(2-5) this] assms(1) show ?thesis by simp
  qed
  have others: "gs_replay (snd (extracted C out (rd_ping J) request (session C J out) st)) = Local l"
    "gs_replay (snd (extracted C out (rd_enrollment J) request (enroll C out) st)) = Local l"
    by (rule kept, rule session_replay, assumption) (rule kept, rule enroll_replay, assumption)
  have "st' = st \<or> st' = snd (extracted C out (rd_ping J) request (session C J out) st) \<or>
      st' = snd (extracted C out (rd_enrollment J) request (enroll C out) st) \<or>
      st' = snd (extracted C out (rd_operation J) request (operations C J out) st)"
    using assms(6) by (auto simp: router_def gateway_respond_def Let_def split: endpoint.splits if_splits)
  then show ?thesis
    using same assms(1) run [of "rd_operation J"] others by auto
qed

definition claims_within :: "instant \<Rightarrow> nat \<Rightarrow> ('r outside \<times> gateway_request) list \<Rightarrow> bool" where
  "claims_within t window requests \<longleftrightarrow>
     list_all (\<lambda>(out, _). t \<le> od_at out Claimed \<and> od_at out Claimed < t + window) requests"

lemma serve_all_settled:
  assumes "gs_replay st = Local l" "holds l k t outcome" "claims_within t (ll_window l) requests"
    and "entries l + length requests \<le> ll_max_entries l"
  shows "\<exists>l'. gs_replay (serve_all C J requests st) = Local l' \<and> holds l' k t outcome \<and>
    entries l' \<le> entries l + length requests \<and> ll_window l' = ll_window l \<and>
    ll_max_entries l' = ll_max_entries l"
  using assms
proof (induction requests arbitrary: st l)
  case Nil
  then show ?case by (simp add: serve_all_def)
next
  case (Cons a requests)
  obtain out request where a: "a = (out, request)" by fastforce
  obtain l1 where l1: "gs_replay (snd (router C J out request st)) = Local l1" "holds l1 k t outcome"
    "undisturbed l l1"
    using router_settled [OF Cons.prems(1,2) _ _ _ surjective_pairing, of out C J request] Cons.prems(3,4)
    by (auto simp: a claims_within_def settled_def)
  from Cons.IH [OF l1(1,2)] l1(3) Cons.prems(3,4) show ?case
    by (auto simp: serve_all_def a claims_within_def undisturbed_def)
qed

section \<open>The first operation, and the one sent again\<close>

lemma first_operation_holds:
  assumes "gs_replay st = Local l" "ledger_ok l" "operations C J out p op st = (r, st1)"
    and "gs_sent st1 = sent # gs_sent st"
    and "outcome = enclave_operations C (gs_enclave st) (od_network out) sent" "\<not> not_kept outcome"
  shows "\<exists>l1. gs_replay st1 = Local l1 \<and>
    holds l1 (key_of C p (er_ciphertext (op_request op))) (od_at out Claimed) outcome \<and>
    ll_window l1 = ll_window l"
  using assms(3)
proof (cases rule: operations_cases)
  case (refused e)
  with assms(4) show ?thesis by simp
next
  case (worked permit lm st2)
  let ?k = "key_of C p (er_ciphertext (op_request op))"
  from worked(3) show ?thesis
  proof (cases rule: gateway_run_operation_cases)
    case (ran key lr grant st3 sent' outcome' response)
    have same: "sent' = sent" "outcome' = outcome"
      using ran(4) worked(4) assms(4,5) only_turnkeyD [OF answer_only [OF ran(5)]] by simp_all
    obtain l' where l': "local_claim l ?k (od_at out Claimed) = (Ok (NewClaim key), l')" "lr = Local l'"
      using ran(1) assms(1) by (auto simp: ledger_claim_def map_prod_id_eq)
    have key: "key = ?k" using one_process.claim_new [OF assms(2) l'(1)] by simp
    note new = new_claim_remembers [OF assms(2) l'(1) [unfolded key]]
    have "gs_replay st1 = ledger_record C (od_redis out) (Local l') ?k outcome"
      using worked(4) same key l'(2) by (simp add: only_turnkeyD [OF answer_only [OF ran(5)]]
          only_turnkeyD [OF granted_only [OF ran(2)]])
    then have "gs_replay st1 = Local (local_record l' ?k outcome)" using assms(6) by (simp add: ledger_record_def)
    moreover have "holds (local_record l' ?k outcome) ?k (od_at out Claimed) outcome"
      using new generations_assign_maps [of "ll_state l'" ?k "AnsweredEntry outcome"]
      by (auto simp: holds_def local_record_def remembers_def)
    ultimately show ?thesis using new(4) local_params [of l' "RecordEvent ?k outcome"] by simp
  qed (use worked(4) assms(4) in \<open>auto dest!: answer_only granted_only dest: only_turnkeyD\<close>)
qed

lemma resent_operation:
  assumes "gs_replay st = Local l" "holds l (key_of C p (er_ciphertext (op_request op))) t outcome"
    and "entries l < ll_max_entries l" "t \<le> od_at out Claimed" "od_at out Claimed < t + ll_window l"
    and "operations C J out p op st = (r, st')"
  shows "gs_sent st' = gs_sent st \<and>
    (\<forall>response. r = Ok response \<longrightarrow>
       (\<exists>st1. response = (fst (answer J out outcome st1)) \<lparr> gr_idempotent_replayed := True \<rparr>))"
  using assms(6)
proof (cases rule: operations_cases)
  case (refused e)
  then show ?thesis by simp
next
  case (worked permit lm st1)
  have replay: "gs_replay (st \<lparr> gs_limiter := lm \<rparr>) = Local l" using assms(1) by simp
  have claim: "c = Ok (AnsweredClaim outcome)"
    if "ledger_claim C (od_redis out) (gs_replay (st \<lparr> gs_limiter := lm \<rparr>)) p (er_ciphertext (op_request op))
      (od_at out Claimed) = (c, lr)" for c lr
    using settled_claim [OF assms(2,4,5,3) that [unfolded replay]] by blast
  from worked(3) show ?thesis
  proof (cases rule: gateway_run_operation_cases)
    case (replayed o1 l1 response)
    have "o1 = outcome" using claim [OF replayed(1)] by simp
    then show ?thesis
      using replayed(2,3) worked(4) only_turnkeyD [OF answer_only [OF replayed(2)]]
      by simp (metis fst_conv)
  qed (use claim in auto)
qed

section \<open>Property\<close>

text \<open>
  C4. With the local ledger, an operation that the enclave was sent, and whose outcome is kept, is not
  sent again as long as its entry stands: when the project sends the same ciphertext once more
  within the window of its first claim, and the requests of anyone in between are claimed within
  that window too and are too few to fill a generation of the ledger, then nothing more
  reaches the enclave, and an answer repeats the outcome of the first, marked as such.
\<close>

theorem resent_operation_is_answered_not_run:
  assumes "gs_replay st = Local l" "ledger_ok l" "operations C J out p op st = (r, st1)"
    and "gs_sent st1 = sent # gs_sent st"
    and "outcome = enclave_operations C (gs_enclave st) (od_network out) sent" "\<not> not_kept outcome"
    and "gs_replay st1 = Local l1" "entries l1 + length requests < ll_max_entries l1"
    and "claims_within (od_at out Claimed) (ll_window l) requests"
    and "operations C J again p op' (serve_all C J requests st1) = (r', st2)"
    and "er_ciphertext (op_request op') = er_ciphertext (op_request op)"
    and "od_at out Claimed \<le> od_at again Claimed" "od_at again Claimed < od_at out Claimed + ll_window l"
  shows "gs_sent st2 = gs_sent (serve_all C J requests st1) \<and>
    (\<forall>response. r' = Ok response \<longrightarrow>
       (\<exists>st'. response = (fst (answer J again outcome st')) \<lparr> gr_idempotent_replayed := True \<rparr>))"
proof -
  let ?k = "key_of C p (er_ciphertext (op_request op))"
  have l1: "holds l1 ?k (od_at out Claimed) outcome" "ll_window l1 = ll_window l"
    using first_operation_holds [OF assms(1-6)] assms(7) by auto
  obtain l2 where l2: "gs_replay (serve_all C J requests st1) = Local l2"
    "holds l2 ?k (od_at out Claimed) outcome" "entries l2 \<le> entries l1 + length requests"
    "ll_window l2 = ll_window l" "ll_max_entries l2 = ll_max_entries l1"
    using serve_all_settled [OF assms(7) l1(1), of requests] assms(8,9) l1(2) by auto
  show ?thesis
    using l2(3-5) assms(8,11-13)
    by (intro resent_operation [OF l2(1) _ _ _ _ assms(10)]) (simp_all add: l2(2))
qed

theorem resent_operation_is_answered_not_run_witness:
  "\<exists>d r st1 r2 st2. operations demo_gateway demo_readers demo_outside ''project-a'' (demo_operation d)
       demo_gateway_state = (r, st1) \<and>
     operations demo_gateway demo_readers demo_outside ''project-a'' (demo_operation d)
       (serve_all demo_gateway demo_readers [] st1) = (r2, st2) \<and>
     length (gs_sent st1) = 1 \<and> gs_sent st2 = gs_sent st1"
proof -
  obtain d grant st1 l1 where ran: "operations demo_gateway demo_readers demo_outside ''project-a'' (demo_operation d)
      demo_gateway_state = (Ok demo_answer, st1)"
    "gs_sent st1 = [(op_request (demo_operation d)) \<lparr> er_wallet_grant := Some grant \<rparr>]"
    "gs_replay st1 = Local l1" "entries l1 = 1" "ll_max_entries l1 = 1000"
    using demo_operates by blast
  obtain r2 st2 where again: "operations demo_gateway demo_readers demo_outside ''project-a'' (demo_operation d)
      (serve_all demo_gateway demo_readers [] st1) = (r2, st2)" by fastforce
  have state: "gs_replay demo_gateway_state = Local (local_new (from_secs 360) 1000 0)"
    "ledger_ok (local_new (from_secs 360) 1000 0)"
    "gs_sent st1 = (op_request (demo_operation d)) \<lparr> er_wallet_grant := Some grant \<rparr> # gs_sent demo_gateway_state"
    using ran(2) by (simp_all add: demo_gateway_state_def local_new_def generations_ok_def)
  have kept: "\<not> not_kept (enclave_operations demo_gateway (gs_enclave demo_gateway_state)
      (od_network demo_outside) request)" for request
    by (simp add: enclave_operations_def demo_outside_def demo_gateway_state_def demo_config_def
        is_server_error_def read_capped_def not_kept_def MAX_KEPT_ANSWER_BYTES_def)
  have "gs_sent st2 = gs_sent (serve_all demo_gateway demo_readers [] st1)"
    using resent_operation_is_answered_not_run [OF state(1,2) ran(1) state(3) refl kept ran(3) _ _ again]
      ran(4,5) by (simp add: claims_within_def demo_outside_def local_new_def from_secs_def)
  then show ?thesis
    using ran(1,2) again
    by (intro exI [of _ d] exI [of _ "Ok demo_answer"] exI [of _ st1] exI [of _ r2] exI [of _ st2])
      (simp add: serve_all_def)
qed

end
