(* ===== verification/End_To_End.thy ===== *)
theory End_To_End
  imports Gateway_Requests
begin

text \<open>
  The gateway in front of its enclave: the requests that \<open>operations\<close> of \<open>app.rs\<close> sends arrive at
  \<open>dispatch\<close> of the enclave, and what the enclave answers is what the gateway reads. The property is
  about the two programs together, from the client's request to the answer it gets.
\<close>

section \<open>The way to the enclave and back\<close>

text \<open>
  The network brings the answers of the enclave only: a success with all of its chunks is the
  enclave's own answer to what was asked. A request that is lost, an answer that breaks off and an
  error of the ingress are all allowed.
\<close>

definition brings :: "upstream_reply \<Rightarrow> http_response option \<Rightarrow> bool" where
  "brings reply said \<longleftrightarrow>
     (\<forall>status content_type len chunks. reply = Responded status content_type len chunks \<longrightarrow>
        is_success status \<longrightarrow> None \<notin> set chunks \<longrightarrow>
        (\<exists>a. said = Some a \<and> status = http_status a \<and> arrived chunks = http_body a))"

definition reaches_enclave ::
    "'x enclave_crates_scheme \<Rightarrow> Env \<Rightarrow> AppState \<Rightarrow> EnclaveConfig \<Rightarrow> network \<Rightarrow> bool" where
  "reaches_enclave C env est config net \<longleftrightarrow>
     brings (net (ec_base_url config @ ''/v1/info'') None) (Some (dispatch C env est (http_get ''/v1/info''))) \<and>
     (\<forall>path j. path = ''/v1/ping'' \<or> path = ''/v1/operations'' \<longrightarrow>
        brings (net (ec_base_url config @ path) (Some j))
          (map_option (\<lambda>body. dispatch C env est (json_post path body)) (json_to_vec C j)))"

text \<open>The derived deserializer of \<open>EncryptedRequest\<close> reads what its serializer wrote.\<close>

definition envelope_text_law :: "'x enclave_crates_scheme \<Rightarrow> bool" where
  "envelope_text_law C \<longleftrightarrow>
     (\<forall>e body text. json_to_vec C (EncryptedRequest_json C e) = Some body \<longrightarrow>
        from_utf8 body = Some text \<longrightarrow> parse_encrypted_request C text = Ok e)"

section \<open>Facts\<close>

lemma brought:
  assumes "brings reply said" "enclave_send config reply = Ok f" "forwarded_is_success f"
  shows "\<exists>a. said = Some a \<and> http_status a < 300 \<and> fw_body f = http_body a"
proof -
  obtain ct len chunks where reply: "reply = Responded (fw_status f) ct len chunks" "None \<notin> set chunks"
    "fw_body f = arrived chunks"
    using assms(2) by (auto simp: enclave_send_Ok)
  moreover have "is_success (fw_status f)" using assms(3) by (simp add: forwarded_is_success_def)
  ultimately show ?thesis using assms(1) unfolding brings_def is_success_def by metis
qed

lemma sent_was_executed:
  assumes "reaches_enclave C env est config net" "enclave_operations C config net e = Ok f"
    and "forwarded_is_success f"
  shows "\<exists>body resp. json_to_vec C (EncryptedRequest_json C e) = Some body \<and>
    execute C env est body = Ok resp \<and> fw_body f = as_bytes resp"
proof -
  have "brings (net (ec_base_url config @ ''/v1/operations'') (Some (EncryptedRequest_json C e)))
      (map_option (\<lambda>body. dispatch C env est (json_post ''/v1/operations'' body))
        (json_to_vec C (EncryptedRequest_json C e)))"
    using assms(1) by (simp add: reaches_enclave_def)
  from brought [OF this assms(2) [unfolded enclave_operations_def] assms(3)]
  obtain body where body: "json_to_vec C (EncryptedRequest_json C e) = Some body"
    "http_status (dispatch C env est (json_post ''/v1/operations'' body)) < 300"
    "fw_body f = http_body (dispatch C env est (json_post ''/v1/operations'' body))"
    by auto
  have same: "dispatch C env est (json_post ''/v1/operations'' body) = handle_operation C env est body"
    using body(2) by (rule dispatch_posted(1))
  with body handle_operation_success [of C env est body] show ?thesis by auto
qed

text \<open>A 200 for a new operation is the enclave's success, with its evidence.\<close>

lemma answered_200:
  assumes "answer J out outcome st = (response, st')" "is_ok outcome \<or> enclave_failure outcome"
    and "gr_status response = 200"
  shows "\<exists>f raw evidence. outcome = Ok f \<and> forwarded_is_success f \<and> rd_raw_value J (fw_body f) = Some raw \<and>
    response = json_response (OperatedBody raw evidence)"
proof -
  have failed: "gr_status (api_error_response e) \<noteq> 200" for e
    by (cases e) (simp_all add: api_error_response_def)
  show ?thesis
  proof (cases outcome)
    case (Inl e)
    then show ?thesis using assms by (auto simp: answer_def failed)
  next
    case (Inr f)
    then show ?thesis
      using assms failed
      by (auto simp: answer_def result_simps gateway_raw_json_def forwarded_response_def forwarded_is_success_def
          is_success_def split: if_splits sum.splits prod.splits)
  qed
qed

section \<open>Properties\<close>

definition opens_to :: "'x enclave_crates_scheme \<Rightarrow> AppState \<Rightarrow> bytes \<Rightarrow> OperationRequest \<Rightarrow> bool" where
  "opens_to C est ciphertext r \<longleftrightarrow>
     (\<exists>decrypted plaintext. pair_decrypt C (rt_quorum (st_runtime est)) ciphertext = Some decrypted \<and>
        from_utf8 decrypted = Some plaintext \<and> is_rfc8785 C plaintext \<and> parse_operation_request C plaintext = Ok r)"

definition ran_as_admitted ::
    "'x gateway_crates_scheme \<Rightarrow> Env \<Rightarrow> AppState \<Rightarrow> GatewayOperation \<Rightarrow> WalletGrant \<Rightarrow> OperationRequest \<Rightarrow> bytes \<Rightarrow> bool"
  where
  "ran_as_admitted C env est op grant r answered \<longleftrightarrow>
     opens_to C est (er_ciphertext (op_request op)) r \<and>
     (\<exists>now. env_clock env 0 = Some now \<and> authorized C est r now \<and>
        descriptor_current (req_wallet_descriptor r) now) \<and>
     ca_client_key_id (req_authorization r) = wg_client_key_id grant \<and>
     (unsigned_descriptor (req_wallet_descriptor r) = unsigned_descriptor (op_descriptor op) \<or>
      sha256_collision C (descriptor_hash_input C (req_wallet_descriptor r))
        (descriptor_hash_input C (op_descriptor op))) \<and>
     (\<exists>h result digest resp. request_digest C r = Ok h \<and>
        answer_operation C env r (wallet_key C r) (st_runtime est) = Ok (result, digest) \<and>
        respond C env est r h result digest = Ok resp \<and> answered = as_bytes resp)"

lemma executed_as_admitted:
  assumes "hex_laws C" "envelope_text_law C" "descriptor_digest C (op_descriptor op) = Ok (wg_descriptor_digest grant)"
    and "json_to_vec C (EncryptedRequest_json C ((op_request op) \<lparr> er_wallet_grant := Some grant \<rparr>)) = Some body"
    and "execute C env est body = Ok resp"
  shows "\<exists>r. ran_as_admitted C env est op grant r (as_bytes resp)"
proof -
  obtain r w h result digest where ran: "admit C env est body = Ok (r, w, h)"
    "answer_operation C env r w (st_runtime est) = Ok (result, digest)"
    "respond C env est r h result digest = Ok resp"
    using assms(5) unfolding execute_Ok by blast
  obtain e g later where admitted: "carries C est body e r" "validate C (env_clock env 0) r est = Ok w"
    "er_wallet_grant e = Some g"
    "verify_wallet_grant C g (rt_grant_public (st_runtime est)) (req_wallet_descriptor r)
       (ca_client_key_id (req_authorization r)) later = Ok ()" "request_digest C r = Ok h"
    using ran(1) unfolding admit_Ok by blast
  have e: "e = (op_request op) \<lparr> er_wallet_grant := Some grant \<rparr>"
    using assms(2,4) admitted(1) unfolding envelope_text_law_def carries_def by fastforce
  have "opens_to C est (er_ciphertext (op_request op)) r"
    using admitted(1) unfolding carries_def opens_to_def e by auto
  moreover have "g = grant" using admitted(3) by (simp add: e)
  then have grant: "descriptor_digest C (req_wallet_descriptor r) = Ok (wg_descriptor_digest grant)"
    "wg_client_key_id grant = ca_client_key_id (req_authorization r)"
    using admitted(4) by (simp_all add: verify_wallet_grant_iff)
  moreover have "\<exists>now. env_clock env 0 = Some now \<and> authorized C est r now \<and>
      descriptor_current (req_wallet_descriptor r) now" "w = wallet_key C r"
    using admitted(2) unfolding validate_Ok now_ms_Ok by blast+
  ultimately show ?thesis
    using descriptor_digest_binds [OF assms(1) grant(1) assms(3)] ran(2,3) admitted(5)
    unfolding ran_as_admitted_def by auto
qed

text \<open>
  C2. An operation that the client is answered with a 200 is one that both programs admitted: the gateway
  sent the enclave the client's ciphertext with a grant for the descriptor it had checked and the project
  that called; what that ciphertext opens to in the enclave is authorized there, by the client key that
  the grant names and under the very descriptor the gateway checked, up to its signature (or two different
  descriptors hash alike), so nobody can show the gateway one wallet and have the enclave run another; and
  the answer the client gets is the one of that run.
\<close>

theorem both_admit_what_runs:
  assumes "hex_laws C" "p256_laws C" "ecdsa_laws C" "envelope_text_law C"
    and "key_pair C (wgs_secret (gs_wallet_grants st)) (rt_grant_public (st_runtime est))"
    and "unat (wgs_lifetime_ms (gs_wallet_grants st)) \<le> 3600000"
    and "tk_sub_org_projects (gs_turnkey st) = names_after fetched"
    and "reaches_enclave C env est (gs_enclave st) (od_network out)"
    and "operations C J out p op st = (Ok response, st')" "gs_sent st' \<noteq> gs_sent st" "gr_status response = 200"
  shows "\<exists>grant r answered raw evidence.
    gs_sent st' = (op_request op) \<lparr> er_wallet_grant := Some grant \<rparr> # gs_sent st \<and>
    authorized_send C out p (op_descriptor op) st (rt_grant_public (st_runtime est)) fetched grant \<and>
    ran_as_admitted C env est op grant r answered \<and>
    rd_raw_value J answered = Some raw \<and> response = json_response (OperatedBody raw evidence)"
  using assms(9)
proof (cases rule: operations_cases)
  case (refused e)
  with assms(10) show ?thesis by simp
next
  case (worked permit l st1)
  note pair = assms(5)
  from worked(3) show ?thesis
  proof (cases rule: gateway_run_operation_cases)
    case (ran key l1 grant st2 sent outcome answered)
    obtain issued where "issue_grant C (gs_wallet_grants st) p (op_descriptor op) issued = Ok grant"
      using granted_Ok [OF ran(2)] by auto
    then have digest: "descriptor_digest C (op_descriptor op) = Ok (wg_descriptor_digest grant)"
      using issue_grant_Ok [OF assms(2,3) pair] by blast
    have "authorized_send C out p (op_descriptor op) (st \<lparr> gs_limiter := l, gs_replay := l1 \<rparr>)
        (rt_grant_public (st_runtime est)) fetched grant"
      by (rule sent_is_authorized [OF assms(2,3) _ _ _ _ ran(2)])
        (use assms(6,7) pair worked(1) in simp_all)
    moreover have "is_ok outcome \<or> enclave_failure outcome" unfolding ran(4) by (rule enclave_operations_failure)
    from answered_200 [OF ran(5) this] obtain f raw evidence where f: "outcome = Ok f" "forwarded_is_success f"
      "rd_raw_value J (fw_body f) = Some raw" "response = json_response (OperatedBody raw evidence)"
      using ran(6) assms(11) by auto
    moreover have "enclave_operations C (gs_enclave st) (od_network out) sent = Ok f"
      using ran(4) f(1) by simp
    from sent_was_executed [OF assms(8) this f(2)] obtain r where "ran_as_admitted C env est op grant r (fw_body f)"
      using executed_as_admitted [OF assms(1,4) digest] unfolding ran(3) by metis
    moreover have "gs_sent st' = sent # gs_sent st"
      using worked(4) only_turnkeyD [OF answer_only [OF ran(5)]] by simp
    ultimately show ?thesis
      unfolding ran(3)
      by (intro exI [of _ grant] exI [of _ r] exI [of _ "fw_body f"] exI [of _ raw] exI [of _ evidence]) simp
  qed (use worked(4) assms(10) in \<open>auto dest!: answer_only granted_only dest: only_turnkeyD\<close>)
qed


section \<open>A gateway in front of its enclave\<close>

text \<open>
  The toy packages of \<open>demo_host\<close> and of the gateway together; a gateway that signs with the secret of 32 ones,
  asked by the client of \<open>demo_bootstrap\<close>; and a network that hands over what it is given.
\<close>

definition demo_joint :: gateway_crates where
  "demo_joint = demo_host (gateway_crates.fields (\<lambda>s. Some (replicate 32 3)) (\<lambda>b. ''address'')
     (\<lambda>p m s. s = demo_hash p @ demo_hash m) (\<lambda>n. Some (decimal n)) (\<lambda>s. True))"

definition demo_front :: "nat \<Rightarrow> (string \<times> string) list GatewayState" where
  "demo_front n = demo_gateway_state
     \<lparr> gs_enclave := ec_max_body_bytes_update (\<lambda>_. n) (cfg_enclave demo_config),
       gs_provisioner := demo_provisioner \<lparr> pv_descriptor_ttl_ms := 990 \<rparr>,
       gs_wallet_grants := demo_grants \<lparr> wgs_lifetime_ms := 100 \<rparr> \<rparr>"

definition demo_reply :: "http_response \<Rightarrow> upstream_reply" where
  "demo_reply said = Responded (http_status said) (Some (as_bytes (http_content_type said))) None
     [Some (http_body said)]"

definition demo_link :: network where
  "demo_link url body =
     (let path = drop (length ''http://enclave'') url in
      case body of
        None \<Rightarrow> demo_reply (dispatch demo_joint demo_env demo_state (http_get path))
      | Some j \<Rightarrow>
          (case json_to_vec demo_joint j of
             None \<Rightarrow> NotSent
           | Some b \<Rightarrow> demo_reply (dispatch demo_joint demo_env demo_state (json_post path b))))"

definition demo_around :: "(string \<times> string) list outside" where
  "demo_around = demo_outside
     \<lparr> od_clock := Some 15, od_clock_again := Some 100, od_network := demo_link,
       od_turnkey := \<lparr> tr_whoami = (\<lambda>_. Ok ''project''), tr_accounts = (\<lambda>_ w. Ok [(w, ''address'')]) \<rparr> \<rparr>"

definition demo_bootstrap_operation :: GatewayOperation where
  "demo_bootstrap_operation =
     \<lparr> op_descriptor = demo_enrolled, op_request = demo_envelope \<lparr> er_wallet_grant := None \<rparr> \<rparr>"

lemma demo_link_reaches:
  "ec_base_url config = ''http://enclave'' \<Longrightarrow> reaches_enclave demo_joint demo_env demo_state config demo_link"
  by (auto simp: reaches_enclave_def brings_def demo_link_def demo_reply_def arrived_def Let_def
      split: option.splits)

lemma ping_is_no_operation: "EncryptedRequest_json C e \<noteq> QosPingRequest_json C q"
proof
  assume "EncryptedRequest_json C e = QosPingRequest_json C q"
  from bt_of_lookup [OF this [unfolded EncryptedRequest_json_def QosPingRequest_json_def json.inject], of "''ciphertext''"]
  show False by (simp split: option.splits)
qed

lemma demo_envelope_text: "envelope_text_law demo_joint"
proof -
  have hex: "hex_encode demo_joint = hex_encode demo_crates" by (simp add: demo_joint_def demo_host_fields)
  have writer: "json_to_vec demo_joint = (\<lambda>j.
      if j = EncryptedRequest_json demo_crates demo_envelope \<or> j = QosPingRequest_json demo_crates demo_ping
      then Some (as_bytes ''7'') else None)"
    by (simp add: demo_joint_def demo_host_def demo_enclave_defs)
  have "e = demo_envelope" if "json_to_vec demo_joint (EncryptedRequest_json demo_joint e) = Some b" for e b
    using that EncryptedRequest_json_inject [OF demo_hex_laws] ping_is_no_operation [of demo_crates e demo_ping]
    by (auto simp: writer EncryptedRequest_json_cong [OF hex] split: if_splits)
  moreover have "parse_encrypted_request demo_joint s = Ok demo_envelope" for s
    by (simp add: parse_encrypted_request_def parse_strict_json_def parse_strict_value_def demo_joint_def
        demo_host_def demo_enclave_defs)
  ultimately show ?thesis unfolding envelope_text_law_def by blast
qed

lemma demo_joint_laws: "hex_laws demo_joint" "p256_laws demo_joint" "ecdsa_laws demo_joint"
proof -
  have sign: "ecdsa_sign_prehash demo_joint = ecdsa_sign_prehash demo_crates"
    by (simp add: demo_joint_def demo_host_def demo_enclave_defs)
  show "hex_laws demo_joint" "p256_laws demo_joint" "ecdsa_laws demo_joint"
    using demo_hex_laws demo_p256_laws demo_ecdsa_laws sign
    unfolding hex_laws_def p256_laws_def ecdsa_laws_def low_s_signature_def demo_joint_def demo_host_fields
    by simp_all
qed

lemma demo_joint_issues:
  "issue_grant demo_joint (demo_grants \<lparr> wgs_lifetime_ms := 100 \<rparr>) ''project'' demo_enrolled 100 = Ok demo_wallet_grant"
proof -
  have sign: "sign_p256_prehash demo_joint (replicate 32 1) h = Ok (demo_signature h)" for h
    by (simp add: sign_p256_prehash_def demo_joint_def demo_host_def demo_enclave_defs demo_signature_head
        demo_signature_def)
  have clients: "wd_allowed_clients demo_enrolled = [\<lparr> cg_client_public_key = demo_key, cg_allowed_operations = OPERATIONS \<rparr>]"
    by (simp add: demo_enrolled_def demo_unsigned_wallet_def)
  have id: "client_key_id demo_joint demo_key = client_key_id demo_crates demo_key"
    by (simp add: demo_joint_def demo_client_key_id)
  have digest: "descriptor_digest demo_joint demo_enrolled = Ok (sha256_hash demo_crates (descriptor_hash_input demo_crates demo_enrolled))"
    "wallet_grant_digest demo_joint g = Ok (sha256_hash demo_crates (grant_hash_input demo_crates g))" for g
    by (simp_all add: demo_joint_def demo_digest)
  show ?thesis
    by (simp add: issue_grant_def clients id unrevoked_def demo_grants_def digest sign_wallet_grant_def Let_def sign
        saturating_add_def demo_wallet_grant_def demo_unsigned_grant_def demo_grant_def API_VERSION_def)
qed

lemma demo_joint_checked:
  "operation_checked demo_joint demo_around demo_enrolled (demo_front n) = Ok ()"
proof -
  have authorized: "authorized demo_joint demo_state demo_bootstrap 15"
    unfolding demo_joint_def by (rule demo_authorized)
  have "well_provisioned demo_joint demo_enrolled demo_key"
    using authorized unfolding authorized_def
    by (simp add: demo_wallet_of_bootstrap demo_state_def demo_runtime_def demo_key_def)
  then have "provisioner_verify demo_joint (demo_provisioner \<lparr> pv_descriptor_ttl_ms := 990 \<rparr>) demo_enrolled 15 = Ok ()"
    unfolding provisioner_verify_Ok well_provisioned_def
    by (simp add: demo_provisioner_def demo_enrolled_def demo_unsigned_wallet_def demo_descriptor_def
        demo_served_policy_def demo_policy_def descriptor_current_def)
  then show ?thesis
    by (simp add: operation_checked_Ok demo_front_def demo_around_def demo_gateway_state_def clock_ms_def
        clock_reading_def u64_try_from_def demo_enrolled_def demo_unsigned_wallet_def demo_grants_def)
qed

lemma demo_envelope_written:
  "json_to_vec demo_joint (EncryptedRequest_json demo_joint demo_envelope) = Some (as_bytes ''7'')"
  using EncryptedRequest_json_cong [of demo_joint demo_crates demo_envelope]
  by (simp add: demo_joint_def demo_host_def demo_enclave_defs)

lemma demo_link_answers:
  assumes "execute demo_joint demo_env demo_state (as_bytes ''7'') = Ok resp" "ec_max_body_bytes config = length resp"
    and "ec_base_url config = ''http://enclave''"
  shows "enclave_operations demo_joint config demo_link demo_envelope =
    Ok \<lparr> fw_status = 200, fw_content_type = as_bytes ''application/json'', fw_body = as_bytes resp \<rparr>"
proof -
  have "dispatch demo_joint demo_env demo_state (json_post ''/v1/operations'' (as_bytes ''7'')) = http_ok resp"
    using assms(1) json_content_type
    by (simp add: dispatch_def json_post_def to_bytes_def Let_def handle_operation_def)
      (simp add: as_bytes_def demo_state_def MAX_ENCRYPTED_REQUEST_BYTES_def)
  moreover note demo_envelope_written
  ultimately have "demo_link (''http://enclave'' @ ''/v1/operations'')
      (Some (EncryptedRequest_json demo_joint demo_envelope)) =
      Responded 200 (Some (as_bytes ''application/json'')) None [Some (as_bytes resp)]"
    by (simp add: demo_link_def demo_reply_def http_ok_def http_json_def)
  then show ?thesis
    using assms(2,3) by (simp add: enclave_operations_def is_server_error_def read_capped_def as_bytes_def)
qed

lemma demo_fresh_claim:
  "\<exists>l key. ledger_claim demo_joint (od_redis demo_around) (gs_replay (demo_front n)) p ciphertext
     (od_at demo_around Claimed) = (Ok (NewClaim key), l)"
proof -
  have front: "gs_replay (demo_front n) = Local (local_new (from_secs 360) 1000 0)" "od_at demo_around Claimed = 5"
    by (simp_all add: demo_front_def demo_gateway_state_def demo_around_def demo_outside_def)
  obtain l where "local_claim (local_new (from_secs 360) 1000 0) (key_of demo_joint p ciphertext) 5 =
      (Ok (NewClaim (key_of demo_joint p ciphertext)), l)"
    by (simp add: local_claim_def local_new_def Let_def current_map_def generations_get_def with_current_map_def
        from_secs_def)
  then show ?thesis unfolding front by (simp add: ledger_claim_def)
qed

lemma demo_front_simps:
  "gs_sent (demo_front n) = []" "gs_limiter (demo_front n) = limiter_new 4"
  "gs_turnkey (demo_front n) = gs_turnkey demo_gateway_state"
  "ec_max_body_bytes (gs_enclave (demo_front n)) = n" "ec_base_url (gs_enclave (demo_front n)) = ''http://enclave''"
  "gs_wallet_grants (demo_front n) = demo_grants \<lparr> wgs_lifetime_ms := 100 \<rparr>"
  by (simp_all add: demo_front_def demo_gateway_state_def demo_config_def)

lemma demo_around_simps:
  "od_clock_again demo_around = Some 100" "od_at demo_around m = 5" "od_network demo_around = demo_link"
  "tr_whoami (od_turnkey demo_around) = (\<lambda>_. Ok ''project'')"
  "od_boot_proofs demo_around = (\<lambda>_ _. BootProofBody [2])"
  by (simp_all add: demo_around_def demo_outside_def)

lemma demo_joint_granted:
  "\<exists>tk. granted demo_joint demo_around ''project'' demo_enrolled (demo_front n \<lparr> gs_limiter := lm, gs_replay := l \<rparr>) =
       (Ok demo_wallet_grant, demo_front n \<lparr> gs_limiter := lm, gs_replay := l, gs_turnkey := tk \<rparr>) \<and>
     tk_calls tk \<noteq> 0 \<and> tk_boot_proof_cache tk = []"
proof -
  obtain tk where tk: "verify_sub_org_project (gs_turnkey demo_gateway_state) (od_turnkey demo_around) 5 5
      ''project'' (wd_turnkey_organization_id demo_enrolled) = (Ok (), tk)" "tk_calls tk = 32" "tk_boot_proof_cache tk = []"
    by (simp add: turnkey_defs demo_gateway_state_def demo_around_simps Let_def)
  then show ?thesis
    using demo_joint_issues
    by (intro exI [of _ tk])
      (simp add: granted_def demo_around_simps demo_front_simps clock_ms_def clock_reading_def u64_try_from_def)
qed

lemma demo_granted_envelope:
  "(op_request demo_bootstrap_operation) \<lparr> er_wallet_grant := Some demo_wallet_grant \<rparr> = demo_envelope"
  by (simp add: demo_bootstrap_operation_def demo_envelope_def)

lemma demo_joint_link:
  assumes "execute demo_joint demo_env demo_state (as_bytes ''7'') = Ok resp"
  shows "enclave_operations demo_joint (gs_enclave (demo_front (length resp))) (od_network demo_around)
      ((op_request demo_bootstrap_operation) \<lparr> er_wallet_grant := Some demo_wallet_grant \<rparr>) =
    Ok \<lparr> fw_status = 200, fw_content_type = as_bytes ''application/json'', fw_body = as_bytes resp \<rparr>"
  using demo_link_answers [OF assms demo_front_simps(4,5)] by (simp add: demo_around_simps demo_granted_envelope)

lemma demo_joint_runs:
  "\<exists>n answered st. operations demo_joint demo_readers demo_around ''project'' demo_bootstrap_operation (demo_front n) =
       (Ok (json_response (OperatedBody answered [2])), st) \<and> gs_sent st = [demo_envelope]"
proof -
  have "\<exists>resp. execute demo_joint demo_env demo_state (as_bytes ''7'') = Ok resp"
    unfolding demo_joint_def by (rule demo_answers)
  then obtain resp where resp: "execute demo_joint demo_env demo_state (as_bytes ''7'') = Ok resp" by blast
  let ?n = "length resp"
  obtain permit lm where permit: "limiter_try_acquire (gs_limiter (demo_front ?n)) ''project'' = (Inr permit, lm)"
    by (simp add: turnkey_defs demo_front_simps)
  obtain l key where claim: "ledger_claim demo_joint (od_redis demo_around) (gs_replay (demo_front ?n)) ''project''
      (er_ciphertext (op_request demo_bootstrap_operation)) (od_at demo_around Claimed) = (Ok (NewClaim key), l)"
    using demo_fresh_claim by blast
  obtain tk where granted: "granted demo_joint demo_around ''project'' demo_enrolled
      (demo_front ?n \<lparr> gs_limiter := lm, gs_replay := l \<rparr>) =
      (Ok demo_wallet_grant, demo_front ?n \<lparr> gs_limiter := lm, gs_replay := l, gs_turnkey := tk \<rparr>)"
    and tk: "tk_calls tk \<noteq> 0" "tk_boot_proof_cache tk = []"
    using demo_joint_granted by blast
  have op: "op_descriptor demo_bootstrap_operation = demo_enrolled" by (simp add: demo_bootstrap_operation_def)
  have proof_cached: "boot_proof (gs_turnkey (demo_front ?n \<lparr> gs_limiter := lm, gs_replay := l, gs_turnkey := tk \<rparr>))
      (od_boot_proofs demo_around) SharedShare demo_ephemeral_key =
      (Ok [2], tk \<lparr> tk_boot_proof_cache := [(demo_ephemeral_key, [2])] \<rparr>)"
    using demo_boot_proof [OF tk] by (simp add: demo_around_simps)
  have readers: "app_proof_key demo_readers b = Ok demo_ephemeral_key" "rd_raw_value demo_readers b = Some b" for b
    by (simp_all add: demo_readers_def app_proof_key_def)
  let ?f = "\<lparr> fw_status = 200, fw_content_type = as_bytes ''application/json'', fw_body = as_bytes resp \<rparr>"
  have success: "forwarded_is_success ?f" by (simp add: forwarded_is_success_def is_success_def)
  obtain st where "operations demo_joint demo_readers demo_around ''project'' demo_bootstrap_operation (demo_front ?n) =
      (Ok (json_response (OperatedBody (as_bytes resp) [2])), st)" "gs_sent st = demo_envelope # gs_sent (demo_front ?n)"
    using operation_succeeds [OF demo_joint_checked [of ?n, folded op] permit claim granted [folded op]
        demo_joint_link [OF resp] success readers(1) _ proof_cached readers(2)] readers(2)
    unfolding demo_granted_envelope by fastforce
  then show ?thesis by (metis demo_front_simps(1))
qed

theorem both_admit_what_runs_witness:
  "\<exists>n answered st grant r. operations demo_joint demo_readers demo_around ''project'' demo_bootstrap_operation
       (demo_front n) = (Ok (json_response (OperatedBody answered [2])), st) \<and>
     gs_sent st = [(op_request demo_bootstrap_operation) \<lparr> er_wallet_grant := Some grant \<rparr>] \<and>
     ran_as_admitted demo_joint demo_env demo_state demo_bootstrap_operation grant r answered"
proof -
  obtain n answered st where ran: "operations demo_joint demo_readers demo_around ''project'' demo_bootstrap_operation
      (demo_front n) = (Ok (json_response (OperatedBody answered [2])), st)" "gs_sent st = [demo_envelope]"
    using demo_joint_runs by blast
  have pair: "key_pair demo_joint (wgs_secret (gs_wallet_grants (demo_front n))) (rt_grant_public (st_runtime demo_state))"
    by (simp add: key_pair_def demo_joint_def demo_host_fields public_key_uncompressed_def demo_front_def demo_grants_def
        demo_state_def demo_runtime_def) (simp add: demo_crates_def flip: replicate_add)
  have lifetime: "unat (wgs_lifetime_ms (gs_wallet_grants (demo_front n))) \<le> 3600000"
    by (simp add: demo_front_def)
  have names: "tk_sub_org_projects (gs_turnkey (demo_front n)) = names_after []"
    by (simp add: demo_front_def demo_gateway_state_def names_after_def)
  have reaches: "reaches_enclave demo_joint demo_env demo_state (gs_enclave (demo_front n)) (od_network demo_around)"
    using demo_link_reaches [OF demo_front_simps(5)] by (simp add: demo_around_def)
  have sent: "gs_sent st \<noteq> gs_sent (demo_front n)" using ran(2) by (simp add: demo_front_def demo_gateway_state_def)
  have ok: "gr_status (json_response (OperatedBody answered [2])) = 200" by (simp add: json_response_def)
  from both_admit_what_runs [OF demo_joint_laws demo_envelope_text pair lifetime names reaches ran(1) sent ok]
  obtain grant r a raw evidence where both:
    "gs_sent st = (op_request demo_bootstrap_operation) \<lparr> er_wallet_grant := Some grant \<rparr> # gs_sent (demo_front n)"
    "ran_as_admitted demo_joint demo_env demo_state demo_bootstrap_operation grant r a"
    "rd_raw_value demo_readers a = Some raw" "json_response (OperatedBody answered [2]) = json_response (OperatedBody raw evidence)"
    by blast
  have "a = answered" using both(3,4) by (simp add: demo_readers_def json_response_def)
  moreover have "gs_sent (demo_front n) = []" by (simp add: demo_front_def demo_gateway_state_def)
  ultimately show ?thesis
    using both(1,2) ran(1)
    by (intro exI [of _ n] exI [of _ answered] exI [of _ st] exI [of _ grant] exI [of _ r]) simp
qed

end
