(* ===== verification/Served_Client.thy ===== *)
theory Served_Client
  imports End_To_End
begin

text \<open>
  The other direction of \<open>End_To_End\<close>: a client that the gateway enrolled, and that builds its request for
  the enclave that is running, is not refused by either program. What the gateway sends for it passes every
  check of the enclave, which then runs the operation.
\<close>

section \<open>What a client does\<close>

text \<open>
  A request for the release that discovery names, under the descriptor of the enrollment, with a sealed
  seed exactly when it is no bootstrap, authorized with the client's secret by the protocol crate's own
  \<open>authorize_operation_request\<close>.
\<close>

definition built_for ::
    "'x crates_scheme \<Rightarrow> ServiceInfo \<Rightarrow> bytes \<Rightarrow> bytes \<Rightarrow> WalletDescriptor \<Rightarrow> OperationRequest \<Rightarrow> bool" where
  "built_for C info secret client_public d r \<longleftrightarrow>
     key_pair C secret client_public \<and> req_wallet_descriptor r = d \<and> req_version r = API_VERSION \<and>
     req_target_release_id r = si_release_id info \<and> req_target_manifest_digest r = si_manifest_digest info \<and>
     req_target_executable_digest r = si_executable_digest info \<and>
     req_quorum_key_id r = si_quorum_key_id info \<and> req_quorum_key_epoch r = si_quorum_key_epoch info \<and>
     (req_sealed_seed r = None \<longleftrightarrow> req_operation r = Bootstrap) \<and>
     is_ok (parse_uncompressed_sec1 C (req_client_response_public_key r)) \<and>
     (\<exists>u. ca_client_key_id (req_authorization u) = client_key_id C client_public \<and>
        authorize_operation_request C u secret = Ok r)"

lemma every_kind_is_served: "k \<in> set OPERATIONS"
  by (cases k) (simp_all add: OPERATIONS_def)

lemma built_request_is_signed:
  assumes "p256_laws C" "ecdsa_laws C" "built_for C info secret client_public d r"
  shows "ca_client_key_id (req_authorization r) = client_key_id C client_public"
    and "verify_client_authorization C r client_public = Ok ()"
proof -
  obtain u k where u: "ca_client_key_id (req_authorization u) = client_key_id C client_public"
    "authorize_operation_request C u secret = Ok r" "p256_secret C secret = Some k"
    "client_public = public_key_uncompressed C (p256_public_key C k)"
    using assms(3) by (auto simp: built_for_def key_pair_def)
  then show "ca_client_key_id (req_authorization r) = client_key_id C client_public"
    by (auto simp: authorize_operation_request_def result_simps)
  show "verify_client_authorization C r client_public = Ok ()"
    using authorization_roundtrip [OF assms(1,2) u(3,2)] u(1,4) client_key_id_nonempty [of C client_public] by simp
qed

lemma built_request_is_authorized:
  assumes "p256_laws C" "ecdsa_laws C" "built_for C (st_info est) secret client_public d r"
    and "si_supported_operations (st_info est) = OPERATIONS" "request_fresh r now"
    and "well_provisioned C d (rt_provisioning_public (st_runtime est))"
    and "wd_network d = si_network (st_info est)" "wd_security_domain_id d = si_security_domain_id (st_info est)"
    and "wd_turnkey_wallet_id d \<noteq> []" "length client_public = 65"
    and "wd_allowed_clients d = [\<lparr> cg_client_public_key = client_public, cg_allowed_operations = OPERATIONS \<rparr>]"
  shows "authorized C est r now"
proof -
  have "release_bound r (st_info est)"
    using assms(3,7-9) by (simp add: release_bound_def built_for_def)
  moreover have "signed_by_client C r"
    using built_request_is_signed [OF assms(1-3)] assms(3,10,11) by (simp add: signed_by_client_def built_for_def)
  ultimately show ?thesis
    using assms(3-6) every_kind_is_served by (simp add: authorized_def built_for_def)
qed

section \<open>What the enclave admits\<close>

lemma opened_is_admitted:
  assumes "envelope_text_law C" "json_to_vec C (EncryptedRequest_json C e) = Some body" "from_utf8 body = Some written"
    and "opens_to C est (er_ciphertext e) r" "outer_bound e (st_info est)" "er_wallet_grant e = Some g"
    and "now_ms (env_clock env 0) = Ok now" "authorized C est r (unat now)"
    and "descriptor_current (req_wallet_descriptor r) (unat now)" "now_ms (env_clock env 1) = Ok later"
    and "verify_wallet_grant C g (rt_grant_public (st_runtime est)) (req_wallet_descriptor r)
      (ca_client_key_id (req_authorization r)) later = Ok ()"
    and "is_ok (parse_uncompressed_sec1 C (req_client_response_public_key r))"
  shows "\<exists>h. admit C env est body = Ok (r, wallet_key C r, h)"
proof -
  have "carries C est body e r"
    using assms(1-4) unfolding carries_def envelope_text_law_def opens_to_def by blast
  moreover have "validate C (env_clock env 0) r est = Ok (wallet_key C r)"
    using assms(7-9) unfolding validate_Ok by blast
  moreover obtain h where "request_digest C r = Ok h"
    using assms(8) by (auto simp: authorized_def signed_by_client_def verify_client_authorization_iff)
  ultimately show ?thesis
    using assms(5,6,10-12) unfolding admit_Ok by blast
qed

lemma sent_has_new_grant:
  assumes "operations C J out p op st = (r, st')" "gs_sent st' \<noteq> gs_sent st"
  shows "\<exists>grant issued. gs_sent st' = (op_request op) \<lparr> er_wallet_grant := Some grant \<rparr> # gs_sent st \<and>
    clock_ms (od_clock_again out) = Ok issued \<and>
    issue_grant C (gs_wallet_grants st) p (op_descriptor op) issued = Ok grant"
  using assms(1)
proof (cases rule: operations_cases)
  case (worked permit l st1)
  from worked(3) show ?thesis
  proof (cases rule: gateway_run_operation_cases)
    case (ran key l1 grant st2 sent outcome response)
    then show ?thesis
      using granted_Ok [OF ran(2)] worked(4) only_turnkeyD [OF answer_only [OF ran(5)]] by auto
  qed (use worked(4) assms(2) in \<open>auto dest!: answer_only granted_only dest: only_turnkeyD\<close>)
qed (use assms(2) in simp)

section \<open>Properties\<close>

text \<open>A gateway and the enclave it was configured for.\<close>

definition paired :: "'x enclave_crates_scheme \<Rightarrow> 'r GatewayState \<Rightarrow> AppState \<Rightarrow> bool" where
  "paired C st est \<longleftrightarrow>
     key_pair C (pv_secret (gs_provisioner st)) (pv_public_key (gs_provisioner st)) \<and>
     unat (wgs_lifetime_ms (gs_wallet_grants st)) \<le> 3600000 \<and>
     enclave_of C (gs_provisioner st) (gs_wallet_grants st) est \<and>
     si_supported_operations (st_info est) = OPERATIONS"

lemma started_is_paired:
  assumes "gateway_start C senv config = Ok st" "enclave_of C (gs_provisioner st) (gs_wallet_grants st) est"
    and "coherent C net est"
  shows "paired C st est"
  using assms provisioner_new_Ok wallet_grants_new_Ok
  by (fastforce simp: paired_def coherent_def gateway_start_def gateway_new_def result_simps)

text \<open>The request is fresh and its descriptor current when the enclave reads its clock, and the gateway's clock,
  when it signs the grant, agrees with the enclave's to a minute beyond the grant's lifetime.\<close>

definition in_time :: "Env \<Rightarrow> 'r outside \<Rightarrow> u64 \<Rightarrow> OperationRequest \<Rightarrow> bool" where
  "in_time env out lifetime r \<longleftrightarrow>
     (\<exists>now later issued. now_ms (env_clock env 0) = Ok now \<and> request_fresh r (unat now) \<and>
        descriptor_current (req_wallet_descriptor r) (unat now) \<and>
        now_ms (env_clock env 1) = Ok later \<and> clock_ms (od_clock_again out) = Ok issued \<and>
        unat issued \<le> unat later + 60000 \<and> unat later \<le> unat issued + unat lifetime + 60000)"

text \<open>The bytes of a request: a text, as all JSON is.\<close>

definition written_as :: "'x enclave_crates_scheme \<Rightarrow> EncryptedRequest \<Rightarrow> bytes \<Rightarrow> bool" where
  "written_as C e body \<longleftrightarrow> json_to_vec C (EncryptedRequest_json C e) = Some body \<and> from_utf8 body \<noteq> None"

lemma enrolled_by:
  assumes "enroll C out p request st = (Ok (json_response (EnrolledBody d)), st')"
  shows "\<exists>i. valid_enrollment C request i \<and> provisioner_sign C (gs_provisioner st) i = Ok d"
proof -
  obtain i where i: "enroll_checked C out request st = Ok i"
    "with_permit p (enroll_work C out p i) st = (Ok (json_response (EnrolledBody d)), st')"
    using assms by (auto simp: enroll_def split: sum.splits)
  then obtain l st1 where "enroll_work C out p i (st \<lparr> gs_limiter := l \<rparr>) =
      (Ok (json_response (EnrolledBody d)), st1)"
    by (auto elim: with_permit_cases)
  then have "provisioner_sign C (gs_provisioner st) i = Ok d"
    by (auto simp: enroll_work_def Let_def result_simps json_response_def split: prod.splits sum.splits)
  moreover have "valid_enrollment C request i"
    using i(1) by (auto simp: enroll_checked_def result_simps enrollment_verify_Ok)
  ultimately show ?thesis by blast
qed

text \<open>
  C6. Who enrolled is served: a request that a client builds for the running enclave, under the descriptor the
  gateway enrolled it with and with the key it enrolled, passes all of the enclave's checks once the
  gateway has sent it, as long as the request is fresh, the descriptor current and the two clocks agree;
  the enclave then runs that request for the wallet of the enrollment.
\<close>

theorem enrolled_client_is_served:
  assumes "p256_laws C" "ecdsa_laws C" "text_agreement_laws C" "envelope_text_law C"
    and "paired C st est" "gs_provisioner st1 = gs_provisioner st" "gs_wallet_grants st1 = gs_wallet_grants st"
    and "enroll C before p request st = (Ok (json_response (EnrolledBody d)), st0)"
    and "client_public_key C (enr_client_public_key request) = Some client_public"
    and "built_for C (st_info est) secret client_public d r" "op_descriptor op = d"
    and "opens_to C est (er_ciphertext (op_request op)) r" "outer_bound (op_request op) (st_info est)"
    and "operations C J out p' op st1 = (response, st2)" "gs_sent st2 \<noteq> gs_sent st1"
    and "written_as C (hd (gs_sent st2)) body" "in_time env out (wgs_lifetime_ms (gs_wallet_grants st)) r"
  shows "\<exists>h. admit C env est body = Ok (r, wallet_key C r, h) \<and>
    execute C env est body =
      and_then (answer_operation C env r (wallet_key C r) (st_runtime est)) (\<lambda>(result, digest).
      respond C env est r h result digest)"
proof -
  have keys: "key_pair C (pv_secret (gs_provisioner st)) (pv_public_key (gs_provisioner st))"
    "unat (wgs_lifetime_ms (gs_wallet_grants st)) \<le> 3600000"
    "key_pair C (wgs_secret (gs_wallet_grants st)) (rt_grant_public (st_runtime est))"
    and served: "enclave_of C (gs_provisioner st) (gs_wallet_grants st) est"
      "si_supported_operations (st_info est) = OPERATIONS"
    using assms(5) by (simp_all add: paired_def enclave_of_def)
  obtain i where i: "valid_enrollment C request i" "provisioner_sign C (gs_provisioner st) i = Ok d"
    using enrolled_by [OF assms(8)] by blast
  then have client: "eni_client_public_key i = client_public"
    using assms(9) by (simp add: valid_enrollment_def)
  note issued = issued_for_its_enclave [OF assms(1-3) keys(1) served(1) i, unfolded client]
  have d: "req_wallet_descriptor r = d" "is_ok (parse_uncompressed_sec1 C (req_client_response_public_key r))"
    using assms(10) by (simp_all add: built_for_def)
  from assms(17) obtain now later at where time: "now_ms (env_clock env 0) = Ok now" "request_fresh r (unat now)"
    "descriptor_current (req_wallet_descriptor r) (unat now)" "now_ms (env_clock env 1) = Ok later"
    "clock_ms (od_clock_again out) = Ok at" "unat at \<le> unat later + 60000"
    "unat later \<le> unat at + unat (wgs_lifetime_ms (gs_wallet_grants st)) + 60000"
    unfolding in_time_def by blast
  have authorized: "authorized C est r (unat now)"
    by (rule built_request_is_authorized [OF assms(1,2,10) served(2) time(2) issued])
  obtain grant where sent: "gs_sent st2 = (op_request op) \<lparr> er_wallet_grant := Some grant \<rparr> # gs_sent st1"
    and grant: "issue_grant C (gs_wallet_grants st) p' d at = Ok grant"
    using sent_has_new_grant [OF assms(14,15)] assms(7,11) time(5) by auto
  have verified: "verify_wallet_grant C grant (rt_grant_public (st_runtime est)) (req_wallet_descriptor r)
      (ca_client_key_id (req_authorization r)) later = Ok ()"
    using issued_grant_verifies [OF assms(1,2) keys(3,2) grant issued(6) time(6,7)]
      built_request_is_signed(1) [OF assms(1,2,10)] d(1) by simp
  have envelope: "opens_to C est (er_ciphertext (hd (gs_sent st2))) r" "outer_bound (hd (gs_sent st2)) (st_info est)"
    "er_wallet_grant (hd (gs_sent st2)) = Some grant"
    using assms(12,13) by (simp_all add: sent outer_bound_def)
  from assms(16) obtain written where "json_to_vec C (EncryptedRequest_json C (hd (gs_sent st2))) = Some body"
    "from_utf8 body = Some written"
    by (auto simp: written_as_def)
  from opened_is_admitted [OF assms(4) this envelope time(1) authorized time(3,4) verified d(2)]
  show ?thesis by (auto simp: execute_def)
qed

section \<open>A client that is served\<close>

text \<open>The owner of the wallet of \<open>demo_descriptor\<close> enrolls the client key of 32 ones.\<close>

definition demo_wish :: EnrollmentRequest where
  "demo_wish =
     \<lparr> enr_organization_id = ''1f0e6b1e-2a4c-4f7e-8d2b-3c4d5e6f7a8b'',
       enr_turnkey_wallet_id = ''2a1b3c4d-5e6f-4a8b-9c0d-1e2f3a4b5c6d'', enr_solana_address = ''address'',
       enr_client_public_key = demo_hex_encode demo_key, enr_issued_at_ms = 10, enr_owner_signature = [] \<rparr>"

definition demo_wish_signed :: EnrollmentRequest where
  "demo_wish_signed = demo_wish
     \<lparr> enr_owner_signature := demo_hex_encode (demo_hash demo_owner @ demo_hash (as_bytes
         (the (message demo_joint ''devnet.helius-rpc.com'' Devnet demo_wish)))) \<rparr>"

definition demo_wish_input :: EnrollmentInput where
  "demo_wish_input =
     \<lparr> eni_organization_id = ''1f0e6b1e-2a4c-4f7e-8d2b-3c4d5e6f7a8b'',
       eni_turnkey_wallet_id = ''2a1b3c4d-5e6f-4a8b-9c0d-1e2f3a4b5c6d'',
       eni_solana_address = ''address'', eni_owner_public_key = demo_owner,
       eni_client_public_key = demo_key, eni_issued_at_ms = 10 \<rparr>"

lemma demo_joint_fields:
  "bs58_decode demo_joint = (\<lambda>s. Some (replicate 32 3))" "bs58_encode demo_joint = (\<lambda>b. ''address'')"
  "ed25519_strict demo_joint = (\<lambda>p m s. s = demo_hash p @ demo_hash m)"
  "rfc3339_of_millis demo_joint = (\<lambda>n. Some (decimal n))"
  "hex_decode demo_joint = demo_hex_decode" "uuid_hyphenated demo_joint = (\<lambda>s. Some s)"
  "pubkey_from_str demo_joint = (\<lambda>s. Some (demo_hash (as_bytes s)))"
  "sec1_point demo_joint = sec1_point demo_crates" "sec1_is_compressed demo_joint = sec1_is_compressed demo_crates"
  "p256_from_point demo_joint = p256_from_point demo_crates"
  by (simp_all add: demo_joint_def demo_host_def demo_enclave_defs gateway_crates.defs)

lemma demo_joint_client_key: "client_public_key demo_joint (demo_hex_encode demo_key) = Some demo_key"
proof -
  have lower: "list_all (\<lambda>c. \<not> is_ascii_uppercase c) s" if "list_all is_lower_hex_digit s" for s
    using that by (auto simp: list_all_iff is_ascii_uppercase_def is_lower_hex_digit_def is_ascii_digit_def)
  have "list_all is_lower_hex_digit (demo_hex_encode demo_key)"
    using demo_hex_laws by (auto simp: hex_laws_def demo_hex_encode_field)
  from lower [OF this] show ?thesis
    by (simp add: client_public_key_def hex_decode_to_slice_def demo_joint_fields demo_hex_roundtrip
        parse_uncompressed_sec1_def SEC1_UNCOMPRESSED_LEN_def demo_crates_def demo_key_def Let_def
        del: demo_hex_encode.simps)
qed

lemma demo_wish_verifies: "enrollment_verify demo_joint demo_enrollment demo_wish_signed 15 = Ok demo_wish_input"
proof -
  let ?m = "the (message demo_joint ''devnet.helius-rpc.com'' Devnet demo_wish)"
  have "message demo_joint ''devnet.helius-rpc.com'' Devnet demo_wish_signed = Some ?m"
    by (simp add: message_def demo_wish_signed_def demo_wish_def rfc3339_millis_def
        demo_joint_fields checked_add_def MAX_ENROLLMENT_AGE_MS_def)
  then have "owner_signed demo_joint demo_enrollment demo_wish_signed demo_wish_input"
    by (intro owner_signed_def [THEN iffD2] exI [of _ "''devnet.helius-rpc.com''"] exI [of _ ?m])
      (simp add: demo_enrollment_def hex_decode_to_slice_def demo_joint_fields demo_wish_signed_def
        demo_hex_roundtrip demo_wish_input_def)
  moreover have "solana_public_key demo_joint ''address'' = Some demo_owner"
    by (simp add: solana_public_key_def demo_joint_fields demo_owner_def)
  then have "valid_enrollment demo_joint demo_wish_signed demo_wish_input"
    using demo_uuid_texts demo_joint_client_key
    by (simp add: valid_enrollment_def demo_wish_signed_def demo_wish_def demo_wish_input_def
        del: demo_hex_encode.simps)
  ultimately show ?thesis
    unfolding enrollment_verify_Ok by (simp add: enrollment_fresh_def demo_wish_signed_def demo_wish_def)
qed

lemma demo_joint_signs: "sign_p256_prehash demo_joint (replicate 32 1) h = Ok (demo_signature h)"
  by (simp add: sign_p256_prehash_def demo_joint_def demo_host_def demo_enclave_defs demo_signature_head
      demo_signature_def)

lemma demo_wish_granted:
  "provisioner_sign demo_joint (demo_provisioner \<lparr> pv_descriptor_ttl_ms := 990 \<rparr>) demo_wish_input = Ok demo_enrolled"
proof -
  have "descriptor_digest demo_joint d = Ok (sha256_hash demo_crates (descriptor_hash_input demo_crates d))" for d
    by (simp add: demo_joint_def demo_digest)
  then show ?thesis
    by (simp add: provisioner_sign_def demo_provisioner_def demo_wish_input_def demo_joint_signs Let_def
        demo_enrolled_def demo_unsigned_wallet_def demo_descriptor_def demo_served_policy_def demo_policy_def
        saturating_add_def API_VERSION_def)
      (simp add: descriptor_hash_input_def descriptor_payload_def)
qed

lemma demo_joint_enrolls:
  "\<exists>st. enroll demo_joint demo_around ''project'' demo_wish_signed (demo_front n) =
     (Ok (json_response (EnrolledBody demo_enrolled)), st)"
proof -
  obtain permit lm where permit: "limiter_try_acquire (gs_limiter (demo_front n)) ''project'' = (Inr permit, lm)"
    by (simp add: turnkey_defs demo_front_simps)
  have front: "gs_provisioner (demo_front n) = demo_provisioner \<lparr> pv_descriptor_ttl_ms := 990 \<rparr>"
    "gs_enrollment (demo_front n) = demo_enrollment" "od_clock demo_around = Some 15"
    by (simp_all add: demo_front_def demo_gateway_state_def demo_around_def)
  have "enroll_checked demo_joint demo_around demo_wish_signed (demo_front n) = Ok demo_wish_input"
    using demo_wish_verifies
    by (simp add: enroll_checked_def front demo_front_simps clock_ms_def clock_reading_def u64_try_from_def
        provisioner_check_current_def demo_provisioner_def demo_served_policy_def demo_policy_def
        check_client_key_def unrevoked_def demo_grants_def)
  moreover obtain tk where owned: "verify_ownership (gs_turnkey (demo_front n)) (od_turnkey demo_around) 5 5 ''project''
      \<lparr> cw_organization_id = eni_organization_id demo_wish_input,
        cw_wallet_id = eni_turnkey_wallet_id demo_wish_input,
        cw_address = eni_solana_address demo_wish_input \<rparr> = (Ok (), tk)"
    by (simp add: turnkey_defs demo_front_simps demo_gateway_state_def demo_around_def demo_wish_input_def Let_def)
  then have "enroll_work demo_joint demo_around ''project'' demo_wish_input (demo_front n \<lparr> gs_limiter := lm \<rparr>) =
      (Ok (json_response (EnrolledBody demo_enrolled)), demo_front n \<lparr> gs_limiter := lm, gs_turnkey := tk \<rparr>)"
    using demo_wish_granted by (simp add: enroll_work_def Let_def demo_around_simps front)
  ultimately show ?thesis using permit by (simp add: enroll_def with_permit_def)
qed

lemma demo_built: "built_for demo_joint (st_info demo_state) (replicate 32 1) demo_key demo_enrolled demo_bootstrap"
proof -
  have pair: "key_pair demo_joint (replicate 32 1) demo_key"
    by (simp add: key_pair_def demo_joint_def demo_host_fields public_key_uncompressed_def demo_key_def)
      (simp add: demo_crates_def flip: replicate_add)
  have id: "client_key_id demo_joint demo_key = client_key_id demo_crates demo_key"
    by (simp add: demo_joint_def demo_client_key_id)
  have auth: "client_auth_digest demo_joint h = client_auth_digest demo_crates h" for h
    by (simp add: demo_joint_def demo_client_auth_digest)
  have digest: "request_digest demo_joint demo_unsigned_bootstrap =
      Ok (sha256_hash demo_crates (request_hash_input demo_crates demo_unsigned_bootstrap))"
    unfolding demo_joint_def
    by (subst demo_digest(3)) (simp_all add: demo_unsigned_bootstrap_def demo_request_def no_float del: has_float.simps)
  have "authorize_operation_request demo_joint demo_unsigned_bootstrap (replicate 32 1) = Ok demo_bootstrap"
    using digest auth by (simp add: authorize_operation_request_def demo_joint_signs demo_bootstrap_def)
      (simp add: demo_unsigned_bootstrap_def)
  then show ?thesis
    unfolding built_for_def using pair id
    by (auto simp: demo_state_def demo_bootstrap_def demo_unsigned_bootstrap_def demo_request_def API_VERSION_def
        parse_uncompressed_sec1_def demo_joint_fields demo_key_def demo_crates_def SEC1_UNCOMPRESSED_LEN_def
        intro!: exI [of _ demo_unsigned_bootstrap])
qed

lemma demo_joint_in_time: "in_time demo_env demo_around lifetime demo_bootstrap"
proof -
  have "request_fresh demo_bootstrap 15" using demo_authorized [of "()"] by (simp add: authorized_def)
  moreover have "descriptor_current (req_wallet_descriptor demo_bootstrap) 15"
    by (simp add: demo_wallet_of_bootstrap descriptor_current_def)
  moreover have "now_ms (env_clock demo_env i) = Ok 15" for i
    by (simp add: demo_env_def now_ms_Ok)
  moreover have "clock_ms (od_clock_again demo_around) = Ok 100"
    by (simp add: demo_around_simps clock_ms_def clock_reading_def u64_try_from_def)
  ultimately show ?thesis
    unfolding in_time_def by (intro exI [of _ 15] exI [of _ 15] exI [of _ 100]) simp
qed

lemma demo_joint_opens:
  "opens_to demo_joint demo_state (er_ciphertext (op_request demo_bootstrap_operation)) demo_bootstrap"
proof -
  have "carries demo_joint demo_state (as_bytes ''7'') demo_envelope demo_bootstrap"
    unfolding demo_joint_def by (rule demo_carries)
  then show ?thesis by (auto simp: carries_def opens_to_def demo_bootstrap_operation_def)
qed

lemma demo_joint_paired: "paired demo_joint (demo_front n) demo_state"
proof -
  have pair: "key_pair demo_joint (replicate 32 1) demo_key" using demo_built by (simp add: built_for_def)
  have "gs_provisioner (demo_front n) = demo_provisioner \<lparr> pv_descriptor_ttl_ms := 990 \<rparr>" by (simp add: demo_front_def)
  then show ?thesis
    unfolding paired_def enclave_of_def using pair
    by (simp add: demo_front_simps demo_provisioner_def demo_grants_def demo_state_def demo_runtime_def
        demo_served_policy_def demo_policy_def flip: demo_key_def)
qed

theorem enrolled_client_is_served_witness:
  "\<exists>n st0 response st2 h.
     enroll demo_joint demo_around ''project'' demo_wish_signed (demo_front n) =
       (Ok (json_response (EnrolledBody demo_enrolled)), st0) \<and>
     operations demo_joint demo_readers demo_around ''project'' demo_bootstrap_operation (demo_front n) = (response, st2) \<and>
     gs_sent st2 = [demo_envelope] \<and>
     admit demo_joint demo_env demo_state (as_bytes ''7'') = Ok (demo_bootstrap, wallet_key demo_joint demo_bootstrap, h)"
proof -
  obtain n answered st2 where ran: "operations demo_joint demo_readers demo_around ''project'' demo_bootstrap_operation
      (demo_front n) = (Ok (json_response (OperatedBody answered [2])), st2)" "gs_sent st2 = [demo_envelope]"
    using demo_joint_runs by blast
  obtain st0 where enrolled: "enroll demo_joint demo_around ''project'' demo_wish_signed (demo_front n) =
      (Ok (json_response (EnrolledBody demo_enrolled)), st0)"
    using demo_joint_enrolls by blast
  have texts: "text_agreement_laws demo_joint" by (simp add: text_agreement_laws_def demo_joint_fields)
  have key: "client_public_key demo_joint (enr_client_public_key demo_wish_signed) = Some demo_key"
    using demo_joint_client_key by (simp add: demo_wish_signed_def demo_wish_def)
  have op: "op_descriptor demo_bootstrap_operation = demo_enrolled"
    "outer_bound (op_request demo_bootstrap_operation) (st_info demo_state)"
    by (simp_all add: demo_bootstrap_operation_def demo_envelope_def outer_bound_def demo_state_def API_VERSION_def)
  have sent: "gs_sent st2 \<noteq> gs_sent (demo_front n)" using ran(2) by (simp add: demo_front_simps)
  have "written_as demo_joint (hd (gs_sent st2)) (as_bytes ''7'')"
    using ran(2) demo_envelope_written by (simp add: written_as_def from_utf8_def as_bytes_def)
  from enrolled_client_is_served [OF demo_joint_laws(2,3) texts demo_envelope_text demo_joint_paired refl refl
      enrolled key demo_built op(1) demo_joint_opens op(2) ran(1) sent this demo_joint_in_time]
  show ?thesis using enrolled ran by blast
qed

end
