(* ===== verification/Session_Evidence.thy ===== *)
theory Session_Evidence
  imports End_To_End
begin

text \<open>
  A session, from end to end: the discovery document, the ping and the Boot Proof that the gateway hands a
  client belong together. All three speak of the one enclave key that signed the client's challenge.
\<close>

section \<open>What is relied on\<close>

text \<open>The derived reader of \<open>QosPingRequest\<close> reads what its serializer wrote; \<open>AppProofCarrier\<close> reads the
  hexadecimal public key of a ping's proof.\<close>

definition ping_text_law :: "'x enclave_crates_scheme \<Rightarrow> bool" where
  "ping_text_law C \<longleftrightarrow>
     (\<forall>q body text. json_to_vec C (QosPingRequest_json C q) = Some body \<longrightarrow>
        from_utf8 body = Some text \<longrightarrow> parse_qos_ping_request C text = Ok q)"

definition proof_key_law :: "readers \<Rightarrow> 'x crates_scheme \<Rightarrow> bytes \<Rightarrow> bool" where
  "proof_key_law J C key \<longleftrightarrow>
     (\<forall>p. ap_public_key (qps_tvc_app_proof p) = key \<longrightarrow>
        rd_app_proof J (as_bytes (jcs (QosPingResponse_json C p))) = Some (hex_encode C key))"

section \<open>The parts of a session\<close>

text \<open>The discovery document is the enclave's own.\<close>

definition shows_info :: "'x enclave_crates_scheme \<Rightarrow> readers \<Rightarrow> AppState \<Rightarrow> bytes \<Rightarrow> bool" where
  "shows_info C J est info \<longleftrightarrow>
     (\<exists>text. jcs_serialize (ServiceInfo_json C (st_info est)) = Ok text \<and> rd_raw_value J (as_bytes text) = Some info)"

text \<open>The ping is what the client's challenge opens to, signed by the key that discovery names.\<close>

definition answers_challenge ::
    "'x enclave_crates_scheme \<Rightarrow> readers \<Rightarrow> AppState \<Rightarrow> QosPingRequest \<Rightarrow> bytes \<Rightarrow> bool" where
  "answers_challenge C J est ping said \<longleftrightarrow>
     (\<exists>decrypted payload challenge public p.
        pair_decrypt C (rt_quorum (st_runtime est)) (qpr_encrypted_challenge ping) = Some decrypted \<and>
        from_utf8 decrypted = Some payload \<and> parse_qos_ping_challenge C payload = Ok challenge \<and>
        qpc_type challenge = TVC_QOS_PING_PROOF_TYPE \<and> ap_proof_payload p = payload \<and>
        ap_public_key p = si_ephemeral_public_key (st_info est) \<and>
        qos_public_from_bytes C (si_ephemeral_public_key (st_info est)) = Ok public \<and>
        verify_p256_message C (signing public) (as_bytes payload) (ap_signature p) = Ok () \<and>
        rd_raw_value J (as_bytes (jcs (QosPingResponse_json C
          \<lparr> qps_version = API_VERSION, qps_tvc_app_proof = p \<rparr>))) = Some said)"

text \<open>The Boot Proof is the one looked up for that key.\<close>

definition proves_boot ::
    "'x enclave_crates_scheme \<Rightarrow> readers \<Rightarrow> 'r outside \<Rightarrow> ProjectId \<Rightarrow> 'r GatewayState \<Rightarrow> AppState \<Rightarrow> bytes \<Rightarrow> bool" where
  "proves_boot C J out p st est evidence \<longleftrightarrow>
     (\<exists>found tk. boot_proof (gs_turnkey st) (od_boot_proofs out) (ProjectShare p)
          (hex_encode C (si_ephemeral_public_key (st_info est))) = (Ok found, tk) \<and>
        rd_raw_value J found = Some evidence)"

section \<open>Facts\<close>

lemma info_is_the_enclaves:
  assumes "reaches_enclave C env est config net" "enclave_info config net = Ok f" "forwarded_is_success f"
  shows "\<exists>text. jcs_serialize (ServiceInfo_json C (st_info est)) = Ok text \<and> fw_body f = as_bytes text"
proof -
  have "brings (net (ec_base_url config @ ''/v1/info'') None) (Some (dispatch C env est (http_get ''/v1/info'')))"
    using assms(1) by (simp add: reaches_enclave_def)
  from brought [OF this assms(2) [unfolded enclave_info_def] assms(3)] dispatch_info [of C env est]
  show ?thesis by auto
qed

lemma ping_was_handled:
  assumes "reaches_enclave C env est config net" "enclave_ping C config net ping = Ok f" "forwarded_is_success f"
  shows "\<exists>body. json_to_vec C (QosPingRequest_json C ping) = Some body \<and>
    http_status (handle_ping C est body) < 300 \<and> fw_body f = http_body (handle_ping C est body)"
proof -
  have "brings (net (ec_base_url config @ ''/v1/ping'') (Some (QosPingRequest_json C ping)))
      (map_option (\<lambda>body. dispatch C env est (json_post ''/v1/ping'' body))
        (json_to_vec C (QosPingRequest_json C ping)))"
    using assms(1) by (simp add: reaches_enclave_def)
  from brought [OF this assms(2) [unfolded enclave_ping_def] assms(3)]
  obtain body where body: "json_to_vec C (QosPingRequest_json C ping) = Some body"
    "http_status (dispatch C env est (json_post ''/v1/ping'' body)) < 300"
    "fw_body f = http_body (dispatch C env est (json_post ''/v1/ping'' body))"
    by auto
  have "dispatch C env est (json_post ''/v1/ping'' body) = handle_ping C est body"
    using body(2) by (rule dispatch_posted(2))
  with body show ?thesis by auto
qed

lemma ping_answers:
  assumes "pair_signing_laws C" "ping_text_law C"
    and "si_ephemeral_public_key (st_info est) = pair_public C (rt_ephemeral (st_runtime est))"
    and "json_to_vec C (QosPingRequest_json C ping) = Some body" "http_status (handle_ping C est body) < 300"
    and "rd_raw_value J (http_body (handle_ping C est body)) = Some said"
  shows "answers_challenge C J est ping said"
    and "\<exists>q. http_body (handle_ping C est body) = as_bytes (jcs (QosPingResponse_json C q)) \<and>
      ap_public_key (qps_tvc_app_proof q) = si_ephemeral_public_key (st_info est)"
proof -
  obtain written request decrypted payload challenge sig where ping:
    "from_utf8 body = Some written" "parse_qos_ping_request C written = Ok request"
    "pair_decrypt C (rt_quorum (st_runtime est)) (qpr_encrypted_challenge request) = Some decrypted"
    "from_utf8 decrypted = Some payload" "parse_qos_ping_challenge C payload = Ok challenge"
    "qpc_type challenge = TVC_QOS_PING_PROOF_TYPE"
    "sign_ephemeral_low_s C (rt_ephemeral (st_runtime est)) (as_bytes payload) = Ok sig"
    "handle_ping C est body = http_ok (jcs (QosPingResponse_json C
      \<lparr> qps_version = API_VERSION, qps_tvc_app_proof =
          \<lparr> ap_scheme = TVC_APP_PROOF_SCHEME, ap_public_key = pair_public C (rt_ephemeral (st_runtime est)),
            ap_proof_payload = payload, ap_signature = sig \<rparr> \<rparr>))"
    using handle_ping_ok [OF assms(5)] by blast
  have "request = ping" using assms(2,4) ping(1,2) by (auto simp: ping_text_law_def)
  moreover obtain public where "qos_public_from_bytes C (pair_public C (rt_ephemeral (st_runtime est))) = Ok public"
    "verify_p256_message C (signing public) (as_bytes payload) sig = Ok ()"
    using sign_ephemeral_verifies [OF assms(1) ping(7)] by blast
  ultimately show "answers_challenge C J est ping said"
    using ping(3-6) assms(3,6) unfolding answers_challenge_def ping(8)
    by (intro exI [of _ decrypted] exI [of _ payload] exI [of _ challenge] exI [of _ public]
        exI [of _ "\<lparr> ap_scheme = TVC_APP_PROOF_SCHEME, ap_public_key = pair_public C (rt_ephemeral (st_runtime est)),
          ap_proof_payload = payload, ap_signature = sig \<rparr>"])
      (simp add: http_ok_def http_json_def)
  show "\<exists>q. http_body (handle_ping C est body) = as_bytes (jcs (QosPingResponse_json C q)) \<and>
      ap_public_key (qps_tvc_app_proof q) = si_ephemeral_public_key (st_info est)"
    unfolding ping(8) assms(3) http_ok_def http_json_def http_response.simps
    by (rule exI, rule conjI, rule refl) simp
qed

text \<open>A session's 200 has gone through all three lookups.\<close>

lemma session_work_200:
  assumes "session_work C J out p ping st = (Ok response, st')" "gr_status response = 200"
  shows "\<exists>i q key found tk info said evidence.
    enclave_info (gs_enclave st) (od_network out) = Ok i \<and> forwarded_is_success i \<and>
    enclave_ping C (gs_enclave st) (od_network out) ping = Ok q \<and> forwarded_is_success q \<and>
    rd_app_proof J (fw_body q) = Some key \<and>
    boot_proof (gs_turnkey st) (od_boot_proofs out) (ProjectShare p) key = (Ok found, tk) \<and>
    rd_raw_value J (fw_body i) = Some info \<and> rd_raw_value J (fw_body q) = Some said \<and>
    rd_raw_value J found = Some evidence \<and> response = json_response (SessionBody info said evidence)"
proof -
  obtain i q where joined: "try_join (od_ping_fails_first out) (enclave_info (gs_enclave st) (od_network out))
      (enclave_ping C (gs_enclave st) (od_network out) ping) = Ok (i, q)"
    using assms(1) by (cases "try_join (od_ping_fails_first out) (enclave_info (gs_enclave st) (od_network out))
      (enclave_ping C (gs_enclave st) (od_network out) ping)") (auto simp: session_work_def)
  then have both: "enclave_info (gs_enclave st) (od_network out) = Ok i"
    "enclave_ping C (gs_enclave st) (od_network out) ping = Ok q"
    by (cases "enclave_info (gs_enclave st) (od_network out)";
        cases "enclave_ping C (gs_enclave st) (od_network out) ping"; simp)+
  have passed_on: "gr_status (forwarded_response f) = 200 \<Longrightarrow> forwarded_is_success f" for f
    by (simp add: forwarded_response_def forwarded_is_success_def is_success_def)
  have success: "forwarded_is_success i" "forwarded_is_success q"
    using assms joined by (auto simp: session_work_def dest: passed_on split: if_splits)
  show ?thesis
    using assms(1) joined success both
    by (auto simp: session_work_def app_proof_key_def gateway_raw_json_def state_boot_proof_def result_simps
        map_prod_def split: sum.splits prod.splits)
qed

section \<open>Properties\<close>

text \<open>
  C7. A session that is answered with a 200 speaks of one enclave: the discovery document is the enclave's
  own, the ping is the client's own challenge, opened under the Quorum key and signed by the ephemeral key
  that the document names, and the Boot Proof beside them is the one looked up for that same key.
\<close>

theorem session_shows_one_enclave:
  assumes "pair_signing_laws C" "ping_text_law C"
    and "si_ephemeral_public_key (st_info est) = pair_public C (rt_ephemeral (st_runtime est))"
    and "proof_key_law J C (pair_public C (rt_ephemeral (st_runtime est)))"
    and "reaches_enclave C env est (gs_enclave st) (od_network out)"
    and "session C J out p ping st = (Ok response, st')" "gr_status response = 200"
  shows "\<exists>info said evidence. response = json_response (SessionBody info said evidence) \<and>
    shows_info C J est info \<and> answers_challenge C J est ping said \<and> proves_boot C J out p st est evidence"
proof -
  note key = assms(3)
  obtain l st1 where work: "session_work C J out p ping (st \<lparr> gs_limiter := l \<rparr>) = (Ok response, st1)"
    using assms(6) unfolding session_def by (auto elim: with_permit_cases)
  obtain i q k found tk info said evidence where parts:
    "enclave_info (gs_enclave st) (od_network out) = Ok i" "forwarded_is_success i"
    "enclave_ping C (gs_enclave st) (od_network out) ping = Ok q" "forwarded_is_success q"
    "rd_app_proof J (fw_body q) = Some k"
    "boot_proof (gs_turnkey st) (od_boot_proofs out) (ProjectShare p) k = (Ok found, tk)"
    "rd_raw_value J (fw_body i) = Some info" "rd_raw_value J (fw_body q) = Some said"
    "rd_raw_value J found = Some evidence" "response = json_response (SessionBody info said evidence)"
    using session_work_200 [OF work assms(7)] by auto
  obtain document where "jcs_serialize (ServiceInfo_json C (st_info est)) = Ok document"
    "fw_body i = as_bytes document"
    using info_is_the_enclaves [OF assms(5) parts(1,2)] by blast
  then have "shows_info C J est info" using parts(7) by (auto simp: shows_info_def)
  moreover obtain body where body: "json_to_vec C (QosPingRequest_json C ping) = Some body"
    "http_status (handle_ping C est body) < 300" "fw_body q = http_body (handle_ping C est body)"
    using ping_was_handled [OF assms(5) parts(3,4)] by blast
  note answered = ping_answers [OF assms(1,2) key body(1,2) parts(8) [unfolded body(3)]]
  have "k = hex_encode C (si_ephemeral_public_key (st_info est))"
    using answered(2) assms(4) parts(5) by (auto simp: proof_key_law_def body(3) key)
  then have "proves_boot C J out p st est evidence" using parts(6,9) by (auto simp: proves_boot_def)
  ultimately show ?thesis using answered(1) parts(10) by blast
qed

section \<open>A session\<close>

text \<open>The ping of \<open>demo_ping\<close> to the enclave of \<open>demo_state\<close>, through the gateway of \<open>demo_front\<close>.\<close>

definition demo_session_readers :: readers where
  "demo_session_readers = demo_readers
     \<lparr> rd_app_proof := (\<lambda>_. Some (demo_hex_encode (pair_public demo_joint (rt_ephemeral (st_runtime demo_state))))) \<rparr>"

lemma demo_ephemeral_public:
  "si_ephemeral_public_key (st_info demo_state) = pair_public demo_joint (rt_ephemeral (st_runtime demo_state))"
  by (simp add: demo_state_def demo_runtime_def demo_joint_def demo_host_fields)
    (simp add: demo_enclave_defs flip: replicate_add)

lemma demo_joint_signing_laws: "pair_signing_laws demo_joint"
proof -
  have same: "low_s_signature demo_joint = low_s_signature demo_enclave"
    "uncompressed_point demo_joint = uncompressed_point demo_enclave"
    by (auto simp: fun_eq_iff low_s_signature_def uncompressed_point_def demo_joint_def demo_host_fields demo_enclave_fields)
  have sha: "sha256_hash demo_crates = demo_hash" by (simp add: demo_crates_def)
  have fields: "pair_sign demo_joint = pair_sign demo_enclave" "pair_public demo_joint = pair_public demo_enclave"
    "ecdsa_from_slice demo_joint = ecdsa_from_slice demo_enclave" "ecdsa_to_bytes demo_joint = ecdsa_to_bytes demo_enclave"
    "ecdsa_normalize_s demo_joint = ecdsa_normalize_s demo_enclave"
    "ecdsa_verify_prehash demo_joint = ecdsa_verify_prehash demo_enclave" "sha256_hash demo_joint = sha256_hash demo_enclave"
    by (simp_all add: demo_joint_def demo_host_fields demo_enclave_fields sha)
  show ?thesis
    using demo_pair_signing_laws unfolding pair_signing_laws_def same fields .
qed

lemma demo_ping_text: "ping_text_law demo_joint"
proof -
  have hex: "hex_encode demo_joint = hex_encode demo_crates" by (simp add: demo_joint_def demo_host_fields)
  have json: "QosPingRequest_json demo_joint q = QosPingRequest_json demo_crates q" for q
    by (simp add: QosPingRequest_json_def hex_fields_cong [OF hex])
  have writer: "json_to_vec demo_joint = (\<lambda>j.
      if j = EncryptedRequest_json demo_crates demo_envelope \<or> j = QosPingRequest_json demo_crates demo_ping
      then Some (as_bytes ''7'') else None)"
    by (simp add: demo_joint_def demo_host_def demo_enclave_defs)
  have "q = demo_ping" if "json_to_vec demo_joint (QosPingRequest_json demo_joint q) = Some b" for q b
    using that QosPingRequest_json_inject [OF demo_hex_laws, of q demo_ping]
      ping_is_no_operation [of demo_crates demo_envelope q]
    by (auto simp: writer json split: if_splits)
  moreover have "parse_qos_ping_request demo_joint s = Ok demo_ping" for s
    by (simp add: parse_qos_ping_request_def parse_strict_json_def parse_strict_value_def demo_joint_def
        demo_host_def demo_enclave_defs)
  ultimately show ?thesis unfolding ping_text_law_def by blast
qed

lemma demo_key_law:
  "proof_key_law demo_session_readers demo_joint (pair_public demo_joint (rt_ephemeral (st_runtime demo_state)))"
proof -
  have "hex_encode demo_joint = demo_hex_encode"
    by (simp add: demo_joint_def demo_host_fields demo_hex_encode_field)
  then show ?thesis by (simp add: proof_key_law_def demo_session_readers_def)
qed

lemma demo_project_boot_proof:
  assumes "is_lower_hex key EPHEMERAL_KEY_HEX_LEN"
  shows "\<exists>tk. boot_proof (gs_turnkey demo_gateway_state) (\<lambda>_ _. BootProofBody [2]) (ProjectShare p) key = (Ok [2], tk)"
  using assms
  by (simp add: boot_proof_def cached_boot_proof_def cache_boot_proof_def Let_def turnkey_defs
      demo_gateway_state_def)

lemma demo_key_hex:
  "is_lower_hex (demo_hex_encode (pair_public demo_joint (rt_ephemeral (st_runtime demo_state)))) EPHEMERAL_KEY_HEX_LEN"
proof -
  have "length (pair_public demo_joint (rt_ephemeral (st_runtime demo_state))) = 130"
    by (simp flip: demo_ephemeral_public) (simp add: demo_state_def)
  then show ?thesis
    using demo_hex_laws by (auto simp: hex_laws_def demo_hex_encode_field is_lower_hex_def EPHEMERAL_KEY_HEX_LEN_def
        list_all_iff is_lower_hex_digit_def)
qed

lemma demo_reply_arrives:
  assumes "http_status said = 200" "length (http_body said) \<le> ec_max_body_bytes config"
  shows "\<exists>f. enclave_send config (demo_reply said) = Ok f \<and> fw_status f = 200 \<and> fw_body f = http_body said"
  using assms by (simp add: demo_reply_def is_server_error_def read_capped_def)

text \<open>What discovery and the ping bring, when they fit the limit of \<open>n\<close> bytes.\<close>

lemma demo_info_arrives:
  assumes "jcs_serialize (ServiceInfo_json demo_joint (st_info demo_state)) = Ok document" "length document \<le> n"
  shows "\<exists>f. enclave_info (gs_enclave (demo_front n)) demo_link = Ok f \<and> fw_status f = 200"
proof -
  have said: "dispatch demo_joint demo_env demo_state (http_get ''/v1/info'') = http_ok document"
    using assms(1) by (simp add: dispatch_def http_get_def to_bytes_def Let_def)
  have "\<exists>f. enclave_send (gs_enclave (demo_front n)) (demo_reply (http_ok document)) = Ok f \<and> fw_status f = 200 \<and>
      fw_body f = http_body (http_ok document)"
    by (rule demo_reply_arrives) (use assms(2) in \<open>simp_all add: http_ok_def http_json_def demo_front_simps as_bytes_def\<close>)
  then show ?thesis
    by (auto simp: enclave_info_def demo_front_simps demo_link_def said)
qed

lemma demo_ping_arrives:
  assumes "length (http_body (handle_ping demo_joint demo_state (as_bytes ''7''))) \<le> n"
  shows "\<exists>f. enclave_ping demo_joint (gs_enclave (demo_front n)) demo_link demo_ping = Ok f \<and> fw_status f = 200"
proof -
  have pinged: "http_status (handle_ping demo_joint demo_state (as_bytes ''7'')) = 200"
    unfolding demo_joint_def by (rule demo_pings)
  have "to_bytes (Some (as_bytes ''7'')) (unat (min (si_max_encrypted_request_bytes (st_info demo_state))
      MAX_ENCRYPTED_REQUEST_BYTES)) = Some (as_bytes ''7'')"
    by (simp add: to_bytes_def as_bytes_def demo_state_def MAX_ENCRYPTED_REQUEST_BYTES_def)
  then have said: "dispatch demo_joint demo_env demo_state (json_post ''/v1/ping'' (as_bytes ''7'')) =
      handle_ping demo_joint demo_state (as_bytes ''7'')"
    using json_content_type by (simp add: dispatch_def json_post_def Let_def)
  have hex: "hex_encode demo_joint = hex_encode demo_crates" by (simp add: demo_joint_def demo_host_fields)
  have json: "QosPingRequest_json demo_joint demo_ping = QosPingRequest_json demo_crates demo_ping"
    by (simp add: QosPingRequest_json_def hex_fields_cong [OF hex])
  have written: "json_to_vec demo_joint (QosPingRequest_json demo_crates demo_ping) = Some (as_bytes ''7'')"
    by (simp add: demo_joint_def demo_host_def demo_enclave_defs)
  obtain f where "enclave_send (gs_enclave (demo_front n))
      (demo_reply (handle_ping demo_joint demo_state (as_bytes ''7''))) = Ok f" "fw_status f = 200"
    using demo_reply_arrives [OF pinged, of "gs_enclave (demo_front n)"] assms by (auto simp: demo_front_simps)
  moreover have "demo_link (''http://enclave'' @ ''/v1/ping'') (Some (QosPingRequest_json demo_joint demo_ping)) =
      demo_reply (handle_ping demo_joint demo_state (as_bytes ''7''))"
    unfolding demo_link_def json by (simp add: written said)
  ultimately show ?thesis by (intro exI [of _ f]) (simp add: enclave_ping_def demo_front_simps del: append.simps)
qed

lemma demo_session_answers:
  "\<exists>n response st. session demo_joint demo_session_readers demo_around ''project'' demo_ping (demo_front n) =
     (Ok response, st) \<and> gr_status response = 200"
proof -
  obtain document where document: "jcs_serialize (ServiceInfo_json demo_joint (st_info demo_state)) = Ok document"
    by (simp add: jcs_serialize_def canonicalize_json_value_spec ServiceInfo_json_def no_float del: has_float.simps)
  define n where "n = max (length document) (length (http_body (handle_ping demo_joint demo_state (as_bytes ''7''))))"
  obtain i where i: "enclave_info (gs_enclave (demo_front n)) demo_link = Ok i" "fw_status i = 200"
    using demo_info_arrives [OF document, of n] by (auto simp: n_def)
  obtain q where q: "enclave_ping demo_joint (gs_enclave (demo_front n)) demo_link demo_ping = Ok q" "fw_status q = 200"
    using demo_ping_arrives [of n] by (auto simp: n_def)
  obtain permit lm where permit: "limiter_try_acquire (gs_limiter (demo_front n)) ''project'' = (Inr permit, lm)"
    by (simp add: turnkey_defs demo_front_simps)
  obtain tk where found: "boot_proof (gs_turnkey demo_gateway_state) (\<lambda>_ _. BootProofBody [2]) (ProjectShare ''project'')
      (demo_hex_encode (pair_public demo_joint (rt_ephemeral (st_runtime demo_state)))) = (Ok [2], tk)"
    using demo_project_boot_proof [OF demo_key_hex] by blast
  have joined: "od_ping_fails_first demo_around = False" by (simp add: demo_around_def demo_outside_def)
  have readers: "rd_app_proof demo_session_readers b =
      Some (demo_hex_encode (pair_public demo_joint (rt_ephemeral (st_runtime demo_state))))"
    "rd_raw_value demo_session_readers b = Some b" for b
    by (simp_all add: demo_session_readers_def demo_readers_def)
  have success: "forwarded_is_success i" "forwarded_is_success q"
    using i(2) q(2) by (simp_all add: forwarded_is_success_def is_success_def)
  let ?st = "demo_front n \<lparr> gs_limiter := lm \<rparr>"
  have worked: "session_work demo_joint demo_session_readers demo_around ''project'' demo_ping ?st =
      (Ok (json_response (SessionBody (fw_body i) (fw_body q) [2])), ?st \<lparr> gs_turnkey := tk \<rparr>)"
    using i(1) q(1) found success
    by (simp add: session_work_def joined demo_around_simps demo_front_simps readers app_proof_key_def
        gateway_raw_json_def state_boot_proof_def map_prod_def)
  show ?thesis
    using permit worked by (intro exI [of _ n]) (simp add: session_def with_permit_def json_response_def)
qed

theorem session_shows_one_enclave_witness:
  "\<exists>n info said evidence st.
     session demo_joint demo_session_readers demo_around ''project'' demo_ping (demo_front n) =
       (Ok (json_response (SessionBody info said evidence)), st) \<and>
     answers_challenge demo_joint demo_session_readers demo_state demo_ping said \<and>
     proves_boot demo_joint demo_session_readers demo_around ''project'' (demo_front n) demo_state evidence"
proof -
  obtain n response st where ran: "session demo_joint demo_session_readers demo_around ''project'' demo_ping
      (demo_front n) = (Ok response, st)" "gr_status response = 200"
    using demo_session_answers by blast
  have reaches: "reaches_enclave demo_joint demo_env demo_state (gs_enclave (demo_front n)) (od_network demo_around)"
    using demo_link_reaches [OF demo_front_simps(5)] by (simp add: demo_around_simps)
  show ?thesis
    using session_shows_one_enclave [OF demo_joint_signing_laws demo_ping_text demo_ephemeral_public demo_key_law
        reaches ran] ran(1) by blast
qed

end
