(* ===== verification/Spec2Isabelle.thy ===== *)
theory Spec2Isabelle
  imports Rfc8785 Local_Prover Release_Ceremony Gateway_Limits Gateway_Document Gateway_Resend Served_Client Session_Evidence
begin

text \<open>
  A model of \<open>zolana-tvc\<close>: a Solana privacy wallet whose secrets live in an enclave that Turnkey
  Verifiable Cloud runs, and the public gateway in front of it. A client encrypts an operation to the
  enclave, the gateway authenticates whoever sends it and forwards the ciphertext, and the enclave
  decrypts it, checks it, runs it and answers with a ciphertext and a signed proof. The three Rust
  packages depend on each other in that order: \<open>crates/protocol\<close> holds the wire types, their canonical
  encoding, the digests, the cryptographic framing and the authorizations; \<open>apps/privacy-wallet\<close> is the
  enclave application; \<open>apps/tvc-gateway\<close> is the gateway. All theories are below \<open>verification\<close>; each
  definition carries the name of the Rust item it translates, up to a prefix where two items share one.

  \<^bold>\<open>How the code is read.\<close>
  A struct is a record with a prefix per struct, an enum a datatype, \<open>u8\<close>, \<open>u32\<close> and \<open>u64\<close> are words whose
  saturating, checked and wrapping operations are written out in \<open>Prelude\<close>, \<open>usize\<close> lengths are naturals,
  a \<open>String\<close> is a list of characters of one byte each, so that a length is a number of bytes and every
  comparison is bytewise. A \<open>Result\<close> is a sum with the error on the left, \<open>Option\<close> is \<open>option\<close>; \<open>?\<close>,
  \<open>map_err\<close> and \<open>ok_or\<close> are the combinators of \<open>Prelude\<close>. A handler that changes a state takes it and
  returns it. Clocks, random bytes, the answers of Turnkey, Redis, \<open>dev-api\<close> and the network, and the
  expiry of a timeout are inputs, so a theorem holds for all of them.
  Loops are structural recursion on a list of inputs (attempts, polls, items), or \<open>function\<close> with a
  termination proof on a size: \<open>strict_visit\<close> and \<open>append_jcs\<close> (\<open>Encoding\<close>), \<open>jcs\<close> (\<open>Canonical_Json\<close>) and
  \<open>trim_start_matches\<close> (\<open>Gateway_Config\<close>). There is no fuel: where the code bounds a loop by a count the
  model has that bound. The one loop that only a clock ends, the polling of the stand-in prover, is a
  \<open>partial_function\<close> into \<open>option\<close>; its clock advances by each sleep and by any lateness, an input, and a
  property shows that it ends after 27 rounds at most.

  \<^bold>\<open>Third-party code.\<close>
  The functions of packages that are not in the repository are the fields of the records \<open>crates\<close>,
  \<open>wire_crates\<close>, \<open>enclave_crates\<close>, \<open>local_crates\<close>, \<open>prover_crates\<close> and \<open>gateway_crates\<close>, and of \<open>redis\<close>;
  every definition that uses one takes the record. What the code relies on is stated as predicates:
  \<open>hex_laws\<close>, \<open>sha256_laws\<close>, \<open>p256_laws\<close>, \<open>ecdsa_laws\<close>, \<open>aead_laws\<close>, \<open>serde_laws\<close> (\<open>Crates\<close>), the derived deserializers (\<open>Wire_Types\<close>), \<open>pair_laws\<close>
  and \<open>pair_signing_laws\<close> (\<open>Enclave_Base\<close>), \<open>enrollment_text_laws\<close> (\<open>Gateway_Enrollment\<close>),
  \<open>text_agreement_laws\<close> (\<open>Gateway_Provisioning\<close>), \<open>redis_laws\<close> and \<open>record_text_laws\<close> (\<open>Gateway_Replay\<close>),
  \<open>envelope_text_law\<close> (\<open>End_To_End\<close>), \<open>ping_text_law\<close> and \<open>proof_key_law\<close> (\<open>Session_Evidence\<close>), \<open>problem_derived\<close>
  (\<open>Gateway_Document\<close>), \<open>ed25519_laws\<close> (\<open>Local_Testkit\<close>) and \<open>prover_laws\<close> (\<open>Local_Prover\<close>).
  Each is a documented round trip, a length or an agreement, and toy packages that satisfy them are at the
  end of the same theories: they are what the witnesses evaluate at. No theorem assumes that a hash has no
  collision or that a signature cannot be forged: a theorem on what a digest binds has a named collision
  of SHA-256 as its other case (\<open>sha256_collision\<close>), and one on a signature says what verified.

  \<^bold>\<open>The protocol crate.\<close>
  \<open>Protocol_Error\<close> is \<open>error.rs\<close> and \<open>Protocol_Constants\<close> is \<open>constants.rs\<close>. \<open>Encoding\<close> is \<open>encoding.rs\<close>:
  hexadecimal and decimal strings, the strict JSON visitor and the canonical writer, with the locale
  \<open>canonical_codec\<close> of encodings with one spelling per value; \<open>Canonical_Json\<close> proves that the writer's text
  can be read in one way only and that a repeated key is always refused; \<open>Rfc8785\<close> states the RFC on its own,
  over code points and by how UTF-16 is read, and proves that the writer writes it. \<open>Wire_Types\<close> is \<open>types.rs\<close> and
  \<open>Wire_Facts\<close> shows that each type's serialised form determines its value. \<open>Digest\<close> is \<open>digest.rs\<close>: no two
  digests of different domains, or of different inputs, hash the same bytes. \<open>Borsh\<close> is the binary format of
  the derived structs, with the locale \<open>prefix_codec\<close> of readers that undo their writers. \<open>P256_Crypto\<close> is
  \<open>crypto.rs\<close>: keys, low-S signatures, the QOS envelope and the response cipher. \<open>Client_Auth\<close> is \<open>auth.rs\<close>
  and \<open>grant.rs\<close>, \<open>Release_Policy\<close> is \<open>release.rs\<close>. \<open>Release_Ceremony\<close> is the example
  \<open>examples/sign-release-policy.rs\<close>, which signs the policy that clients pin and the gateway starts with.

  \<^bold>\<open>The enclave.\<close>
  \<open>Enclave_Base\<close> holds \<open>http.rs\<close> and \<open>network.rs\<close>; \<open>Enclave_Custody\<close> is \<open>custody.rs\<close> and \<open>turnkey.rs\<close>: one activity
  is submitted, with retries of the same stamped body, and then only polled; the locale \<open>custody\<close> is what the rest
  relies on. \<open>Enclave_Sealed\<close> is \<open>operations/sealed.rs\<close> and \<open>operations/bindings.rs\<close>, \<open>Enclave_Keys\<close> is
  \<open>operations/keys.rs\<close>, \<open>Enclave_Prove\<close> is \<open>operations/prove.rs\<close>, \<open>Enclave_Operations\<close> is \<open>operations/mod.rs\<close> and
  \<open>operations/bootstrap.rs\<close>: decrypt, admit, execute, encrypt, sign. \<open>Enclave_Mediation\<close> shows what that
  endpoint guarantees: nothing runs without a decrypted request that passed each check, only a bootstrap
  reaches Turnkey, an answer opens under the client's key and its proof verifies, a sealed seed opens only
  for its wallet and client. \<open>Enclave_Service\<close> is \<open>lib.rs\<close> and \<open>main.rs\<close>: the command line, start-up, routes
  and the ping. \<open>Local_Testkit\<close> (\<open>local_dev.rs\<close>) and \<open>Local_Prover\<close> (\<open>local_prover.rs\<close>, \<open>bin/local.rs\<close>) are the
  local development build, which no image contains: the same enclave with pinned keys and a local key for
  custody, and a stand-in for the attested provers that opens what the enclave seals.

  \<^bold>\<open>The gateway.\<close>
  \<open>Gateway_Base\<close> is \<open>error.rs\<close> and \<open>json.rs\<close>; \<open>Gateway_Projects\<close> is \<open>project.rs\<close> and \<open>api_keys.rs\<close>, with the locale
  \<open>bounded_cache\<close> that the three caches of the gateway interpret; \<open>Gateway_Limits\<close> is \<open>limits.rs\<close>, as
  operations and as the steps of threads whose calls overlap on shared semaphores; \<open>Gateway_Config\<close> is \<open>config.rs\<close>;
  \<open>Gateway_Upstream\<close> is \<open>upstream.rs\<close>; \<open>Gateway_Replay\<close> is \<open>replay.rs\<close>, with the locale \<open>claim_ledger\<close> of ledgers
  that run an operation once; \<open>Gateway_Enrollment\<close> is \<open>enrollment.rs\<close>; \<open>Gateway_Provisioning\<close> is
  \<open>provisioner.rs\<close> and \<open>wallet_grant.rs\<close>; \<open>Gateway_Turnkey\<close> is \<open>turnkey.rs\<close>, its call slots and ownership
  checks; \<open>Gateway_Flights\<close> is the part of \<open>turnkey.rs\<close> where callers share a Boot Proof lookup: a state
  machine \<open>flight_step\<close> of single atomic steps in which a caller may be dropped at each one, and
  \<open>boot_proof\<close>, the same code run by a caller alone, which is proved to be a run of those steps.
  \<open>Gateway_App\<close> is \<open>app.rs\<close>, the start in \<open>main.rs\<close> and \<open>metrics.rs\<close>: the state, the routes, the handlers that
  compose the other theories and the layers around them; \<open>Gateway_Handlers\<close> holds the facts on single handlers,
  \<open>Gateway_Answers\<close> the shape of every answer, \<open>Gateway_Document\<close> the published document of \<open>openapi.rs\<close>, and
  \<open>Gateway_Requests\<close> and \<open>Gateway_Resend\<close> what holds of whole requests and of runs of requests;
  \<open>End_To_End\<close> puts the gateway in front of the enclave: a request goes through \<open>operations\<close>, the network and
  \<open>dispatch\<close>, and its answer back; \<open>Served_Client\<close> goes there with the request of a client that the gateway
  enrolled, and \<open>Session_Evidence\<close> with a session's two requests;
  \<open>Gateway_Demo\<close> is a gateway that starts in front of an enclave that starts, on which the witnesses of all
  of these run.

  Two fields are not in the code: \<open>gs_sent\<close> of the gateway's state records each body the enclave was sent,
  and \<open>fl_said\<close> of the flights records what each caller was told. No decision reads them; they let a
  theorem speak of what was sent or told.

  A gateway handler runs to its end before the next begins, except in \<open>limiter_step\<close>, where the lookup of a
  semaphore and the taking of its permit are separate steps of any number of callers, and in \<open>flight_step\<close>. In
  \<open>limiter_step\<close> a lookup may not prune the idle semaphore of a call that has not tried it yet; \<open>overlapping_calls_exceed_share\<close> shows
  what happens if it does. A permit that a handler drops at its end is given back by the same definition.

  \<^bold>\<open>What the properties show.\<close>
  The numbered ones stand in the theories of their components. For the enclave: what must hold of a
  request before it runs, for which wallet and client a seed opens, that custody submits again only
  after it was told that nothing was accepted, and that
  answers and proofs open and verify. For the gateway: what is sent to the enclave is authorized by a
  signed descriptor or enrollment of the caller's project, an operation sent again is answered from the
  ledger, slots come back, no caller waits for a lookup that nobody runs, and after the enclave answered
  the client gets that answer. Three properties join both: an operation
  that is answered with a success was admitted by both programs, for the same wallet and client; a client
  that the gateway enrolled is served by the enclave when it asks in time; and the three parts of a session
  speak of one enclave key. For the
  protocol crate: round trips, exact bounds and the binding of every digest.

  \<^bold>\<open>Where code and documents differ.\<close>
  \<open>release_unknown_key_skipped\<close>, \<open>clock_failure_after_turnkey\<close>, \<open>overlapping_calls_exceed_share\<close>,
  \<open>early_rotation_forgets\<close> and \<open>clock_failure_is_undocumented\<close> state
  behaviour that a comment, a document or the design says otherwise; they hold of the code as it is.

  \<^bold>\<open>Not modelled.\<close>
  The socket, \<open>axum\<close>, \<open>clap\<close> beyond the arguments that decide a state, Figment (what it extracts is an
  input), TLS, tracing and signals; the counters inside the handlers and the logs, which nothing reads back;
  the sentences of the published document and the schemas that \<open>utoipa\<close> derives, which are an input; zeroing
  of secrets, which leaves no trace in a value; the build scripts, the TypeScript packages and the tests.
\<close>

end
